(* ===== verification/Prelude.thy ===== *)
theory Prelude
  imports Main "HOL-Library.Word"
begin

text \<open>
  Shared vocabulary of the development: machine types, the outcomes of C++ code as values,
  the sequencing of fallible computations, and the theorem collections the component
  theories fill. A C++ function that may throw returns \<open>exn + 'a\<close>; the constructors of
  \<open>exn\<close> are the classes of exceptions the handlers of the sources tell apart, plus the
  ways of leaving a C++ frame that no handler sees.
\<close>

section \<open>Machine types\<close>

type_synonym byte = "8 word"
type_synonym u32 = "32 word"
type_synonym u64 = "64 word"

section \<open>Exceptions\<close>

text \<open>
  \<open>Std_exception m\<close>: a \<^verbatim>\<open>std::exception\<close> that is not an \<^verbatim>\<open>Rcpp::exception\<close>, with
  \<open>what() = m\<close>. \<open>Rcpp_exception m\<close>: what \<^verbatim>\<open>Rcpp::stop\<close> throws (it derives from
  \<^verbatim>\<open>std::exception\<close>). \<open>Foreign_exception\<close>: anything only \<^verbatim>\<open>catch (...)\<close> sees.
  \<open>R_error m\<close>: an R error that unwinds by a long jump past every C++ handler.
  \<open>Terminated\<close>: \<^verbatim>\<open>std::terminate\<close> ends the process, because an exception left a destructor.
  \<open>Undefined_behaviour\<close>: an operation the C++ standard leaves undefined; no handler
  resumes from it either.
\<close>

datatype exn =
    Std_exception string
  | Rcpp_exception string
  | Foreign_exception
  | R_error string
  | Terminated
  | Undefined_behaviour

type_synonym 'a res = "exn + 'a"

fun what :: "exn \<Rightarrow> string" where
  "what (Std_exception m) = m"
| "what (Rcpp_exception m) = m"
| "what _ = []"

text \<open>The exceptions a C++ handler of any kind can see.\<close>

fun catchable :: "exn \<Rightarrow> bool" where
  "catchable (R_error _) = False"
| "catchable Terminated = False"
| "catchable Undefined_behaviour = False"
| "catchable _ = True"

text \<open>The exceptions \<^verbatim>\<open>catch (const std::exception&)\<close> sees.\<close>

fun is_std_exception :: "exn \<Rightarrow> bool" where
  "is_std_exception (Std_exception _) = True"
| "is_std_exception (Rcpp_exception _) = True"
| "is_std_exception _ = False"

lemma is_std_exception_catchable: "is_std_exception e \<Longrightarrow> catchable e"
  by (cases e) auto

section \<open>Sequencing of fallible computations\<close>

named_theorems res_simps \<open>equations that evaluate sequenced computations\<close>
named_theorems res_conv \<open>when a sequenced computation succeeds or fails\<close>

definition res_bind :: "'e + 'a \<Rightarrow> ('a \<Rightarrow> 'e + 'b) \<Rightarrow> 'e + 'b" where
  "res_bind m k = (case m of Inl e \<Rightarrow> Inl e | Inr a \<Rightarrow> k a)"

lemma res_bind_Inl [simp, res_simps]: "res_bind (Inl e) k = Inl e"
  by (simp add: res_bind_def)

lemma res_bind_Inr [simp, res_simps]: "res_bind (Inr a) k = k a"
  by (simp add: res_bind_def)

lemma res_bind_assoc: "res_bind (res_bind m f) g = res_bind m (\<lambda>x. res_bind (f x) g)"
  by (cases m) auto

lemma res_bind_right_unit [simp]: "res_bind m Inr = m"
  by (cases m) auto

lemma res_bind_Inr_conv [res_conv]:
  "res_bind m k = Inr b \<longleftrightarrow> (\<exists>a. m = Inr a \<and> k a = Inr b)"
  by (cases m) auto

lemma res_bind_Inl_conv [res_conv]:
  "res_bind m k = Inl e \<longleftrightarrow> m = Inl e \<or> (\<exists>a. m = Inr a \<and> k a = Inl e)"
  by (cases m) auto

lemma res_bind_cong [fundef_cong]:
  "m = m' \<Longrightarrow> (\<And>a. m' = Inr a \<Longrightarrow> k a = k' a) \<Longrightarrow> res_bind m k = res_bind m' k'"
  by (cases m') auto

lemma res_bind_split:
  "P (res_bind m k) \<longleftrightarrow> (\<forall>e. m = Inl e \<longrightarrow> P (Inl e)) \<and> (\<forall>a. m = Inr a \<longrightarrow> P (k a))"
  by (cases m) auto

lemma res_bind_split_asm:
  "P (res_bind m k) \<longleftrightarrow>
     \<not> ((\<exists>e. m = Inl e \<and> \<not> P (Inl e)) \<or> (\<exists>a. m = Inr a \<and> \<not> P (k a)))"
  by (cases m) auto

lemmas res_bind_splits = res_bind_split res_bind_split_asm

text \<open>A guard that throws.\<close>

definition guard_res :: "bool \<Rightarrow> 'e \<Rightarrow> 'e + unit" where
  "guard_res b e = (if b then Inr () else Inl e)"

lemma guard_res_simps [simp, res_simps]:
  "guard_res True e = Inr ()" "guard_res False e = Inl e"
  by (simp_all add: guard_res_def)

lemma guard_res_conv [res_conv]:
  "guard_res b e = Inr u \<longleftrightarrow> b"
  "guard_res b e = Inl e' \<longleftrightarrow> \<not> b \<and> e' = e"
  by (auto simp: guard_res_def)

text \<open>A \<^verbatim>\<open>for\<close> loop that fills a vector and may throw in its body.\<close>

fun res_map :: "('a \<Rightarrow> 'e + 'b) \<Rightarrow> 'a list \<Rightarrow> 'e + 'b list" where
  "res_map f [] = Inr []"
| "res_map f (x # xs) = res_bind (f x) (\<lambda>y. res_bind (res_map f xs) (\<lambda>ys. Inr (y # ys)))"

lemma res_map_cong [fundef_cong]:
  "xs = ys \<Longrightarrow> (\<And>x. x \<in> set ys \<Longrightarrow> f x = g x) \<Longrightarrow> res_map f xs = res_map g ys"
proof -
  have "(\<And>x. x \<in> set zs \<Longrightarrow> f x = g x) \<Longrightarrow> res_map f zs = res_map g zs" for zs
    by (induction zs) auto
  then show "xs = ys \<Longrightarrow> (\<And>x. x \<in> set ys \<Longrightarrow> f x = g x) \<Longrightarrow> res_map f xs = res_map g ys"
    by blast
qed

lemma res_map_length: "res_map f xs = Inr ys \<Longrightarrow> length ys = length xs"
  by (induction xs arbitrary: ys) (auto simp: res_bind_Inr_conv)

lemma res_map_Inr [simp]: "res_map (\<lambda>x. Inr (f x)) xs = Inr (map f xs)"
  by (induction xs) auto

lemma res_map_Inr_all:
  "(\<And>x. x \<in> set xs \<Longrightarrow> f x = Inr (g x)) \<Longrightarrow> res_map f xs = Inr (map g xs)"
  by (induction xs) auto

lemma res_map_Inr_conv:
  "res_map f xs = Inr ys \<longleftrightarrow> list_all2 (\<lambda>x y. f x = Inr y) xs ys"
  by (induction xs arbitrary: ys) (auto simp: res_bind_Inr_conv list_all2_Cons1)

section \<open>Indexing with the source's range checks\<close>

text \<open>\<^verbatim>\<open>std::vector::at\<close>: throws \<^verbatim>\<open>std::out_of_range\<close> outside the vector.\<close>

definition vec_at :: "'a list \<Rightarrow> int \<Rightarrow> 'a res" where
  "vec_at xs i =
     (if 0 \<le> i \<and> i < int (length xs) then Inr (xs ! nat i)
      else Inl (Std_exception ''vector::_M_range_check''))"

lemma vec_at_Inr_conv [res_conv]:
  "vec_at xs i = Inr x \<longleftrightarrow> 0 \<le> i \<and> i < int (length xs) \<and> x = xs ! nat i"
  by (auto simp: vec_at_def)

lemma vec_at_append2:
  "0 \<le> i \<Longrightarrow> i < int (length ys) \<Longrightarrow> vec_at (xs @ ys @ zs) (int (length xs) + i) = Inr (ys ! nat i)"
proof -
  assume "0 \<le> i" "i < int (length ys)"
  then have "nat (int (length xs) + i) = length xs + nat i" "nat i < length ys"
    by (simp_all add: nat_add_distrib)
  with \<open>0 \<le> i\<close> show ?thesis by (auto simp: vec_at_def nth_append)
qed

text \<open>\<^verbatim>\<open>operator[]\<close>: undefined outside the vector.\<close>

definition vec_index :: "'a list \<Rightarrow> int \<Rightarrow> 'a res" where
  "vec_index xs i =
     (if 0 \<le> i \<and> i < int (length xs) then Inr (xs ! nat i) else Inl Undefined_behaviour)"

lemma vec_index_Inr_conv [res_conv]:
  "vec_index xs i = Inr x \<longleftrightarrow> 0 \<le> i \<and> i < int (length xs) \<and> x = xs ! nat i"
  by (auto simp: vec_index_def)

section \<open>Lists of options\<close>

lemma those_conv: "those os = Some ys \<longleftrightarrow> os = map Some ys"
  by (induction os arbitrary: ys) (auto simp: map_eq_Cons_conv split: option.splits)

lemma those_length: "those os = Some ys \<Longrightarrow> length ys = length os"
  by (simp add: those_conv)

section \<open>Insertion-ordered tables\<close>

text \<open>The first value stored under a key of an association list.\<close>

fun alist_get :: "('k \<times> 'v) list \<Rightarrow> 'k \<Rightarrow> 'v option" where
  "alist_get [] k = None"
| "alist_get ((k', v) # kvs) k = (if k' = k then Some v else alist_get kvs k)"

lemma alist_get_map_of: "alist_get kvs k = map_of kvs k"
  by (induction kvs) auto

lemma alist_get_None: "k \<notin> fst ` set kvs \<Longrightarrow> alist_get kvs k = None"
  by (induction kvs) auto

lemma alist_get_SomeD: "alist_get kvs k = Some v \<Longrightarrow> (k, v) \<in> set kvs"
  by (induction kvs) (auto split: if_splits)

section \<open>Computations with state that may throw\<close>

text \<open>
  A C++ body over a mutable state \<open>'s\<close>. The state reached before an exception is kept: a
  handler, a destructor or the caller sees it.
\<close>

type_synonym ('s, 'a) st = "'s \<Rightarrow> 'a res \<times> 's"

definition st_return :: "'a \<Rightarrow> ('s, 'a) st" where
  "st_return a = (\<lambda>s. (Inr a, s))"

definition st_throw :: "exn \<Rightarrow> ('s, 'a) st" where
  "st_throw e = (\<lambda>s. (Inl e, s))"

definition st_bind :: "('s, 'a) st \<Rightarrow> ('a \<Rightarrow> ('s, 'b) st) \<Rightarrow> ('s, 'b) st" where
  "st_bind m k = (\<lambda>s. case m s of (Inl e, s') \<Rightarrow> (Inl e, s') | (Inr a, s') \<Rightarrow> k a s')"

text \<open>A pure computation that may throw, run inside a stateful one.\<close>

definition st_lift :: "'a res \<Rightarrow> ('s, 'a) st" where
  "st_lift r = (\<lambda>s. (r, s))"

lemma st_return_apply [simp]: "st_return a s = (Inr a, s)"
  by (simp add: st_return_def)

lemma st_throw_apply [simp]: "st_throw e s = (Inl e, s)"
  by (simp add: st_throw_def)

lemma st_lift_apply [simp]: "st_lift r s = (r, s)"
  by (simp add: st_lift_def)

lemma st_bind_Inr: "m s = (Inr a, s') \<Longrightarrow> st_bind m k s = k a s'"
  by (simp add: st_bind_def)

lemma st_bind_Inl: "m s = (Inl e, s') \<Longrightarrow> st_bind m k s = (Inl e, s')"
  by (simp add: st_bind_def)

lemma st_bind_return [simp]: "st_bind (st_return a) k = k a"
  by (simp add: st_bind_def fun_eq_iff)

lemma st_bind_throw [simp]: "st_bind (st_throw e) k = st_throw e"
  by (simp add: st_bind_def fun_eq_iff)

lemma st_bind_lift [simp]:
  "st_bind (st_lift (Inr a)) k = k a" "st_bind (st_lift (Inl e)) k = st_throw e"
  by (simp_all add: st_bind_def fun_eq_iff)

lemma st_bind_Pair [simp]:
  "st_bind (Pair (Inr a)) k = k a" "st_bind (Pair (Inl e)) k = Pair (Inl e)"
  by (simp_all add: st_bind_def fun_eq_iff)

lemma st_bind_Inr_conv [res_conv]:
  "st_bind m k s = (Inr b, s') \<longleftrightarrow> (\<exists>a t. m s = (Inr a, t) \<and> k a t = (Inr b, s'))"
  by (auto simp: st_bind_def split: prod.splits sum.splits)

lemma st_bind_Inl_conv [res_conv]:
  "st_bind m k s = (Inl e, s') \<longleftrightarrow>
     m s = (Inl e, s') \<or> (\<exists>a t. m s = (Inr a, t) \<and> k a t = (Inl e, s'))"
  by (auto simp: st_bind_def split: prod.splits sum.splits)

lemma st_bind_assoc: "st_bind (st_bind m f) g = st_bind m (\<lambda>x. st_bind (f x) g)"
  by (auto simp: st_bind_def fun_eq_iff split: prod.splits sum.splits)

lemma st_bind_right_unit [simp]: "st_bind m st_return = m"
  by (auto simp: st_bind_def fun_eq_iff split: prod.splits sum.splits)

lemma st_bind_unit: "st_bind m (\<lambda>_. st_return ()) = m"
  using st_bind_right_unit [of m] by simp

lemma st_bind_cong [fundef_cong]:
  "m = m' \<Longrightarrow> (\<And>a. k a = k' a) \<Longrightarrow> st_bind m k = st_bind m' k'"
  by (rule arg_cong2 [where f = st_bind]) (auto simp: fun_eq_iff)

text \<open>
  \<^verbatim>\<open>try { m } catch\<close>: \<open>h\<close> runs on what C++ handlers can see; \<open>h\<close> itself tells the classes apart.
\<close>

definition st_catch :: "('s, 'a) st \<Rightarrow> (exn \<Rightarrow> ('s, 'a) st) \<Rightarrow> ('s, 'a) st" where
  "st_catch m h =
     (\<lambda>s. case m s of
        (Inl e, s') \<Rightarrow> if catchable e then h e s' else (Inl e, s')
      | (Inr a, s') \<Rightarrow> (Inr a, s'))"

lemma st_catch_Inr_conv [res_conv]:
  "st_catch m h s = (Inr a, s') \<longleftrightarrow>
     m s = (Inr a, s') \<or> (\<exists>e t. m s = (Inl e, t) \<and> catchable e \<and> h e t = (Inr a, s'))"
  by (auto simp: st_catch_def split: prod.splits sum.splits)

lemma st_catch_Inl_conv [res_conv]:
  "st_catch m h s = (Inl e, s') \<longleftrightarrow>
     (m s = (Inl e, s') \<and> \<not> catchable e) \<or> (\<exists>e' t. m s = (Inl e', t) \<and> catchable e' \<and> h e' t = (Inl e, s'))"
  by (auto simp: st_catch_def split: prod.splits sum.splits)

text \<open>Reading a part of the state.\<close>

definition st_gets :: "('s \<Rightarrow> 'a) \<Rightarrow> ('s, 'a) st" where
  "st_gets f = (\<lambda>s. (Inr (f s), s))"

lemma st_bind_gets_apply: "st_bind (st_gets f) k s = k (f s) s"
  by (simp add: st_gets_def st_bind_def)

text \<open>A loop over a list, for its effects.\<close>

fun st_for :: "('a \<Rightarrow> ('s, unit) st) \<Rightarrow> 'a list \<Rightarrow> ('s, unit) st" where
  "st_for f [] = st_return ()"
| "st_for f (x # xs) = st_bind (f x) (\<lambda>_. st_for f xs)"

lemma st_for_cong [fundef_cong]:
  "xs = ys \<Longrightarrow> (\<And>x. x \<in> set ys \<Longrightarrow> f x = g x) \<Longrightarrow> st_for f xs = st_for g ys"
proof -
  have "(\<And>x. x \<in> set zs \<Longrightarrow> f x = g x) \<Longrightarrow> st_for f zs = st_for g zs" for zs
    by (induction zs) auto
  then show "xs = ys \<Longrightarrow> (\<And>x. x \<in> set ys \<Longrightarrow> f x = g x) \<Longrightarrow> st_for f xs = st_for g ys"
    by blast
qed

text \<open>A counting loop that collects one result per round.\<close>

fun st_repeat :: "nat \<Rightarrow> ('s, 'a) st \<Rightarrow> ('s, 'a list) st" where
  "st_repeat 0 m = st_return []"
| "st_repeat (Suc n) m = st_bind m (\<lambda>x. st_bind (st_repeat n m) (\<lambda>xs. st_return (x # xs)))"

lemma st_repeat_length: "st_repeat n m s = (Inr xs, s') \<Longrightarrow> length xs = n"
  by (induction n arbitrary: s s' xs) (auto simp: st_bind_Inr_conv)

text \<open>A loop over a list that collects one result per element.\<close>

fun st_map :: "('a \<Rightarrow> ('s, 'b) st) \<Rightarrow> 'a list \<Rightarrow> ('s, 'b list) st" where
  "st_map f [] = st_return []"
| "st_map f (x # xs) = st_bind (f x) (\<lambda>y. st_bind (st_map f xs) (\<lambda>ys. st_return (y # ys)))"

lemma st_map_length: "st_map f xs s = (Inr ys, s') \<Longrightarrow> length ys = length xs"
  by (induction xs arbitrary: s ys) (auto simp: st_bind_Inr_conv)

lemma st_map_invariant:
  assumes "\<And>x s. x \<in> set xs \<Longrightarrow> I s \<Longrightarrow> \<exists>s'. f x s = (Inr (g x), s') \<and> I s'" "I s"
  shows "\<exists>s'. st_map f xs s = (Inr (map g xs), s') \<and> I s'"
  using assms
proof (induction xs arbitrary: s)
  case Nil
  then show ?case by simp
next
  case (Cons x xs)
  from Cons.prems(1) [of x s] Cons.prems(2) obtain t where t: "f x s = (Inr (g x), t)" "I t" by auto
  have "\<exists>s'. st_map f xs t = (Inr (map g xs), s') \<and> I s'"
    by (rule Cons.IH) (use Cons.prems(1) t(2) in auto)
  with t(1) show ?case by (auto simp: st_bind_def)
qed

text \<open>\<open>throws_only P m\<close>: every exception that leaves \<open>m\<close> satisfies \<open>P\<close>.\<close>

definition throws_only :: "(exn \<Rightarrow> bool) \<Rightarrow> ('s, 'a) st \<Rightarrow> bool" where
  "throws_only P m \<longleftrightarrow> (\<forall>s e s'. m s = (Inl e, s') \<longrightarrow> P e)"

lemma throws_onlyD: "throws_only P m \<Longrightarrow> m s = (Inl e, s') \<Longrightarrow> P e"
  by (auto simp: throws_only_def)

lemma throws_only_catch:
  assumes "\<And>e. catchable e \<Longrightarrow> throws_only P (h e)" "\<And>e. \<not> catchable e \<Longrightarrow> P e"
  shows "throws_only P (st_catch m h)"
  using assms by (fastforce simp: throws_only_def st_catch_Inl_conv)

lemma throws_only_throw: "P e \<Longrightarrow> throws_only P (st_throw e)"
  by (simp add: throws_only_def)

lemma throws_only_bind:
  "throws_only P m \<Longrightarrow> (\<And>a. throws_only P (k a)) \<Longrightarrow> throws_only P (st_bind m k)"
  unfolding throws_only_def st_bind_Inl_conv by blast

lemma throws_only_return: "throws_only P (st_return a)"
  by (simp add: throws_only_def)

lemma throws_only_map: "(\<And>x. x \<in> set xs \<Longrightarrow> throws_only P (f x)) \<Longrightarrow> throws_only P (st_map f xs)"
  by (induction xs) (auto intro!: throws_only_bind throws_only_return)

lemma st_map_pointwise:
  "st_map f xs s = (Inr ys, s') \<Longrightarrow> list_all2 (\<lambda>x y. \<exists>t t'. f x t = (Inr y, t')) xs ys"
  by (induction xs arbitrary: s ys) (fastforce simp: st_bind_Inr_conv)+

text \<open>
  Leaving the scope of an object with destructor \<open>d\<close>: the destructor runs when \<open>m\<close> returns and when
  it throws; an exception that leaves the destructor ends the process, since destructors are
  \<^verbatim>\<open>noexcept\<close>.
\<close>

definition unwinding :: "('s, unit) st \<Rightarrow> ('s, 'a) st \<Rightarrow> ('s, 'a) st" where
  "unwinding d m =
     (\<lambda>s. case m s of (r, s1) \<Rightarrow>
        if (case r of Inl e \<Rightarrow> catchable e | Inr _ \<Rightarrow> True) then
          (case d s1 of
             (Inr _, s2) \<Rightarrow> (r, s2)
           | (Inl e, s2) \<Rightarrow> (Inl (if catchable e then Terminated else e), s2))
        else (r, s1))"

section \<open>Triples\<close>

text \<open>
  \<open>meets P m Q E\<close>: started where \<open>P\<close> holds, \<open>m\<close> returns with \<open>Q\<close> or throws with \<open>E\<close>.
\<close>

definition meets ::
    "('s \<Rightarrow> bool) \<Rightarrow> ('s, 'a) st \<Rightarrow> ('a \<Rightarrow> 's \<Rightarrow> bool) \<Rightarrow> (exn \<Rightarrow> 's \<Rightarrow> bool) \<Rightarrow> bool" where
  "meets P m Q E \<longleftrightarrow>
     (\<forall>s. P s \<longrightarrow> (case m s of (Inr a, s') \<Rightarrow> Q a s' | (Inl e, s') \<Rightarrow> E e s'))"

named_theorems meets_rules \<open>rules that prove triples from the shape of the computation\<close>

lemma meetsI:
  "(\<And>s a s'. P s \<Longrightarrow> m s = (Inr a, s') \<Longrightarrow> Q a s') \<Longrightarrow> (\<And>s e s'. P s \<Longrightarrow> m s = (Inl e, s') \<Longrightarrow> E e s') \<Longrightarrow>
     meets P m Q E"
  by (auto simp: meets_def split: prod.splits sum.splits)

lemma meets_Inr: "meets P m Q E \<Longrightarrow> P s \<Longrightarrow> m s = (Inr a, s') \<Longrightarrow> Q a s'"
  by (auto simp: meets_def)

lemma meets_Inl: "meets P m Q E \<Longrightarrow> P s \<Longrightarrow> m s = (Inl e, s') \<Longrightarrow> E e s'"
  by (auto simp: meets_def)

lemma meets_weaken:
  assumes "meets P m Q E" "\<And>s. P' s \<Longrightarrow> P s" "\<And>a s. Q a s \<Longrightarrow> Q' a s" "\<And>e s. E e s \<Longrightarrow> E' e s"
  shows "meets P' m Q' E'"
  by (rule meetsI) (use assms meets_Inr [OF assms(1)] meets_Inl [OF assms(1)] in blast)+

lemma meets_bind:
  assumes "meets P m R E" "\<And>a. meets (R a) (k a) Q E"
  shows "meets P (st_bind m k) Q E"
proof (rule meetsI)
  fix s b s' assume "P s" "st_bind m k s = (Inr b, s')"
  then show "Q b s'"
    using meets_Inr [OF assms(1)] meets_Inr [OF assms(2)] unfolding st_bind_Inr_conv by blast
next
  fix s e s' assume "P s" "st_bind m k s = (Inl e, s')"
  then show "E e s'"
    using meets_Inl [OF assms(1)] meets_Inr [OF assms(1)] meets_Inl [OF assms(2)] unfolding st_bind_Inl_conv by blast
qed

lemma meets_return [meets_rules]: "(\<And>s. P s \<Longrightarrow> Q a s) \<Longrightarrow> meets P (st_return a) Q E"
  by (simp add: meets_def)

lemma meets_Pair: "(\<And>s. P s \<Longrightarrow> Q a s) \<Longrightarrow> meets P (Pair (Inr a)) Q E"
  by (simp add: meets_def)

lemma meets_throw [meets_rules]: "(\<And>s. P s \<Longrightarrow> E e s) \<Longrightarrow> meets P (st_throw e) Q E"
  by (simp add: meets_def)

lemma meets_if [meets_rules]:
  "(b \<Longrightarrow> meets P m Q E) \<Longrightarrow> (\<not> b \<Longrightarrow> meets P m' Q E) \<Longrightarrow> meets P (if b then m else m') Q E"
  by simp

lemma meets_option [meets_rules]:
  "(x = None \<Longrightarrow> meets P m Q E) \<Longrightarrow> (\<And>y. x = Some y \<Longrightarrow> meets P (k y) Q E) \<Longrightarrow>
     meets P (case x of None \<Rightarrow> m | Some y \<Rightarrow> k y) Q E"
  by (cases x) auto

lemma meets_catch:
  assumes "meets P m Q E'" "\<And>e. catchable e \<Longrightarrow> meets (E' e) (h e) Q E" "\<And>e s. \<not> catchable e \<Longrightarrow> E' e s \<Longrightarrow> E e s"
  shows "meets P (st_catch m h) Q E"
proof (rule meetsI)
  fix s a s' assume "P s" "st_catch m h s = (Inr a, s')"
  then show "Q a s'"
    using meets_Inr [OF assms(1)] meets_Inl [OF assms(1)] meets_Inr [OF assms(2)] unfolding st_catch_Inr_conv by blast
next
  fix s e s' assume "P s" "st_catch m h s = (Inl e, s')"
  then show "E e s'"
    using meets_Inl [OF assms(1)] meets_Inl [OF assms(2)] assms(3) unfolding st_catch_Inl_conv by blast
qed

lemma meets_gets [meets_rules]: "(\<And>s. P s \<Longrightarrow> Q (f s) s) \<Longrightarrow> meets P (st_gets f) Q E"
  by (simp add: meets_def st_gets_def)

lemma meets_for:
  "(\<And>x. x \<in> set xs \<Longrightarrow> meets P (f x) (\<lambda>_. P) E) \<Longrightarrow> meets P (st_for f xs) (\<lambda>_. P) E"
proof (induction xs)
  case Nil
  show ?case unfolding st_for.simps by (rule meets_return)
next
  case (Cons x xs)
  then show ?case by (auto intro: meets_bind)
qed

lemma meets_unwinding:
  assumes "meets P m Q' E'" "\<And>a. meets (Q' a) d (\<lambda>_. Q a) (\<lambda>e s. F e s)" "\<And>e. catchable e \<Longrightarrow> meets (E' e) d (\<lambda>_. E e) F"
    and "\<And>e s. \<not> catchable e \<Longrightarrow> E' e s \<Longrightarrow> E e s" "\<And>e s. F e s \<Longrightarrow> E (if catchable e then Terminated else e) s"
  shows "meets P (unwinding d m) Q E"
proof -
  have "case unwinding d m s of (Inr a, s') \<Rightarrow> Q a s' | (Inl e, s') \<Rightarrow> E e s'" if "P s" for s
  proof (cases "m s")
    case (Pair r s1)
    show ?thesis
    proof (cases r)
      case (Inr a)
      with Pair \<open>P s\<close> meets_Inr [OF assms(1)] have "Q' a s1" by blast
      then show ?thesis
        using Pair Inr meets_Inr [OF assms(2)] meets_Inl [OF assms(2)] assms(5)
        by (cases "d s1"; cases "fst (d s1)") (auto simp: unwinding_def)
    next
      case (Inl e)
      with Pair \<open>P s\<close> meets_Inl [OF assms(1)] have "E' e s1" by blast
      then show ?thesis
        using Pair Inl meets_Inr [OF assms(3)] meets_Inl [OF assms(3)] assms(4,5)
        by (cases "d s1"; cases "fst (d s1)") (auto simp: unwinding_def)
    qed
  qed
  then show ?thesis by (simp add: meets_def)
qed

text \<open>A step that returns \<open>()\<close> and changes the state by a function.\<close>

lemma meets_step [meets_rules]: "(\<And>s. P s \<Longrightarrow> Q (f s) (g s)) \<Longrightarrow> meets P (\<lambda>s. (Inr (f s), g s)) Q E"
  by (simp add: meets_def)

end
