(* ===== verification/Cpp_Std.thy ===== *)
theory Cpp_Std
  imports Prelude
begin

text \<open>
  The pieces of the C++ standard library the sources call, as executable functions on
  \<open>string\<close> (a list of 8-bit \<open>char\<close>): searching and cutting strings, decimal printing and
  parsing of \<^verbatim>\<open>int\<close>, character classes of the C locale, token streams, and the raw
  bytes of fixed-width integers on the little-endian platforms the package is built for.
\<close>

section \<open>Searching\<close>

text \<open>\<open>None\<close> stands for \<^verbatim>\<open>std::string::npos\<close>.\<close>

fun find_first_if :: "(char \<Rightarrow> bool) \<Rightarrow> string \<Rightarrow> nat option" where
  "find_first_if P [] = None"
| "find_first_if P (c # cs) = (if P c then Some 0 else map_option Suc (find_first_if P cs))"

definition find_last_if :: "(char \<Rightarrow> bool) \<Rightarrow> string \<Rightarrow> nat option" where
  "find_last_if P s = map_option (\<lambda>i. length s - 1 - i) (find_first_if P (rev s))"

lemma find_first_if_None [simp]: "find_first_if P s = None \<longleftrightarrow> (\<forall>c \<in> set s. \<not> P c)"
  by (induction s) auto

lemma find_first_if_append:
  "(\<forall>c \<in> set s. \<not> P c) \<Longrightarrow>
     find_first_if P (s @ t) = map_option (\<lambda>i. length s + i) (find_first_if P t)"
proof (induction s)
  case Nil
  then show ?case by (simp add: option.map_ident)
next
  case (Cons c s)
  then show ?case by (cases "find_first_if P t") (simp_all del: find_first_if_None)
qed

lemma find_last_if_None [simp]: "find_last_if P s = None \<longleftrightarrow> (\<forall>c \<in> set s. \<not> P c)"
  by (simp add: find_last_if_def)

lemma find_last_if_append:
  "P c \<Longrightarrow> (\<forall>d \<in> set t. \<not> P d) \<Longrightarrow> find_last_if P (s @ c # t) = Some (length s)"
  by (simp add: find_last_if_def find_first_if_append)

section \<open>Decimal numbers\<close>

definition digit_char :: "nat \<Rightarrow> char" where
  "digit_char d = char_of (48 + d)"

definition is_digit :: "char \<Rightarrow> bool" where
  "is_digit c \<longleftrightarrow> 48 \<le> (of_char c :: nat) \<and> (of_char c :: nat) \<le> 57"

definition digit_val :: "char \<Rightarrow> nat" where
  "digit_val c = of_char c - 48"

fun nat_to_string :: "nat \<Rightarrow> string" where
  "nat_to_string n =
     (if n < 10 then [digit_char n] else nat_to_string (n div 10) @ [digit_char (n mod 10)])"

declare nat_to_string.simps [simp del]

text \<open>\<^verbatim>\<open>std::to_string(int)\<close>.\<close>

definition int_to_string :: "int \<Rightarrow> string" where
  "int_to_string i = (if i < 0 then CHR ''-'' # nat_to_string (nat (- i)) else nat_to_string (nat i))"

lemma is_digit_digit_char [simp]: "d < 10 \<Longrightarrow> is_digit (digit_char d)"
  by (simp add: is_digit_def digit_char_def)

lemma digit_val_digit_char [simp]: "d < 10 \<Longrightarrow> digit_val (digit_char d) = d"
  by (simp add: digit_val_def digit_char_def)

lemma nat_to_string_nonempty [simp]: "nat_to_string n \<noteq> []"
  by (subst nat_to_string.simps) simp

lemma nat_to_string_digits: "c \<in> set (nat_to_string n) \<Longrightarrow> is_digit c"
proof (induction n rule: nat_to_string.induct)
  case (1 n)
  then show ?case
    by (subst (asm) nat_to_string.simps) (auto split: if_splits)
qed

text \<open>The value of a digit string, most significant digit first.\<close>

definition digits_val :: "string \<Rightarrow> nat" where
  "digits_val s = foldl (\<lambda>acc c. 10 * acc + digit_val c) 0 s"

lemma digits_val_append [simp]: "digits_val (s @ [c]) = 10 * digits_val s + digit_val c"
  by (simp add: digits_val_def)

lemma digits_val_nat_to_string [simp]: "digits_val (nat_to_string n) = n"
proof (induction n rule: nat_to_string.induct)
  case (1 n)
  show ?case
  proof (cases "n < 10")
    case True
    then show ?thesis by (subst nat_to_string.simps) (simp add: digits_val_def)
  next
    case False
    with "1.IH" show ?thesis by (subst nat_to_string.simps) simp
  qed
qed

lemma nat_to_string_inject [simp]: "nat_to_string m = nat_to_string n \<longleftrightarrow> m = n"
  by (metis digits_val_nat_to_string)

section \<open>Character classes of the C locale\<close>

definition is_space :: "char \<Rightarrow> bool" where
  "is_space c \<longleftrightarrow> c = CHR '' '' \<or> (9 \<le> (of_char c :: nat) \<and> (of_char c :: nat) \<le> 13)"

definition to_lower :: "char \<Rightarrow> char" where
  "to_lower c =
     (let n = (of_char c :: nat) in if 65 \<le> n \<and> n \<le> 90 then char_of (n + 32) else c)"

definition to_upper :: "char \<Rightarrow> char" where
  "to_upper c =
     (let n = (of_char c :: nat) in if 97 \<le> n \<and> n \<le> 122 then char_of (n - 32) else c)"

lemma to_lower_idem [simp]: "to_lower (to_lower c) = to_lower c"
  by (simp add: to_lower_def Let_def)

lemma is_digit_not_space [simp]: "is_digit c \<Longrightarrow> \<not> is_space c"
  by (auto simp: is_digit_def is_space_def)

text \<open>
  \<^verbatim>\<open>std::stoi\<close> (base 10): leading white space, an optional sign, then the longest run of
  digits; trailing characters are ignored. No digit throws \<^verbatim>\<open>std::invalid_argument\<close>, a
  value outside \<^verbatim>\<open>int\<close> throws \<^verbatim>\<open>std::out_of_range\<close>; both are \<^verbatim>\<open>std::exception\<close>s with
  \<open>what() = ''stoi''\<close>.
\<close>

definition int_min :: int where "int_min = - 2147483648"
definition int_max :: int where "int_max = 2147483647"

definition in_int_range :: "int \<Rightarrow> bool" where
  "in_int_range i \<longleftrightarrow> int_min \<le> i \<and> i \<le> int_max"

definition stoi_body :: "bool \<Rightarrow> string \<Rightarrow> int res" where
  "stoi_body negative s =
     (let ds = takeWhile is_digit s;
          v = (if negative then - int (digits_val ds) else int (digits_val ds))
      in if ds = [] then Inl (Std_exception ''stoi'')
         else if in_int_range v then Inr v
         else Inl (Std_exception ''stoi''))"

definition stoi :: "string \<Rightarrow> int res" where
  "stoi s =
     (case dropWhile is_space s of
        [] \<Rightarrow> Inl (Std_exception ''stoi'')
      | c # cs \<Rightarrow>
          if c = CHR ''-'' then stoi_body True cs
          else if c = CHR ''+'' then stoi_body False cs
          else stoi_body False (c # cs))"

text \<open>
  \<^verbatim>\<open>std::atoi\<close>: no digits give 0; a value outside \<^verbatim>\<open>int\<close> is undefined.
\<close>

definition atoi :: "string \<Rightarrow> int res" where
  "atoi s =
     (let body = (\<lambda>negative cs.
            let n = int (digits_val (takeWhile is_digit cs)); v = (if negative then - n else n)
            in if in_int_range v then Inr v else Inl Undefined_behaviour)
      in case dropWhile is_space s of
           [] \<Rightarrow> Inr 0
         | c # cs \<Rightarrow>
             if c = CHR ''-'' then body True cs
             else if c = CHR ''+'' then body False cs
             else body False (c # cs))"

lemma takeWhile_nat_to_string [simp]: "takeWhile is_digit (nat_to_string n) = nat_to_string n"
  by (simp add: takeWhile_eq_all_conv nat_to_string_digits)

lemma stoi_body_nat_to_string:
  "in_int_range (if b then - int n else int n) \<Longrightarrow>
     stoi_body b (nat_to_string n) = Inr (if b then - int n else int n)"
  by (simp add: stoi_body_def Let_def split: if_splits)

lemma is_digit_not_sign: "is_digit c \<Longrightarrow> c \<noteq> CHR ''-'' \<and> c \<noteq> CHR ''+''"
  by (auto simp: is_digit_def)

text \<open>Parsing what \<^verbatim>\<open>std::to_string\<close> printed gives the number back.\<close>

lemma stoi_int_to_string:
  assumes "in_int_range i"
  shows "stoi (int_to_string i) = Inr i"
proof (cases "i < 0")
  case True
  have "\<not> is_space (CHR ''-'')" by (simp add: is_space_def)
  with True assms show ?thesis
    using stoi_body_nat_to_string [of True "nat (- i)"]
    by (simp add: stoi_def int_to_string_def)
next
  case False
  obtain c cs where s: "nat_to_string (nat i) = c # cs"
    by (cases "nat_to_string (nat i)") auto
  then have c: "is_digit c"
    using nat_to_string_digits [of c "nat i"] by simp
  from False assms show ?thesis
    using stoi_body_nat_to_string [of False "nat i"] c
    by (auto simp: stoi_def int_to_string_def s dest: is_digit_not_sign)
qed

lemma atoi_nat_to_string:
  assumes "int n \<le> int_max"
  shows "atoi (nat_to_string n) = Inr (int n)"
proof -
  obtain c cs where s: "nat_to_string n = c # cs" by (cases "nat_to_string n") auto
  then have "is_digit c" using nat_to_string_digits [of c n] by simp
  moreover have tw: "takeWhile is_digit cs = cs" using takeWhile_nat_to_string [of n] by (simp add: s split: if_splits)
  moreover have dv: "digits_val (c # cs) = n" unfolding s [symmetric] by simp
  ultimately show ?thesis
    using assms is_digit_not_space [of c] is_digit_not_sign [of c]
    by (simp add: atoi_def s Let_def in_int_range_def int_min_def tw dv)
qed

lemma nat_to_string_no_space: "c \<in> set (nat_to_string n) \<Longrightarrow> \<not> is_space c"
  by (rule is_digit_not_space) (rule nat_to_string_digits)

lemma int_to_string_no_space: "c \<in> set (int_to_string i) \<Longrightarrow> \<not> is_space c"
  by (auto simp: int_to_string_def nat_to_string_no_space split: if_splits)
     (simp add: is_space_def)

lemma int_to_string_nonempty [simp]: "int_to_string i \<noteq> []"
  by (simp add: int_to_string_def)

lemma int_to_string_inject [simp]: "int_to_string i = int_to_string j \<longleftrightarrow> i = j"
proof
  assume eq: "int_to_string i = int_to_string j"
  have neg: "int_to_string k = CHR ''-'' # nat_to_string (nat (- k))" if "k < 0" for k
    using that by (simp add: int_to_string_def)
  have pos: "CHR ''-'' \<notin> set (int_to_string k)" if "\<not> k < 0" for k
    using that by (auto simp: int_to_string_def dest!: nat_to_string_digits is_digit_not_sign)
  have "i < 0 \<longleftrightarrow> j < 0"
    using eq neg pos by (metis list.set_intros(1))
  then show "i = j"
    using eq by (simp add: int_to_string_def split: if_splits)
qed simp

lemma int_to_string_char: "c \<in> set (int_to_string i) \<Longrightarrow> is_digit c \<or> c = CHR ''-''"
  by (auto simp: int_to_string_def dest: nat_to_string_digits split: if_splits)

text \<open>Two strings split at the last occurrence of a character agree part by part.\<close>

lemma split_at_last_char:
  assumes "a @ c # s = b @ c # t" "c \<notin> set s" "c \<notin> set t"
  shows "a = b \<and> s = t"
proof -
  have "rev s @ c # rev a = rev t @ c # rev b"
    using arg_cong [OF assms(1), of rev] by simp
  moreover have "takeWhile (\<lambda>d. d \<noteq> c) (rev s @ c # rev a) = rev s"
    "takeWhile (\<lambda>d. d \<noteq> c) (rev t @ c # rev b) = rev t"
    using assms(2,3) by (subst takeWhile_append2; auto)+
  ultimately have "s = t" by simp
  with assms(1) show ?thesis by simp
qed

lemma split_at_first_char:
  assumes "s @ c # a = t @ c # b" "c \<notin> set s" "c \<notin> set t"
  shows "s = t \<and> a = b"
  using split_at_last_char [of "rev a" c "rev s" "rev b" "rev t"]
    arg_cong [OF assms(1), of rev] assms(2,3) by simp

section \<open>Token streams\<close>

text \<open>
  \<^verbatim>\<open>while (iss >> token) tokens.push_back(token)\<close>: the maximal runs of non-space
  characters. \<open>cur\<close> is the token being read.
\<close>

fun stream_tokens :: "string \<Rightarrow> string \<Rightarrow> string list" where
  "stream_tokens cur [] = (if cur = [] then [] else [cur])"
| "stream_tokens cur (c # cs) =
     (if is_space c
      then (if cur = [] then stream_tokens [] cs else cur # stream_tokens [] cs)
      else stream_tokens (cur @ [c]) cs)"

text \<open>
  \<^verbatim>\<open>while (std::getline(stream, token, d))\<close>: the parts between delimiters; the empty
  rest after a final delimiter is not delivered.
\<close>

fun getline_tokens :: "char \<Rightarrow> string \<Rightarrow> string \<Rightarrow> string list" where
  "getline_tokens d cur [] = (if cur = [] then [] else [cur])"
| "getline_tokens d cur (c # cs) =
     (if c = d then cur # getline_tokens d [] cs else getline_tokens d (cur @ [c]) cs)"

text \<open>Strings joined with one separator character.\<close>

fun join_with :: "char \<Rightarrow> string list \<Rightarrow> string" where
  "join_with d [] = []"
| "join_with d [s] = s"
| "join_with d (s # ss) = s @ d # join_with d ss"

definition is_token :: "string \<Rightarrow> bool" where
  "is_token s \<longleftrightarrow> s \<noteq> [] \<and> (\<forall>c \<in> set s. \<not> is_space c)"

lemma is_token_int_to_string [simp]: "is_token (int_to_string i)"
  by (auto simp: is_token_def int_to_string_no_space)

lemma stream_tokens_run:
  "(\<forall>c \<in> set s. \<not> is_space c) \<Longrightarrow> stream_tokens cur (s @ t) = stream_tokens (cur @ s) t"
  by (induction s arbitrary: cur) auto

lemma stream_tokens_join:
  "(\<And>s. s \<in> set toks \<Longrightarrow> is_token s) \<Longrightarrow> is_space d \<Longrightarrow>
     stream_tokens [] (join_with d toks) = toks"
proof (induction d toks rule: join_with.induct)
  case (1 d)
  then show ?case by simp
next
  case (2 d s)
  then have "is_token s" by simp
  then show ?case
    using stream_tokens_run [of s "[]" "[]"] by (simp add: is_token_def)
next
  case (3 d s s' ss)
  from 3 have "is_token s" by simp
  then have "stream_tokens [] (join_with d (s # s' # ss)) = s # stream_tokens [] (join_with d (s' # ss))"
    using 3(3) stream_tokens_run [of s "[]" "d # join_with d (s' # ss)"]
    by (simp add: is_token_def)
  moreover have "stream_tokens [] (join_with d (s' # ss)) = s' # ss"
    by (rule 3(1)) (use 3(2,3) in auto)
  ultimately show ?case by simp
qed

lemma stream_tokens_are_tokens:
  "(\<forall>c \<in> set cur. \<not> is_space c) \<Longrightarrow> t \<in> set (stream_tokens cur s) \<Longrightarrow> is_token t"
proof (induction s arbitrary: cur)
  case Nil
  then show ?case by (auto simp: is_token_def split: if_splits)
next
  case (Cons c s)
  show ?case
  proof (cases "is_space c")
    case True
    with Cons.prems Cons.IH [of "[]"] show ?thesis
      by (auto simp: is_token_def split: if_splits)
  next
    case False
    with Cons.prems Cons.IH [of "cur @ [c]"] show ?thesis by simp
  qed
qed

section \<open>Raw bytes of fixed-width integers\<close>

text \<open>
  What \<^verbatim>\<open>write(reinterpret_cast<const char*>(&v), sizeof v)\<close> puts into a file on a
  little-endian machine, and the value \<^verbatim>\<open>read\<close> of as many bytes leaves in \<^verbatim>\<open>v\<close>.
\<close>

definition u32_bytes :: "u32 \<Rightarrow> byte list" where
  "u32_bytes w = map (\<lambda>i. ucast (drop_bit (8 * i) w)) [0, 1, 2, 3]"

definition u64_bytes :: "u64 \<Rightarrow> byte list" where
  "u64_bytes w = map (\<lambda>i. ucast (drop_bit (8 * i) w)) [0, 1, 2, 3, 4, 5, 6, 7]"

definition u32_of_bytes :: "byte list \<Rightarrow> u32" where
  "u32_of_bytes bs = foldr (\<lambda>b w. push_bit 8 w + ucast b) bs 0"

definition u64_of_bytes :: "byte list \<Rightarrow> u64" where
  "u64_of_bytes bs = foldr (\<lambda>b w. push_bit 8 w + ucast b) bs 0"

lemma length_u32_bytes [simp]: "length (u32_bytes w) = 4"
  by (simp add: u32_bytes_def)

lemma length_u64_bytes [simp]: "length (u64_bytes w) = 8"
  by (simp add: u64_bytes_def)

lemma byte_step:
  fixes w :: "'a::len word"
  assumes "8 \<le> LENGTH('a)"
  shows "push_bit 8 (drop_bit 8 w) + ucast (ucast w :: byte) = w"
proof -
  have "push_bit 8 (drop_bit 8 w) + take_bit 8 w = w"
    using bits_ident [of 8 w] by simp
  moreover have "ucast (ucast w :: byte) = take_bit 8 w"
    by (rule bit_word_eqI) (auto simp: bit_simps)
  ultimately show ?thesis by simp
qed

lemma byte_step_shift:
  fixes w :: "'a::len word"
  assumes "8 \<le> LENGTH('a)"
  shows "push_bit 8 (drop_bit (k + 8) w) + ucast (ucast (drop_bit k w) :: byte) = drop_bit k w"
  using byte_step [OF assms, of "drop_bit k w"] by (simp add: add.commute)

lemma u32_of_bytes_u32_bytes [simp]: "u32_of_bytes (u32_bytes w) = w"
proof -
  have "drop_bit 32 w = 0"
    by (rule bit_word_eqI) (simp add: bit_simps)
  with byte_step_shift [of 24 w] byte_step_shift [of 16 w] byte_step_shift [of 8 w]
    byte_step_shift [of 0 w]
  show ?thesis by (simp add: u32_of_bytes_def u32_bytes_def)
qed

lemma u64_of_bytes_u64_bytes [simp]: "u64_of_bytes (u64_bytes w) = w"
proof -
  have "drop_bit 64 w = 0"
    by (rule bit_word_eqI) (simp add: bit_simps)
  with byte_step_shift [of 56 w] byte_step_shift [of 48 w] byte_step_shift [of 40 w]
    byte_step_shift [of 32 w] byte_step_shift [of 24 w] byte_step_shift [of 16 w]
    byte_step_shift [of 8 w] byte_step_shift [of 0 w]
  show ?thesis by (simp add: u64_of_bytes_def u64_bytes_def)
qed

lemma byte_bit: "8 \<le> n \<Longrightarrow> \<not> bit (b :: byte) n"
  using bit_imp_le_length [of b n] by auto

lemma push_bytes_or:
  fixes w :: "'a::len word"
  shows "push_bit 8 w + ucast (b :: byte) = or (push_bit 8 w) (ucast b)"
  by (rule disjunctive_add) (auto simp: bit_simps byte_bit)

lemma u32_bytes_of_4: "u32_bytes (u32_of_bytes [a, b, c, d]) = [a, b, c, d]"
  unfolding u32_bytes_def u32_of_bytes_def
  by (simp add: push_bytes_or) (intro conjI bit_word_eqI; auto simp: bit_simps byte_bit)

lemma u64_bytes_of_8: "u64_bytes (u64_of_bytes [a, b, c, d, e, f, g, h]) = [a, b, c, d, e, f, g, h]"
  unfolding u64_bytes_def u64_of_bytes_def
  by (simp add: push_bytes_or) (intro conjI bit_word_eqI; auto simp: bit_simps byte_bit)

lemma list_of_length_Suc: "length xs = Suc n \<longleftrightarrow> (\<exists>y ys. xs = y # ys \<and> length ys = n)"
  by (cases xs) auto


lemma u32_bytes_u32_of_bytes: "length bs = 4 \<Longrightarrow> u32_bytes (u32_of_bytes bs) = bs"
  by (auto simp: list_of_length_Suc numeral_eq_Suc) (simp add: u32_bytes_of_4)

lemma u64_bytes_u64_of_bytes: "length bs = 8 \<Longrightarrow> u64_bytes (u64_of_bytes bs) = bs"
  by (auto simp: list_of_length_Suc numeral_eq_Suc) (simp add: u64_bytes_of_8)

end
