(* ===== verification/R_Values.thy ===== *)
theory R_Values
  imports Cpp_Std
begin

text \<open>
  R objects as the C++ code sees them through R's C API: the vector types the package
  handles with their attribute lists, strings with their encoding mark, and the calls of
  the API that may fail, which are a parameter of the model (\<open>r_api\<close>). What the code
  relies on of those calls is the locale \<open>r_object_api\<close>; \<open>reference_api\<close> states R's
  documented checks for the attributes the code sets and satisfies it.
\<close>

section \<open>Objects\<close>

datatype cetype = CE_NATIVE | CE_UTF8 | CE_LATIN1 | CE_BYTES

datatype rstring = NA_STRING | CHARSXP cetype "byte list"

text \<open>
  The elements of logical and integer vectors are \<^verbatim>\<open>int\<close> (NA is the smallest one), those of
  real vectors are the bits of a \<^verbatim>\<open>double\<close>. The second field is the attribute pairlist:
  tags and values in order. \<open>OTHERSXP n\<close> is an object of any other \<^verbatim>\<open>TYPEOF\<close> \<open>n\<close>.
\<close>

datatype sexp =
    NILSXP
  | LGLSXP "u32 list" "(string \<times> sexp) list"
  | INTSXP "u32 list" "(string \<times> sexp) list"
  | REALSXP "u64 list" "(string \<times> sexp) list"
  | STRSXP "rstring list" "(string \<times> sexp) list"
  | VECSXP "sexp list" "(string \<times> sexp) list"
  | OTHERSXP nat "(string \<times> sexp) list"

fun ATTRIB :: "sexp \<Rightarrow> (string \<times> sexp) list" where
  "ATTRIB NILSXP = []"
| "ATTRIB (LGLSXP _ a) = a"
| "ATTRIB (INTSXP _ a) = a"
| "ATTRIB (REALSXP _ a) = a"
| "ATTRIB (STRSXP _ a) = a"
| "ATTRIB (VECSXP _ a) = a"
| "ATTRIB (OTHERSXP _ a) = a"

fun XLENGTH :: "sexp \<Rightarrow> nat" where
  "XLENGTH (LGLSXP xs _) = length xs"
| "XLENGTH (INTSXP xs _) = length xs"
| "XLENGTH (REALSXP xs _) = length xs"
| "XLENGTH (STRSXP xs _) = length xs"
| "XLENGTH (VECSXP xs _) = length xs"
| "XLENGTH _ = 0"

text \<open>The elements of a list.\<close>

fun vector_elts :: "sexp \<Rightarrow> sexp list" where
  "vector_elts (VECSXP xs _) = xs"
| "vector_elts _ = []"

text \<open>
  \<^verbatim>\<open>Rf_getAttrib\<close> for \<^verbatim>\<open>dim\<close> and \<^verbatim>\<open>dimnames\<close>, which R reads straight off the attribute list.
\<close>

definition Rf_getAttrib :: "sexp \<Rightarrow> string \<Rightarrow> sexp" where
  "Rf_getAttrib x k = (case alist_get (ATTRIB x) k of None \<Rightarrow> NILSXP | Some v \<Rightarrow> v)"

lemma size_alist_get:
  "alist_get kvs k = Some v \<Longrightarrow> size v < size_list (size_prod (\<lambda>_. 0) size) kvs"
  by (induction kvs) (auto split: if_splits)

lemma size_ATTRIB: "x \<noteq> NILSXP \<Longrightarrow> size_list (size_prod (\<lambda>_. 0) size) (ATTRIB x) < size x"
  by (cases x) auto

lemma size_Rf_getAttrib: "x \<noteq> NILSXP \<Longrightarrow> size (Rf_getAttrib x k) < size x"
proof -
  assume x: "x \<noteq> NILSXP"
  show ?thesis
  proof (cases "alist_get (ATTRIB x) k")
    case None
    with x show ?thesis by (cases x) (simp_all add: Rf_getAttrib_def)
  next
    case (Some v)
    with size_alist_get [OF Some] size_ATTRIB [OF x] show ?thesis
      by (simp add: Rf_getAttrib_def)
  qed
qed

lemma Rf_getAttrib_NILSXP [simp]: "Rf_getAttrib NILSXP k = NILSXP"
  by (simp add: Rf_getAttrib_def)

text \<open>What recursion over attributes and elements descends on.\<close>

lemma size_in_list: "x \<in> set xs \<Longrightarrow> 2 * size x \<le> 2 * size_list size xs + n"
  by (induction xs) auto

lemma Rf_getAttrib_size_step:
  "Rf_getAttrib x ''dim'' \<noteq> NILSXP \<Longrightarrow> Suc (2 * size (Rf_getAttrib x k)) \<le> 2 * size x"
proof -
  assume "Rf_getAttrib x ''dim'' \<noteq> NILSXP"
  then have "size (Rf_getAttrib x k) < size x" by (intro size_Rf_getAttrib) auto
  then show ?thesis by linarith
qed

text \<open>
  Storing an attribute in the list: an existing tag keeps its place, a new one goes to the
  end; storing \<^verbatim>\<open>NULL\<close> removes it.
\<close>

fun attr_install :: "string \<Rightarrow> sexp \<Rightarrow> (string \<times> sexp) list \<Rightarrow> (string \<times> sexp) list" where
  "attr_install k v [] = [(k, v)]"
| "attr_install k v ((k', v') # a) = (if k' = k then (k, v) # a else (k', v') # attr_install k v a)"

definition attr_put :: "string \<Rightarrow> sexp \<Rightarrow> (string \<times> sexp) list \<Rightarrow> (string \<times> sexp) list" where
  "attr_put k v a = (if v = NILSXP then filter (\<lambda>kv. fst kv \<noteq> k) a else attr_install k v a)"

lemma attr_install_new: "k \<notin> fst ` set a \<Longrightarrow> attr_install k v a = a @ [(k, v)]"
  by (induction a) auto

lemma attr_put_new: "k \<notin> fst ` set a \<Longrightarrow> v \<noteq> NILSXP \<Longrightarrow> attr_put k v a = a @ [(k, v)]"
  by (simp add: attr_put_def attr_install_new)

lemma attr_put_nil_absent: "k \<notin> fst ` set a \<Longrightarrow> attr_put k NILSXP a = a"
  by (induction a) (auto simp: attr_put_def)

fun with_attrs :: "sexp \<Rightarrow> (string \<times> sexp) list \<Rightarrow> sexp" where
  "with_attrs NILSXP a = NILSXP"
| "with_attrs (LGLSXP xs _) a = LGLSXP xs a"
| "with_attrs (INTSXP xs _) a = INTSXP xs a"
| "with_attrs (REALSXP xs _) a = REALSXP xs a"
| "with_attrs (STRSXP xs _) a = STRSXP xs a"
| "with_attrs (VECSXP xs _) a = VECSXP xs a"
| "with_attrs (OTHERSXP n _) a = OTHERSXP n a"

lemma with_attrs_ATTRIB [simp]: "with_attrs x (ATTRIB x) = x"
  by (cases x) auto

lemma ATTRIB_with_attrs [simp]: "x \<noteq> NILSXP \<Longrightarrow> ATTRIB (with_attrs x a) = a"
  by (cases x) auto

lemma with_attrs_twice [simp]: "with_attrs (with_attrs x a) b = with_attrs x b"
  by (cases x) auto

lemma XLENGTH_with_attrs [simp]: "XLENGTH (with_attrs x a) = XLENGTH x"
  by (cases x) auto

lemma with_attrs_eq_NILSXP [simp]: "with_attrs x a = NILSXP \<longleftrightarrow> x = NILSXP"
  by (cases x) auto

text \<open>The objects Rcpp makes of a C++ string, \<^verbatim>\<open>int\<close> and truth value, and C strings of R strings.\<close>

definition string_bytes :: "string \<Rightarrow> byte list" where
  "string_bytes s = map (\<lambda>c. of_nat (of_char c)) s"

definition r_string :: "string \<Rightarrow> sexp" where
  "r_string s = STRSXP [CHARSXP CE_NATIVE (string_bytes s)] []"

definition r_int :: "int \<Rightarrow> sexp" where
  "r_int i = INTSXP [word_of_int i] []"

definition r_bool :: "int \<Rightarrow> sexp" where
  "r_bool i = LGLSXP [word_of_int i] []"

definition bytes_string :: "byte list \<Rightarrow> string" where
  "bytes_string bs = map (\<lambda>b. char_of (unat b)) bs"

lemma char_of_unat_byte: "char_of (unat (of_nat (of_char c) :: byte)) = c"
proof -
  have "(of_char c :: nat) < 256" using of_char_mod_256 [of c, where 'a = nat] by (metis mod_less_divisor zero_less_numeral)
  then have "unat (of_nat (of_char c) :: byte) = of_char c" by (simp add: unat_of_nat)
  then show ?thesis by simp
qed

lemma bytes_string_bytes [simp]: "bytes_string (string_bytes s) = s"
  by (induction s) (simp_all add: bytes_string_def string_bytes_def char_of_unat_byte)

section \<open>The C API calls that may fail\<close>

text \<open>
  \<open>setAttrib x k v\<close> is \<^verbatim>\<open>Rf_setAttrib\<close>, returning the changed object; \<open>mkCharLen\<close> is
  \<^verbatim>\<open>Rf_mkCharLen\<close>; \<open>can_alloc n\<close> says whether \<^verbatim>\<open>Rf_allocVector\<close> finds memory for \<open>n\<close> elements;
  \<open>pp_limit\<close> is the size of R's pointer protection stack.
\<close>

record r_api =
  setAttrib :: "sexp \<Rightarrow> string \<Rightarrow> sexp \<Rightarrow> sexp res"
  mkCharLen :: "byte list \<Rightarrow> rstring res"
  can_alloc :: "nat \<Rightarrow> bool"
  pp_limit :: nat

text \<open>Dimensions and dimension names R accepts as they are.\<close>

fun dim_product :: "u32 list \<Rightarrow> nat" where
  "dim_product [] = 1"
| "dim_product (d # ds) = unat d * dim_product ds"

definition valid_dim :: "sexp \<Rightarrow> sexp \<Rightarrow> bool" where
  "valid_dim x d \<longleftrightarrow>
     (case d of
        INTSXP ds [] \<Rightarrow> ds \<noteq> [] \<and> x \<noteq> NILSXP \<and> dim_product ds = XLENGTH x \<and> (\<forall>k \<in> set ds. 0 \<le> sint k)
      | _ \<Rightarrow> False)"

definition valid_dimname :: "u32 \<Rightarrow> sexp \<Rightarrow> bool" where
  "valid_dimname k v \<longleftrightarrow>
     (case v of NILSXP \<Rightarrow> True | STRSXP ss [] \<Rightarrow> length ss = unat k \<and> ss \<noteq> [] | _ \<Rightarrow> False)"

fun names_only :: "nat \<Rightarrow> (string \<times> sexp) list \<Rightarrow> bool" where
  "names_only n [] = True"
| "names_only n [(k, STRSXP ss [])] = (k = ''names'' \<and> length ss = n)"
| "names_only n _ = False"

lemma names_only_cases:
  "names_only n a \<Longrightarrow> a = [] \<or> (\<exists>ss. a = [(''names'', STRSXP ss [])] \<and> length ss = n)"
  by (cases "(n, a)" rule: names_only.cases) auto

definition valid_dimnames :: "sexp \<Rightarrow> sexp \<Rightarrow> bool" where
  "valid_dimnames d v \<longleftrightarrow>
     (case (d, v) of
        (INTSXP ds _, VECSXP vs a) \<Rightarrow>
          vs \<noteq> [] \<and> list_all2 valid_dimname ds vs \<and> list_ex (\<lambda>v. v \<noteq> NILSXP) vs \<and>
          names_only (length vs) a
      | _ \<Rightarrow> False)"

definition valid_names :: "sexp \<Rightarrow> sexp \<Rightarrow> bool" where
  "valid_names x v \<longleftrightarrow> (case v of STRSXP ss [] \<Rightarrow> x \<noteq> NILSXP \<and> length ss = XLENGTH x | _ \<Rightarrow> False)"

text \<open>
  What the package relies on: a valid dimension vector, dimension name list or name vector
  is stored as it is, setting \<^verbatim>\<open>NULL\<close> on an object without the attribute leaves it alone,
  and bytes without a NUL become a string in the native encoding.
\<close>

locale r_object_api =
  fixes api :: r_api
  assumes set_dim:
      "valid_dim x d \<Longrightarrow> setAttrib api x ''dim'' d = Inr (with_attrs x (attr_put ''dim'' d (ATTRIB x)))"
    and set_dimnames:
      "Rf_getAttrib x ''dim'' = d \<Longrightarrow> valid_dim x d \<Longrightarrow> valid_dimnames d v \<Longrightarrow>
        setAttrib api x ''dimnames'' v = Inr (with_attrs x (attr_put ''dimnames'' v (ATTRIB x)))"
    and unset_dimnames:
      "x \<noteq> NILSXP \<Longrightarrow> setAttrib api x ''dimnames'' NILSXP = Inr (with_attrs x (attr_put ''dimnames'' NILSXP (ATTRIB x)))"
    and set_names:
      "Rf_getAttrib x ''dim'' = NILSXP \<Longrightarrow> valid_names x v \<Longrightarrow>
        setAttrib api x ''names'' v = Inr (with_attrs x (attr_put ''names'' v (ATTRIB x)))"
    and mk_char:
      "0 \<notin> set bs \<Longrightarrow> length bs < 2 ^ 31 \<Longrightarrow> mkCharLen api bs = Inr (CHARSXP CE_NATIVE bs)"

definition reference_setAttrib :: "sexp \<Rightarrow> string \<Rightarrow> sexp \<Rightarrow> sexp res" where
  "reference_setAttrib x k v =
     (if v = NILSXP then Inr (with_attrs x (attr_put k NILSXP (ATTRIB x)))
      else if x = NILSXP then Inl (R_error ''attempt to set an attribute on NULL'')
      else if k = ''dim'' then
        (if valid_dim x v then Inr (with_attrs x (attr_put k v (ATTRIB x)))
         else Inl (R_error ''dims do not match the length of object''))
      else if k = ''dimnames'' then
        (if valid_dim x (Rf_getAttrib x ''dim'') \<and> valid_dimnames (Rf_getAttrib x ''dim'') v
         then Inr (with_attrs x (attr_put k v (ATTRIB x)))
         else Inl (R_error ''dimnames applied to non-array''))
      else if k = ''names'' then
        (if valid_names x v then Inr (with_attrs x (attr_put k v (ATTRIB x)))
         else Inl (R_error ''names attribute must be the same length as the vector''))
      else Inr (with_attrs x (attr_put k v (ATTRIB x))))"

definition reference_mkCharLen :: "byte list \<Rightarrow> rstring res" where
  "reference_mkCharLen bs =
     (if 0 \<in> set bs then Inl (R_error ''embedded nul in string'') else Inr (CHARSXP CE_NATIVE bs))"

definition reference_api :: "nat \<Rightarrow> r_api" where
  "reference_api limit =
     \<lparr>setAttrib = reference_setAttrib, mkCharLen = reference_mkCharLen,
      can_alloc = (\<lambda>n. True), pp_limit = limit\<rparr>"

lemma valid_dim_not_nil: "valid_dim x d \<Longrightarrow> x \<noteq> NILSXP \<and> d \<noteq> NILSXP"
  by (auto simp: valid_dim_def split: sexp.splits list.splits)

lemma valid_names_not_nil: "valid_names x d \<Longrightarrow> x \<noteq> NILSXP \<and> d \<noteq> NILSXP"
  by (auto simp: valid_names_def split: sexp.splits list.splits)

lemma valid_dimnames_not_nil: "valid_dimnames d v \<Longrightarrow> v \<noteq> NILSXP"
  by (auto simp: valid_dimnames_def split: sexp.splits)

interpretation refapi: r_object_api "reference_api limit" for limit
proof unfold_locales
  show "valid_dim x d \<Longrightarrow>
      setAttrib (reference_api limit) x ''dim'' d = Inr (with_attrs x (attr_put ''dim'' d (ATTRIB x)))" for x d
    using valid_dim_not_nil by (auto simp: reference_api_def reference_setAttrib_def)
  show "Rf_getAttrib x ''dim'' = d \<Longrightarrow> valid_dim x d \<Longrightarrow> valid_dimnames d v \<Longrightarrow>
      setAttrib (reference_api limit) x ''dimnames'' v =
        Inr (with_attrs x (attr_put ''dimnames'' v (ATTRIB x)))" for x d v
    using valid_dim_not_nil valid_dimnames_not_nil
    by (auto simp: reference_api_def reference_setAttrib_def)
  show "x \<noteq> NILSXP \<Longrightarrow> setAttrib (reference_api limit) x ''dimnames'' NILSXP =
      Inr (with_attrs x (attr_put ''dimnames'' NILSXP (ATTRIB x)))" for x
    by (simp add: reference_api_def reference_setAttrib_def)
  show "Rf_getAttrib x ''dim'' = NILSXP \<Longrightarrow> valid_names x v \<Longrightarrow> setAttrib (reference_api limit) x ''names'' v =
      Inr (with_attrs x (attr_put ''names'' v (ATTRIB x)))" for x v
    using valid_names_not_nil by (auto simp: reference_api_def reference_setAttrib_def)
  show "0 \<notin> set bs \<Longrightarrow> length bs < 2 ^ 31 \<Longrightarrow>
      mkCharLen (reference_api limit) bs = Inr (CHARSXP CE_NATIVE bs)" for bs
    by (simp add: reference_api_def reference_mkCharLen_def)
qed

end
