(* ===== verification/Serialization.thy ===== *)
theory Serialization
  imports R_Values
begin

text \<open>
  \<^verbatim>\<open>src/core/Serialization.cpp\<close>: the binary writer and reader for R objects, function by
  function. The writer runs over the bytes accepted so far by the \<^verbatim>\<open>std::ofstream\<close>; the
  reader runs over the bytes not yet read, R's protection stack and the counter the code
  passes by reference. \<open>wire\<close> is the abstract syntax of the format; the lemmas of
  \<open>Serialization_Laws\<close> tie writer and reader to it.
\<close>

section \<open>Constants\<close>

definition kMagic :: u32 where "kMagic = 0x52535343"
definition kVersion :: u32 where "kVersion = 3"
definition kMinReadVersion :: u32 where "kMinReadVersion = 1"

definition kNil :: u32 where "kNil = 0"
definition kLogical :: u32 where "kLogical = 1"
definition kInteger :: u32 where "kInteger = 2"
definition kReal :: u32 where "kReal = 3"
definition kString :: u32 where "kString = 4"
definition kList :: u32 where "kList = 5"
definition kArray :: u32 where "kArray = 6"

lemmas value_types =
  kNil_def kLogical_def kInteger_def kReal_def kString_def kList_def kArray_def

section \<open>Writer\<close>

text \<open>
  The operating system behind an \<^verbatim>\<open>std::ofstream\<close>: \<open>can_open\<close> is whether a path opens for
  writing, \<open>accepts out data\<close> whether the stream is still good after \<open>write(data)\<close> when
  \<open>out\<close> was written before, \<open>closed out\<close> what the file holds once the destructor has
  flushed and closed the stream, whose failures nobody sees.
\<close>

record ostream_env =
  can_open :: "string \<Rightarrow> bool"
  accepts :: "byte list \<Rightarrow> byte list \<Rightarrow> bool"
  closed :: "byte list \<Rightarrow> byte list"

type_synonym 'a writer = "(byte list, 'a) st"

definition writeBytes :: "ostream_env \<Rightarrow> byte list \<Rightarrow> unit writer" where
  "writeBytes env data =
     (\<lambda>out. if accepts env out data then (Inr (), out @ data)
            else (Inl (Std_exception ''Serialization write failed''), out))"

definition writeU32 :: "ostream_env \<Rightarrow> u32 \<Rightarrow> unit writer" where
  "writeU32 env value = writeBytes env (u32_bytes value)"

definition writeI32 :: "ostream_env \<Rightarrow> u32 \<Rightarrow> unit writer" where
  "writeI32 env value = writeBytes env (u32_bytes value)"

definition writeString :: "ostream_env \<Rightarrow> rstring \<Rightarrow> unit writer" where
  "writeString env str =
     (case str of
        NA_STRING \<Rightarrow> writeI32 env (- 1)
      | CHARSXP _ data \<Rightarrow>
          (let len = (of_nat (length data) :: u32)
           in if sint len < 0 then st_throw (Std_exception ''Invalid string length'')
              else st_bind (writeI32 env len)
                     (\<lambda>_. if 0 < sint len then writeBytes env (take (unat len) data)
                          else st_return ())))"

text \<open>A names attribute that is written: a string vector of the list's length.\<close>

definition real_names :: "nat \<Rightarrow> (string \<times> sexp) list \<Rightarrow> rstring list option" where
  "real_names len attributes =
     (case alist_get attributes ''names'' of
        Some (STRSXP nms _) \<Rightarrow> if length nms = len then Some nms else None
      | _ \<Rightarrow> None)"

definition writeNames ::
    "ostream_env \<Rightarrow> nat \<Rightarrow> (string \<times> sexp) list \<Rightarrow> u32 \<Rightarrow> unit writer" where
  "writeNames env len attributes format_version =
     (if 2 \<le> format_version then
        (case real_names len attributes of
           None \<Rightarrow> writeU32 env 0
         | Some nms \<Rightarrow> st_bind (writeU32 env 1) (\<lambda>_. st_for (writeString env) nms))
      else st_return ())"

definition writeHead :: "ostream_env \<Rightarrow> u32 \<Rightarrow> nat \<Rightarrow> unit writer" where
  "writeHead env tag len = st_bind (writeU32 env tag) (\<lambda>_. writeU32 env (of_nat len))"

function writeSEXP :: "ostream_env \<Rightarrow> u32 \<Rightarrow> sexp \<Rightarrow> unit writer"
  and writeValue :: "ostream_env \<Rightarrow> u32 \<Rightarrow> sexp \<Rightarrow> unit writer" where
  "writeSEXP env v x =
     (if Rf_getAttrib x ''dim'' \<noteq> NILSXP then
        st_bind (writeU32 env kArray) (\<lambda>_.
        st_bind (writeSEXP env v (Rf_getAttrib x ''dim'')) (\<lambda>_.
        st_bind (writeSEXP env v (Rf_getAttrib x ''dimnames'')) (\<lambda>_.
        writeValue env v x)))
      else writeValue env v x)"
| "writeValue env v NILSXP = writeU32 env kNil"
| "writeValue env v (LGLSXP xs a) =
     st_bind (writeHead env kLogical (length xs)) (\<lambda>_. st_for (writeI32 env) xs)"
| "writeValue env v (INTSXP xs a) =
     st_bind (writeHead env kInteger (length xs)) (\<lambda>_. st_for (writeI32 env) xs)"
| "writeValue env v (REALSXP xs a) =
     st_bind (writeHead env kReal (length xs)) (\<lambda>_. writeBytes env (concat (map u64_bytes xs)))"
| "writeValue env v (STRSXP xs a) =
     st_bind (writeHead env kString (length xs)) (\<lambda>_. st_for (writeString env) xs)"
| "writeValue env v (VECSXP xs a) =
     st_bind (writeHead env kList (length xs)) (\<lambda>_.
     st_bind (writeNames env (length xs) a v) (\<lambda>_.
     st_for (writeSEXP env v) xs))"
| "writeValue env v (OTHERSXP n a) =
     st_throw (Std_exception ''Unsupported SEXP type for C++ serialization'')"
  by pat_completeness auto

termination
  by (relation "measure (case_sum (\<lambda>(_, _, x). 2 * size x + 1) (\<lambda>(_, _, x). 2 * size x))")
     (auto simp: Rf_getAttrib_size_step size_in_list less_Suc_eq_le)

declare writeSEXP.simps [simp del]

section \<open>Reader\<close>

record rdst =
  rest :: "byte list"
  pp_stack :: nat
  protect_count :: nat

type_synonym 'a reader = "(rdst, 'a) st"

definition readBytes :: "nat \<Rightarrow> byte list reader" where
  "readBytes n =
     (\<lambda>s. if n \<le> length (rest s) then (Inr (take n (rest s)), s\<lparr>rest := drop n (rest s)\<rparr>)
          else (Inl (Std_exception ''Serialization read failed''), s\<lparr>rest := []\<rparr>))"

definition readU32 :: "u32 reader" where
  "readU32 = st_bind (readBytes 4) (\<lambda>bs. st_return (u32_of_bytes bs))"

definition readI32 :: "u32 reader" where
  "readI32 = st_bind (readBytes 4) (\<lambda>bs. st_return (u32_of_bytes bs))"

definition readString :: "r_api \<Rightarrow> rstring reader" where
  "readString api =
     st_bind readI32 (\<lambda>len.
       if len = - 1 then st_return NA_STRING
       else if sint len < 0 then st_throw (Std_exception ''Invalid serialized string length'')
       else st_bind (if 0 < sint len then readBytes (unat len) else st_return [])
              (\<lambda>buffer. st_lift (mkCharLen api buffer)))"

text \<open>The raw bytes of a \<^verbatim>\<open>double\<close> vector.\<close>

fun u64s_of_bytes :: "nat \<Rightarrow> byte list \<Rightarrow> u64 list" where
  "u64s_of_bytes 0 bs = []"
| "u64s_of_bytes (Suc n) bs = u64_of_bytes (take 8 bs) # u64s_of_bytes n (drop 8 bs)"

text \<open>\<^verbatim>\<open>Rf_allocVector\<close>, \<^verbatim>\<open>PROTECT\<close> and \<^verbatim>\<open>++protect_count\<close>, which always come together.\<close>

definition PROTECT :: "r_api \<Rightarrow> unit reader" where
  "PROTECT api =
     (\<lambda>s. if pp_stack s < pp_limit api then (Inr (), s\<lparr>pp_stack := pp_stack s + 1\<rparr>)
          else (Inl (R_error ''protect(): protection stack overflow''), s))"

definition alloc_protect :: "r_api \<Rightarrow> nat \<Rightarrow> unit reader" where
  "alloc_protect api len =
     st_bind (if can_alloc api len then st_return () else st_throw (R_error ''cannot allocate vector''))
       (\<lambda>_. st_bind (PROTECT api)
         (\<lambda>_. (\<lambda>s. (Inr (), s\<lparr>protect_count := protect_count s + 1\<rparr>))))"

text \<open>\<^verbatim>\<open>UNPROTECT(1)\<close> and \<^verbatim>\<open>--protect_count\<close>.\<close>

definition unprotect_one :: "unit reader" where
  "unprotect_one =
     (\<lambda>s. (Inr (), s\<lparr>pp_stack := pp_stack s - 1, protect_count := protect_count s - 1\<rparr>))"

text \<open>\<^verbatim>\<open>SET_VECTOR_ELT\<close> for all elements of a list.\<close>

fun with_elements :: "sexp \<Rightarrow> sexp list \<Rightarrow> sexp" where
  "with_elements (VECSXP _ a) xs = VECSXP xs a"
| "with_elements x xs = x"

definition readListNames :: "r_api \<Rightarrow> u32 \<Rightarrow> nat \<Rightarrow> sexp reader" where
  "readListNames api format_version len =
     (let list = VECSXP (replicate len NILSXP) []
      in if 2 \<le> format_version then
           st_bind readU32 (\<lambda>has_names.
             if 1 < has_names then
               st_throw (Std_exception ''Invalid list name flag in serialized data'')
             else if has_names \<noteq> 0 then
               st_bind (alloc_protect api len) (\<lambda>_.
               st_bind (st_repeat len (readString api)) (\<lambda>nms.
               st_bind (st_lift (setAttrib api list ''names'' (STRSXP nms []))) (\<lambda>list'.
               st_bind unprotect_one (\<lambda>_. st_return list'))))
             else st_return list)
         else st_return list)"

text \<open>The switch over the tag word; \<open>recur\<close> is \<^verbatim>\<open>readSEXP\<close> itself.\<close>

definition readTagged :: "r_api \<Rightarrow> u32 \<Rightarrow> sexp reader \<Rightarrow> u32 \<Rightarrow> sexp reader" where
  "readTagged api v recur ty =
     (if ty = kArray then
        (if v < 3 then
           st_throw (Std_exception ''Array encoding requires serialization version 3'')
         else
           st_bind recur (\<lambda>dims.
           st_bind recur (\<lambda>dimnames.
           st_bind recur (\<lambda>value.
           st_bind (st_lift (setAttrib api value ''dim'' dims)) (\<lambda>value'.
           st_lift (setAttrib api value' ''dimnames'' dimnames))))))
      else if ty = kNil then st_return NILSXP
      else if ty = kLogical then
        st_bind readU32 (\<lambda>len. st_bind (alloc_protect api (unat len)) (\<lambda>_.
        st_bind (st_repeat (unat len) readI32) (\<lambda>data. st_return (LGLSXP data []))))
      else if ty = kInteger then
        st_bind readU32 (\<lambda>len. st_bind (alloc_protect api (unat len)) (\<lambda>_.
        st_bind (st_repeat (unat len) readI32) (\<lambda>data. st_return (INTSXP data []))))
      else if ty = kReal then
        st_bind readU32 (\<lambda>len. st_bind (alloc_protect api (unat len)) (\<lambda>_.
        st_bind (readBytes (8 * unat len)) (\<lambda>bs. st_return (REALSXP (u64s_of_bytes (unat len) bs) []))))
      else if ty = kString then
        st_bind readU32 (\<lambda>len. st_bind (alloc_protect api (unat len)) (\<lambda>_.
        st_bind (st_repeat (unat len) (readString api)) (\<lambda>strs. st_return (STRSXP strs []))))
      else if ty = kList then
        st_bind readU32 (\<lambda>len. st_bind (alloc_protect api (unat len)) (\<lambda>_.
        st_bind (readListNames api v (unat len)) (\<lambda>list.
        st_bind (st_repeat (unat len) recur) (\<lambda>elements.
        st_return (with_elements list elements)))))
      else st_throw (Std_exception ''Unsupported serialized value type''))"

text \<open>
  The recursion depth is the C stack: at depth 0 there is no frame left and the program's
  behaviour is undefined. \<open>Serialization_Laws\<close> shows that a file of \<open>n\<close> bytes never needs
  more than \<open>n div 4 + 1\<close> frames.
\<close>

fun readSEXP :: "r_api \<Rightarrow> u32 \<Rightarrow> nat \<Rightarrow> sexp reader" where
  "readSEXP api v 0 = st_throw Undefined_behaviour"
| "readSEXP api v (Suc depth) = st_bind readU32 (readTagged api v (readSEXP api v depth))"

lemma readTagged_simps:
  "readTagged api v recur kArray =
     (if v < 3 then st_throw (Std_exception ''Array encoding requires serialization version 3'')
      else
        st_bind recur (\<lambda>dims. st_bind recur (\<lambda>dimnames. st_bind recur (\<lambda>value.
        st_bind (st_lift (setAttrib api value ''dim'' dims)) (\<lambda>value'.
        st_lift (setAttrib api value' ''dimnames'' dimnames))))))"
  "readTagged api v recur kNil = st_return NILSXP"
  "readTagged api v recur kLogical =
     st_bind readU32 (\<lambda>len. st_bind (alloc_protect api (unat len)) (\<lambda>_.
     st_bind (st_repeat (unat len) readI32) (\<lambda>data. st_return (LGLSXP data []))))"
  "readTagged api v recur kInteger =
     st_bind readU32 (\<lambda>len. st_bind (alloc_protect api (unat len)) (\<lambda>_.
     st_bind (st_repeat (unat len) readI32) (\<lambda>data. st_return (INTSXP data []))))"
  "readTagged api v recur kReal =
     st_bind readU32 (\<lambda>len. st_bind (alloc_protect api (unat len)) (\<lambda>_.
     st_bind (readBytes (8 * unat len)) (\<lambda>bs. st_return (REALSXP (u64s_of_bytes (unat len) bs) []))))"
  "readTagged api v recur kString =
     st_bind readU32 (\<lambda>len. st_bind (alloc_protect api (unat len)) (\<lambda>_.
     st_bind (st_repeat (unat len) (readString api)) (\<lambda>strs. st_return (STRSXP strs []))))"
  "readTagged api v recur kList =
     st_bind readU32 (\<lambda>len. st_bind (alloc_protect api (unat len)) (\<lambda>_.
     st_bind (readListNames api v (unat len)) (\<lambda>list.
     st_bind (st_repeat (unat len) recur) (\<lambda>elements.
     st_return (with_elements list elements)))))"
  by (simp_all add: readTagged_def value_types)

section \<open>Entry points\<close>

type_synonym file_system = "string \<Rightarrow> byte list option"

definition write_file :: "ostream_env \<Rightarrow> sexp \<Rightarrow> unit writer" where
  "write_file env object =
     st_bind (writeU32 env kMagic) (\<lambda>_.
     st_bind (writeU32 env kVersion) (\<lambda>_.
     writeSEXP env kVersion object))"

definition serializeSEXP :: "ostream_env \<Rightarrow> sexp \<Rightarrow> string \<Rightarrow> (file_system, unit) st" where
  "serializeSEXP env object filepath =
     (\<lambda>fs. if can_open env filepath then
             (case write_file env object [] of (r, out) \<Rightarrow> (r, fs(filepath \<mapsto> closed env out)))
           else (Inl (Std_exception (''Failed to open file for serialization: '' @ filepath)), fs))"

definition read_file :: "r_api \<Rightarrow> nat \<Rightarrow> sexp reader" where
  "read_file api depth =
     st_bind readU32 (\<lambda>magic.
       if magic \<noteq> kMagic then st_throw (Std_exception ''Invalid serialization magic header'')
       else st_bind readU32 (\<lambda>version.
         if version < kMinReadVersion \<or> kVersion < version
         then st_throw (Std_exception ''Unsupported serialization version'')
         else st_bind (readSEXP api version depth) (\<lambda>result.
           (\<lambda>s. (Inr result, s\<lparr>pp_stack := pp_stack s - protect_count s\<rparr>)))))"

text \<open>The state is the height of R's protection stack.\<close>

definition unserializeSEXP ::
    "r_api \<Rightarrow> nat \<Rightarrow> string \<Rightarrow> file_system \<Rightarrow> (nat, sexp) st" where
  "unserializeSEXP api depth filepath fs =
     (\<lambda>pp. case fs filepath of
        None \<Rightarrow> (Inl (Std_exception (''Failed to open file for unserialization: '' @ filepath)), pp)
      | Some bs \<Rightarrow>
          (case read_file api depth \<lparr>rest = bs, pp_stack = pp, protect_count = 0\<rparr> of
             (r, s) \<Rightarrow> (r, pp_stack s)))"

end
