(* ===== verification/Serialization_Laws.thy ===== *)
theory Serialization_Laws
  imports Serialization
begin

text \<open>
  What writer and reader of \<open>Serialization\<close> have to do with each other. \<open>wire\<close> is the
  abstract syntax of the file format and \<open>wire_bytes\<close> its concrete syntax. The writer
  refines \<open>wire_bytes \<circ> to_wire\<close>; the reader accepts exactly the byte strings \<open>wire_bytes\<close>
  produces and rebuilds the object from the abstract syntax; the concrete syntax is
  prefix-free. Round trip, truncation and the balance of R's protection stack follow.
\<close>

section \<open>The format\<close>

datatype wire =
    WNil
  | WLgl "u32 list"
  | WInt "u32 list"
  | WReal "u64 list"
  | WStr "byte list option list"
  | WList "byte list option list option" "wire list"
  | WArray wire wire wire

fun str_bytes :: "byte list option \<Rightarrow> byte list" where
  "str_bytes None = u32_bytes (- 1)"
| "str_bytes (Some bs) =
     (let len = (of_nat (length bs) :: u32) in u32_bytes len @ take (unat len) bs)"

definition head_bytes :: "u32 \<Rightarrow> nat \<Rightarrow> byte list" where
  "head_bytes tag len = u32_bytes tag @ u32_bytes (of_nat len)"

definition names_bytes :: "u32 \<Rightarrow> byte list option list option \<Rightarrow> byte list" where
  "names_bytes v nms =
     (if 2 \<le> v then
        (case nms of None \<Rightarrow> u32_bytes 0 | Some ns \<Rightarrow> u32_bytes 1 @ concat (map str_bytes ns))
      else [])"

fun wire_bytes :: "u32 \<Rightarrow> wire \<Rightarrow> byte list" where
  "wire_bytes v WNil = u32_bytes kNil"
| "wire_bytes v (WLgl xs) = head_bytes kLogical (length xs) @ concat (map u32_bytes xs)"
| "wire_bytes v (WInt xs) = head_bytes kInteger (length xs) @ concat (map u32_bytes xs)"
| "wire_bytes v (WReal xs) = head_bytes kReal (length xs) @ concat (map u64_bytes xs)"
| "wire_bytes v (WStr ss) = head_bytes kString (length ss) @ concat (map str_bytes ss)"
| "wire_bytes v (WList nms ws) =
     head_bytes kList (length ws) @ names_bytes v nms @ concat (map (wire_bytes v) ws)"
| "wire_bytes v (WArray d n w) = u32_bytes kArray @ wire_bytes v d @ wire_bytes v n @ wire_bytes v w"

text \<open>Lengths that fit their fields, and names that match their list.\<close>

fun str_ok :: "byte list option \<Rightarrow> bool" where
  "str_ok None = True"
| "str_ok (Some bs) = (length bs < 2 ^ 31)"

fun wire_ok :: "wire \<Rightarrow> bool" where
  "wire_ok WNil = True"
| "wire_ok (WLgl xs) = (length xs < 2 ^ 32)"
| "wire_ok (WInt xs) = (length xs < 2 ^ 32)"
| "wire_ok (WReal xs) = (length xs < 2 ^ 32)"
| "wire_ok (WStr ss) = (length ss < 2 ^ 32 \<and> list_all str_ok ss)"
| "wire_ok (WList nms ws) =
     (length ws < 2 ^ 32 \<and>
      (case nms of None \<Rightarrow> True | Some ns \<Rightarrow> length ns = length ws \<and> list_all str_ok ns) \<and>
      list_all wire_ok ws)"
| "wire_ok (WArray d n w) = (wire_ok d \<and> wire_ok n \<and> wire_ok w)"

text \<open>What a format version can express.\<close>

fun wire_in :: "u32 \<Rightarrow> wire \<Rightarrow> bool" where
  "wire_in v (WList nms ws) = ((2 \<le> v \<or> nms = None) \<and> list_all (wire_in v) ws)"
| "wire_in v (WArray d n w) = (3 \<le> v \<and> wire_in v d \<and> wire_in v n \<and> wire_in v w)"
| "wire_in v w = True"

lemma wire_in_current: "3 \<le> v \<Longrightarrow> wire_in v w"
  by (induction w) (auto simp: list_all_iff word_le_nat_alt)

section \<open>Abstract syntax of an object\<close>

fun to_wire_str :: "rstring \<Rightarrow> byte list option" where
  "to_wire_str NA_STRING = None"
| "to_wire_str (CHARSXP _ bs) = Some bs"

function to_wire :: "sexp \<Rightarrow> wire option" and to_wire_value :: "sexp \<Rightarrow> wire option" where
  "to_wire x =
     (if Rf_getAttrib x ''dim'' \<noteq> NILSXP then
        (case to_wire (Rf_getAttrib x ''dim'') of
           None \<Rightarrow> None
         | Some d \<Rightarrow>
             (case to_wire (Rf_getAttrib x ''dimnames'') of
                None \<Rightarrow> None
              | Some n \<Rightarrow> map_option (WArray d n) (to_wire_value x)))
      else to_wire_value x)"
| "to_wire_value NILSXP = Some WNil"
| "to_wire_value (LGLSXP xs a) = Some (WLgl xs)"
| "to_wire_value (INTSXP xs a) = Some (WInt xs)"
| "to_wire_value (REALSXP xs a) = Some (WReal xs)"
| "to_wire_value (STRSXP xs a) = Some (WStr (map to_wire_str xs))"
| "to_wire_value (VECSXP xs a) =
     map_option (WList (map_option (map to_wire_str) (real_names (length xs) a)))
       (those (map to_wire xs))"
| "to_wire_value (OTHERSXP n a) = None"
  by pat_completeness auto

termination
  by (relation "measure (case_sum (\<lambda>x. 2 * size x + 1) (\<lambda>x. 2 * size x))")
     (auto simp: Rf_getAttrib_size_step size_in_list less_Suc_eq_le)

declare to_wire.simps [simp del]

section \<open>The writer refines the format\<close>

text \<open>\<open>writes m bs\<close>: when \<open>m\<close> succeeds it has appended \<open>bs\<close>.\<close>

named_theorems writes_intros \<open>what the pieces of the writer append\<close>

definition writes :: "unit writer \<Rightarrow> byte list \<Rightarrow> bool" where
  "writes m bs \<longleftrightarrow> (\<forall>out out'. m out = (Inr (), out') \<longrightarrow> out' = out @ bs)"

lemma writesD: "writes m bs \<Longrightarrow> m out = (Inr (), out') \<Longrightarrow> out' = out @ bs"
  by (simp add: writes_def)

lemma writes_bind [writes_intros]: "writes m a \<Longrightarrow> writes k b \<Longrightarrow> writes (st_bind m (\<lambda>_. k)) (a @ b)"
  by (fastforce simp: writes_def st_bind_Inr_conv)

lemma writes_for [writes_intros]:
  "(\<And>x. x \<in> set xs \<Longrightarrow> writes (f x) (g x)) \<Longrightarrow> writes (st_for f xs) (concat (map g xs))"
proof (induction xs)
  case Nil
  then show ?case by (simp add: writes_def)
next
  case (Cons x xs)
  then show ?case by (simp add: writes_bind)
qed

lemma writes_bytes [writes_intros]:
  "writes (writeBytes env bs) bs" "writes (writeU32 env w) (u32_bytes w)"
  "writes (writeI32 env w) (u32_bytes w)"
  by (auto simp: writes_def writeU32_def writeI32_def writeBytes_def split: if_splits)

lemma writes_head [writes_intros]: "writes (writeHead env tag n) (head_bytes tag n)"
  by (simp add: writeHead_def head_bytes_def writes_intros)

lemma writes_throw [simp]: "writes (st_throw e) bs"
  by (simp add: writes_def)

lemma writes_return: "writes (st_return ()) []"
  by (simp add: writes_def)

lemma take_unat_zero: "\<not> 0 < sint (w :: u32) \<Longrightarrow> \<not> sint w < 0 \<Longrightarrow> take (unat w) bs = []"
  by (metis linorder_neqE_linordered_idom signed_0 signed_word_eqI take0 unat_0)

lemma writes_string [writes_intros]: "writes (writeString env s) (str_bytes (to_wire_str s))"
proof (cases s)
  case NA_STRING
  then show ?thesis by (simp add: writeString_def writes_intros)
next
  case (CHARSXP ce bs)
  let ?len = "of_nat (length bs) :: u32"
  have "writes (if 0 < sint ?len then writeBytes env (take (unat ?len) bs) else st_return ())
      (take (unat ?len) bs)" if "\<not> sint ?len < 0"
  proof (cases "0 < sint ?len")
    case True
    then show ?thesis by (simp add: writes_bytes)
  next
    case False
    with take_unat_zero [OF False that, of bs] show ?thesis
      using writes_return by (simp only: if_False)
  qed
  then show ?thesis
    by (simp add: CHARSXP writeString_def Let_def writes_intros)
qed

lemma writes_names [writes_intros]:
  "writes (writeNames env n a v) (names_bytes v (map_option (map to_wire_str) (real_names n a)))"
proof (cases "real_names n a")
  case None
  then show ?thesis by (simp add: writeNames_def names_bytes_def writes_bytes writes_return)
next
  case (Some nms)
  have "writes (st_for (writeString env) nms) (concat (map (\<lambda>s. str_bytes (to_wire_str s)) nms))"
    by (simp add: writes_intros)
  then have "writes (st_bind (writeU32 env 1) (\<lambda>_. st_for (writeString env) nms))
      (u32_bytes 1 @ concat (map (\<lambda>s. str_bytes (to_wire_str s)) nms))"
    by (intro writes_bind writes_bytes)
  with Some show ?thesis
    by (simp add: writeNames_def names_bytes_def writes_return comp_def)
qed

text \<open>Success of the writer means the object has an abstract syntax, and its bytes were written.\<close>

definition refines :: "u32 \<Rightarrow> unit writer \<Rightarrow> wire option \<Rightarrow> bool" where
  "refines v m w \<longleftrightarrow>
     (case w of None \<Rightarrow> (\<forall>out. fst (m out) \<noteq> Inr ()) | Some w \<Rightarrow> writes m (wire_bytes v w))"

lemma fails_bind:
  "(\<forall>out. fst (m out) \<noteq> Inr ()) \<or> (\<forall>out. fst (k out) \<noteq> Inr ()) \<Longrightarrow>
     fst (st_bind m (\<lambda>_. k) out) \<noteq> Inr ()"
proof (cases "m out")
  case (Pair r s)
  assume "(\<forall>out. fst (m out) \<noteq> Inr ()) \<or> (\<forall>out. fst (k out) \<noteq> Inr ())"
  then have "fst (m out) \<noteq> Inr () \<or> fst (k s) \<noteq> Inr ()" by blast
  with Pair show ?thesis by (cases r) (auto simp: st_bind_def)
qed

lemma refines_for:
  assumes "\<And>x. x \<in> set xs \<Longrightarrow> refines v (f x) (g x)"
  shows "case those (map g xs) of
      None \<Rightarrow> (\<forall>out. fst (st_for f xs out) \<noteq> Inr ())
    | Some ws \<Rightarrow> writes (st_for f xs) (concat (map (wire_bytes v) ws))"
  using assms
proof (induction xs)
  case Nil
  then show ?case by (simp add: writes_return)
next
  case (Cons x xs)
  show ?case
  proof (cases "g x")
    case None
    with Cons.prems [of x] show ?thesis by (simp add: refines_def fails_bind)
  next
    case (Some w)
    with Cons.prems [of x] have w: "writes (f x) (wire_bytes v w)" by (simp add: refines_def)
    show ?thesis
    proof (cases "those (map g xs)")
      case None
      with Cons.IH Cons.prems have "\<forall>out. fst (st_for f xs out) \<noteq> Inr ()" by simp
      with None Some show ?thesis by (simp add: fails_bind)
    next
      case (Some ws)
      with Cons have "writes (st_for f xs) (concat (map (wire_bytes v) ws))" by simp
      with w Some \<open>g x = Some w\<close> show ?thesis by (simp add: writes_bind)
    qed
  qed
qed

lemma writeSEXP_refines:
  shows "refines v (writeSEXP env v x) (to_wire x)"
    and "refines v (writeValue env v x) (to_wire_value x)"
proof (induction env v x and env v x rule: writeSEXP_writeValue.induct)
  case (1 env v x)
  show ?case
  proof (cases "Rf_getAttrib x ''dim'' = NILSXP")
    case True
    with 1 show ?thesis by (simp add: writeSEXP.simps [of env v x] to_wire.simps [of x])
  next
    case False
    note ih = 1(1-3) [OF False]
    show ?thesis
      using ih
      by (auto simp: writeSEXP.simps [of env v x] to_wire.simps [of x] False refines_def fails_bind
          intro!: writes_intros split: option.splits)
  qed
next
  case (7 env v xs a)
  from refines_for [of xs v "writeSEXP env v" to_wire] 7
  show ?case
    by (auto simp: refines_def those_length fails_bind intro!: writes_intros split: option.splits)
qed (auto simp: refines_def comp_def intro!: writes_intros)

section \<open>When the writer succeeds\<close>

text \<open>An operating system that takes every byte.\<close>

definition accepting :: "ostream_env \<Rightarrow> bool" where
  "accepting env \<longleftrightarrow> (\<forall>out data. accepts env out data)"

definition succeeds :: "unit writer \<Rightarrow> bool" where
  "succeeds m \<longleftrightarrow> (\<forall>out. fst (m out) = Inr ())"

named_theorems succeeds_intros \<open>when the pieces of the writer succeed\<close>

lemma succeeds_bind [succeeds_intros]: "succeeds m \<Longrightarrow> succeeds k \<Longrightarrow> succeeds (st_bind m (\<lambda>_. k))"
  unfolding succeeds_def
proof
  fix out
  assume m: "\<forall>out. fst (m out) = Inr ()" and k: "\<forall>out. fst (k out) = Inr ()"
  obtain out' where "m out = (Inr (), out')" using m by (metis prod.collapse)
  with k show "fst (st_bind m (\<lambda>_. k) out) = Inr ()" by (simp add: st_bind_def)
qed

lemma succeeds_bind_return [succeeds_intros]: "succeeds m \<Longrightarrow> succeeds (st_bind m st_return)"
  using succeeds_bind [of m "st_return ()"] by (simp add: succeeds_def st_bind_def split: prod.splits sum.splits)

lemma succeeds_for [succeeds_intros]: "(\<And>x. x \<in> set xs \<Longrightarrow> succeeds (f x)) \<Longrightarrow> succeeds (st_for f xs)"
  by (induction xs) (auto simp: succeeds_bind, simp add: succeeds_def)

lemma succeeds_return [succeeds_intros]: "succeeds (st_return ())"
  by (simp add: succeeds_def)

lemma succeeds_bytes [succeeds_intros]:
  "accepting env \<Longrightarrow> succeeds (writeBytes env bs)" "accepting env \<Longrightarrow> succeeds (writeU32 env w)"
  "accepting env \<Longrightarrow> succeeds (writeI32 env w)" "accepting env \<Longrightarrow> succeeds (writeHead env tag n)"
  by (auto simp: succeeds_def accepting_def writeU32_def writeI32_def writeHead_def writeBytes_def st_bind_def)

lemma unat_of_nat32: "n < 2 ^ 32 \<Longrightarrow> unat (of_nat n :: u32) = n"
  by (simp add: unsigned_of_nat take_bit_nat_eq_self)

lemma sint_of_nat32: "n < 2 ^ 31 \<Longrightarrow> sint (of_nat n :: u32) = int n"
  by (simp add: signed_of_nat signed_take_bit_int_eq_self)

lemma succeeds_string [succeeds_intros]:
  "accepting env \<Longrightarrow> str_ok (to_wire_str s) \<Longrightarrow> succeeds (writeString env s)"
  by (cases s) (auto simp: writeString_def Let_def sint_of_nat32 intro!: succeeds_intros)

lemma succeeds_names [succeeds_intros]:
  "accepting env \<Longrightarrow>
     (\<And>ns. real_names n a = Some ns \<Longrightarrow> list_all str_ok (map to_wire_str ns)) \<Longrightarrow>
     succeeds (writeNames env n a v)"
  by (auto simp: writeNames_def list_all_iff intro!: succeeds_intros split: option.splits)

lemma writeSEXP_succeeds:
  shows "accepting env \<Longrightarrow> to_wire x = Some w \<Longrightarrow> wire_ok w \<Longrightarrow> succeeds (writeSEXP env v x)"
    and "accepting env \<Longrightarrow> to_wire_value x = Some w \<Longrightarrow> wire_ok w \<Longrightarrow> succeeds (writeValue env v x)"
proof (induction env v x and env v x arbitrary: w and w rule: writeSEXP_writeValue.induct)
  case (1 env v x)
  then show ?case
    by (auto simp: writeSEXP.simps [of env v x] to_wire.simps [of x]
        intro!: succeeds_intros split: option.splits if_splits)
next
  case (7 env v xs a)
  then obtain ws where ws: "those (map to_wire xs) = Some ws"
    and w: "w = WList (map_option (map to_wire_str) (real_names (length xs) a)) ws"
    by (auto simp: comp_def)
  then have "map to_wire xs = map Some ws" by (simp add: those_conv)
  then have "succeeds (writeSEXP env v x)" if "x \<in> set xs" for x
    using 7 w that by (metis (no_types, lifting) wire_ok.simps(6) list.set_map list_all_iff image_iff)
  with 7 w those_length [OF ws] show ?case
    by (auto simp: comp_def intro!: succeeds_intros)
qed (auto simp: list_all_iff intro!: succeeds_intros)

text \<open>The writer on a stream that takes every byte.\<close>

lemma writeSEXP_delivers:
  assumes "accepting env" "to_wire x = Some w" "wire_ok w"
  shows "writeSEXP env v x out = (Inr (), out @ wire_bytes v w)"
proof -
  have "fst (writeSEXP env v x out) = Inr ()"
    using writeSEXP_succeeds(1) [OF assms] by (simp add: succeeds_def)
  then obtain out' where "writeSEXP env v x out = (Inr (), out')" by (metis prod.collapse)
  with writeSEXP_refines(1) [of v env x] assms(2) show ?thesis
    by (auto simp: refines_def dest: writesD)
qed

section \<open>Rebuilding the object\<close>

fun build_str :: "r_api \<Rightarrow> byte list option \<Rightarrow> rstring res" where
  "build_str api None = Inr NA_STRING"
| "build_str api (Some bs) = mkCharLen api bs"

definition build_names :: "r_api \<Rightarrow> byte list option list option \<Rightarrow> nat \<Rightarrow> sexp res" where
  "build_names api nms n =
     (case nms of
        None \<Rightarrow> Inr (VECSXP (replicate n NILSXP) [])
      | Some ns \<Rightarrow>
          res_bind (res_map (build_str api) ns)
            (\<lambda>ss. setAttrib api (VECSXP (replicate n NILSXP) []) ''names'' (STRSXP ss [])))"

fun build :: "r_api \<Rightarrow> wire \<Rightarrow> sexp res" where
  "build api WNil = Inr NILSXP"
| "build api (WLgl xs) = Inr (LGLSXP xs [])"
| "build api (WInt xs) = Inr (INTSXP xs [])"
| "build api (WReal xs) = Inr (REALSXP xs [])"
| "build api (WStr ss) = res_bind (res_map (build_str api) ss) (\<lambda>xs. Inr (STRSXP xs []))"
| "build api (WList nms ws) =
     res_bind (build_names api nms (length ws))
       (\<lambda>l. res_bind (res_map (build api) ws) (\<lambda>xs. Inr (with_elements l xs)))"
| "build api (WArray d n w) =
     res_bind (build api d) (\<lambda>d'. res_bind (build api n) (\<lambda>n'. res_bind (build api w) (\<lambda>x.
     res_bind (setAttrib api x ''dim'' d') (\<lambda>x'. setAttrib api x' ''dimnames'' n'))))"

text \<open>Vectors allocated, and frames of recursion, for an object.\<close>

fun nodes :: "wire \<Rightarrow> nat" where
  "nodes WNil = 0"
| "nodes (WList nms ws) = Suc (sum_list (map nodes ws))"
| "nodes (WArray d n w) = nodes d + nodes n + nodes w"
| "nodes w = 1"

fun wire_depth :: "wire \<Rightarrow> nat" where
  "wire_depth (WList nms ws) = Suc (fold max (map wire_depth ws) 0)"
| "wire_depth (WArray d n w) = Suc (max (wire_depth d) (max (wire_depth n) (wire_depth w)))"
| "wire_depth w = 1"

section \<open>The reader accepts what the format describes\<close>

definition ample :: "r_api \<Rightarrow> bool" where
  "ample api \<longleftrightarrow> (\<forall>n < 2 ^ 32. can_alloc api n)"

text \<open>
  \<open>reads api m bs a n\<close>: on input starting with \<open>bs\<close>, \<open>m\<close> consumes exactly \<open>bs\<close>, returns \<open>a\<close>
  and leaves \<open>n\<close> more objects protected, when the protection stack has room for one more.
\<close>

named_theorems reads_intros \<open>what the pieces of the reader do on the bytes of the writer\<close>

definition reads :: "r_api \<Rightarrow> 'a reader \<Rightarrow> byte list \<Rightarrow> 'a \<Rightarrow> nat \<Rightarrow> bool" where
  "reads api m bs a n \<longleftrightarrow>
     (\<forall>r p c. p + n < pp_limit api \<longrightarrow>
        m \<lparr>rest = bs @ r, pp_stack = p, protect_count = c\<rparr>
          = (Inr a, \<lparr>rest = r, pp_stack = p + n, protect_count = c + n\<rparr>))"

lemma readsD:
  "reads api m bs a n \<Longrightarrow> p + n < pp_limit api \<Longrightarrow>
     m \<lparr>rest = bs @ r, pp_stack = p, protect_count = c\<rparr>
       = (Inr a, \<lparr>rest = r, pp_stack = p + n, protect_count = c + n\<rparr>)"
  by (simp add: reads_def)

lemma reads_bind:
  assumes "reads api m b1 a1 n1" "reads api (k a1) b2 a2 n2"
  shows "reads api (st_bind m k) (b1 @ b2) a2 (n1 + n2)"
  unfolding reads_def
proof (intro allI impI)
  fix r p c assume lim: "p + (n1 + n2) < pp_limit api"
  from readsD [OF assms(1), of p "b2 @ r" c] lim
  have "m \<lparr>rest = (b1 @ b2) @ r, pp_stack = p, protect_count = c\<rparr>
      = (Inr a1, \<lparr>rest = b2 @ r, pp_stack = p + n1, protect_count = c + n1\<rparr>)" by simp
  moreover from readsD [OF assms(2), of "p + n1" r "c + n1"] lim
  have "k a1 \<lparr>rest = b2 @ r, pp_stack = p + n1, protect_count = c + n1\<rparr>
      = (Inr a2, \<lparr>rest = r, pp_stack = p + (n1 + n2), protect_count = c + (n1 + n2)\<rparr>)"
    by (simp add: add.assoc)
  ultimately show "st_bind m k \<lparr>rest = (b1 @ b2) @ r, pp_stack = p, protect_count = c\<rparr>
      = (Inr a2, \<lparr>rest = r, pp_stack = p + (n1 + n2), protect_count = c + (n1 + n2)\<rparr>)"
    by (rule st_bind_Inr [THEN trans])
qed

text \<open>The two shapes of sequencing that occur: with and without input to consume.\<close>

lemma reads_step:
  "reads api m b1 a1 n1 \<Longrightarrow> reads api (k a1) b2 a2 n2 \<Longrightarrow> bs = b1 @ b2 \<Longrightarrow> n = n1 + n2 \<Longrightarrow>
     reads api (st_bind m k) bs a2 n"
  by (simp add: reads_bind)

lemma reads_return: "reads api (st_return a) [] a 0"
  by (simp add: reads_def)

lemma reads_pair: "reads api (Pair (Inr a)) [] a 0"
  by (simp add: reads_def)

lemma reads_lift: "r = Inr a \<Longrightarrow> reads api (st_lift r) [] a 0"
  by (simp add: reads_def)

lemma reads_bytes: "length bs = n \<Longrightarrow> reads api (readBytes n) bs bs 0"
  by (auto simp: reads_def readBytes_def)

lemma reads_word: "reads api readU32 (u32_bytes w) w 0" "reads api readI32 (u32_bytes w) w 0"
  unfolding readU32_def readI32_def
  by (rule reads_step [OF reads_bytes [where bs = "u32_bytes w"]]; simp add: reads_def)+

lemma reads_alloc: "can_alloc api n \<Longrightarrow> reads api (alloc_protect api n) [] () 1"
  by (simp add: reads_def alloc_protect_def PROTECT_def st_bind_def)

lemma reads_repeat:
  "list_all2 (\<lambda>x y. reads api m (enc x) y (cnt x)) xs ys \<Longrightarrow> n = length xs \<Longrightarrow>
     reads api (st_repeat n m) (concat (map enc xs)) ys (sum_list (map cnt xs))"
proof (induction xs ys arbitrary: n rule: list_all2_induct)
  case Nil
  then show ?case by (simp add: reads_def)
next
  case (Cons x xs y ys)
  have "reads api (st_repeat (Suc (length xs)) m) (enc x @ concat (map enc xs) @ []) (y # ys)
      (cnt x + (sum_list (map cnt xs) + 0))"
    unfolding st_repeat.simps
    by (rule reads_step [OF Cons(1)], rule reads_step [OF Cons(3) [OF refl]], rule reads_return) auto
  with Cons show ?case by simp
qed

lemma reads_repeat0:
  "list_all2 (\<lambda>x y. reads api m (enc x) y 0) xs ys \<Longrightarrow> n = length xs \<Longrightarrow>
     reads api (st_repeat n m) (concat (map enc xs)) ys 0"
  using reads_repeat [of api m enc "\<lambda>_. 0" xs ys n] by (simp add: sum_list_triv)

lemma of_nat32_neg1: "n < 2 ^ 31 \<Longrightarrow> (of_nat n :: u32) \<noteq> - 1"
  using sint_of_nat32 [of n] by (metis of_nat_0_le_iff sint_n1 neg_0_le_iff_le not_one_le_zero)

lemma reads_string:
  assumes "str_ok s" "build_str api s = Inr x"
  shows "reads api' (readString api) (str_bytes s) x 0"
proof (cases s)
  case None
  with assms show ?thesis
    unfolding readString_def
    by (intro reads_step [OF reads_word(2) [of api' "- 1"]]) (auto simp: reads_def)
next
  case (Some bs)
  let ?len = "of_nat (length bs) :: u32"
  have len: "length bs < 2 ^ 31" "unat ?len = length bs" "sint ?len = int (length bs)" "?len \<noteq> - 1"
    using assms(1) Some by (simp_all add: unat_of_nat32 sint_of_nat32 of_nat32_neg1)
  have body: "reads api' (if 0 < sint ?len then readBytes (unat ?len) else st_return []) bs bs 0"
    using len by (auto simp: reads_bytes reads_return)
  have "reads api' (st_bind (if 0 < sint ?len then readBytes (unat ?len) else st_return [])
      (\<lambda>buffer. st_lift (mkCharLen api buffer))) bs x 0"
    by (rule reads_step [OF body reads_lift]) (use assms(2) Some in auto)
  then show ?thesis
    unfolding readString_def
    by (intro reads_step [OF reads_word(2) [of api' ?len]]) (use Some len in \<open>auto simp: Let_def\<close>)
qed

lemma reads_strings:
  assumes "list_all str_ok ss" "res_map (build_str api) ss = Inr xs" "n = length ss"
  shows "reads api' (st_repeat n (readString api)) (concat (map str_bytes ss)) xs 0"
proof (rule reads_repeat0)
  show "list_all2 (\<lambda>x y. reads api' (readString api) (str_bytes x) y 0) ss xs"
    using assms by (auto simp: res_map_Inr_conv list_all_iff list_all2_conv_all_nth intro!: reads_string)
qed (use assms in simp)

lemma u64s_of_bytes_concat:
  "u64s_of_bytes (length xs) (concat (map u64_bytes xs)) = xs"
  by (induction xs) auto

lemma length_concat_u64_bytes: "length (concat (map u64_bytes xs)) = 8 * length xs"
  by (induction xs) auto

lemma reads_ints:
  "n = length xs \<Longrightarrow> reads api (st_repeat n readI32) (concat (map u32_bytes xs)) xs 0"
  by (rule reads_repeat0) (simp_all add: list_all2_refl reads_word)

lemma reads_doubles:
  "n = length xs \<Longrightarrow> reads api (readBytes (8 * n)) (concat (map u64_bytes xs)) (concat (map u64_bytes xs)) 0"
  by (rule reads_bytes) (simp add: length_concat_u64_bytes)

text \<open>The length word of a vector, allocation and protection.\<close>

lemma reads_vector:
  assumes "ample api" "n < 2 ^ 32" "reads api (k (of_nat n) ()) bs a c"
  shows "reads api (st_bind readU32 (\<lambda>len. st_bind (alloc_protect api (unat len)) (k len)))
           (u32_bytes (of_nat n) @ bs) a (Suc c)"
proof (rule reads_step [OF reads_word(1)])
  show "reads api (st_bind (alloc_protect api (unat (of_nat n :: u32))) (k (of_nat n))) bs a (Suc c)"
    by (rule reads_step [where k = "k (of_nat n)", OF reads_alloc assms(3)])
       (use assms unat_of_nat32 [OF assms(2)] in \<open>auto simp: ample_def\<close>)
qed simp_all

text \<open>The names of a list: the temporary protection of the name vector cancels out.\<close>

lemma reads_list_names:
  assumes "ample api" "n < 2 ^ 32" "2 \<le> v \<or> nms = None"
    and "\<And>ns. nms = Some ns \<Longrightarrow> length ns = n \<and> list_all str_ok ns"
    and "build_names api nms n = Inr l"
  shows "reads api (readListNames api v n) (names_bytes v nms) l 0"
proof (cases "2 \<le> v")
  case False
  with assms show ?thesis
    by (simp add: readListNames_def names_bytes_def build_names_def reads_return)
next
  case v: True
  show ?thesis
  proof (cases nms)
    case None
    with v assms show ?thesis
      unfolding readListNames_def
      by (auto simp: names_bytes_def build_names_def Let_def reads_pair reads_return
          intro!: reads_step [OF reads_word(1) [of api 0]])
  next
    case (Some ns)
    with assms have len: "length ns = n" "list_all str_ok ns" by simp_all
    obtain ss where ss: "res_map (build_str api) ns = Inr ss"
      and l: "setAttrib api (VECSXP (replicate n NILSXP) []) ''names'' (STRSXP ss []) = Inr l"
      using assms(5) Some by (auto simp: build_names_def res_bind_Inr_conv)
    let ?set = "st_lift (setAttrib api (VECSXP (replicate n NILSXP) []) ''names'' (STRSXP ss []))"
    let ?k = "\<lambda>_. st_bind (st_repeat n (readString api)) (\<lambda>nms.
        st_bind (st_lift (setAttrib api (VECSXP (replicate n NILSXP) []) ''names'' (STRSXP nms [])))
          (\<lambda>list'. st_bind unprotect_one (\<lambda>_. st_return list')))"
    have strs: "reads api' (st_repeat n (readString api)) (concat (map str_bytes ns)) ss 0" for api'
      using len ss by (intro reads_strings) simp_all
    have block: "reads api (st_bind (alloc_protect api n) ?k) (concat (map str_bytes ns)) l 0"
      unfolding reads_def
    proof (intro allI impI)
      fix r p c assume lim: "p + 0 < pp_limit api"
      let ?s = "\<lambda>bs d. \<lparr>rest = bs @ r, pp_stack = p + d, protect_count = c + d\<rparr>"
      have "alloc_protect api n (?s (concat (map str_bytes ns)) 0) = (Inr (), ?s (concat (map str_bytes ns)) 1)"
        using assms(1,2) lim by (simp add: ample_def alloc_protect_def PROTECT_def st_bind_def)
      moreover have "st_repeat n (readString api) (?s (concat (map str_bytes ns)) 1) = (Inr ss, ?s [] 1)"
        using readsD [OF strs [of "reference_api (p + 2)"], of "p + 1" r "c + 1"]
        by (simp add: reference_api_def)
      ultimately show "st_bind (alloc_protect api n) ?k
            \<lparr>rest = concat (map str_bytes ns) @ r, pp_stack = p, protect_count = c\<rparr>
          = (Inr l, \<lparr>rest = r, pp_stack = p + 0, protect_count = c + 0\<rparr>)"
        by (simp add: st_bind_def l unprotect_one_def)
    qed
    show ?thesis
      unfolding readListNames_def using v Some block
      by (auto simp: names_bytes_def Let_def word_less_nat_alt intro!: reads_step [OF reads_word(1) [of api 1]])
  qed
qed

lemma fold_max_le: "fold max ds (m :: nat) \<le> k \<longleftrightarrow> m \<le> k \<and> (\<forall>d \<in> set ds. d \<le> k)"
  by (induction ds arbitrary: m) auto

text \<open>Dispatch on the tag word.\<close>

lemma reads_tag:
  assumes "depth = Suc d"
    and "reads api (readTagged api v (readSEXP api v d) tag) bs x n" "b = u32_bytes tag @ bs"
  shows "reads api (readSEXP api v depth) b x n"
  unfolding assms(1,3) readSEXP.simps
  by (rule reads_step [where k = "readTagged api v (readSEXP api v d)", OF reads_word(1) assms(2)]) auto

lemma readSEXP_reads:
  "ample api \<Longrightarrow> wire_ok w \<Longrightarrow> wire_in v w \<Longrightarrow> build api w = Inr x \<Longrightarrow> wire_depth w \<le> depth \<Longrightarrow>
     reads api (readSEXP api v depth) (wire_bytes v w) x (nodes w)"
proof (induction w arbitrary: depth x)
  case WNil
  then obtain d where "depth = Suc d" by (cases depth) auto
  with WNil show ?case
    by (intro reads_tag [where tag = kNil]) (auto simp: readTagged_simps reads_return reads_pair)
next
  case (WLgl xs)
  then obtain d where d: "depth = Suc d" by (cases depth) auto
  have "reads api (st_bind (st_repeat (length xs) readI32) (\<lambda>data. st_return (LGLSXP data [])))
      (concat (map u32_bytes xs)) x 0"
    using WLgl by (intro reads_step [OF reads_ints]) (auto simp: reads_return reads_pair)
  with WLgl show ?case
    by (intro reads_tag [where tag = kLogical, OF d])
       (auto simp: readTagged_simps head_bytes_def unat_of_nat32 intro!: reads_vector [where n = "length xs"])
next
  case (WInt xs)
  then obtain d where d: "depth = Suc d" by (cases depth) auto
  have "reads api (st_bind (st_repeat (length xs) readI32) (\<lambda>data. st_return (INTSXP data [])))
      (concat (map u32_bytes xs)) x 0"
    using WInt by (intro reads_step [OF reads_ints]) (auto simp: reads_return reads_pair)
  with WInt show ?case
    by (intro reads_tag [where tag = kInteger, OF d])
       (auto simp: readTagged_simps head_bytes_def unat_of_nat32 intro!: reads_vector [where n = "length xs"])
next
  case (WReal xs)
  then obtain d where d: "depth = Suc d" by (cases depth) auto
  have "reads api (st_bind (readBytes (8 * length xs)) (\<lambda>bs. st_return (REALSXP (u64s_of_bytes (length xs) bs) [])))
      (concat (map u64_bytes xs)) x 0"
    using WReal
    by (intro reads_step [OF reads_doubles]) (auto simp: reads_return reads_pair u64s_of_bytes_concat)
  with WReal show ?case
    by (intro reads_tag [where tag = kReal, OF d])
       (auto simp: readTagged_simps head_bytes_def unat_of_nat32 intro!: reads_vector [where n = "length xs"])
next
  case (WStr ss)
  then obtain d where d: "depth = Suc d" by (cases depth) auto
  from WStr obtain xs where xs: "res_map (build_str api) ss = Inr xs" "x = STRSXP xs []"
    by (auto simp: res_bind_Inr_conv)
  have "reads api (st_bind (st_repeat (length ss) (readString api)) (\<lambda>strs. st_return (STRSXP strs [])))
      (concat (map str_bytes ss)) x 0"
    using WStr xs by (intro reads_step [OF reads_strings]) (auto simp: reads_return reads_pair)
  with WStr show ?case
    by (intro reads_tag [where tag = kString, OF d])
       (auto simp: readTagged_simps head_bytes_def unat_of_nat32 intro!: reads_vector [where n = "length ss"])
next
  case (WList nms ws)
  then obtain d where d: "depth = Suc d" by (cases depth) auto
  from WList obtain l xs where l: "build_names api nms (length ws) = Inr l"
    and xs: "res_map (build api) ws = Inr xs" and x: "x = with_elements l xs"
    by (auto simp: res_bind_Inr_conv)
  have "list_all2 (\<lambda>w y. reads api (readSEXP api v d) (wire_bytes v w) y (nodes w)) ws xs"
    unfolding list_all2_conv_all_nth
  proof (intro conjI allI impI)
    show "length ws = length xs" using xs by (simp add: res_map_length)
    fix i assume i: "i < length ws"
    with xs have "build api (ws ! i) = Inr (xs ! i)"
      by (auto simp: res_map_Inr_conv list_all2_conv_all_nth)
    moreover have "wire_depth (ws ! i) \<le> d"
      using WList.prems(5) d i by (auto simp: fold_max_le)
    ultimately show "reads api (readSEXP api v d) (wire_bytes v (ws ! i)) (xs ! i) (nodes (ws ! i))"
      using WList i by (auto simp: list_all_iff)
  qed
  then have elems: "reads api (st_repeat (length ws) (readSEXP api v d))
      (concat (map (wire_bytes v) ws)) xs (sum_list (map nodes ws))"
    by (rule reads_repeat) simp
  have names: "reads api (readListNames api v (length ws)) (names_bytes v nms) l 0"
    using WList l by (intro reads_list_names) auto
  have "reads api (st_bind (readListNames api v (length ws)) (\<lambda>list.
      st_bind (st_repeat (length ws) (readSEXP api v d)) (\<lambda>elements. st_return (with_elements list elements))))
      (names_bytes v nms @ concat (map (wire_bytes v) ws)) x (sum_list (map nodes ws))"
    by (rule reads_step [OF names], rule reads_step [OF elems]) (auto simp: x reads_return reads_pair)
  with WList show ?case
    by (intro reads_tag [where tag = kList, OF d])
       (auto simp: readTagged_simps head_bytes_def unat_of_nat32 intro!: reads_vector [where n = "length ws"])
next
  case (WArray dw nw w)
  then obtain d where d: "depth = Suc d" by (cases depth) auto
  from WArray obtain dv nv y y' where b: "build api dw = Inr dv" "build api nw = Inr nv" "build api w = Inr y"
      "setAttrib api y ''dim'' dv = Inr y'" "setAttrib api y' ''dimnames'' nv = Inr x"
    by (auto simp: res_bind_Inr_conv)
  have r: "reads api (readSEXP api v d) (wire_bytes v dw) dv (nodes dw)"
      "reads api (readSEXP api v d) (wire_bytes v nw) nv (nodes nw)"
      "reads api (readSEXP api v d) (wire_bytes v w) y (nodes w)"
    using WArray b d by auto
  let ?k3 = "\<lambda>dims dimnames value. st_bind (st_lift (setAttrib api value ''dim'' dims))
      (\<lambda>value'. st_lift (setAttrib api value' ''dimnames'' dimnames))"
  let ?k2 = "\<lambda>dims dimnames. st_bind (readSEXP api v d) (?k3 dims dimnames)"
  let ?k1 = "\<lambda>dims. st_bind (readSEXP api v d) (?k2 dims)"
  have "reads api (?k3 dv nv y) [] x 0"
    by (simp add: reads_def st_bind_def b)
  from reads_bind [where k = "?k3 dv nv", OF r(3) this]
  have "reads api (?k2 dv nv) (wire_bytes v w) x (nodes w)" by simp
  from reads_bind [where k = "?k2 dv", OF r(2) this]
  have "reads api (?k1 dv) (wire_bytes v nw @ wire_bytes v w) x (nodes nw + nodes w)" .
  from reads_bind [where k = ?k1, OF r(1) this]
  have "reads api (readTagged api v (readSEXP api v d) kArray)
      (wire_bytes v dw @ wire_bytes v nw @ wire_bytes v w) x (nodes dw + (nodes nw + nodes w))"
    using WArray.prems(3) by (simp add: readTagged_simps not_less [symmetric])
  then show ?case
    by (intro reads_tag [where tag = kArray, OF d]) (auto simp: add.assoc)
qed

end
