(* ===== verification/Serialization_Sound.thy ===== *)
theory Serialization_Sound
  imports Serialization_Laws
begin

text \<open>
  The other half of the correspondence: whatever \<^verbatim>\<open>readSEXP\<close> accepts is the concrete syntax
  of some \<open>wire\<close>, of which it returned the object, and it protected exactly the vectors it
  counted. With prefix-freeness of the concrete syntax this gives the rejection of every
  truncated file and the determinism of the format.
\<close>

section \<open>What a successful read consumed\<close>

text \<open>From \<open>s\<close> to \<open>s'\<close> the bytes \<open>bs\<close> were consumed and \<open>n\<close> objects protected and counted.\<close>

definition moved :: "rdst \<Rightarrow> byte list \<Rightarrow> nat \<Rightarrow> rdst \<Rightarrow> bool" where
  "moved s bs n s' \<longleftrightarrow>
     rest s = bs @ rest s' \<and> pp_stack s' = pp_stack s + n \<and> protect_count s' = protect_count s + n"

lemma moved_trans: "moved s a m t \<Longrightarrow> moved t b n u \<Longrightarrow> moved s (a @ b) (m + n) u"
  by (simp add: moved_def)

lemma moved_refl: "moved s [] 0 s"
  by (simp add: moved_def)

lemma readBytes_moved: "readBytes n s = (Inr bs, s') \<Longrightarrow> moved s bs 0 s' \<and> length bs = n"
  by (auto simp: readBytes_def moved_def split: if_splits)

lemma readU32_moved: "readU32 s = (Inr w, s') \<Longrightarrow> moved s (u32_bytes w) 0 s'"
  by (auto simp: readU32_def st_bind_Inr_conv u32_bytes_u32_of_bytes dest: readBytes_moved)

lemma readI32_moved: "readI32 s = (Inr w, s') \<Longrightarrow> moved s (u32_bytes w) 0 s'"
  using readU32_moved [of s w s'] by (simp add: readU32_def readI32_def)

lemma alloc_protect_moved: "alloc_protect api n s = (Inr u, s') \<Longrightarrow> moved s [] 1 s'"
  by (auto simp: alloc_protect_def PROTECT_def moved_def st_bind_Inr_conv split: if_splits)

lemma unat_nonneg_sint: "0 \<le> sint (w :: u32) \<Longrightarrow> unat w < 2 ^ 31"
proof -
  assume nn: "0 \<le> sint w"
  have lt: "sint w < 2 ^ 31" using sint_lt [of w] by simp
  with nn have "take_bit 32 (sint w) = sint w" by (intro take_bit_int_eq_self) auto
  then have "uint w = sint w" by (simp add: uint_sint)
  with lt show ?thesis by (simp add: unat_eq_nat_uint)
qed

lemma readString_moved:
  assumes "readString api s = (Inr x, s')"
  shows "\<exists>t. str_ok t \<and> build_str api t = Inr x \<and> moved s (str_bytes t) 0 s'"
proof -
  from assms obtain len s1 where len: "readI32 s = (Inr len, s1)"
    and cont: "(if len = - 1 then st_return NA_STRING
       else if sint len < 0 then st_throw (Std_exception ''Invalid serialized string length'')
       else st_bind (if 0 < sint len then readBytes (unat len) else st_return [])
              (\<lambda>buffer. st_lift (mkCharLen api buffer))) s1 = (Inr x, s')"
    by (auto simp: readString_def st_bind_Inr_conv)
  note m = readI32_moved [OF len]
  show ?thesis
  proof (cases "len = - 1")
    case True
    with cont m show ?thesis by (intro exI [of _ None]) auto
  next
    case False
    with cont have nonneg: "0 \<le> sint len" by (auto split: if_splits)
    with False cont obtain bs s2 where
      bs: "(if 0 < sint len then readBytes (unat len) else st_return []) s1 = (Inr bs, s2)"
      and x: "mkCharLen api bs = Inr x" "s' = s2"
      by (auto simp: st_bind_Inr_conv)
    have "moved s1 bs 0 s2 \<and> length bs = unat len"
    proof (cases "0 < sint len")
      case True
      with bs show ?thesis by (simp add: readBytes_moved)
    next
      case F: False
      with nonneg have "sint len = 0" by simp
      then have "len = 0" by (simp add: signed_eq_0_iff)
      with F bs show ?thesis by (auto simp: moved_refl)
    qed
    with m x have "moved s (u32_bytes len @ bs) 0 s'" "length bs = unat len"
      by (auto dest: moved_trans)
    with x unat_nonneg_sint [OF nonneg] show ?thesis
      by (intro exI [of _ "Some bs"]) (auto simp: Let_def)
  qed
qed

lemma repeat_moved:
  assumes "\<And>s a s'. m s = (Inr a, s') \<Longrightarrow> \<exists>w. P w a \<and> moved s (enc w) (cnt w) s'"
    and "st_repeat n m s = (Inr as, s')"
  shows "\<exists>ws. length ws = n \<and> list_all2 P ws as \<and> moved s (concat (map enc ws)) (sum_list (map cnt ws)) s'"
  using assms(2)
proof (induction n arbitrary: s as)
  case 0
  then show ?case by (auto intro: moved_refl)
next
  case (Suc n)
  then obtain a s1 as' where a: "m s = (Inr a, s1)" and as': "st_repeat n m s1 = (Inr as', s')" "as = a # as'"
    by (auto simp: st_bind_Inr_conv)
  from assms(1) [OF a] obtain w where w: "P w a" "moved s (enc w) (cnt w) s1" by blast
  from Suc.IH [OF as'(1)] obtain ws where "length ws = n" "list_all2 P ws as'"
    "moved s1 (concat (map enc ws)) (sum_list (map cnt ws)) s'" by blast
  with w as' show ?case
    by (intro exI [of _ "w # ws"]) (auto intro: moved_trans)
qed

lemma strings_moved:
  assumes "st_repeat n (readString api) s = (Inr xs, s')"
  shows "\<exists>ss. length ss = n \<and> list_all str_ok ss \<and> res_map (build_str api) ss = Inr xs
           \<and> moved s (concat (map str_bytes ss)) 0 s'"
proof -
  have "\<exists>w. (str_ok w \<and> build_str api w = Inr a) \<and> moved s (str_bytes w) 0 s'"
    if "readString api s = (Inr a, s')" for s a s'
    using readString_moved [OF that] by blast
  from repeat_moved [where cnt = "\<lambda>_. 0" and enc = str_bytes and
      P = "\<lambda>w a. str_ok w \<and> build_str api w = Inr a", OF this assms] show ?thesis
    by (auto simp: res_map_Inr_conv list_all2_conv_all_nth list_all_length sum_list_triv)
qed

lemma ints_moved:
  assumes "st_repeat n readI32 s = (Inr xs, s')"
  shows "length xs = n \<and> moved s (concat (map u32_bytes xs)) 0 s'"
proof -
  have "\<exists>w. w = a \<and> moved s (u32_bytes w) 0 s'" if "readI32 s = (Inr a, s')" for s a s'
    using readI32_moved [OF that] by blast
  from repeat_moved [where cnt = "\<lambda>_. 0" and enc = u32_bytes and P = "\<lambda>w a. w = a", OF this assms] show ?thesis
    by (auto simp: list.rel_eq sum_list_triv)
qed

lemma doubles_of_bytes:
  "length bs = 8 * n \<Longrightarrow> concat (map u64_bytes (u64s_of_bytes n bs)) = bs \<and> length (u64s_of_bytes n bs) = n"
proof (induction n arbitrary: bs)
  case 0
  then show ?case by simp
next
  case (Suc n)
  have "length (take 8 bs) = 8" "length (drop 8 bs) = 8 * n" using Suc.prems by simp_all
  with Suc.IH [of "drop 8 bs"] u64_bytes_u64_of_bytes [of "take 8 bs"] show ?case by simp
qed

lemma list_names_moved:
  assumes "readListNames api v n s = (Inr l, s')"
  shows "\<exists>nms. (2 \<le> v \<or> nms = None) \<and> (\<forall>ns. nms = Some ns \<longrightarrow> length ns = n \<and> list_all str_ok ns)
           \<and> build_names api nms n = Inr l \<and> moved s (names_bytes v nms) 0 s'"
proof (cases "2 \<le> v")
  case False
  with assms show ?thesis
    by (intro exI [of _ None]) (auto simp: readListNames_def build_names_def names_bytes_def moved_refl)
next
  case v: True
  with assms obtain flag s1 where flag: "readU32 s = (Inr flag, s1)"
    and cont: "(if 1 < flag then st_throw (Std_exception ''Invalid list name flag in serialized data'')
       else if flag \<noteq> 0 then
         st_bind (alloc_protect api n) (\<lambda>_.
         st_bind (st_repeat n (readString api)) (\<lambda>nms.
         st_bind (st_lift (setAttrib api (VECSXP (replicate n NILSXP) []) ''names'' (STRSXP nms [])))
           (\<lambda>list'. st_bind unprotect_one (\<lambda>_. st_return list'))))
       else st_return (VECSXP (replicate n NILSXP) [])) s1 = (Inr l, s')"
    by (auto simp: readListNames_def Let_def st_bind_Inr_conv)
  note m = readU32_moved [OF flag]
  show ?thesis
  proof (cases "flag = 0")
    case True
    with cont m v show ?thesis
      by (intro exI [of _ None]) (auto simp: build_names_def names_bytes_def)
  next
    case False
    from cont have "\<not> 1 < flag" by (auto split: if_splits)
    moreover have "unat flag \<noteq> 0" using False by (simp add: unat_eq_zero)
    ultimately have "unat flag = unat (1 :: u32)" by (simp add: word_less_nat_alt)
    then have flag1: "flag = 1" by (simp only: word_unat_eq_iff)
    with cont obtain s2 ss s3 where s2: "alloc_protect api n s1 = (Inr (), s2)"
      and s3: "st_repeat n (readString api) s2 = (Inr ss, s3)"
      and l: "setAttrib api (VECSXP (replicate n NILSXP) []) ''names'' (STRSXP ss []) = Inr l"
      and s': "s' = s3\<lparr>pp_stack := pp_stack s3 - 1, protect_count := protect_count s3 - 1\<rparr>"
      by (auto simp: st_bind_Inr_conv unprotect_one_def)
    from strings_moved [OF s3] obtain ns where ns: "length ns = n" "list_all str_ok ns"
      "res_map (build_str api) ns = Inr ss" "moved s2 (concat (map str_bytes ns)) 0 s3" by blast
    have "moved s (u32_bytes 1 @ concat (map str_bytes ns)) 0 s'"
      using m alloc_protect_moved [OF s2] ns(4) by (simp add: moved_def s' flag1)
    with ns l v show ?thesis
      by (intro exI [of _ "Some ns"]) (auto simp: build_names_def names_bytes_def)
  qed
qed

section \<open>The reader accepts nothing else\<close>

lemma vector_moved:
  assumes "st_bind readU32 (\<lambda>len. st_bind (alloc_protect api (unat len)) (\<lambda>_. k (unat len))) s = (Inr x, s')"
  obtains n t where "n < 2 ^ 32" "moved s (u32_bytes (of_nat n)) 1 t" "k n t = (Inr x, s')"
proof -
  from assms obtain len s1 s2 where "readU32 s = (Inr len, s1)" "alloc_protect api (unat len) s1 = (Inr (), s2)"
    and k: "k (unat len) s2 = (Inr x, s')" by (auto simp: st_bind_Inr_conv)
  then have "moved s (u32_bytes len) 1 s2"
    using readU32_moved alloc_protect_moved moved_trans [of s _ 0 s1 "[]" 1 s2] by fastforce
  moreover have "unat len < 2 ^ 32" using unsigned_less [of len] by simp
  ultimately show ?thesis using k that [of "unat len" s2] by simp
qed

lemma readTagged_cases:
  assumes "readTagged api v recur ty s = (Inr x, s')"
  obtains "ty = kArray" | "ty = kNil" | "ty = kLogical" | "ty = kInteger" | "ty = kReal"
    | "ty = kString" | "ty = kList"
  using assms by (auto simp: readTagged_def split: if_splits)

lemma readSEXP_sound:
  "readSEXP api v d s = (Inr x, s') \<Longrightarrow>
     \<exists>w. (wire_ok w \<and> wire_in v w \<and> build api w = Inr x) \<and> moved s (wire_bytes v w) (nodes w) s'"
proof (induction d arbitrary: s x s')
  case 0
  then show ?case by simp
next
  case (Suc d)
  then obtain ty s1 where "readU32 s = (Inr ty, s1)"
    and tagged: "readTagged api v (readSEXP api v d) ty s1 = (Inr x, s')"
    by (auto simp: st_bind_Inr_conv)
  then have tag: "moved s (u32_bytes ty) 0 s1" by (simp add: readU32_moved)
  from tagged show ?case
  proof (cases rule: readTagged_cases)
    case 1
    with tagged obtain dv nv y y' s2 s3 where v: "\<not> v < 3"
      and r: "readSEXP api v d s1 = (Inr dv, s2)" "readSEXP api v d s2 = (Inr nv, s3)"
        "readSEXP api v d s3 = (Inr y, s')"
      and a: "setAttrib api y ''dim'' dv = Inr y'" "setAttrib api y' ''dimnames'' nv = Inr x"
      by (auto simp: readTagged_simps st_bind_Inr_conv split: if_splits)
    from Suc.IH [OF r(1)] Suc.IH [OF r(2)] Suc.IH [OF r(3)] obtain dw nw w where
      ok: "wire_ok dw \<and> wire_in v dw \<and> build api dw = Inr dv" "wire_ok nw \<and> wire_in v nw \<and> build api nw = Inr nv"
        "wire_ok w \<and> wire_in v w \<and> build api w = Inr y"
      and m: "moved s1 (wire_bytes v dw) (nodes dw) s2" "moved s2 (wire_bytes v nw) (nodes nw) s3"
        "moved s3 (wire_bytes v w) (nodes w) s'" by blast
    from tag m 1 have "moved s (wire_bytes v (WArray dw nw w)) (nodes (WArray dw nw w)) s'"
      by (simp add: moved_def)
    with ok v a show ?thesis by (intro exI [of _ "WArray dw nw w"]) (auto simp: not_less)
  next
    case 2
    with tagged tag show ?thesis by (intro exI [of _ WNil]) (auto simp: readTagged_simps)
  next
    case 3
    from tagged obtain n t where n: "n < 2 ^ 32" "moved s1 (u32_bytes (of_nat n)) 1 t"
      and k: "st_bind (st_repeat n readI32) (\<lambda>data. st_return (LGLSXP data [])) t = (Inr x, s')"
      unfolding 3 readTagged_simps by (rule vector_moved)
    from k obtain xs where xs: "st_repeat n readI32 t = (Inr xs, s')" "x = LGLSXP xs []"
      by (auto simp: st_bind_Inr_conv)
    with ints_moved [OF xs(1)] tag n 3 show ?thesis
      by (intro exI [of _ "WLgl xs"]) (auto simp: moved_def head_bytes_def)
  next
    case 4
    from tagged obtain n t where n: "n < 2 ^ 32" "moved s1 (u32_bytes (of_nat n)) 1 t"
      and k: "st_bind (st_repeat n readI32) (\<lambda>data. st_return (INTSXP data [])) t = (Inr x, s')"
      unfolding 4 readTagged_simps by (rule vector_moved)
    from k obtain xs where xs: "st_repeat n readI32 t = (Inr xs, s')" "x = INTSXP xs []"
      by (auto simp: st_bind_Inr_conv)
    with ints_moved [OF xs(1)] tag n 4 show ?thesis
      by (intro exI [of _ "WInt xs"]) (auto simp: moved_def head_bytes_def)
  next
    case 5
    from tagged obtain n t where n: "n < 2 ^ 32" "moved s1 (u32_bytes (of_nat n)) 1 t"
      and k: "st_bind (readBytes (8 * n)) (\<lambda>bs. st_return (REALSXP (u64s_of_bytes n bs) [])) t = (Inr x, s')"
      unfolding 5 readTagged_simps by (rule vector_moved)
    from k obtain bs where bs: "readBytes (8 * n) t = (Inr bs, s')" "x = REALSXP (u64s_of_bytes n bs) []"
      by (auto simp: st_bind_Inr_conv)
    with readBytes_moved [OF bs(1)] doubles_of_bytes [of bs n] tag n 5 show ?thesis
      by (intro exI [of _ "WReal (u64s_of_bytes n bs)"]) (auto simp: moved_def head_bytes_def)
  next
    case 6
    from tagged obtain n t where n: "n < 2 ^ 32" "moved s1 (u32_bytes (of_nat n)) 1 t"
      and k: "st_bind (st_repeat n (readString api)) (\<lambda>strs. st_return (STRSXP strs [])) t = (Inr x, s')"
      unfolding 6 readTagged_simps by (rule vector_moved)
    from k obtain xs where xs: "st_repeat n (readString api) t = (Inr xs, s')" "x = STRSXP xs []"
      by (auto simp: st_bind_Inr_conv)
    from strings_moved [OF xs(1)] obtain ss where "length ss = n" "list_all str_ok ss"
      "res_map (build_str api) ss = Inr xs" "moved t (concat (map str_bytes ss)) 0 s'" by blast
    with xs tag n 6 show ?thesis
      by (intro exI [of _ "WStr ss"]) (auto simp: moved_def head_bytes_def)
  next
    case 7
    from tagged obtain n t where n: "n < 2 ^ 32" "moved s1 (u32_bytes (of_nat n)) 1 t"
      and k: "st_bind (readListNames api v n) (\<lambda>list. st_bind (st_repeat n (readSEXP api v d))
          (\<lambda>elements. st_return (with_elements list elements))) t = (Inr x, s')"
      unfolding 7 readTagged_simps by (rule vector_moved)
    from k obtain l t1 xs where l: "readListNames api v n t = (Inr l, t1)"
      and xs: "st_repeat n (readSEXP api v d) t1 = (Inr xs, s')" "x = with_elements l xs"
      by (auto simp: st_bind_Inr_conv)
    from list_names_moved [OF l] obtain nms where nms: "2 \<le> v \<or> nms = None"
      "\<forall>ns. nms = Some ns \<longrightarrow> length ns = n \<and> list_all str_ok ns" "build_names api nms n = Inr l"
      "moved t (names_bytes v nms) 0 t1" by blast
    from repeat_moved [where P = "\<lambda>w x. wire_ok w \<and> wire_in v w \<and> build api w = Inr x", OF Suc.IH xs(1)]
    obtain ws where ws: "length ws = n"
      "list_all2 (\<lambda>w x. wire_ok w \<and> wire_in v w \<and> build api w = Inr x) ws xs"
      "moved t1 (concat (map (wire_bytes v) ws)) (sum_list (map nodes ws)) s'" by blast
    from ws(2) have "list_all wire_ok ws" "list_all (wire_in v) ws" "res_map (build api) ws = Inr xs"
      by (auto simp: res_map_Inr_conv list_all2_conv_all_nth list_all_length)
    moreover have "moved s (wire_bytes v (WList nms ws)) (nodes (WList nms ws)) s'"
      using tag n nms(4) ws 7 by (simp add: moved_def head_bytes_def)
    ultimately show ?thesis
      using n nms ws xs by (intro exI [of _ "WList nms ws"]) (auto split: option.splits)
  qed
qed

section \<open>The format is prefix-free\<close>

lemma u32_bytes_append_eq [simp]: "u32_bytes a @ r = u32_bytes b @ r' \<longleftrightarrow> a = b \<and> r = r'"
proof
  assume eq: "u32_bytes a @ r = u32_bytes b @ r'"
  then have "u32_bytes a = u32_bytes b \<and> r = r'" by (simp add: append_eq_append_conv)
  then show "a = b \<and> r = r'" by (metis u32_of_bytes_u32_bytes)
qed simp

lemma u64_bytes_append_eq [simp]: "u64_bytes a @ r = u64_bytes b @ r' \<longleftrightarrow> a = b \<and> r = r'"
proof
  assume eq: "u64_bytes a @ r = u64_bytes b @ r'"
  then have "u64_bytes a = u64_bytes b \<and> r = r'" by (simp add: append_eq_append_conv)
  then show "a = b \<and> r = r'" by (metis u64_of_bytes_u64_bytes)
qed simp

lemma concat_prefix_free:
  assumes "length xs = length ys"
    and "\<And>x y r r'. x \<in> set xs \<Longrightarrow> y \<in> set ys \<Longrightarrow> f x @ r = f y @ r' \<Longrightarrow> x = y \<and> r = r'"
    and "concat (map f xs) @ r = concat (map f ys) @ r'"
  shows "xs = ys \<and> r = r'"
  using assms
proof (induction xs ys rule: list_induct2)
  case Nil
  then show ?case by simp
next
  case (Cons x xs y ys)
  have "f x @ (concat (map f xs) @ r) = f y @ (concat (map f ys) @ r')" using Cons.prems(2) by simp
  with Cons.prems(1) have "x = y" "concat (map f xs) @ r = concat (map f ys) @ r'"
    by (meson list.set_intros(1))+
  with Cons show ?case by (metis list.set_intros(2))
qed

lemma of_nat32_inject: "m < 2 ^ 32 \<Longrightarrow> n < 2 ^ 32 \<Longrightarrow> (of_nat m :: u32) = of_nat n \<longleftrightarrow> m = n"
  by (metis unat_of_nat32)

lemma str_prefix_free:
  assumes "str_ok s" "str_ok t" "str_bytes s @ r = str_bytes t @ r'"
  shows "s = t \<and> r = r'"
proof (cases s)
  case None
  show ?thesis
  proof (cases t)
    case (Some b)
    with None assms have "(- 1 :: u32) = of_nat (length b)" "length b < 2 ^ 31"
      by (simp_all add: Let_def)
    with of_nat32_neg1 [of "length b"] show ?thesis by simp
  qed (use None assms in simp)
next
  case s: (Some a)
  show ?thesis
  proof (cases t)
    case None
    with s assms show ?thesis by (auto simp: Let_def of_nat32_neg1)
  next
    case (Some b)
    with s assms have len: "length a < 2 ^ 32" "length b < 2 ^ 32" by simp_all
    with s Some assms have "length a = length b" "a @ r = b @ r'"
      by (simp_all add: Let_def unat_of_nat32 of_nat32_inject)
    with s Some show ?thesis by simp
  qed
qed

lemma strs_prefix_free:
  "length ss = length ts \<Longrightarrow> list_all str_ok ss \<Longrightarrow> list_all str_ok ts \<Longrightarrow>
     concat (map str_bytes ss) @ r = concat (map str_bytes ts) @ r' \<Longrightarrow> ss = ts \<and> r = r'"
  by (rule concat_prefix_free) (auto simp: list_all_iff dest: str_prefix_free)

lemma names_prefix_free:
  assumes "2 \<le> v \<or> nms = None \<and> nms' = None"
    and "\<forall>ns. nms = Some ns \<longrightarrow> length ns = n \<and> list_all str_ok ns"
    and "\<forall>ns. nms' = Some ns \<longrightarrow> length ns = n \<and> list_all str_ok ns"
    and "names_bytes v nms @ r = names_bytes v nms' @ r'"
  shows "nms = nms' \<and> r = r'"
proof (cases "2 \<le> v")
  case False
  with assms show ?thesis by (simp add: names_bytes_def)
next
  case True
  show ?thesis
  proof (cases nms; cases nms')
    fix ns ns' assume "nms = Some ns" "nms' = Some ns'"
    with True assms show ?thesis
      using strs_prefix_free [of ns ns' r r'] by (simp add: names_bytes_def)
  qed (use True assms in \<open>auto simp: names_bytes_def\<close>)
qed

lemma head_append_eq:
  "m < 2 ^ 32 \<Longrightarrow> n < 2 ^ 32 \<Longrightarrow> head_bytes a m @ r = head_bytes b n @ r' \<longleftrightarrow> a = b \<and> m = n \<and> r = r'"
  by (auto simp: head_bytes_def of_nat32_inject)

lemma wire_prefix_free:
  "wire_ok w \<Longrightarrow> wire_ok w' \<Longrightarrow> wire_in v w \<Longrightarrow> wire_in v w' \<Longrightarrow>
     wire_bytes v w @ r = wire_bytes v w' @ r' \<Longrightarrow> w = w' \<and> r = r'"
proof (induction w arbitrary: w' r r')
  case WNil
  then show ?case by (cases w') (auto simp: head_bytes_def value_types)
next
  case (WLgl xs)
  then show ?case
    by (cases w') (auto simp: head_bytes_def value_types of_nat32_inject dest!: concat_prefix_free [rotated 2])
next
  case (WInt xs)
  then show ?case
    by (cases w') (auto simp: head_bytes_def value_types of_nat32_inject dest!: concat_prefix_free [rotated 2])
next
  case (WReal xs)
  then show ?case
    by (cases w') (auto simp: head_bytes_def value_types of_nat32_inject dest!: concat_prefix_free [rotated 2])
next
  case (WStr ss)
  then show ?case
    by (cases w') (auto simp: head_bytes_def value_types of_nat32_inject dest!: strs_prefix_free [rotated 3])
next
  case (WList nms ws)
  show ?case
  proof (cases w')
    case w': (WList nms' ws')
    with WList have len: "length ws = length ws'"
      and eq: "names_bytes v nms @ (concat (map (wire_bytes v) ws) @ r)
         = names_bytes v nms' @ (concat (map (wire_bytes v) ws') @ r')"
      by (auto simp: head_bytes_def of_nat32_inject)
    have "nms = nms' \<and> concat (map (wire_bytes v) ws) @ r = concat (map (wire_bytes v) ws') @ r'"
      by (rule names_prefix_free [OF _ _ _ eq, where n = "length ws"]) (use WList w' len in auto)
    moreover have "x = y \<and> r = r'"
      if "x \<in> set ws" "y \<in> set ws'" "wire_bytes v x @ r = wire_bytes v y @ r'" for x y r r'
      using WList.IH [OF that(1) _ _ _ _ that(3)] that(1,2) WList.prems(1-4) w'
      by (simp add: list_all_iff)
    ultimately show ?thesis
      using concat_prefix_free [OF len, of "wire_bytes v" r r'] w' by blast
  qed (use WList.prems in \<open>auto simp: head_bytes_def value_types\<close>)
next
  case (WArray d n w)
  show ?case
  proof (cases w')
    case w': (WArray d' n' w'')
    with WArray.prems have "wire_bytes v d @ (wire_bytes v n @ wire_bytes v w @ r)
        = wire_bytes v d' @ (wire_bytes v n' @ wire_bytes v w'' @ r')" by simp
    from WArray.IH(1) [OF _ _ _ _ this] WArray.prems(1-4) w'
    have d: "d = d'" "wire_bytes v n @ (wire_bytes v w @ r) = wire_bytes v n' @ (wire_bytes v w'' @ r')"
      by simp_all
    from WArray.IH(2) [OF _ _ _ _ d(2)] WArray.prems(1-4) w'
    have n: "n = n'" "wire_bytes v w @ r = wire_bytes v w'' @ r'"
      by simp_all
    from WArray.IH(3) [OF _ _ _ _ n(2)] WArray.prems(1-4) w' have "w = w'' \<and> r = r'" by simp
    with d n w' show ?thesis by simp
  qed (use WArray.prems in \<open>auto simp: head_bytes_def value_types\<close>)
qed

end
