(* ===== verification/Serialization_Roundtrip.thy ===== *)
theory Serialization_Roundtrip
  imports Serialization_Sound
begin

text \<open>
  Which objects survive a trip through a file, and how: \<open>norm_sexp x\<close> is the object that
  comes back for \<open>x\<close>. Attributes other than dimensions, dimension names and the names of
  lists are lost, and so is the encoding mark of strings. The section on resources bounds
  the recursion of the reader by the size of the file and its use of R's protection stack
  by the number of vectors in the object.
\<close>

section \<open>Objects that survive\<close>

fun wf_string :: "rstring \<Rightarrow> bool" where
  "wf_string NA_STRING = True"
| "wf_string (CHARSXP _ bs) = (0 \<notin> set bs \<and> length bs < 2 ^ 31)"

text \<open>
  Objects R can build from supported vectors: lengths that fit the format, strings without
  NUL bytes, dimensions and dimension names as R's own checks leave them.
\<close>

function wf_sexp :: "sexp \<Rightarrow> bool" and wf_value :: "sexp \<Rightarrow> bool" where
  "wf_sexp x =
     (wf_value x \<and>
      (if Rf_getAttrib x ''dim'' \<noteq> NILSXP then
         valid_dim x (Rf_getAttrib x ''dim'') \<and> wf_sexp (Rf_getAttrib x ''dim'') \<and>
         (Rf_getAttrib x ''dimnames'' = NILSXP \<or>
          valid_dimnames (Rf_getAttrib x ''dim'') (Rf_getAttrib x ''dimnames'')) \<and>
         wf_sexp (Rf_getAttrib x ''dimnames'')
       else True))"
| "wf_value NILSXP = True"
| "wf_value (LGLSXP xs a) = (length xs < 2 ^ 32)"
| "wf_value (INTSXP xs a) = (length xs < 2 ^ 32)"
| "wf_value (REALSXP xs a) = (length xs < 2 ^ 32)"
| "wf_value (STRSXP xs a) = (length xs < 2 ^ 32 \<and> list_all wf_string xs)"
| "wf_value (VECSXP xs a) =
     (length xs < 2 ^ 32 \<and>
      (case real_names (length xs) a of None \<Rightarrow> True | Some ns \<Rightarrow> list_all wf_string ns) \<and>
      list_all wf_sexp xs)"
| "wf_value (OTHERSXP n a) = False"
  by pat_completeness auto

termination
  by (relation "measure (case_sum (\<lambda>x. 2 * size x + 1) (\<lambda>x. 2 * size x))")
     (auto simp: Rf_getAttrib_size_step size_in_list less_Suc_eq_le)

declare wf_sexp.simps [simp del]

fun norm_str :: "rstring \<Rightarrow> rstring" where
  "norm_str NA_STRING = NA_STRING"
| "norm_str (CHARSXP _ bs) = CHARSXP CE_NATIVE bs"

definition norm_names :: "nat \<Rightarrow> (string \<times> sexp) list \<Rightarrow> (string \<times> sexp) list" where
  "norm_names len a =
     (case real_names len a of None \<Rightarrow> [] | Some ns \<Rightarrow> [(''names'', STRSXP (map norm_str ns) [])])"

function norm_sexp :: "sexp \<Rightarrow> sexp" and norm_value :: "sexp \<Rightarrow> sexp" where
  "norm_sexp x =
     (if Rf_getAttrib x ''dim'' \<noteq> NILSXP then
        with_attrs (norm_value x)
          (ATTRIB (norm_value x) @ [(''dim'', norm_sexp (Rf_getAttrib x ''dim''))] @
           (if Rf_getAttrib x ''dimnames'' = NILSXP then []
            else [(''dimnames'', norm_sexp (Rf_getAttrib x ''dimnames''))]))
      else norm_value x)"
| "norm_value NILSXP = NILSXP"
| "norm_value (LGLSXP xs a) = LGLSXP xs []"
| "norm_value (INTSXP xs a) = INTSXP xs []"
| "norm_value (REALSXP xs a) = REALSXP xs []"
| "norm_value (STRSXP xs a) = STRSXP (map norm_str xs) []"
| "norm_value (VECSXP xs a) = VECSXP (map norm_sexp xs) (norm_names (length xs) a)"
| "norm_value (OTHERSXP n a) = OTHERSXP n []"
  by pat_completeness auto

termination
  by (relation "measure (case_sum (\<lambda>x. 2 * size x + 1) (\<lambda>x. 2 * size x))")
     (auto simp: Rf_getAttrib_size_step size_in_list less_Suc_eq_le)

declare norm_sexp.simps [simp del]

text \<open>Vectors of an object, and the recursion depth of its serialized form.\<close>

definition object_nodes :: "sexp \<Rightarrow> nat" where
  "object_nodes x = (case to_wire x of None \<Rightarrow> 0 | Some w \<Rightarrow> nodes w)"

definition object_depth :: "sexp \<Rightarrow> nat" where
  "object_depth x = (case to_wire x of None \<Rightarrow> 0 | Some w \<Rightarrow> wire_depth w)"

section \<open>Simple facts about surviving objects\<close>

lemma XLENGTH_norm_value [simp]: "XLENGTH (norm_value x) = XLENGTH x"
  by (cases x) auto

lemma norm_value_eq_NILSXP [simp]: "norm_value x = NILSXP \<longleftrightarrow> x = NILSXP"
  by (cases x) auto

lemma norm_sexp_eq_NILSXP [simp]: "norm_sexp x = NILSXP \<longleftrightarrow> x = NILSXP"
  by (auto simp: norm_sexp.simps [of x])

lemma norm_names_keys: "(k, v) \<in> set (norm_names n a) \<Longrightarrow> k = ''names''"
  by (auto simp: norm_names_def split: option.splits)

lemma norm_value_keys: "(k, v) \<in> set (ATTRIB (norm_value x)) \<Longrightarrow> k = ''names''"
  by (cases x) (auto dest: norm_names_keys)

lemma norm_value_no_key: "k \<noteq> ''names'' \<Longrightarrow> k \<notin> fst ` set (ATTRIB (norm_value x))"
  using norm_value_keys by fastforce

lemma norm_dim: "valid_dim x d \<Longrightarrow> norm_sexp d = d"
  by (auto simp: valid_dim_def norm_sexp.simps [of d] Rf_getAttrib_def split: sexp.splits list.splits)

lemma valid_dim_norm: "valid_dim x d \<Longrightarrow> valid_dim (norm_value x) d"
  by (auto simp: valid_dim_def split: sexp.splits list.splits)

lemma norm_dimname: "valid_dimname k v \<Longrightarrow> valid_dimname k (norm_sexp v)"
  by (auto simp: valid_dimname_def norm_sexp.simps [of v] Rf_getAttrib_def split: sexp.splits list.splits)

lemma valid_dimnames_norm: "valid_dimnames d v \<Longrightarrow> valid_dimnames d (norm_sexp v)"
proof -
  assume "valid_dimnames d v"
  then obtain ds b vs a where dv: "d = INTSXP ds b" "v = VECSXP vs a"
    and vs: "vs \<noteq> []" "list_all2 valid_dimname ds vs" "list_ex (\<lambda>v. v \<noteq> NILSXP) vs"
    and a: "a = [] \<or> (\<exists>ss. a = [(''names'', STRSXP ss [])] \<and> length ss = length vs)"
    using names_only_cases by (auto simp: valid_dimnames_def split: sexp.splits)
  have nodim: "Rf_getAttrib v ''dim'' = NILSXP"
    using a dv by (auto simp: Rf_getAttrib_def)
  have "list_all2 valid_dimname ds (map norm_sexp vs)"
    using vs(2) by (auto simp: list_all2_conv_all_nth norm_dimname)
  moreover have "list_ex (\<lambda>v. v \<noteq> NILSXP) (map norm_sexp vs)"
    using vs(3) by (auto simp: list_ex_iff)
  ultimately show ?thesis
    using a vs(1) by (auto simp: valid_dimnames_def dv norm_sexp.simps [of "VECSXP vs a"] nodim [unfolded dv]
        norm_names_def real_names_def)
qed

lemma wf_string_ok: "wf_string s \<Longrightarrow> str_ok (to_wire_str s)"
  by (cases s) auto

section \<open>Rebuilding gives the surviving object\<close>

text \<open>The client side of R's object interface.\<close>

context r_object_api
begin

lemma build_str_norm: "wf_string s \<Longrightarrow> build_str api (to_wire_str s) = Inr (norm_str s)"
  by (cases s) (auto simp: mk_char)

lemma build_strs_norm:
  "list_all wf_string ss \<Longrightarrow> res_map (build_str api) (map to_wire_str ss) = Inr (map norm_str ss)"
  by (induction ss) (auto simp: build_str_norm)

lemma build_names_norm:
  assumes "case real_names n a of None \<Rightarrow> True | Some ns \<Rightarrow> list_all wf_string ns"
  shows "build_names api (map_option (map to_wire_str) (real_names n a)) n
           = Inr (VECSXP (replicate n NILSXP) (norm_names n a))"
proof (cases "real_names n a")
  case None
  then show ?thesis by (simp add: build_names_def norm_names_def)
next
  case (Some ns)
  then have "length ns = n"
    by (auto simp: real_names_def split: option.splits sexp.splits if_splits)
  then have "valid_names (VECSXP (replicate n NILSXP) []) (STRSXP (map norm_str ns) [])"
    by (simp add: valid_names_def)
  from set_names [OF _ this] Some assms show ?thesis
    by (simp add: build_names_def norm_names_def build_strs_norm attr_put_def Rf_getAttrib_def)
qed

lemma set_dims_norm:
  assumes d: "valid_dim x d" and n: "n = NILSXP \<or> valid_dimnames d n"
  shows "res_bind (setAttrib api (norm_value x) ''dim'' d) (\<lambda>y. setAttrib api y ''dimnames'' (norm_sexp n))
     = Inr (with_attrs (norm_value x)
         (ATTRIB (norm_value x) @ [(''dim'', d)] @ (if n = NILSXP then [] else [(''dimnames'', norm_sexp n)])))"
proof -
  let ?a = "ATTRIB (norm_value x) @ [(''dim'', d)]"
  let ?y = "with_attrs (norm_value x) ?a"
  have nn: "norm_value x \<noteq> NILSXP" "d \<noteq> NILSXP" using valid_dim_not_nil [OF d] by auto
  then have set: "setAttrib api (norm_value x) ''dim'' d = Inr ?y"
    using set_dim [OF valid_dim_norm [OF d]] norm_value_no_key [of "''dim''" x]
    by (simp add: attr_put_new)
  have key: "''dimnames'' \<notin> fst ` set ?a"
    using norm_value_no_key [of "''dimnames''" x] by simp
  have dim: "Rf_getAttrib ?y ''dim'' = d"
    using norm_value_no_key [of "''dim''" x] nn
    by (auto simp: Rf_getAttrib_def alist_get_map_of map_add_def map_of_eq_None_iff split: option.splits)
       (metis domI domIff dom_map_of_conv_image_fst option.distinct(1))
  have "valid_dim ?y d"
    using valid_dim_norm [OF d] nn by (auto simp: valid_dim_def split: sexp.splits list.splits)
  from n show ?thesis
  proof
    assume "n = NILSXP"
    with set unset_dimnames [of ?y] nn key show ?thesis
      by (simp add: attr_put_nil_absent norm_sexp.simps)
  next
    assume v: "valid_dimnames d n"
    from set_dimnames [OF dim \<open>valid_dim ?y d\<close> valid_dimnames_norm [OF v]]
      set nn key valid_dimnames_not_nil [OF v]
    show ?thesis by (simp add: attr_put_new)
  qed
qed

lemma build_norm:
  shows "wf_sexp x \<Longrightarrow> \<exists>w. to_wire x = Some w \<and> wire_ok w \<and> build api w = Inr (norm_sexp x)"
    and "wf_value x \<Longrightarrow> \<exists>w. to_wire_value x = Some w \<and> wire_ok w \<and> build api w = Inr (norm_value x)"
proof (induction x and x rule: to_wire_to_wire_value.induct)
  case (1 x)
  show ?case
  proof (cases "Rf_getAttrib x ''dim'' = NILSXP")
    case True
    with 1 show ?thesis
      by (simp add: to_wire.simps [of x] norm_sexp.simps [of x] wf_sexp.simps [of x])
  next
    case False
    let ?d = "Rf_getAttrib x ''dim''" and ?n = "Rf_getAttrib x ''dimnames''"
    from 1(5) False have wf: "wf_value x" "valid_dim x ?d" "wf_sexp ?d"
      "?n = NILSXP \<or> valid_dimnames ?d ?n" "wf_sexp ?n"
      by (simp_all add: wf_sexp.simps [of x])
    from 1(1) [OF False wf(3)] obtain dw where
      dw: "to_wire ?d = Some dw" "wire_ok dw" "build api dw = Inr (norm_sexp ?d)" by blast
    from 1(2) [OF False dw(1) wf(5)] obtain nw where
      nw: "to_wire ?n = Some nw" "wire_ok nw" "build api nw = Inr (norm_sexp ?n)" by blast
    from 1(3) [OF False dw(1) nw(1) wf(1)] obtain w where
      w: "to_wire_value x = Some w" "wire_ok w" "build api w = Inr (norm_value x)" by blast
    from set_dims_norm [OF wf(2,4)] norm_dim [OF wf(2)]
    have "build api (WArray dw nw w) = Inr (norm_sexp x)"
      by (simp add: dw nw w norm_sexp.simps [of x] False)
    with False dw nw w show ?thesis by (simp add: to_wire.simps [of x])
  qed
next
  case (7 xs a)
  then have "\<forall>x \<in> set xs. \<exists>w. to_wire x = Some w \<and> wire_ok w \<and> build api w = Inr (norm_sexp x)"
    by (auto simp: list_all_iff)
  then obtain f where f: "\<And>x. x \<in> set xs \<Longrightarrow> to_wire x = Some (f x) \<and> wire_ok (f x) \<and> build api (f x) = Inr (norm_sexp x)"
    by metis
  then have "those (map to_wire xs) = Some (map f xs)"
    by (auto simp: those_conv)
  moreover have "res_map (build api) (map f xs) = Inr (map norm_sexp xs)"
    using f by (auto simp: res_map_Inr_conv list_all2_conv_all_nth)
  moreover have "case map_option (map to_wire_str) (real_names (length xs) a) of
      None \<Rightarrow> True | Some ns \<Rightarrow> length ns = length xs \<and> list_all str_ok ns"
    using 7 by (auto simp: real_names_def list_all_iff wf_string_ok split: option.splits sexp.splits if_splits)
  ultimately show ?case
    using 7 f build_names_norm [of "length xs" a] by (auto simp: list_all_iff split: option.splits)
qed (auto simp: build_strs_norm list_all_iff wf_string_ok)

end

section \<open>Resources of the reader\<close>

text \<open>
  \<open>bounded_by k m n\<close>: on at most \<open>n\<close> remaining bytes \<open>m\<close> does not run into undefined
  behaviour, and when it succeeds it has consumed at least \<open>k\<close> of them.
\<close>

definition bounded_by :: "nat \<Rightarrow> 'a reader \<Rightarrow> nat \<Rightarrow> bool" where
  "bounded_by k m n \<longleftrightarrow>
     (\<forall>s r t. length (rest s) \<le> n \<longrightarrow> m s = (r, t) \<longrightarrow>
        (case r of
           Inl e \<Rightarrow> e \<noteq> Undefined_behaviour
         | Inr _ \<Rightarrow> length (rest t) + k \<le> length (rest s)))"

named_theorems bounded_intros \<open>pieces of the reader that stay within their input\<close>

lemma bounded_bind [bounded_intros]:
  assumes "bounded_by k m n" "\<And>a. bounded_by 0 (f a) (n - k)"
  shows "bounded_by k (st_bind m f) n"
  unfolding bounded_by_def
proof (intro allI impI)
  fix s r u assume n: "length (rest s) \<le> n" and run: "st_bind m f s = (r, u)"
  obtain r' t where m: "m s = (r', t)" by fastforce
  show "case r of Inl e \<Rightarrow> e \<noteq> Undefined_behaviour | Inr _ \<Rightarrow> length (rest u) + k \<le> length (rest s)"
  proof (cases r')
    case (Inl e)
    with assms(1) n m run show ?thesis by (auto simp: bounded_by_def st_bind_def)
  next
    case (Inr a)
    with assms(1) n m have t: "length (rest t) + k \<le> length (rest s)"
      by (fastforce simp: bounded_by_def)
    from Inr m run have "f a t = (r, u)" by (simp add: st_bind_def)
    moreover have "length (rest t) \<le> n - k" using t n by simp
    ultimately have "case r of Inl e \<Rightarrow> e \<noteq> Undefined_behaviour
        | Inr _ \<Rightarrow> length (rest u) + 0 \<le> length (rest t)"
      using assms(2) [of a] unfolding bounded_by_def by blast
    with t show ?thesis by (cases r) auto
  qed
qed

lemma bounded_weaken: "bounded_by k m n \<Longrightarrow> bounded_by 0 m n"
  by (fastforce simp: bounded_by_def split: sum.splits)

lemma bounded_smaller: "bounded_by k m n \<Longrightarrow> n' \<le> n \<Longrightarrow> bounded_by k m n'"
  by (auto simp: bounded_by_def)

lemma bounded_return [bounded_intros]: "bounded_by 0 (st_return a) n" "bounded_by 0 (Pair (Inr a)) n"
  by (simp_all add: bounded_by_def)

lemma bounded_throw [bounded_intros]: "e \<noteq> Undefined_behaviour \<Longrightarrow> bounded_by k (st_throw e) n"
  by (simp add: bounded_by_def)

lemma bounded_repeat [bounded_intros]: "bounded_by 0 m n \<Longrightarrow> bounded_by 0 (st_repeat k m) n"
proof (induction k)
  case 0
  then show ?case by (simp add: bounded_by_def)
next
  case (Suc k)
  note rest = Suc.IH [OF Suc.prems]
  have "bounded_by 0 (st_bind (st_repeat k m) (\<lambda>xs. st_return (x # xs))) (n - 0)" for x
    using rest by (intro bounded_bind bounded_return) simp
  from bounded_bind [where f = "\<lambda>x. st_bind (st_repeat k m) (\<lambda>xs. st_return (x # xs))", OF Suc.prems this]
  show ?case by (simp only: st_repeat.simps)
qed

lemma bounded_bytes [bounded_intros]: "bounded_by k (readBytes k) n"
  by (auto simp: bounded_by_def readBytes_def)

lemma bounded_u32 [bounded_intros]: "bounded_by 4 readU32 n" "bounded_by 4 readI32 n"
  unfolding readU32_def readI32_def by (intro bounded_intros)+

text \<open>R's API reports errors as R errors, never by undefined behaviour.\<close>

definition sane_api :: "r_api \<Rightarrow> bool" where
  "sane_api api \<longleftrightarrow>
     (\<forall>x k v. setAttrib api x k v \<noteq> Inl Undefined_behaviour) \<and>
     (\<forall>bs. mkCharLen api bs \<noteq> Inl Undefined_behaviour)"

lemma bounded_lift: "r \<noteq> Inl Undefined_behaviour \<Longrightarrow> bounded_by 0 (st_lift r) n"
  by (cases r) (auto simp: bounded_by_def)

lemma bounded_set [bounded_intros]: "sane_api api \<Longrightarrow> bounded_by 0 (st_lift (setAttrib api x k v)) n"
  by (rule bounded_lift) (simp add: sane_api_def)

lemma bounded_mkchar [bounded_intros]:
  "sane_api api \<Longrightarrow> bounded_by 0 (st_lift (mkCharLen api bs)) n"
  "sane_api api \<Longrightarrow> bounded_by 0 (Pair (mkCharLen api bs)) n"
  using bounded_lift [of "mkCharLen api bs"] by (auto simp: sane_api_def st_lift_def [abs_def])

lemma bounded_alloc [bounded_intros]: "bounded_by 0 (alloc_protect api k) n"
  by (auto simp: bounded_by_def alloc_protect_def PROTECT_def st_bind_def)

lemma bounded_unprotect [bounded_intros]: "bounded_by 0 unprotect_one n"
  by (simp add: bounded_by_def unprotect_one_def)

lemma bounded_string [bounded_intros]: "sane_api api \<Longrightarrow> bounded_by 0 (readString api) n"
  unfolding readString_def
  by (rule bounded_weaken, rule bounded_bind [OF bounded_u32(2)])
     (auto intro!: bounded_intros intro: bounded_weaken [OF bounded_bytes])

lemma bounded_names [bounded_intros]: "sane_api api \<Longrightarrow> bounded_by 0 (readListNames api v k) n"
proof -
  assume sane: "sane_api api"
  have "bounded_by 0 (readListNames api v k) n" if "2 \<le> v"
    using that sane unfolding readListNames_def Let_def
    by (simp, intro bounded_weaken [OF bounded_bind [OF bounded_u32(1)]]) (auto intro!: bounded_intros)
  then show ?thesis by (cases "2 \<le> v") (auto simp: readListNames_def bounded_intros)
qed

lemma bounded_readSEXP: "sane_api api \<Longrightarrow> n < 4 * d \<Longrightarrow> bounded_by 0 (readSEXP api v d) n"
proof (induction d arbitrary: n)
  case 0
  then show ?case by simp
next
  case (Suc d)
  have sub: "bounded_by 0 (readTagged api v (readSEXP api v d) ty) (n - 4)" if "4 \<le> n" for ty
  proof -
    have recur: "bounded_by 0 (readSEXP api v d) (n - 4)" using Suc that by auto
    note u32 = bounded_weaken [OF bounded_u32(1)] bounded_weaken [OF bounded_u32(2)]
      bounded_weaken [OF bounded_bytes]
    show ?thesis
      using Suc.prems(1) unfolding readTagged_def
      by (auto intro!: bounded_intros u32 recur bounded_bind [where k = 0 and n = "n - 4"] simp del: One_nat_def)
  qed
  show ?case
    unfolding bounded_by_def
  proof (intro allI impI)
    fix s r t assume len: "length (rest s) \<le> n" and run: "readSEXP api v (Suc d) s = (r, t)"
    show "case r of Inl e \<Rightarrow> e \<noteq> Undefined_behaviour | Inr _ \<Rightarrow> length (rest t) + 0 \<le> length (rest s)"
    proof (cases "4 \<le> n")
      case True
      with bounded_weaken [OF bounded_bind [OF bounded_u32(1) sub]]
      have "bounded_by 0 (readSEXP api v (Suc d)) n" by simp
      with len run show ?thesis by (simp only: bounded_by_def)
    next
      case False
      with len have "readSEXP api v (Suc d) s = (Inl (Std_exception ''Serialization read failed''), s\<lparr>rest := []\<rparr>)"
        by (simp add: readU32_def readBytes_def st_bind_def)
      with run show ?thesis by auto
    qed
  qed
qed

section \<open>Whole files\<close>

definition file_bytes :: "wire \<Rightarrow> byte list" where
  "file_bytes w = u32_bytes kMagic @ u32_bytes kVersion @ wire_bytes kVersion w"

lemma write_file_ok:
  assumes "write_file env x [] = (Inr (), out)"
  shows "\<exists>w. to_wire x = Some w \<and> out = file_bytes w"
proof -
  from assms obtain o1 o2 where o: "writeU32 env kMagic [] = (Inr (), o1)"
    "writeU32 env kVersion o1 = (Inr (), o2)" "writeSEXP env kVersion x o2 = (Inr (), out)"
    by (auto simp: write_file_def st_bind_Inr_conv)
  then have o2: "o2 = u32_bytes kMagic @ u32_bytes kVersion"
    using writesD [OF writes_bytes(2) o(1)] writesD [OF writes_bytes(2) o(2)] by simp
  show ?thesis
  proof (cases "to_wire x")
    case None
    with writeSEXP_refines(1) [of kVersion env x] have "fst (writeSEXP env kVersion x o2) \<noteq> Inr ()"
      by (simp add: refines_def)
    with o(3) show ?thesis by simp
  next
    case (Some w)
    with writeSEXP_refines(1) [of kVersion env x] o(3) o2 show ?thesis
      by (auto simp: refines_def file_bytes_def dest: writesD)
  qed
qed

lemma write_file_delivers:
  assumes "accepting env" "to_wire x = Some w" "wire_ok w"
  shows "write_file env x [] = (Inr (), file_bytes w)"
proof -
  have u: "writeU32 env a out = (Inr (), out @ u32_bytes a)" for a out
    using assms(1) by (simp add: writeU32_def writeBytes_def accepting_def)
  show ?thesis
    by (simp add: write_file_def st_bind_def u writeSEXP_delivers [OF assms] file_bytes_def)
qed

text \<open>A file of any version the reader knows.\<close>

definition versioned_bytes :: "u32 \<Rightarrow> wire \<Rightarrow> byte list" where
  "versioned_bytes v w = u32_bytes kMagic @ u32_bytes v @ wire_bytes v w"

lemma file_bytes_versioned: "file_bytes w = versioned_bytes kVersion w"
  by (simp add: file_bytes_def versioned_bytes_def)

lemma readU32_front:
  "readU32 \<lparr>rest = u32_bytes w @ r, pp_stack = p, protect_count = c\<rparr>
     = (Inr w, \<lparr>rest = r, pp_stack = p, protect_count = c\<rparr>)"
  by (simp add: readU32_def readBytes_def st_bind_def)

lemma read_file_reads:
  assumes "ample api" "kMinReadVersion \<le> v" "v \<le> kVersion" "wire_ok w" "wire_in v w"
    and "build api w = Inr x" "wire_depth w \<le> depth" "p + nodes w < pp_limit api"
  shows "read_file api depth \<lparr>rest = versioned_bytes v w @ r, pp_stack = p, protect_count = 0\<rparr>
           = (Inr x, \<lparr>rest = r, pp_stack = p, protect_count = nodes w\<rparr>)"
  using readsD [OF readSEXP_reads [OF assms(1,4-7)] assms(8), of r 0] assms(2,3)
  by (simp add: read_file_def versioned_bytes_def st_bind_def readU32_front not_less)

lemma read_file_sound:
  assumes "read_file api depth \<lparr>rest = bs, pp_stack = p, protect_count = 0\<rparr> = (Inr x, s')"
  shows "\<exists>v w. kMinReadVersion \<le> v \<and> v \<le> kVersion \<and> wire_ok w \<and> wire_in v w \<and> build api w = Inr x
           \<and> bs = versioned_bytes v w @ rest s' \<and> pp_stack s' = p"
proof -
  from assms obtain v s1 s2 s3 where m: "readU32 \<lparr>rest = bs, pp_stack = p, protect_count = 0\<rparr> = (Inr kMagic, s1)"
    and v: "readU32 s1 = (Inr v, s2)" "kMinReadVersion \<le> v" "v \<le> kVersion"
    and x: "readSEXP api v depth s2 = (Inr x, s3)"
    and s': "s' = s3\<lparr>pp_stack := pp_stack s3 - protect_count s3\<rparr>"
    by (auto simp: read_file_def st_bind_Inr_conv not_less split: if_splits)
  from readSEXP_sound [OF x] obtain w where
    w: "wire_ok w \<and> wire_in v w \<and> build api w = Inr x" "moved s2 (wire_bytes v w) (nodes w) s3" by blast
  with readU32_moved [OF m] readU32_moved [OF v(1)] v s' show ?thesis
    by (intro exI [of _ v] exI [of _ w]) (auto simp: moved_def versioned_bytes_def)
qed

text \<open>
  What a reader does on a file that ends early: it does what it does on the whole file, until it
  asks for bytes that are not there.
\<close>

abbreviation read_failed :: exn where
  "read_failed \<equiv> Std_exception ''Serialization read failed''"

definition follows_prefix :: "'a reader \<Rightarrow> bool" where
  "follows_prefix m \<longleftrightarrow>
     (\<forall>s b. case m s of
        (Inr x, t) \<Rightarrow> m (s\<lparr>rest := rest s @ b\<rparr>) = (Inr x, t\<lparr>rest := rest t @ b\<rparr>)
      | (Inl e, t) \<Rightarrow> e = read_failed \<or> (\<exists>u. m (s\<lparr>rest := rest s @ b\<rparr>) = (Inl e, u)))"

named_theorems prefix_intros \<open>pieces of the reader that read a prefix as they read the whole file\<close>

lemma prefix_bind [prefix_intros]:
  assumes "follows_prefix m" "\<And>a. follows_prefix (f a)"
  shows "follows_prefix (st_bind m f)"
  unfolding follows_prefix_def
proof (intro allI)
  fix s b
  obtain r t where run: "m s = (r, t)" by fastforce
  show "case st_bind m f s of
        (Inr x, t) \<Rightarrow> st_bind m f (s\<lparr>rest := rest s @ b\<rparr>) = (Inr x, t\<lparr>rest := rest t @ b\<rparr>)
      | (Inl e, t) \<Rightarrow> e = read_failed \<or> (\<exists>u. st_bind m f (s\<lparr>rest := rest s @ b\<rparr>) = (Inl e, u))"
  proof (cases r)
    case (Inl e)
    with run assms(1) [unfolded follows_prefix_def, rule_format, of s b] have "e = read_failed \<or> (\<exists>u. m (s\<lparr>rest := rest s @ b\<rparr>) = (Inl e, u))"
      by simp
    with run Inl show ?thesis by (auto simp: st_bind_def)
  next
    case (Inr a)
    with run assms(1) [unfolded follows_prefix_def, rule_format, of s b] have "m (s\<lparr>rest := rest s @ b\<rparr>) = (Inr a, t\<lparr>rest := rest t @ b\<rparr>)"
      by simp
    then have whole: "st_bind m f (s\<lparr>rest := rest s @ b\<rparr>) = f a (t\<lparr>rest := rest t @ b\<rparr>)" by (simp add: st_bind_def)
    have part: "st_bind m f s = f a t" using run Inr by (simp add: st_bind_def)
    show ?thesis unfolding whole part using assms(2) [of a, unfolded follows_prefix_def, rule_format, of t b] .
  qed
qed

lemma prefix_return [prefix_intros]:
  "follows_prefix (st_return a)" "follows_prefix (st_throw e)" "follows_prefix (st_lift r)" "follows_prefix (Pair r)"
  by (auto simp: follows_prefix_def st_lift_def st_return_def st_throw_def split: sum.splits)

lemma prefix_bytes [prefix_intros]: "follows_prefix (readBytes n)"
  by (auto simp: follows_prefix_def readBytes_def)

lemma prefix_words [prefix_intros]: "follows_prefix readU32" "follows_prefix readI32"
  unfolding readU32_def readI32_def by (intro prefix_intros)+

lemma prefix_alloc [prefix_intros]: "follows_prefix (alloc_protect api n)" "follows_prefix unprotect_one"
  by (auto simp: follows_prefix_def alloc_protect_def PROTECT_def unprotect_one_def st_bind_def)

lemma prefix_repeat [prefix_intros]: "follows_prefix m \<Longrightarrow> follows_prefix (st_repeat n m)"
proof (induction n)
  case 0
  then show ?case by (auto intro: prefix_intros)
next
  case (Suc n)
  then show ?case unfolding st_repeat.simps by (intro prefix_intros)
qed

lemma prefix_string [prefix_intros]: "follows_prefix (readString api)"
  unfolding readString_def by (intro prefix_intros) (simp add: prefix_intros)

lemma prefix_names [prefix_intros]: "follows_prefix (readListNames api v n)"
  unfolding readListNames_def Let_def by (auto intro!: prefix_intros simp: if_splits)

lemma prefix_readSEXP [prefix_intros]: "follows_prefix (readSEXP api v d)"
proof (induction d)
  case 0
  then show ?case by (simp add: prefix_intros)
next
  case (Suc d)
  have "follows_prefix (readTagged api v (readSEXP api v d) ty)" for ty
    unfolding readTagged_def using Suc by (auto intro!: prefix_intros)
  then show ?case unfolding readSEXP.simps by (intro prefix_intros)
qed

lemma prefix_read_file: "follows_prefix (read_file api depth)"
proof -
  have tail: "follows_prefix (\<lambda>s. (Inr x, s\<lparr>pp_stack := pp_stack s - protect_count s\<rparr>))" for x :: sexp
    by (simp add: follows_prefix_def)
  show ?thesis unfolding read_file_def by (auto intro!: prefix_intros tail)
qed

text \<open>The stack never grows beyond its limit, so an object that was read did fit.\<close>

definition within_limit :: "r_api \<Rightarrow> 'a reader \<Rightarrow> bool" where
  "within_limit api m \<longleftrightarrow>
     (\<forall>s a t. pp_stack s \<le> pp_limit api \<longrightarrow> m s = (Inr a, t) \<longrightarrow> pp_stack t \<le> pp_limit api)"

named_theorems limit_intros \<open>pieces of the reader that respect the protection stack's limit\<close>

lemma limit_bind [limit_intros]:
  "within_limit api m \<Longrightarrow> (\<And>a. within_limit api (f a)) \<Longrightarrow> within_limit api (st_bind m f)"
  unfolding within_limit_def by (metis st_bind_Inr_conv)

lemma limit_return [limit_intros]:
  "within_limit api (st_return a)" "within_limit api (st_throw e)" "within_limit api (st_lift r)"
  by (simp_all add: within_limit_def)

lemma limit_repeat [limit_intros]: "within_limit api m \<Longrightarrow> within_limit api (st_repeat n m)"
proof (induction n)
  case 0
  then show ?case by (simp add: within_limit_def)
next
  case (Suc n)
  then show ?case unfolding st_repeat.simps by (intro limit_intros)
qed

lemma limit_bytes [limit_intros]:
  "within_limit api (readBytes n)" "within_limit api readU32" "within_limit api readI32"
  unfolding readU32_def readI32_def
  by (auto simp: within_limit_def readBytes_def st_bind_Inr_conv split: if_splits)

lemma limit_alloc [limit_intros]: "within_limit api (alloc_protect api n)" "within_limit api unprotect_one"
  by (auto simp: within_limit_def alloc_protect_def PROTECT_def unprotect_one_def st_bind_Inr_conv split: if_splits)

lemma limit_string [limit_intros]: "within_limit api (readString api)"
  unfolding readString_def by (intro limit_intros) (simp add: limit_intros)

lemma limit_names [limit_intros]: "within_limit api (readListNames api v n)"
  unfolding readListNames_def Let_def by (auto intro!: limit_intros simp: if_splits)

lemma limit_readSEXP: "within_limit api (readSEXP api v d)"
proof (induction d)
  case 0
  then show ?case by (simp add: within_limit_def)
next
  case (Suc d)
  have "within_limit api (readTagged api v (readSEXP api v d) ty)" for ty
    unfolding readTagged_def using Suc by (auto intro!: limit_intros)
  then show ?case unfolding readSEXP.simps by (intro limit_intros)
qed

section \<open>Writing back what was read\<close>

lemma Rf_getAttrib_append:
  "k \<notin> fst ` set a \<Longrightarrow> x \<noteq> NILSXP \<Longrightarrow> Rf_getAttrib (with_attrs x (a @ b)) k = Rf_getAttrib (with_attrs x b) k"
  by (induction a) (auto simp: Rf_getAttrib_def)

lemma Rf_getAttrib_norm_value: "k \<noteq> ''names'' \<Longrightarrow> Rf_getAttrib (norm_value x) k = NILSXP"
  by (simp add: Rf_getAttrib_def alist_get_None [OF norm_value_no_key])

lemma Rf_getAttrib_norm:
  "Rf_getAttrib (norm_sexp x) ''dim'' = norm_sexp (Rf_getAttrib x ''dim'')"
  "Rf_getAttrib x ''dim'' \<noteq> NILSXP \<Longrightarrow>
     Rf_getAttrib (norm_sexp x) ''dimnames'' = norm_sexp (Rf_getAttrib x ''dimnames'')"
proof -
  have nil: "norm_sexp NILSXP = NILSXP" by (simp add: norm_sexp.simps)
  show "Rf_getAttrib (norm_sexp x) ''dim'' = norm_sexp (Rf_getAttrib x ''dim'')"
  proof (cases "Rf_getAttrib x ''dim'' = NILSXP")
    case True
    then show ?thesis by (simp add: norm_sexp.simps [of x] Rf_getAttrib_norm_value nil)
  next
    case False
    then have "x \<noteq> NILSXP" by auto
    with False norm_value_no_key [of "''dim''" x] show ?thesis
      by (simp add: norm_sexp.simps [of x] Rf_getAttrib_append) (simp add: Rf_getAttrib_def)
  qed
  assume False: "Rf_getAttrib x ''dim'' \<noteq> NILSXP"
  then have "x \<noteq> NILSXP" by auto
  with False norm_value_no_key [of "''dimnames''" x]
  show "Rf_getAttrib (norm_sexp x) ''dimnames'' = norm_sexp (Rf_getAttrib x ''dimnames'')"
    by (simp add: norm_sexp.simps [of x] Rf_getAttrib_append) (auto simp: Rf_getAttrib_def nil)
qed

lemma to_wire_str_norm [simp]: "to_wire_str (norm_str s) = to_wire_str s"
  by (cases s) auto

lemma real_names_append:
  "real_names n (norm_names n a @ b) = (case real_names n a of None \<Rightarrow> real_names n b | Some ns \<Rightarrow> Some (map norm_str ns))"
proof (cases "real_names n a")
  case None
  then show ?thesis by (simp add: norm_names_def)
next
  case (Some ns)
  then have "length ns = n" by (auto simp: real_names_def split: option.splits sexp.splits if_splits)
  with Some show ?thesis by (simp add: norm_names_def real_names_def)
qed

lemma real_names_no_key: "''names'' \<notin> fst ` set b \<Longrightarrow> real_names n b = None"
  by (simp add: real_names_def alist_get_None)

lemma to_wire_value_attrs:
  assumes "''names'' \<notin> fst ` set b"
  shows "to_wire_value (with_attrs (norm_value x) (ATTRIB (norm_value x) @ b)) = to_wire_value (norm_value x)"
proof (cases x)
  case (VECSXP xs a)
  have "real_names (length xs) (norm_names (length xs) a @ b) = real_names (length xs) (norm_names (length xs) a)"
    using real_names_append [of "length xs" a b] real_names_append [of "length xs" a "[]"]
      real_names_no_key [OF assms] by (simp add: real_names_def split: option.splits)
  then show ?thesis by (simp add: VECSXP)
qed auto

lemma to_wire_norm:
  shows "to_wire (norm_sexp x) = to_wire x" and "to_wire_value (norm_value x) = to_wire_value x"
proof (induction x and x rule: to_wire_to_wire_value.induct)
  case (1 x)
  show ?case
  proof (cases "Rf_getAttrib x ''dim'' = NILSXP")
    case True
    with 1 Rf_getAttrib_norm(1) [of x] show ?thesis
      by (simp add: to_wire.simps [of x] to_wire.simps [of "norm_sexp x"])
        (simp add: norm_sexp.simps [of x])
  next
    case False
    let ?b = "[(''dim'', norm_sexp (Rf_getAttrib x ''dim''))] @
        (if Rf_getAttrib x ''dimnames'' = NILSXP then []
         else [(''dimnames'', norm_sexp (Rf_getAttrib x ''dimnames''))])"
    have v: "to_wire_value (norm_sexp x) = to_wire_value (norm_value x)"
      using to_wire_value_attrs [of ?b x] False by (simp add: norm_sexp.simps [of x])
    show ?thesis
      using 1 False Rf_getAttrib_norm [of x]
      by (auto simp: to_wire.simps [of x] to_wire.simps [of "norm_sexp x"] v split: option.splits)
  qed
next
  case (7 xs a)
  have "real_names (length xs) (norm_names (length xs) a) = map_option (map norm_str) (real_names (length xs) a)"
    using real_names_append [of "length xs" a "[]"] by (simp add: real_names_def split: option.splits)
  moreover have "map to_wire (map norm_sexp xs) = map to_wire xs" using 7 by simp
  moreover have "map to_wire_str (map norm_str ns) = map to_wire_str ns" for ns by simp
  ultimately show ?case by (simp add: comp_def option.map_comp del: map_map map_eq_conv)
qed (auto simp: comp_def)

section \<open>Properties\<close>

text \<open>Examples: a named list holding a named-row integer matrix, reals and strings; a factor.\<close>

definition example_matrix :: sexp where
  "example_matrix =
     INTSXP [1, 2, 3, 4]
       [(''dim'', INTSXP [2, 2] []),
        (''dimnames'', VECSXP [STRSXP [CHARSXP CE_UTF8 [114, 49], CHARSXP CE_NATIVE [114, 50]] [], NILSXP] [])]"

definition example_list :: sexp where
  "example_list =
     VECSXP [example_matrix, REALSXP [4607182418800017408] [], STRSXP [NA_STRING, CHARSXP CE_LATIN1 [233]] []]
       [(''names'', STRSXP [CHARSXP CE_NATIVE [97], NA_STRING, CHARSXP CE_NATIVE []] [])]"

definition example_factor :: sexp where
  "example_factor =
     INTSXP [1, 2] [(''levels'', STRSXP [CHARSXP CE_NATIVE [97], CHARSXP CE_NATIVE [98]] []),
                    (''class'', STRSXP [CHARSXP CE_NATIVE [102]] [])]"

definition good_stream :: ostream_env where
  "good_stream = \<lparr>can_open = (\<lambda>_. True), accepts = (\<lambda>_ _. True), closed = (\<lambda>bs. bs)\<rparr>"

lemma good_stream_simps [simp]:
  "can_open good_stream p" "accepting good_stream" "closed good_stream bs = bs"
  by (simp_all add: good_stream_def accepting_def)

lemma reference_api_ample [simp]: "ample (reference_api n)"
  by (simp add: ample_def reference_api_def)

lemma reference_api_limit [simp]: "pp_limit (reference_api n) = n"
  by (simp add: reference_api_def)

lemma reference_api_sane [simp]: "sane_api (reference_api n)"
  by (auto simp: sane_api_def reference_api_def reference_setAttrib_def reference_mkCharLen_def)

text \<open>
  C10. An object built of logical, integer, real and string vectors and lists, with
  dimensions and dimension names as R accepts them, is written to a file and read back:
  \<^verbatim>\<open>serializeSEXP\<close> succeeds, \<^verbatim>\<open>unserializeSEXP\<close> returns the object with its dimensions,
  dimension names and list names (\<open>norm_sexp\<close>), and R's protection stack is as before.
\<close>

theorem serialize_roundtrip:
  assumes "r_object_api api" "ample api"
    and "can_open env path" "accepting env" "\<forall>out. closed env out = out"
    and "wf_sexp x" "object_depth x \<le> depth" "pp + object_nodes x < pp_limit api"
  shows "fst (serializeSEXP env x path fs) = Inr ()
       \<and> unserializeSEXP api depth path (snd (serializeSEXP env x path fs)) pp = (Inr (norm_sexp x), pp)"
proof -
  from r_object_api.build_norm(1) [OF assms(1,6)] obtain w where
    w: "to_wire x = Some w" "wire_ok w" "build api w = Inr (norm_sexp x)" by blast
  have written: "serializeSEXP env x path fs = (Inr (), fs(path \<mapsto> file_bytes w))"
    using assms(3,5) write_file_delivers [OF assms(4) w(1,2)] by (simp add: serializeSEXP_def)
  have fit: "wire_depth w \<le> depth" "pp + nodes w < pp_limit api"
    using assms(7,8) w(1) by (simp_all add: object_depth_def object_nodes_def)
  have v: "kMinReadVersion \<le> kVersion" "3 \<le> kVersion" "kVersion \<le> kVersion"
    by (simp_all add: kMinReadVersion_def kVersion_def)
  have "read_file api depth \<lparr>rest = file_bytes w, pp_stack = pp, protect_count = 0\<rparr>
      = (Inr (norm_sexp x), \<lparr>rest = [], pp_stack = pp, protect_count = nodes w\<rparr>)"
    using read_file_reads [OF assms(2) v(1,3) w(2) wire_in_current [OF v(2)] w(3) fit, of "[]"]
    by (simp add: file_bytes_versioned)
  with written show ?thesis by (simp add: unserializeSEXP_def)
qed

theorem serialize_roundtrip_witness:
  "unserializeSEXP (reference_api 50) 20 ''/tmp/cpp-x''
     (snd (serializeSEXP good_stream example_list ''/tmp/cpp-x'' Map.empty)) 3
   = (Inr (norm_sexp example_list), 3)"
proof -
  have wf: "wf_sexp example_list"
    by (simp add: example_list_def example_matrix_def wf_sexp.simps Rf_getAttrib_def real_names_def
        valid_dim_def valid_dimnames_def valid_dimname_def)
  have depth: "object_depth example_list \<le> 20"
    by (simp add: example_list_def example_matrix_def object_depth_def to_wire.simps Rf_getAttrib_def)
  have nodes: "3 + object_nodes example_list < pp_limit (reference_api 50)"
    by (simp add: example_list_def example_matrix_def object_nodes_def to_wire.simps Rf_getAttrib_def
        reference_api_def)
  from serialize_roundtrip [OF refapi.r_object_api_axioms [of 50] reference_api_ample _ _ _ wf depth nodes,
      of good_stream "''/tmp/cpp-x''" Map.empty]
  show ?thesis by simp
qed

text \<open>
  C12. When \<^verbatim>\<open>serializeSEXP\<close> returns without an exception, whatever the operating system did,
  the object has an abstract syntax and the bytes the stream accepted are exactly magic number,
  version 3 and the concrete syntax of the object. The file holds what closing the stream leaves of
  them: all of them when that succeeds, which nobody checks. No other file was touched.
\<close>

theorem serialize_refines_format:
  assumes "serializeSEXP env x path fs = (Inr (), fs')"
  shows "\<exists>w. to_wire x = Some w \<and> fs' = fs(path \<mapsto> closed env (versioned_bytes 3 w))"
proof -
  from assms have "write_file env x [] = (Inr (), snd (write_file env x []))"
    and fs': "fs' = fs(path \<mapsto> closed env (snd (write_file env x [])))"
    by (auto simp: serializeSEXP_def split: if_splits prod.splits)
  from write_file_ok [OF this(1)] fs' show ?thesis
    by (auto simp: file_bytes_versioned kVersion_def)
qed

theorem serialize_refines_format_witness:
  "\<exists>w. to_wire example_factor = Some w
     \<and> snd (serializeSEXP good_stream example_factor ''f'' Map.empty)
         = [''f'' \<mapsto> versioned_bytes 3 w]"
proof -
  have "fst (serializeSEXP good_stream example_factor ''f'' Map.empty) = Inr ()"
    by (simp add: serializeSEXP_def good_stream_def example_factor_def write_file_def writeSEXP.simps
        writeHead_def writeU32_def writeI32_def writeBytes_def st_bind_def Rf_getAttrib_def)
  then have "serializeSEXP good_stream example_factor ''f'' Map.empty
      = (Inr (), snd (serializeSEXP good_stream example_factor ''f'' Map.empty))"
    by (metis prod.collapse)
  from serialize_refines_format [OF this] show ?thesis by simp
qed

lemma unserialize_run:
  assumes "fs path = Some bs"
  shows "unserializeSEXP api depth path fs pp =
     (let (r, s) = read_file api depth \<lparr>rest = bs, pp_stack = pp, protect_count = 0\<rparr> in (r, pp_stack s))"
  by (simp add: unserializeSEXP_def assms split: prod.splits)

text \<open>
  C13. \<^verbatim>\<open>unserializeSEXP\<close> accepts nothing but the format: when it returns an object, the file
  starts with magic number, a version from 1 to 3 and the concrete syntax, in that version,
  of an abstract syntax with sound lengths, and the object is the one built from it. It
  then leaves R's protection stack exactly as it found it.
\<close>

theorem unserialize_sound:
  assumes "unserializeSEXP api depth path fs pp = (Inr x, pp')"
  shows "pp' = pp \<and>
    (\<exists>v w trailing. fs path = Some (versioned_bytes v w @ trailing) \<and> 1 \<le> v \<and> v \<le> 3
       \<and> wire_ok w \<and> wire_in v w \<and> build api w = Inr x)"
proof -
  from assms obtain bs where bs: "fs path = Some bs"
    by (cases "fs path") (auto simp: unserializeSEXP_def)
  with assms obtain s where "read_file api depth \<lparr>rest = bs, pp_stack = pp, protect_count = 0\<rparr> = (Inr x, s)"
    and pp': "pp' = pp_stack s"
    by (auto simp: unserialize_run split: prod.splits)
  from read_file_sound [OF this(1)] bs pp' show ?thesis
    by (auto simp: kMinReadVersion_def kVersion_def)
qed

theorem unserialize_sound_witness:
  "\<exists>v w trailing. [67 :: byte, 83, 83, 82, 1, 0, 0, 0, 0, 0, 0, 0, 9] = versioned_bytes v w @ trailing
     \<and> 1 \<le> v \<and> v \<le> 3 \<and> wire_ok w \<and> build (reference_api 5) w = Inr NILSXP"
proof -
  let ?bs = "[67 :: byte, 83, 83, 82, 1, 0, 0, 0, 0, 0, 0, 0, 9]"
  have "unserializeSEXP (reference_api 5) 1 ''f'' [''f'' \<mapsto> ?bs] 0 = (Inr NILSXP, 0)" by code_simp
  from unserialize_sound [OF this] show ?thesis by auto
qed

text \<open>
  C14. A truncated file is rejected: reading any proper prefix of a well-formed file, of any
  version, ends in an error, and this is the C++ exception that reports the missing bytes, unless
  reading the whole file ends in an error too and the error is that one.
\<close>

theorem truncated_file_rejected:
  assumes "1 \<le> v" "v \<le> 3" "wire_ok w" "wire_in v w"
    and "n < length (versioned_bytes v w)" "fs path = Some (take n (versioned_bytes v w))"
  shows "\<exists>e. fst (unserializeSEXP api depth path fs pp) = Inl e \<and>
     (e = Std_exception ''Serialization read failed'' \<or>
      fst (unserializeSEXP api depth path (fs(path \<mapsto> versioned_bytes v w)) pp) = Inl e)"
proof -
  let ?s = "\<lparr>rest = take n (versioned_bytes v w), pp_stack = pp, protect_count = 0\<rparr>"
  have "fst (read_file api depth ?s) \<noteq> Inr x" for x
  proof
    assume "fst (read_file api depth ?s) = Inr x"
    then obtain s' where "read_file api depth ?s = (Inr x, s')" by (cases "read_file api depth ?s") simp
    from read_file_sound [OF this] obtain v' w' where
      w': "wire_ok w'" "wire_in v' w'" "take n (versioned_bytes v w) = versioned_bytes v' w' @ rest s'"
      by blast
    have "versioned_bytes v w @ [] = versioned_bytes v' w' @ (rest s' @ drop n (versioned_bytes v w))"
      using w'(3) append_take_drop_id [of n "versioned_bytes v w"] by (metis append.assoc append_Nil2)
    then have "v = v'" "wire_bytes v w @ [] = wire_bytes v w' @ (rest s' @ drop n (versioned_bytes v w))"
      by (auto simp: versioned_bytes_def)
    with wire_prefix_free [OF assms(3) w'(1) assms(4), of "[]"] w'(2)
    have "drop n (versioned_bytes v w) = []" by fastforce
    with assms(5) show False by simp
  qed
  then obtain e t where run: "read_file api depth ?s = (Inl e, t)"
    by (cases "read_file api depth ?s"; cases "fst (read_file api depth ?s)") auto
  have whole: "?s\<lparr>rest := rest ?s @ drop n (versioned_bytes v w)\<rparr> = \<lparr>rest = versioned_bytes v w, pp_stack = pp, protect_count = 0\<rparr>"
    by simp
  have "e = read_failed \<or> (\<exists>u. read_file api depth \<lparr>rest = versioned_bytes v w, pp_stack = pp, protect_count = 0\<rparr> = (Inl e, u))"
    using prefix_read_file [of api depth, unfolded follows_prefix_def, rule_format, of ?s "drop n (versioned_bytes v w)"]
    unfolding whole run by simp
  with run show ?thesis
    by (auto simp: unserialize_run [where fs = fs and path = path, OF assms(6)] unserialize_run [where fs = "fs(path \<mapsto> b)" for b])
qed

theorem truncated_file_rejected_witness:
  "fst (unserializeSEXP (reference_api 9) 9 ''f''
      [''f'' \<mapsto> take 13 (versioned_bytes 2 (WList (Some [Some [97]]) [WInt [5]]))] 0) = Inl (Std_exception ''Serialization read failed'')"
proof -
  let ?bs = "versioned_bytes 2 (WList (Some [Some [97]]) [WInt [5]])"
  have "fst (unserializeSEXP (reference_api 9) 9 ''f'' [''f'' \<mapsto> ?bs] 0) = Inr (VECSXP [INTSXP [5] []] [(''names'', STRSXP [CHARSXP CE_NATIVE [97]] [])])"
    by code_simp
  with truncated_file_rejected [of 2 "WList (Some [Some [97]]) [WInt [5]]" 13 "[''f'' \<mapsto> take 13 ?bs]" "''f''" "reference_api 9" 9 0]
  show ?thesis by (auto simp: versioned_bytes_def head_bytes_def names_bytes_def)
qed

text \<open>
  C15. The reader always comes back: on a file of \<open>n\<close> bytes, whatever they are, its
  recursion needs fewer than \<open>n div 4 + 2\<close> frames, so with that much stack it never runs
  into undefined behaviour.
\<close>

theorem reader_depth_bounded:
  assumes "sane_api api" "fs path = Some bs" "length bs < 4 * depth"
  shows "fst (unserializeSEXP api depth path fs pp) \<noteq> Inl Undefined_behaviour"
proof -
  have tail: "bounded_by 0 (\<lambda>s. (Inr x, s\<lparr>pp_stack := pp_stack s - protect_count s\<rparr>)) n" for x :: sexp and n
    by (auto simp: bounded_by_def)
  have read: "bounded_by 0 (st_bind (readSEXP api v depth)
      (\<lambda>result. (\<lambda>s. (Inr result, s\<lparr>pp_stack := pp_stack s - protect_count s\<rparr>)))) n"
    if "n \<le> length bs" for v n
    using assms that by (intro bounded_bind bounded_readSEXP tail) auto
  have "bounded_by 0 (read_file api depth) (length bs)"
    unfolding read_file_def
    by (intro bounded_weaken [OF bounded_bind [OF bounded_u32(1)]])
       (auto intro!: bounded_throw bounded_weaken [OF bounded_bind [OF bounded_u32(1)]] read)
  moreover obtain r t where run: "read_file api depth \<lparr>rest = bs, pp_stack = pp, protect_count = 0\<rparr> = (r, t)"
    by fastforce
  ultimately have "case r of Inl e \<Rightarrow> e \<noteq> Undefined_behaviour | Inr _ \<Rightarrow> True"
    unfolding bounded_by_def by (metis (mono_tags, lifting) order_refl rdst.select_convs(1) sum.case_eq_if)
  then have "fst (read_file api depth \<lparr>rest = bs, pp_stack = pp, protect_count = 0\<rparr>) \<noteq> Inl Undefined_behaviour"
    using run by auto
  then show ?thesis using run by (simp add: unserialize_run [where fs = fs and path = path, OF assms(2)])
qed

theorem reader_depth_bounded_witness:
  "fst (unserializeSEXP (reference_api 9) 7 ''f'' [''f'' \<mapsto> replicate 27 6] 2) \<noteq> Inl Undefined_behaviour"
  by (rule reader_depth_bounded [of _ _ _ "replicate 27 6"]) simp_all

text \<open>
  C17. The number of vectors in an object bounds what can be read back: an object with more
  vectors than the free slots of R's protection stack is written without complaint, but
  reading its file never returns an object.
\<close>

theorem too_many_vectors_unreadable:
  assumes "to_wire x = Some w" "wire_ok w" "can_open env path" "accepting env" "\<forall>out. closed env out = out"
    and "pp \<le> pp_limit api" "pp_limit api < pp + object_nodes x"
  shows "fst (serializeSEXP env x path fs) = Inr ()
       \<and> (\<exists>e. fst (unserializeSEXP api depth path (snd (serializeSEXP env x path fs)) pp) = Inl e)"
proof -
  have written: "serializeSEXP env x path fs = (Inr (), fs(path \<mapsto> file_bytes w))"
    using assms(3,5) write_file_delivers [OF assms(4,1,2)] by (simp add: serializeSEXP_def)
  let ?s = "\<lparr>rest = file_bytes w, pp_stack = pp, protect_count = 0\<rparr>"
  have "\<nexists>y s'. read_file api depth ?s = (Inr y, s')"
  proof
    assume "\<exists>y s'. read_file api depth ?s = (Inr y, s')"
    then obtain y s' where "read_file api depth ?s = (Inr y, s')" by blast
    then obtain t where t: "readSEXP api kVersion depth \<lparr>rest = wire_bytes kVersion w, pp_stack = pp, protect_count = 0\<rparr> = (Inr y, t)"
      by (auto simp: read_file_def file_bytes_def st_bind_def readU32_front split: prod.splits sum.splits if_splits)
    from readSEXP_sound [OF t] obtain w' where w': "wire_ok w'" "wire_in kVersion w'"
      "moved \<lparr>rest = wire_bytes kVersion w, pp_stack = pp, protect_count = 0\<rparr> (wire_bytes kVersion w') (nodes w') t"
      by blast
    then have "wire_bytes kVersion w @ [] = wire_bytes kVersion w' @ rest t" by (simp add: moved_def)
    from wire_prefix_free [OF assms(2) w'(1) _ w'(2) this] have "w = w'"
      using wire_in_current [of kVersion w] by (simp add: kVersion_def)
    with w' assms(1,7) have "pp_limit api < pp_stack t" by (simp add: moved_def object_nodes_def)
    moreover have "pp_stack t \<le> pp_limit api"
      using limit_readSEXP [of api kVersion depth] t assms(6) by (force simp: within_limit_def)
    ultimately show False by simp
  qed
  then have "\<exists>e. fst (read_file api depth ?s) = Inl e"
    by (cases "read_file api depth ?s"; cases "fst (read_file api depth ?s)") auto
  with written show ?thesis
    by (auto simp: unserialize_run split: prod.splits)
qed

theorem too_many_vectors_unreadable_witness:
  "\<exists>e. fst (unserializeSEXP (reference_api 4) 20 ''f''
      (snd (serializeSEXP good_stream (VECSXP [INTSXP [1] [], INTSXP [2] [], NILSXP] []) ''f'' Map.empty)) 2) = Inl e"
proof -
  let ?x = "VECSXP [INTSXP [1] [], INTSXP [2] [], NILSXP] []"
  let ?w = "WList None [WInt [1], WInt [2], WNil]"
  have w: "to_wire ?x = Some ?w"
    by (simp add: to_wire.simps Rf_getAttrib_def real_names_def)
  have "wire_ok ?w" "pp_limit (reference_api 4) < 2 + object_nodes ?x" "2 \<le> pp_limit (reference_api 4)"
    by (simp_all add: object_nodes_def reference_api_def w)
  from too_many_vectors_unreadable [OF w this(1) _ _ _ this(3,2), of good_stream "''f''" Map.empty 20]
  show ?thesis by simp
qed

text \<open>
  C16. Files of the older formats stay readable: a file of version 1 (lists without names),
  2 (list names) or 3 (arrays) with the abstract syntax its version can express is read as
  the object built from it, trailing bytes being ignored.
\<close>

theorem legacy_files_readable:
  assumes "ample api" "1 \<le> v" "v \<le> 3" "wire_ok w" "wire_in v w" "build api w = Inr x"
    and "wire_depth w \<le> depth" "pp + nodes w < pp_limit api"
    and "fs path = Some (versioned_bytes v w @ trailing)"
  shows "unserializeSEXP api depth path fs pp = (Inr x, pp)"
proof -
  have v: "kMinReadVersion \<le> v" "v \<le> kVersion"
    using assms(2,3) by (simp_all add: kMinReadVersion_def kVersion_def)
  from read_file_reads [OF assms(1) v assms(4-8), of trailing] show ?thesis
    by (simp add: unserialize_run [where fs = fs and path = path, OF assms(9)])
qed

theorem legacy_files_readable_witness:
  "unserializeSEXP (reference_api 9) 2 ''f''
      [''f'' \<mapsto> versioned_bytes 1 (WList None [WInt [5], WNil]) @ [1, 2]] 3
   = (Inr (VECSXP [INTSXP [5] [], NILSXP] []), 3)"
  by (rule legacy_files_readable [where v = 1 and w = "WList None [WInt [5], WNil]" and trailing = "[1, 2]"])
     (simp_all add: build_names_def)

text \<open>
  Foreign files are refused with the message the code gives for them: a wrong magic
  number, a version outside 1 to 3, an array in a file older than version 3, and a value of
  an unknown type.
\<close>

theorem foreign_files_refused:
  assumes "fs path = Some (u32_bytes m @ u32_bytes v @ u32_bytes ty @ bs)" "0 < depth"
  shows "(m \<noteq> kMagic \<longrightarrow>
      fst (unserializeSEXP api depth path fs pp) = Inl (Std_exception ''Invalid serialization magic header''))
    \<and> (m = kMagic \<and> (v = 0 \<or> 3 < v) \<longrightarrow>
      fst (unserializeSEXP api depth path fs pp) = Inl (Std_exception ''Unsupported serialization version''))
    \<and> (m = kMagic \<and> (v = 1 \<or> v = 2) \<and> ty = kArray \<longrightarrow>
      fst (unserializeSEXP api depth path fs pp)
        = Inl (Std_exception ''Array encoding requires serialization version 3''))
    \<and> (m = kMagic \<and> 1 \<le> v \<and> v \<le> 3 \<and> 6 < ty \<longrightarrow>
      fst (unserializeSEXP api depth path fs pp) = Inl (Std_exception ''Unsupported serialized value type''))"
proof -
  obtain d where d: "depth = Suc d" using assms(2) by (cases depth) auto
  have zero: "v < 1 \<longleftrightarrow> v = 0" by (simp add: word_less_nat_alt unat_eq_zero)
  have old: "v < 3" if "v = 1 \<or> v = 2" using that by auto
  have tag: "readTagged api v recur ty = st_throw (Std_exception ''Unsupported serialized value type'')"
    if "6 < ty" for recur
    using that by (auto simp: readTagged_def value_types)
  show ?thesis
    using zero old tag
    by (auto simp: unserialize_run [where fs = fs and path = path, OF assms(1)] read_file_def st_bind_def
        readU32_front d readTagged_simps kMinReadVersion_def kVersion_def not_less split: prod.splits)
qed

theorem foreign_files_refused_witness:
  "fst (unserializeSEXP (reference_api 9) 1 ''f''
      [''f'' \<mapsto> u32_bytes kMagic @ u32_bytes 2 @ u32_bytes kArray @ []] 0)
   = Inl (Std_exception ''Array encoding requires serialization version 3'')"
  using foreign_files_refused [of "[''f'' \<mapsto> u32_bytes kMagic @ u32_bytes 2 @ u32_bytes kArray @ []]" "''f''"
      kMagic 2 kArray "[]" 1 "reference_api 9" 0]
  by simp

text \<open>
  An object that was read back is written to the same bytes as the original: the loss
  of attributes and encoding marks happens once, and further trips through files change
  nothing.
\<close>

theorem rewriting_is_identical:
  assumes "wf_sexp x" "accepting env" "can_open env path"
  shows "serializeSEXP env (norm_sexp x) path fs = serializeSEXP env x path fs
       \<and> fst (serializeSEXP env x path fs) = Inr ()"
proof -
  from refapi.build_norm(1) [OF assms(1)] obtain w where w: "to_wire x = Some w" "wire_ok w" by blast
  then have "to_wire (norm_sexp x) = Some w" by (simp add: to_wire_norm(1))
  with w assms(2,3) show ?thesis
    by (simp add: serializeSEXP_def write_file_delivers)
qed

theorem rewriting_is_identical_witness:
  "norm_sexp example_matrix \<noteq> example_matrix
   \<and> serializeSEXP good_stream (norm_sexp example_matrix) ''f'' Map.empty = serializeSEXP good_stream example_matrix ''f'' Map.empty"
proof -
  have "wf_sexp example_matrix"
    by (simp add: example_matrix_def wf_sexp.simps Rf_getAttrib_def valid_dim_def valid_dimnames_def
        valid_dimname_def real_names_def)
  moreover have "norm_sexp example_matrix \<noteq> example_matrix"
    by (simp add: example_matrix_def norm_sexp.simps Rf_getAttrib_def norm_names_def real_names_def)
  ultimately show ?thesis
    using rewriting_is_identical [of example_matrix good_stream "''f''" Map.empty] by simp
qed

end
