(* ===== verification/Core_Utils.thy ===== *)
theory Core_Utils
  imports Cpp_Std
begin

text \<open>
  The stateless utility classes of \<^verbatim>\<open>src/core\<close>: \<^verbatim>\<open>PathUtils\<close>, \<^verbatim>\<open>StringUtils\<close>,
  \<^verbatim>\<open>VectorUtils\<close>, \<^verbatim>\<open>TypeChecker\<close> and \<^verbatim>\<open>TypeMapper\<close>, and \<^verbatim>\<open>UIDGenerator\<close> with its clock and
  random engine as explicit state. The lemmas say that a file name built for a
  serialization method carries that method and can be told apart from every other file
  name of the call, and that the generated names have the shape the rest of the package
  relies on.
\<close>

section \<open>PathUtils\<close>

definition is_separator :: "char \<Rightarrow> bool" where
  "is_separator c \<longleftrightarrow> c = CHR ''/'' \<or> c = CHR 0x5C"

definition basename :: "string \<Rightarrow> string" where
  "basename filepath =
     (case find_last_if is_separator filepath of
        None \<Rightarrow> filepath
      | Some last_slash \<Rightarrow> drop (last_slash + 1) filepath)"

definition extractSerializationMethod :: "string \<Rightarrow> string" where
  "extractSerializationMethod filepath =
     (let filename = basename filepath
      in case find_first_if (\<lambda>c. c = CHR ''-'') filename of
           None \<Rightarrow> []
         | Some dash_pos \<Rightarrow> take dash_pos filename)"

text \<open>The directory prefix all three builders write.\<close>

definition with_slash :: "string \<Rightarrow> string" where
  "with_slash dir = (if dir \<noteq> [] \<and> last dir \<noteq> CHR ''/'' then dir @ ''/'' else dir)"

definition buildArgumentFilename :: "string \<Rightarrow> string \<Rightarrow> string \<Rightarrow> int \<Rightarrow> string \<Rightarrow> string" where
  "buildArgumentFilename master_working_dir ser_method arg_name index uid =
     (let mthd = (if ser_method = [] then ''cpp'' else ser_method)
      in with_slash master_working_dir @ mthd @ ''-'' @ arg_name @ ''_arg['' @
           int_to_string index @ '']_'' @ uid)"

definition buildReturnValueFilename :: "string \<Rightarrow> string \<Rightarrow> string \<Rightarrow> string" where
  "buildReturnValueFilename master_working_dir ser_method uid =
     (let mthd = (if ser_method = [] then ''cpp'' else ser_method)
      in with_slash master_working_dir @ mthd @ ''-ReturnValue_'' @ uid)"

definition buildTypeArgsPath :: "string \<Rightarrow> string \<Rightarrow> string" where
  "buildTypeArgsPath working_dir filename = with_slash working_dir @ filename"

text \<open>Names that hold no directory separator.\<close>

definition plain_name :: "string \<Rightarrow> bool" where
  "plain_name s \<longleftrightarrow> (\<forall>c \<in> set s. \<not> is_separator c)"

lemma plain_name_append [simp]: "plain_name (s @ t) \<longleftrightarrow> plain_name s \<and> plain_name t"
  by (auto simp: plain_name_def)

lemma plain_name_Cons [simp]: "plain_name (c # s) \<longleftrightarrow> \<not> is_separator c \<and> plain_name s"
  by (auto simp: plain_name_def)

lemma plain_name_Nil [simp]: "plain_name []"
  by (simp add: plain_name_def)

lemma is_digit_not_separator: "is_digit c \<Longrightarrow> \<not> is_separator c"
  by (auto simp: is_digit_def is_separator_def)

lemma plain_name_int_to_string [simp]: "plain_name (int_to_string i)"
  by (auto simp: plain_name_def int_to_string_def is_separator_def
      dest: nat_to_string_digits is_digit_not_separator split: if_splits)
     (auto dest!: nat_to_string_digits simp: is_digit_def)

lemma with_slash_cases:
  obtains "with_slash d = []" | d' where "with_slash d = d' @ ''/''"
proof (cases "d = []")
  case True
  then show ?thesis using that(1) by (simp add: with_slash_def)
next
  case False
  show ?thesis
  proof (cases "last d = CHR ''/''")
    case True
    with False have "with_slash d = butlast d @ ''/''"
      using append_butlast_last_id [OF False] by (simp add: with_slash_def)
    then show ?thesis by (rule that(2))
  next
    case False
    with \<open>d \<noteq> []\<close> have "with_slash d = d @ ''/''" by (simp add: with_slash_def)
    then show ?thesis by (rule that(2))
  qed
qed

lemma basename_plain: "plain_name s \<Longrightarrow> basename s = s"
proof -
  assume "plain_name s"
  then have "find_last_if is_separator s = None" by (simp add: plain_name_def)
  then show ?thesis by (simp only: basename_def option.case)
qed

lemma basename_with_slash:
  assumes "plain_name s"
  shows "basename (with_slash d @ s) = s"
proof (cases d rule: with_slash_cases)
  case 1
  then show ?thesis using assms by (simp add: basename_plain)
next
  case (2 d')
  have "is_separator (CHR ''/'')" by (simp add: is_separator_def)
  then have "find_last_if is_separator (d' @ CHR ''/'' # s) = Some (length d')"
    using assms by (simp add: find_last_if_append plain_name_def)
  then show ?thesis by (simp add: 2 basename_def)
qed

text \<open>The prefix before the first dash, for a base name that starts \<open>m-\<close>.\<close>

lemma extract_prefix:
  assumes "CHR ''-'' \<notin> set m" "plain_name m" "plain_name r"
  shows "extractSerializationMethod (with_slash d @ m @ CHR ''-'' # r) = m"
proof -
  have "basename (with_slash d @ m @ CHR ''-'' # r) = m @ CHR ''-'' # r"
    using assms by (intro basename_with_slash) (simp add: is_separator_def)
  moreover have "find_first_if (\<lambda>c. c = CHR ''-'') (m @ CHR ''-'' # r) = Some (length m)"
    using assms(1) by (subst find_first_if_append) auto
  ultimately show ?thesis by (simp add: extractSerializationMethod_def)
qed

text \<open>A serialization method that can be a file name prefix.\<close>

definition method_name :: "string \<Rightarrow> bool" where
  "method_name m \<longleftrightarrow> m \<noteq> [] \<and> CHR ''-'' \<notin> set m \<and> plain_name m"

lemma method_name_examples [simp]:
  "method_name ''cpp''" "method_name ''qs''" "method_name ''RMVL''" "method_name ''rmvl''"
  by (simp_all add: method_name_def is_separator_def)

section \<open>StringUtils\<close>

definition buildVariableArgumentNames :: "string \<Rightarrow> int \<Rightarrow> string list res" where
  "buildVariableArgumentNames function_name count =
     (if count < 0 then Inl (Std_exception ''vector::reserve'')
      else let prefix = function_name @ ''___''
           in Inr (map (\<lambda>i. prefix @ int_to_string i) [1..count]))"

definition buildReturnValueName :: "string \<Rightarrow> string" where
  "buildReturnValueName ser_method = ser_method @ ''-RETURN_VALUE''"

definition buildRegisterMarker :: "string \<Rightarrow> string" where
  "buildRegisterMarker function_name = ''registered_'' @ function_name"

definition buildConstraintString :: "(string \<times> string) list \<Rightarrow> string" where
  "buildConstraintString constraints =
     (if constraints = [] then []
      else foldl (\<lambda>result c. result @ fst c @ '':'' @ snd c @ '';'') [] constraints)"

section \<open>VectorUtils\<close>

text \<open>
  \<^verbatim>\<open>std::vector<T> result(count, value)\<close>: a negative \<^verbatim>\<open>int\<close> converts to a size beyond
  \<^verbatim>\<open>max_size()\<close>.
\<close>

definition rep_vector :: "'a \<Rightarrow> int \<Rightarrow> 'a list res" where
  "rep_vector value count =
     (if count < 0
      then Inl (Std_exception ''cannot create std::vector larger than max_size()'')
      else Inr (replicate (nat count) value))"

definition repInteger :: "int \<Rightarrow> int \<Rightarrow> int list res" where
  "repInteger value count = rep_vector value count"

definition repString :: "string \<Rightarrow> int \<Rightarrow> string list res" where
  "repString value count = rep_vector value count"

definition concatInteger :: "int list \<Rightarrow> int \<Rightarrow> int list" where
  "concatInteger vec value = vec @ [value]"

definition concatString :: "string list \<Rightarrow> string \<Rightarrow> string list" where
  "concatString vec value = vec @ [value]"

lemmas vector_utils = repInteger_def repString_def rep_vector_def concatInteger_def concatString_def

section \<open>TypeChecker and TypeMapper\<close>

definition isBasicType :: "string \<Rightarrow> string \<Rightarrow> int \<Rightarrow> bool" where
  "isBasicType r_class r_type len =
     (if len \<noteq> 1 then False
      else if r_class = ''integer'' \<or> r_class = ''numeric'' \<or> r_class = ''character'' then True
      else if r_type = ''integer'' \<or> r_type = ''double'' \<or> r_type = ''character'' then True
      else False)"

definition isFutureObject :: "string \<Rightarrow> bool" where
  "isFutureObject r_class \<longleftrightarrow> r_class = ''future_object''"

definition isFutureObjectPath :: "string \<Rightarrow> bool" where
  "isFutureObjectPath r_class \<longleftrightarrow> r_class = ''future_object_path''"

definition isList :: "string \<Rightarrow> bool" where
  "isList r_class \<longleftrightarrow> r_class = ''list''"

definition mapType :: "string \<Rightarrow> int" where
  "mapType r_type =
     (if r_type = ''logical'' then 0
      else if r_type = ''CHAR'' then 1
      else if r_type = ''BYTE'' then 2
      else if r_type = ''SHORT'' then 3
      else if r_type = ''integer'' then 4
      else if r_type = ''double'' then 7
      else if r_type = ''character'' then 8
      else 10)"

lemma mapType_range: "mapType t \<in> {0, 1, 2, 3, 4, 7, 8, 10}"
  by (simp add: mapType_def)

section \<open>UIDGenerator\<close>

text \<open>The fields of \<^verbatim>\<open>std::tm\<close> that \<^verbatim>\<open>%Y%m%d%H%M%S\<close> prints.\<close>

record cpp_tm =
  tm_year :: int  \<comment> \<open>years since 1900\<close>
  tm_mon :: nat   \<comment> \<open>0 to 11\<close>
  tm_mday :: nat
  tm_hour :: nat
  tm_min :: nat
  tm_sec :: nat

definition pad2 :: "nat \<Rightarrow> string" where
  "pad2 n = [digit_char (n div 10 mod 10), digit_char (n mod 10)]"

definition put_time :: "cpp_tm \<Rightarrow> string" where
  "put_time t =
     int_to_string (tm_year t + 1900) @ pad2 (tm_mon t + 1) @ pad2 (tm_mday t) @
     pad2 (tm_hour t) @ pad2 (tm_min t) @ pad2 (tm_sec t)"

definition uid_chars :: string where
  "uid_chars = ''abcdefghijklmnopqrstuvwxyzABCDEFGHIJKLMNOPQRSTUVWXYZ0123456789''"

text \<open>
  The loop that appends \<open>n\<close> random characters; \<open>dis\<close> is \<^verbatim>\<open>dis_(gen_)\<close>, a draw that also
  advances the engine. The array holds the terminating NUL after its 62 characters.
\<close>

fun uid_random :: "('g \<Rightarrow> nat \<times> 'g) \<Rightarrow> nat \<Rightarrow> 'g \<Rightarrow> string \<times> 'g" where
  "uid_random dis 0 g = ([], g)"
| "uid_random dis (Suc n) g =
     (case dis g of (k, g') \<Rightarrow>
        (case uid_random dis n g' of (s, g'') \<Rightarrow> ((uid_chars @ [CHR 0x00]) ! k # s, g'')))"

text \<open>
  \<open>now\<close> reads the clock (local time); \<open>'g\<close> is everything the clock and the engine depend
  on. The mutex makes one call atomic, so a sequence of calls threads \<open>'g\<close>.
\<close>

definition UIDGenerator_generate ::
    "('g \<Rightarrow> cpp_tm \<times> 'g) \<Rightarrow> ('g \<Rightarrow> nat \<times> 'g) \<Rightarrow> 'g \<Rightarrow> string \<times> 'g" where
  "UIDGenerator_generate now dis g =
     (case now g of (tm_info, g1) \<Rightarrow>
        (case uid_random dis 50 g1 of (random_string, g2) \<Rightarrow>
           (put_time tm_info @ ''-'' @ random_string, g2)))"

lemma uid_random_length: "length (fst (uid_random dis n g)) = n"
proof (induction n arbitrary: g)
  case 0
  then show ?case by simp
next
  case (Suc n)
  obtain k g' where d: "dis g = (k, g')" by fastforce
  obtain s g'' where r: "uid_random dis n g' = (s, g'')" by fastforce
  show ?case using Suc.IH [of g'] by (simp add: d r)
qed

lemma length_uid_chars [simp]: "length uid_chars = 62"
  by (simp add: uid_chars_def)

lemma uid_random_chars:
  assumes "\<And>g. fst (dis g) \<le> 61"
  shows "set (fst (uid_random dis n g)) \<subseteq> set uid_chars"
proof (induction n arbitrary: g)
  case 0
  then show ?case by simp
next
  case (Suc n)
  obtain k g' where d: "dis g = (k, g')" by fastforce
  obtain s g'' where r: "uid_random dis n g' = (s, g'')" by fastforce
  have "k < 62" using assms [of g] d by simp
  then have "(uid_chars @ [CHR 0x00]) ! k \<in> set uid_chars"
    by (simp add: nth_append)
  with Suc.IH [of g'] d r show ?case by simp
qed

definition uid_char :: "char \<Rightarrow> bool" where
  "uid_char c \<longleftrightarrow> c = CHR ''-'' \<or> c \<in> set uid_chars"

lemma digit_char_in_uid_chars: "d < 10 \<Longrightarrow> digit_char d \<in> set uid_chars"
proof -
  assume "d < 10"
  then have "digit_char d = uid_chars ! (52 + d)"
  proof -
    have "\<forall>d \<in> {0..<10}. digit_char d = uid_chars ! (52 + d)" by code_simp
    with \<open>d < 10\<close> show ?thesis by simp
  qed
  with \<open>d < 10\<close> show ?thesis by (simp add: nth_mem)
qed

lemma uid_char_digit: "d < 10 \<Longrightarrow> uid_char (digit_char d)"
  by (simp add: uid_char_def digit_char_in_uid_chars)

lemma pad2_chars: "set (pad2 n) \<subseteq> set uid_chars"
  by (simp add: pad2_def digit_char_in_uid_chars)

lemma length_pad2 [simp]: "length (pad2 n) = 2"
  by (simp add: pad2_def)

lemma digit_in_uid_chars: "is_digit c \<Longrightarrow> c \<in> set uid_chars"
proof -
  assume "is_digit c"
  then have "digit_val c < 10" "c = digit_char (digit_val c)"
    by (auto simp: is_digit_def digit_val_def digit_char_def)
  then show ?thesis using digit_char_in_uid_chars by metis
qed

lemma year_chars: "0 \<le> y \<Longrightarrow> set (int_to_string y) \<subseteq> set uid_chars"
  by (auto simp: int_to_string_def dest!: nat_to_string_digits intro: digit_in_uid_chars)

lemma length_year:
  assumes "1000 \<le> n" "n \<le> 9999"
  shows "length (nat_to_string n) = 4"
proof -
  have "\<not> n < 10" "\<not> n div 10 < 10" "\<not> n div 10 div 10 < 10" "n div 10 div 10 div 10 < 10"
    using assms by (auto simp: div_mult2_eq [symmetric])
  then show ?thesis
    by (subst nat_to_string.simps, subst nat_to_string.simps, subst nat_to_string.simps,
        subst nat_to_string.simps) simp
qed

lemma uid_char_plain: "uid_char c \<Longrightarrow> \<not> is_separator c"
  by (auto simp: uid_char_def uid_chars_def is_separator_def)

lemma generate_shape:
  assumes "fst (now g) = t" "0 \<le> tm_year t" "tm_year t \<le> 8099"
    and "\<And>g. fst (dis g) \<le> 61"
  shows "length (fst (UIDGenerator_generate now dis g)) = 65
       \<and> (\<forall>c \<in> set (fst (UIDGenerator_generate now dis g)). uid_char c)
       \<and> plain_name (fst (UIDGenerator_generate now dis g))"
proof -
  obtain g1 where n: "now g = (t, g1)" using assms(1) by (cases "now g") simp
  obtain r g2 where r: "uid_random dis 50 g1 = (r, g2)" by fastforce
  have "length r = 50" "set r \<subseteq> set uid_chars"
    using uid_random_length [of dis 50 g1] uid_random_chars [of dis 50 g1] assms(4) r by simp_all
  moreover have "length (put_time t) = 14"
    using assms(2,3) length_year [of "nat (tm_year t + 1900)"]
    by (simp add: put_time_def int_to_string_def)
  moreover have "set (put_time t) \<subseteq> set uid_chars"
    using assms(2) pad2_chars year_chars [of "tm_year t + 1900"] by (simp add: put_time_def)
  moreover have "UIDGenerator_generate now dis g = (put_time t @ ''-'' @ r, g2)"
    by (simp add: UIDGenerator_generate_def n r)
  ultimately show ?thesis
    using uid_char_plain by (auto simp: uid_char_def plain_name_def is_separator_def)
qed

section \<open>The interface of the file names\<close>

text \<open>
  What the readers of the package assume of a file name: whichever part of the runtime
  chose it, the method that wrote the file can be read off the name. \<open>build m p\<close> is the
  name given to a file written with method \<open>m\<close>, the rest of the name coming from \<open>p\<close>.
\<close>

locale file_naming =
  fixes build :: "string \<Rightarrow> 'p \<Rightarrow> string"
    and valid :: "'p \<Rightarrow> bool"
    and method_of :: "string \<Rightarrow> string"
  assumes recovers: "method_name m \<Longrightarrow> valid p \<Longrightarrow> method_of (build m p) = m"
begin

lemma build_method_inject:
  "method_name m \<Longrightarrow> method_name m' \<Longrightarrow> valid p \<Longrightarrow> valid p' \<Longrightarrow> build m p = build m' p' \<Longrightarrow> m = m'"
  using recovers by metis

end

lemma method_of_argument:
  assumes "method_name m" "plain_name arg_name" "plain_name uid"
  shows "extractSerializationMethod (buildArgumentFilename d m arg_name index uid) = m"
proof -
  have "plain_name (arg_name @ ''_arg['' @ int_to_string index @ '']_'' @ uid)"
    using assms by (simp add: is_separator_def)
  from extract_prefix [OF _ _ this, of m d] assms show ?thesis
    by (simp add: buildArgumentFilename_def method_name_def)
qed

lemma method_of_return_value:
  assumes "method_name m" "plain_name uid"
  shows "extractSerializationMethod (buildReturnValueFilename d m uid) = m"
proof -
  have "plain_name (''ReturnValue_'' @ uid)"
    using assms by (simp add: is_separator_def)
  from extract_prefix [OF _ _ this, of m d] assms show ?thesis
    by (simp add: buildReturnValueFilename_def method_name_def)
qed

definition argument_file :: "string \<Rightarrow> string \<times> string \<times> int \<times> string \<Rightarrow> string" where
  "argument_file m p = (case p of (d, arg_name, index, uid) \<Rightarrow> buildArgumentFilename d m arg_name index uid)"

definition return_file :: "string \<Rightarrow> string \<times> string \<Rightarrow> string" where
  "return_file m p = (case p of (d, uid) \<Rightarrow> buildReturnValueFilename d m uid)"

interpretation argf: file_naming argument_file
  "\<lambda>(d, arg_name, index, uid). plain_name arg_name \<and> plain_name uid" extractSerializationMethod
  by unfold_locales (auto simp: argument_file_def method_of_argument)

interpretation retf: file_naming return_file "\<lambda>(d, uid). plain_name uid" extractSerializationMethod
  by unfold_locales (auto simp: return_file_def method_of_return_value)

lemma bracket_not_in_number: "CHR ''['' \<notin> set (int_to_string i)"
  using int_to_string_char [of "CHR ''[''" i] by (auto simp: is_digit_def)

lemma buildArgumentFilename_split:
  assumes m: "method_name m" "method_name m'"
    and n: "plain_name nm" "plain_name nm'" "plain_name u" "plain_name u'"
    and len: "length u = length u'"
    and eq: "buildArgumentFilename d m nm i u = buildArgumentFilename d' m' nm' i' u'"
  shows "with_slash d = with_slash d' \<and> m = m' \<and> nm = nm' \<and> i = i' \<and> u = u'"
proof -
  let ?r = "\<lambda>nm i u. nm @ ''_arg['' @ int_to_string i @ '']_'' @ u"
  have whole: "with_slash d @ m @ CHR ''-'' # ?r nm i u = with_slash d' @ m' @ CHR ''-'' # ?r nm' i' u'"
    using eq m by (simp add: buildArgumentFilename_def method_name_def)
  have plain: "plain_name (m @ CHR ''-'' # ?r nm i u)" "plain_name (m' @ CHR ''-'' # ?r nm' i' u')"
    using m n by (simp_all add: is_separator_def method_name_def)
  have base: "m @ CHR ''-'' # ?r nm i u = m' @ CHR ''-'' # ?r nm' i' u'"
    using arg_cong [OF whole, of basename] basename_with_slash [OF plain(1)]
      basename_with_slash [OF plain(2)] by metis
  then have "m = m'" and rest: "?r nm i u = ?r nm' i' u'"
    using split_at_first_char [OF base] m by (auto simp: method_name_def)
  have "(nm @ ''_arg['' @ int_to_string i @ '']_'') @ u = (nm' @ ''_arg['' @ int_to_string i' @ '']_'') @ u'"
    using rest by simp
  then have "u = u'"
    using len append_eq_append_conv [of _ _ u u'] by blast
  then have "(nm @ ''_arg'') @ CHR ''['' # int_to_string i = (nm' @ ''_arg'') @ CHR ''['' # int_to_string i'"
    using rest by simp
  from split_at_last_char [OF this] have "nm = nm'" "i = i'"
    by (simp_all add: bracket_not_in_number)
  moreover have "with_slash d = with_slash d'"
    using whole base by simp
  ultimately show ?thesis using \<open>m = m'\<close> \<open>u = u'\<close> by simp
qed

section \<open>Properties\<close>

text \<open>
  C11. Whatever directory, argument name, position and unique id go into a file name, the
  serialization method that \<^verbatim>\<open>PathUtils::extractSerializationMethod\<close> reads off an argument
  or return value file is the one the name was built for, and \<^verbatim>\<open>cpp\<close> for the empty method.
\<close>

theorem file_name_carries_method:
  assumes "method_name m \<or> m = []" "plain_name arg_name" "plain_name uid"
  shows "extractSerializationMethod (buildArgumentFilename d m arg_name index uid)
           = (if m = [] then ''cpp'' else m)
       \<and> extractSerializationMethod (buildReturnValueFilename d m uid)
           = (if m = [] then ''cpp'' else m)"
proof (cases "m = []")
  case True
  then show ?thesis
    using assms method_of_argument [of "''cpp''"] method_of_return_value [of "''cpp''"]
    by (simp add: buildArgumentFilename_def buildReturnValueFilename_def)
next
  case False
  then show ?thesis
    using assms argf.recovers [of m "(d, arg_name, index, uid)"] retf.recovers [of m "(d, uid)"]
    by (auto simp: argument_file_def return_file_def)
qed

theorem file_name_carries_method_witness:
  "extractSerializationMethod (buildArgumentFilename ''/tmp'' ''RMVL'' ''x'' 3 ''u-1'') = ''RMVL''"
  using file_name_carries_method [of "''RMVL''" "''x''" "''u-1''" "''/tmp''" 3]
  by (simp add: is_separator_def)

text \<open>
  Two argument files have the same name only when directory, method, argument name,
  position and unique id all agree, for unique ids of the same length.
\<close>

theorem argument_files_distinct:
  assumes "method_name m" "method_name m'" "plain_name nm" "plain_name nm'"
    and "plain_name u" "plain_name u'" "length u = length u'"
  shows "buildArgumentFilename d m nm i u = buildArgumentFilename d' m' nm' i' u'
           \<longleftrightarrow> with_slash d = with_slash d' \<and> m = m' \<and> nm = nm' \<and> i = i' \<and> u = u'"
  using buildArgumentFilename_split [OF assms] by (auto simp: buildArgumentFilename_def)

theorem argument_files_distinct_witness:
  "buildArgumentFilename ''/w'' ''qs'' ''x'' 1 ''A'' \<noteq> buildArgumentFilename ''/w/'' ''qs'' ''x'' 2 ''A''"
  using argument_files_distinct [of "''qs''" "''qs''" "''x''" "''x''" "''A''" "''A''" "''/w''" 1 "''/w/''" 2]
  by (simp add: is_separator_def)

text \<open>
  A unique id generated in the years 1900 to 9999 is the fourteen characters of the
  time stamp when the year has four digits, a dash and fifty characters of the alphabet:
  65 characters, no directory separator and no bracket, so it can stand in a file name.
\<close>

theorem uid_shape:
  assumes "fst (now g) = t" "0 \<le> tm_year t" "tm_year t \<le> 8099"
    and "\<And>g. fst (dis g) \<le> 61"
  shows "length (fst (UIDGenerator_generate now dis g)) = 65
       \<and> (\<forall>c \<in> set (fst (UIDGenerator_generate now dis g)). uid_char c)
       \<and> plain_name (fst (UIDGenerator_generate now dis g))"
  by (rule generate_shape) (use assms in auto)

theorem uid_shape_witness:
  "length (fst (UIDGenerator_generate
      (\<lambda>g. (\<lparr>tm_year = 125, tm_mon = 11, tm_mday = 31, tm_hour = 23, tm_min = 59, tm_sec = 60\<rparr>, g))
      (\<lambda>g. (g mod 62, g + 1)) (7 :: nat))) = 65"
proof -
  have "g mod 62 \<le> 61" for g :: nat using mod_less_divisor [of 62 g] by linarith
  then show ?thesis
    using uid_shape [where g = 7 and dis = "\<lambda>g. (g mod 62, g + 1)" and t =
        "\<lparr>tm_year = 125, tm_mon = 11, tm_mday = 31, tm_hour = 23, tm_min = 59, tm_sec = 60\<rparr>" and now =
        "\<lambda>g. (\<lparr>tm_year = 125, tm_mon = 11, tm_mday = 31, tm_hour = 23, tm_min = 59, tm_sec = 60\<rparr>, g)"]
    by simp
qed

end
