(* ===== verification/Executor_Message.thy ===== *)
theory Executor_Message
  imports Core_Utils R_Values
begin

text \<open>
  The textual half of \<^verbatim>\<open>src/executor/ExecutorCore.cpp\<close>: task lines and the parameter
  vector the COMPSs worker sends, and \<^verbatim>\<open>buildFunctionArgs\<close>, which turns the vector into the
  named argument list of the R call. The embedded R session and the files it reads are a
  parameter (\<open>runtime\<close>). The diagnostic lines the code prints on its own standard error and
  into \<^verbatim>\<open>/tmp/rcompss_executor_debug_<pid>.log\<close> are left out: nothing reads them.
\<close>

section \<open>Tokens and task lines\<close>

definition splitWhitespace :: "string \<Rightarrow> string list" where
  "splitWhitespace input = stream_tokens [] input"

definition parseBool :: "string \<Rightarrow> int" where
  "parseBool v = (if v = ''TRUE'' \<or> v = ''T'' \<or> v = ''1'' then 1 else 0)"

record TaskMessage =
  task_id :: string
  sandbox :: string
  job_out :: string
  job_err :: string
  tracing :: string
  debug :: string
  module :: string
  func :: string
  params :: "string list"
  cpus :: string
  gpus :: string

definition parseTaskMessage :: "string \<Rightarrow> TaskMessage option" where
  "parseTaskMessage line =
     (let tokens = splitWhitespace line
      in if tokens = [] then None
         else if tokens ! 0 \<noteq> ''EXECUTE_TASK'' then None
         else if length tokens < 14 then None
         else
           (let params_end = length tokens - 3
            in Some \<lparr>task_id = tokens ! 1, sandbox = tokens ! 2, job_out = tokens ! 3,
                 job_err = tokens ! 4, tracing = tokens ! 5, debug = tokens ! 7,
                 module = tokens ! 10, func = tokens ! 11,
                 params = (if 13 < params_end then drop 13 (take params_end tokens)
                           else drop 13 tokens),
                 cpus = (if 3 \<le> length tokens then tokens ! (length tokens - 3) else ''-''),
                 gpus = (if 3 \<le> length tokens then tokens ! (length tokens - 2) else ''-'')\<rparr>))"

definition stripValueSuffix :: "string \<Rightarrow> string" where
  "stripValueSuffix raw_value =
     (case find_last_if (\<lambda>c. c = CHR '':'') raw_value of
        None \<Rightarrow> raw_value
      | Some pos \<Rightarrow> drop (pos + 1) raw_value)"

definition kSuffix :: string where
  "kSuffix = ''-RETURN_VALUE''"

definition rcompssIsReturnValuePlaceholderArgName :: "string \<Rightarrow> bool" where
  "rcompssIsReturnValuePlaceholderArgName name \<longleftrightarrow>
     length kSuffix \<le> length name \<and> drop (length name - length kSuffix) name = kSuffix"

section \<open>The R session behind the executor\<close>

text \<open>
  \<open>'r\<close> is everything R code can change: its environments, the file system, the process. The
  fields are the calls the executor makes into R and the operating system; a call may end
  in any outcome of \<open>exn\<close> and always leaves a state. \<open>to_double\<close> is \<^verbatim>\<open>std::stod\<close>.
\<close>

record 'r runtime =
  to_double :: "string \<Rightarrow> u64 res"
  file_good :: "'r \<Rightarrow> string \<Rightarrow> bool"
  source_func :: "string \<Rightarrow> ('r, unit) st"
  env_exists :: "'r \<Rightarrow> string \<Rightarrow> bool"
  compss_unserialize :: "string \<Rightarrow> ('r, sexp) st"
  call_direct :: "string \<Rightarrow> ('r, sexp) st"
  do_call :: "string \<Rightarrow> (string \<times> sexp) list \<Rightarrow> ('r, sexp) st"
  compss_serialize :: "sexp \<Rightarrow> string \<Rightarrow> string \<Rightarrow> ('r, unit) st"
  sched_setaffinity :: "int list \<Rightarrow> 'r \<Rightarrow> string option \<times> 'r"

section \<open>buildFunctionArgs\<close>

text \<open>
  \<^verbatim>\<open>get_param\<close>: one-based access with \<^verbatim>\<open>vector::at\<close>. The index is an \<^verbatim>\<open>int\<close> expression; one
  that leaves the range of \<^verbatim>\<open>int\<close> is undefined.
\<close>

definition get_param :: "string list \<Rightarrow> int \<Rightarrow> string res" where
  "get_param ps i =
     (if in_int_range i \<and> in_int_range (i - 1) then vec_at ps (i - 1) else Inl Undefined_behaviour)"

text \<open>The handlers around \<^verbatim>\<open>compss_unserialize_\<close>.\<close>

fun unserialize_error :: "string \<Rightarrow> exn \<Rightarrow> exn" where
  "unserialize_error path (Rcpp_exception m) =
     Std_exception (''Rcpp exception unserializing file '' @ [CHR 0x27] @ path @ [CHR 0x27] @ '': '' @ m)"
| "unserialize_error path (Std_exception m) =
     Std_exception (''Exception unserializing file '' @ [CHR 0x27] @ path @ [CHR 0x27] @ '': '' @ m)"
| "unserialize_error path Foreign_exception =
     Std_exception (''Unknown error unserializing file '' @ [CHR 0x27] @ path @ [CHR 0x27])"
| "unserialize_error path e = e"

definition unserialize_arg :: "'r runtime \<Rightarrow> string \<Rightarrow> ('r, sexp) st" where
  "unserialize_arg rt path =
     (\<lambda>s. case compss_unserialize rt path s of
        (Inl e, s') \<Rightarrow> (Inl (unserialize_error path e), s')
      | (Inr v, s') \<Rightarrow> (Inr v, s'))"

fun join_words :: "string list \<Rightarrow> string" where
  "join_words ws = join_with (CHR '' '') ws"

text \<open>One round of the loop: the value, its name and the index of the next argument.\<close>

definition read_arg :: "'r runtime \<Rightarrow> string list \<Rightarrow> int \<Rightarrow> ('r, (string \<times> sexp) \<times> int) st" where
  "read_arg rt ps ind =
     st_bind (st_lift (get_param ps ind)) (\<lambda>type_code.
     st_bind (st_lift (get_param ps (ind + 3))) (\<lambda>arg_name.
       if type_code = ''0'' then
         st_bind (st_lift (get_param ps (ind + 5))) (\<lambda>v.
           st_return ((arg_name, r_bool (parseBool v)), ind + 6))
       else if type_code = ''4'' then
         st_bind (st_lift (res_bind (get_param ps (ind + 5)) stoi)) (\<lambda>v.
           st_return ((arg_name, r_int v), ind + 6))
       else if type_code = ''7'' then
         st_bind (st_lift (res_bind (get_param ps (ind + 5)) (to_double rt))) (\<lambda>v.
           st_return ((arg_name, REALSXP [v] []), ind + 6))
       else if type_code = ''8'' then
         st_bind (st_lift (res_bind (get_param ps (ind + 5)) stoi)) (\<lambda>num_words.
         st_bind (st_lift (res_map (\<lambda>j. get_param ps (ind + 5 + j)) [1..num_words])) (\<lambda>ws.
           st_return ((arg_name, r_string (join_words ws)), ind + 6 + num_words)))
       else if type_code = ''10'' then
         st_bind (st_lift (get_param ps (ind + 4))) (\<lambda>content_type.
         st_bind (st_lift (get_param ps (ind + 5))) (\<lambda>raw.
           if content_type \<noteq> ''null'' then
             st_bind (unserialize_arg rt (stripValueSuffix raw)) (\<lambda>v.
               st_return ((arg_name, v), ind + 6))
           else st_return ((arg_name, r_string (stripValueSuffix raw)), ind + 6)))
       else st_return ((arg_name, NILSXP), ind + 6)))"

fun read_args :: "'r runtime \<Rightarrow> string list \<Rightarrow> nat \<Rightarrow> int \<Rightarrow> ('r, (string \<times> sexp) list \<times> int) st" where
  "read_args rt ps 0 ind = st_return ([], ind)"
| "read_args rt ps (Suc n) ind =
     st_bind (read_arg rt ps ind) (\<lambda>(a, ind').
     st_bind (read_args rt ps n ind') (\<lambda>(as, ind''). st_return (a # as, ind'')))"

text \<open>The result: the arguments kept, \<open>return_index\<close> and \<open>num_returns\<close>.\<close>

definition buildFunctionArgs ::
    "'r runtime \<Rightarrow> string list \<Rightarrow> ('r, (string \<times> sexp) list \<times> int \<times> int) st" where
  "buildFunctionArgs rt ps =
     st_bind (st_lift (res_bind (get_param ps 1) stoi)) (\<lambda>num_of_nodes.
     st_bind (st_lift (get_param ps (1 + num_of_nodes + 3))) (\<lambda>target.
     st_bind (st_lift (res_bind (get_param ps (1 + num_of_nodes + 5)) stoi)) (\<lambda>num_returns.
     st_bind (st_lift (res_bind (get_param ps (1 + num_of_nodes + 6)) stoi)) (\<lambda>num_of_args.
     (let has_target = parseBool target;
          leng_params_func = num_of_args - num_returns - has_target
      in if \<not> (in_int_range (num_of_args - num_returns) \<and> in_int_range leng_params_func)
         then st_throw Undefined_behaviour
         else if leng_params_func < 0
         then st_throw (R_error ''negative length vectors are not allowed'')
         else
           st_bind (read_args rt ps (nat leng_params_func) (num_of_nodes + 8)) (\<lambda>(args, first_arg_ind).
             st_return
               (filter (\<lambda>a. \<not> rcompssIsReturnValuePlaceholderArgName (fst a)) args,
                first_arg_ind, num_returns)))))))"

section \<open>What a parameter vector says\<close>

text \<open>
  The arguments the COMPSs runtime encodes, with the token layout \<^verbatim>\<open>buildFunctionArgs\<close>
  relies on: type, two tokens it does not read, name, content type, value.
\<close>

datatype arg_spec =
    Bool_arg string
  | Int_arg int
  | Double_arg string
  | String_arg "string list"
  | File_arg string
  | Other_arg string string

record arg_line =
  direction :: string
  stream :: string
  arg_name :: string
  content :: string
  arg_spec :: arg_spec

fun spec_tokens :: "string list \<Rightarrow> arg_spec \<Rightarrow> string list" where
  "spec_tokens mid (Bool_arg v) = ''0'' # mid @ [v]"
| "spec_tokens mid (Int_arg i) = ''4'' # mid @ [int_to_string i]"
| "spec_tokens mid (Double_arg v) = ''7'' # mid @ [v]"
| "spec_tokens mid (String_arg ws) = ''8'' # mid @ int_to_string (int (length ws)) # ws"
| "spec_tokens mid (File_arg v) = ''10'' # mid @ [v]"
| "spec_tokens mid (Other_arg ty v) = ty # mid @ [v]"

definition arg_tokens :: "arg_line \<Rightarrow> string list" where
  "arg_tokens a = spec_tokens [direction a, stream a, arg_name a, content a] (arg_spec a)"

fun spec_ok :: "arg_spec \<Rightarrow> bool" where
  "spec_ok (Int_arg i) = in_int_range i"
| "spec_ok (Other_arg ty v) = (ty \<notin> {''0'', ''4'', ''7'', ''8'', ''10''})"
| "spec_ok _ = True"

fun spec_value :: "'r runtime \<Rightarrow> string \<Rightarrow> arg_spec \<Rightarrow> ('r, sexp) st" where
  "spec_value rt ct (Bool_arg v) = st_return (r_bool (parseBool v))"
| "spec_value rt ct (Int_arg i) = st_return (r_int i)"
| "spec_value rt ct (Double_arg v) = st_lift (res_bind (to_double rt v) (\<lambda>d. Inr (REALSXP [d] [])))"
| "spec_value rt ct (String_arg ws) = st_return (r_string (join_words ws))"
| "spec_value rt ct (File_arg v) =
     (if ct \<noteq> ''null'' then unserialize_arg rt (stripValueSuffix v)
      else st_return (r_string (stripValueSuffix v)))"
| "spec_value rt ct (Other_arg ty v) = st_return NILSXP"

text \<open>The values of all arguments, computed in order.\<close>

fun arg_values :: "'r runtime \<Rightarrow> arg_line list \<Rightarrow> ('r, (string \<times> sexp) list) st" where
  "arg_values rt [] = st_return []"
| "arg_values rt (a # as) =
     st_bind (spec_value rt (content a) (arg_spec a)) (\<lambda>v.
     st_bind (arg_values rt as) (\<lambda>vs. st_return ((arg_name a, v) # vs)))"

section \<open>Decoding\<close>

lemma get_param_append:
  assumes "0 \<le> k" "k < int (length xs)" "int (length (pre @ xs @ post)) \<le> int_max"
  shows "get_param (pre @ xs @ post) (int (length pre) + 1 + k) = Inr (xs ! nat k)"
proof -
  have "in_int_range (int (length pre) + 1 + k)" "in_int_range (int (length pre) + k)"
    using assms by (simp_all add: in_int_range_def int_min_def)
  then show ?thesis
    using vec_at_append2 [OF assms(1,2), of pre post] by (simp add: get_param_def add_ac)
qed

lemma length_arg_tokens:
  "length (arg_tokens a) = 6 + (case arg_spec a of String_arg ws \<Rightarrow> length ws | _ \<Rightarrow> 0)"
  by (cases "arg_spec a") (simp_all add: arg_tokens_def)

lemma res_map_get_words:
  assumes "int (length (pre @ ws @ post)) \<le> int_max" "base = int (length pre)"
  shows "res_map (\<lambda>j. get_param (pre @ ws @ post) (base + j)) [1..int (length ws)] = Inr ws"
proof -
  have "res_map (\<lambda>j. get_param (pre @ ws @ post) (base + j)) [1..int (length ws)]
      = Inr (map (\<lambda>j. ws ! nat (j - 1)) [1..int (length ws)])"
  proof (rule res_map_Inr_all)
    fix j assume "j \<in> set [1..int (length ws)]"
    then show "get_param (pre @ ws @ post) (base + j) = Inr (ws ! nat (j - 1))"
      using get_param_append [of "j - 1" ws pre post] assms by simp
  qed
  moreover have "map (\<lambda>j. ws ! nat (j - 1)) [1..int (length ws)] = ws"
    by (rule nth_equalityI) auto
  ultimately show ?thesis by simp
qed

lemma read_arg_decodes:
  assumes "spec_ok (arg_spec a)" "int (length (pre @ arg_tokens a @ post)) \<le> int_max"
  shows "read_arg rt (pre @ arg_tokens a @ post) (int (length pre) + 1) =
     st_bind (spec_value rt (content a) (arg_spec a))
       (\<lambda>v. st_return ((arg_name a, v), int (length pre) + 1 + int (length (arg_tokens a))))"
proof -
  let ?ps = "pre @ arg_tokens a @ post"
  define i where "i = int (length pre) + 1"
  have get: "get_param ?ps (i + int k) = Inr (arg_tokens a ! k)" if "k < length (arg_tokens a)" for k
    using get_param_append [of "int k" "arg_tokens a" pre post] that assms(2) by (simp add: i_def)
  have six: "6 \<le> length (arg_tokens a)" by (simp add: length_arg_tokens)
  have name: "arg_tokens a ! 3 = arg_name a" and ct: "arg_tokens a ! 4 = content a"
    by (cases "arg_spec a"; simp add: arg_tokens_def)+
  have g0: "get_param ?ps i = Inr (arg_tokens a ! 0)"
    using get [of 0] six by fastforce
  have g3: "get_param ?ps (i + 3) = Inr (arg_name a)"
    using get [of 3] six name by simp
  have g4: "get_param ?ps (i + 4) = Inr (content a)"
    using get [of 4] six ct by simp
  have g5: "get_param ?ps (i + 5) = Inr (arg_tokens a ! 5)"
    using get [of 5] six by simp
  note run = read_arg_def i_def [symmetric] g0 g3 g4 g5 st_bind_def fun_eq_iff length_arg_tokens
  show ?thesis
  proof (cases "arg_spec a")
    case (String_arg ws)
    let ?mid = "[''8'', direction a, stream a, arg_name a, content a, int_to_string (int (length ws))]"
    have t: "arg_tokens a = ?mid @ ws" by (simp add: arg_tokens_def String_arg)
    have "in_int_range (int (length ws))"
      using assms(2) t by (simp add: in_int_range_def int_min_def)
    moreover have "res_map (\<lambda>j. get_param ?ps (i + 5 + j)) [1..int (length ws)] = Inr ws"
      using res_map_get_words [of "pre @ ?mid" ws post "i + 5"] assms(2) t by (simp add: i_def)
    moreover have "arg_tokens a ! 0 = ''8''" "arg_tokens a ! 5 = int_to_string (int (length ws))"
      by (simp_all add: t)
    ultimately show ?thesis
      by (simp add: run String_arg stoi_int_to_string)
  next
    case (Bool_arg v)
    then have "arg_tokens a ! 0 = ''0''" "arg_tokens a ! 5 = v" by (simp_all add: arg_tokens_def)
    then show ?thesis
      by (simp add: run Bool_arg)
  next
    case (Int_arg i)
    then have "arg_tokens a ! 0 = ''4''" "arg_tokens a ! 5 = int_to_string i" by (simp_all add: arg_tokens_def)
    with assms(1) show ?thesis
      by (simp add: run Int_arg stoi_int_to_string)
  next
    case (Double_arg v)
    then have "arg_tokens a ! 0 = ''7''" "arg_tokens a ! 5 = v" by (simp_all add: arg_tokens_def)
    then show ?thesis
      by (cases "to_double rt v")
         (simp_all add: run Double_arg)
  next
    case (File_arg v)
    then have "arg_tokens a ! 0 = ''10''" "arg_tokens a ! 5 = v" by (simp_all add: arg_tokens_def)
    then show ?thesis
      by (simp add: run File_arg)
  next
    case (Other_arg ty v)
    then have "arg_tokens a ! 0 = ty" by (simp add: arg_tokens_def)
    with assms(1) show ?thesis
      by (simp add: run Other_arg)
  qed
qed

lemma st_bind_cong_fun: "(\<And>a. k a = k' a) \<Longrightarrow> st_bind m k = st_bind m k'"
  by (simp cong: st_bind_cong)

lemma read_args_decodes:
  "list_all (\<lambda>a. spec_ok (arg_spec a)) as \<Longrightarrow>
   int (length (pre @ concat (map arg_tokens as) @ post)) \<le> int_max \<Longrightarrow>
     read_args rt (pre @ concat (map arg_tokens as) @ post) (length as) (int (length pre) + 1) =
     st_bind (arg_values rt as)
       (\<lambda>vs. st_return (vs, int (length pre) + 1 + int (length (concat (map arg_tokens as)))))"
proof (induction as arbitrary: pre)
  case Nil
  then show ?case by simp
next
  case (Cons a as)
  let ?ts = "concat (map arg_tokens as)"
  let ?ps = "pre @ arg_tokens a @ ?ts @ post"
  have head: "read_arg rt ?ps (int (length pre) + 1) = st_bind (spec_value rt (content a) (arg_spec a))
      (\<lambda>v. st_return ((arg_name a, v), int (length pre) + 1 + int (length (arg_tokens a))))"
    using read_arg_decodes [of a pre "?ts @ post" rt] Cons.prems by simp
  have tail: "read_args rt ?ps (length as) (int (length pre) + 1 + int (length (arg_tokens a))) =
      st_bind (arg_values rt as)
        (\<lambda>vs. st_return (vs, int (length pre) + 1 + int (length (arg_tokens a @ ?ts))))"
  proof -
    have "list_all (\<lambda>a. spec_ok (arg_spec a)) as" "int (length ((pre @ arg_tokens a) @ ?ts @ post)) \<le> int_max"
      using Cons.prems by simp_all
    from Cons.IH [OF this] show ?thesis
      by (simp only: append_assoc length_append of_nat_add add_ac)
  qed
  show ?case
    by (auto simp: head tail st_bind_def fun_eq_iff split: prod.splits sum.splits)
qed

text \<open>The whole parameter vector; \<open>rets\<close> are the tokens of the return value and of a target.\<close>

definition encode_params ::
    "string list \<Rightarrow> string \<Rightarrow> string \<Rightarrow> string \<Rightarrow> string \<Rightarrow> nat \<Rightarrow> arg_line list \<Rightarrow> string list \<Rightarrow> string list" where
  "encode_params nodes m1 m2 target m3 nret args rets =
     (int_to_string (int (length nodes)) # nodes) @
     [m1, m2, target, m3, int_to_string (int nret),
      int_to_string (int (length args) + int nret + parseBool target)] @
     concat (map arg_tokens args) @ rets"

definition args_fit :: "string list \<Rightarrow> nat \<Rightarrow> arg_line list \<Rightarrow> string list \<Rightarrow> bool" where
  "args_fit nodes nret args rets \<longleftrightarrow>
     list_all (\<lambda>a. spec_ok (arg_spec a)) args \<and>
     int (length nodes) + 8 + int (length (concat (map arg_tokens args))) + int (length rets) + int nret \<le> int_max"

lemma length_le_arg_tokens: "length args \<le> length (concat (map arg_tokens args))"
  by (induction args) (auto simp: length_arg_tokens split: arg_spec.splits)

lemma parseBool_range: "parseBool v = 0 \<or> parseBool v = 1"
  by (simp add: parseBool_def)

lemma buildFunctionArgs_decodes:
  assumes "args_fit nodes nret args rets"
  shows "buildFunctionArgs rt (encode_params nodes m1 m2 target m3 nret args rets) =
     st_bind (arg_values rt args) (\<lambda>vs.
       st_return (filter (\<lambda>a. \<not> rcompssIsReturnValuePlaceholderArgName (fst a)) vs,
                  int (length nodes) + 8 + int (length (concat (map arg_tokens args))), int nret))"
proof -
  let ?n = "int (length nodes)" and ?ts = "concat (map arg_tokens args)"
  let ?head = "int_to_string ?n # nodes"
  let ?mid = "[m1, m2, target, m3, int_to_string (int nret),
      int_to_string (int (length args) + int nret + parseBool target)]"
  let ?ps = "?head @ ?mid @ ?ts @ rets"
  have ps: "encode_params nodes m1 m2 target m3 nret args rets = ?ps"
    by (simp add: encode_params_def)
  have len: "int (length ?ps) \<le> int_max"
    using assms by (simp add: args_fit_def)
  have mid: "get_param ?ps (?n + 2 + int k) = Inr (?mid ! k)" if "k < 6" for k
    using get_param_append [of "int k" ?mid ?head "?ts @ rets"] that len by (simp add: add_ac)
  have g1: "get_param ?ps 1 = Inr (int_to_string ?n)"
    using get_param_append [of 0 ?head "[]" "?mid @ ?ts @ rets"] len by simp
  have g4: "get_param ?ps (1 + ?n + 3) = Inr target"
    using mid [of 2] by (simp add: add_ac)
  have g6: "get_param ?ps (1 + ?n + 5) = Inr (int_to_string (int nret))"
    using mid [of 4] by (simp add: add_ac)
  have g7: "get_param ?ps (1 + ?n + 6) = Inr (int_to_string (int (length args) + int nret + parseBool target))"
    using mid [of 5] by (simp add: add_ac)
  have range: "in_int_range ?n" "in_int_range (int nret)"
      "in_int_range (int (length args) + int nret + parseBool target)"
      "in_int_range (int (length args) + parseBool target)" "in_int_range (int (length args))"
    using assms parseBool_range [of target] length_le_arg_tokens [of args]
    by (auto simp: args_fit_def in_int_range_def int_min_def)
  have args: "read_args rt ?ps (length args) (?n + 8) =
      st_bind (arg_values rt args) (\<lambda>vs. st_return (vs, ?n + 8 + int (length ?ts)))"
    using read_args_decodes [of args "?head @ ?mid" rets rt] assms len
    by (simp add: args_fit_def add_ac)
  define n where "n = ?n"
  show ?thesis
    unfolding ps buildFunctionArgs_def
    using range g1 g4 g6 g7 args
    by (simp add: stoi_int_to_string n_def [symmetric] Let_def st_bind_assoc st_return_def case_prod_unfold del: append_Cons)
qed

section \<open>Task lines\<close>

text \<open>The line the worker sends for a task; \<open>x6\<close>, \<open>x8\<close>, \<open>x9\<close>, \<open>x12\<close> and \<open>final\<close> are tokens nobody reads.\<close>

definition task_tokens :: "TaskMessage \<Rightarrow> string \<Rightarrow> string \<Rightarrow> string \<Rightarrow> string \<Rightarrow> string \<Rightarrow> string list" where
  "task_tokens m x6 x8 x9 x12 final =
     [''EXECUTE_TASK'', task_id m, sandbox m, job_out m, job_err m, tracing m, x6, debug m, x8, x9,
      module m, func m, x12] @ params m @ [cpus m, gpus m, final]"

lemma parse_task_tokens:
  assumes "\<forall>t \<in> set (task_tokens m x6 x8 x9 x12 final). is_token t" "params m \<noteq> []"
  shows "parseTaskMessage (join_with (CHR '' '') (task_tokens m x6 x8 x9 x12 final)) = Some m"
proof -
  have "is_space (CHR '' '')" by (simp add: is_space_def)
  then have toks: "splitWhitespace (join_with (CHR '' '') (task_tokens m x6 x8 x9 x12 final))
      = task_tokens m x6 x8 x9 x12 final"
    unfolding splitWhitespace_def using assms(1) by (intro stream_tokens_join) auto
  obtain p ps where "params m = p # ps" using assms(2) by (cases "params m") auto
  then show ?thesis
    by (simp add: parseTaskMessage_def toks) (simp add: task_tokens_def Let_def nth_append)
qed

lemma placeholder_return_name: "rcompssIsReturnValuePlaceholderArgName (buildReturnValueName m)"
  by (simp add: rcompssIsReturnValuePlaceholderArgName_def buildReturnValueName_def kSuffix_def)

section \<open>Properties\<close>

text \<open>
  C9. A task line printed from a message whose fields are tokens and whose parameter vector
  is not empty is parsed back to that message: identifiers, files, module, function, the
  whole parameter vector and the CPU and GPU lists.
\<close>

theorem task_line_roundtrip:
  assumes "\<forall>t \<in> set (task_tokens m x6 x8 x9 x12 final). is_token t" "params m \<noteq> []"
  shows "parseTaskMessage (join_with (CHR '' '') (task_tokens m x6 x8 x9 x12 final)) = Some m"
  by (rule parse_task_tokens) (use assms in auto)

definition example_message :: TaskMessage where
  "example_message =
     \<lparr>task_id = ''7'', sandbox = ''/tmp'', job_out = ''o'', job_err = ''e'', tracing = ''false'',
      debug = ''true'', module = ''m.R'', func = ''f'', params = [''1'', ''n0''], cpus = ''0,1'', gpus = ''-''\<rparr>"

theorem task_line_roundtrip_witness:
  "parseTaskMessage (join_with (CHR '' '') (task_tokens example_message ''a'' ''b'' ''c'' ''d'' ''e''))
     = Some example_message"
  by (rule task_line_roundtrip) (simp_all add: task_tokens_def example_message_def is_token_def is_space_def)

text \<open>
  C8. \<^verbatim>\<open>buildFunctionArgs\<close> decodes the parameter vector of a task with any number of nodes
  and arguments: it yields the arguments in order under their names (logical, integer,
  double, words joined by blanks, unserialized files, plain paths), without the return
  value placeholders, the position where the return value's tokens start, and the number of
  return values. An error while reading a file is the first one in argument order.
\<close>

theorem function_args_decoded:
  assumes "list_all (\<lambda>a. spec_ok (arg_spec a)) args"
    and "int (length nodes) + 8 + int (length (concat (map arg_tokens args))) + int (length rets) + int nret \<le> int_max"
  shows "buildFunctionArgs rt (encode_params nodes m1 m2 target m3 nret args rets) =
     st_bind (arg_values rt args) (\<lambda>vs.
       st_return (filter (\<lambda>a. \<not> rcompssIsReturnValuePlaceholderArgName (fst a)) vs,
                  int (length nodes) + 8 + int (length (concat (map arg_tokens args))), int nret))"
  by (rule buildFunctionArgs_decodes) (use assms in \<open>simp add: args_fit_def\<close>)

definition example_args :: "arg_line list" where
  "example_args =
     [\<lparr>direction = ''0'', stream = ''3'', arg_name = ''x'', content = ''null'', arg_spec = Int_arg (- 5)\<rparr>,
      \<lparr>direction = ''0'', stream = ''3'', arg_name = ''s'', content = ''null'', arg_spec = String_arg [''a'', ''b'']\<rparr>,
      \<lparr>direction = ''0'', stream = ''3'', arg_name = ''cpp-RETURN_VALUE'', content = ''null'', arg_spec = File_arg ''1:/w/r''\<rparr>]"

definition example_runtime :: "nat runtime" where
  "example_runtime =
     \<lparr>to_double = (\<lambda>_. Inl (Std_exception ''stod'')), file_good = (\<lambda>_ p. p = ''m.R''),
      source_func = (\<lambda>_ s. (Inr (), s + 1)), env_exists = (\<lambda>_ f. f = ''f''),
      compss_unserialize = (\<lambda>p s. if p = ''/w/in'' then (Inr (r_int 5), s) else (Inl (Std_exception ''no file''), s)),
      call_direct = (\<lambda>_ s. (Inr NILSXP, s + 10)), do_call = (\<lambda>_ args s. (Inr (r_int (int (length args))), s + 10)),
      compss_serialize = (\<lambda>_ _ _ s. (Inr (), s + 100)), sched_setaffinity = (\<lambda>_ s. (None, s))\<rparr>"

theorem function_args_decoded_witness:
  "buildFunctionArgs example_runtime (encode_params [''n0''] ''a'' ''b'' ''null'' ''c'' 1 example_args [''z'']) 3
   = (Inr ([(''x'', r_int (- 5)), (''s'', r_string ''a b'')], 29, 1), 3)"
proof -
  have ok: "list_all (\<lambda>a. spec_ok (arg_spec a)) example_args"
    by (simp add: example_args_def in_int_range_def int_min_def int_max_def)
  have len: "int (length [''n0'']) + 8 + int (length (concat (map arg_tokens example_args)))
      + int (length [''z'']) + int 1 \<le> int_max"
    by (simp add: example_args_def arg_tokens_def int_max_def)
  have vals: "arg_values example_runtime example_args 3 =
      (Inr [(''x'', r_int (- 5)), (''s'', r_string ''a b''), (''cpp-RETURN_VALUE'', r_string ''/w/r'')], 3)"
    by (simp add: example_args_def st_bind_def stripValueSuffix_def find_last_if_def)
  show ?thesis
    unfolding function_args_decoded [OF ok len] st_bind_def vals
    by (simp add: rcompssIsReturnValuePlaceholderArgName_def kSuffix_def example_args_def arg_tokens_def)
qed

end
