(* ===== verification/Executor.thy ===== *)
theory Executor
  imports Executor_Message
begin

text \<open>
  The executor process of \<^verbatim>\<open>src/executor\<close>: CPU and GPU binding, the execution of one task
  with its error handling, the message loop and \<^verbatim>\<open>main\<close>. The state is the R session and the
  trace of what the process does to the world outside R: lines appended to the job's output
  and error files, lines on the result pipe, Extrae events, environment variables.
\<close>

section \<open>State and events\<close>

datatype event =
    Job_out string string       \<comment> \<open>file, text\<close>
  | Job_err string string
  | Fifo string
  | Extrae int int              \<comment> \<open>type, value\<close>
  | Setenv string string
  | Setenv_default string string  \<comment> \<open>without overwriting\<close>
  | Stdout string
  | Stderr string
  | Extrae_init
  | Extrae_flush
  | Extrae_fini
  | Destroy_contexts
  | End_R

record 'r exec_st =
  r_state :: 'r
  trace :: "event list"
  r_initialized :: bool

definition emits :: "event list \<Rightarrow> ('r exec_st, unit) st" where
  "emits es = (\<lambda>s. (Inr (), s\<lparr>trace := trace s @ es\<rparr>))"

definition on_r :: "('r, 'a) st \<Rightarrow> ('r exec_st, 'a) st" where
  "on_r m = (\<lambda>s. case m (r_state s) of (r, r') \<Rightarrow> (r, s\<lparr>r_state := r'\<rparr>))"

text \<open>Log lines for an exception that is then rethrown.\<close>

definition log_rethrow :: "('r exec_st, 'a) st \<Rightarrow> (exn \<Rightarrow> event list) \<Rightarrow> ('r exec_st, 'a) st" where
  "log_rethrow m f = st_catch m (\<lambda>e. st_bind (emits (f e)) (\<lambda>_. st_throw e))"

definition nl :: string where "nl = [CHR 0x0A]"

section \<open>bindCpus\<close>

text \<open>The identifiers of the list, or the first token that is none.\<close>

fun parse_cpu_ids :: "string list \<Rightarrow> string + int list" where
  "parse_cpu_ids [] = Inr []"
| "parse_cpu_ids (t # ts) =
     (case stoi t of
        Inl _ \<Rightarrow> Inl t
      | Inr i \<Rightarrow> (case parse_cpu_ids ts of Inl b \<Rightarrow> Inl b | Inr is \<Rightarrow> Inr (i # is)))"

text \<open>\<^verbatim>\<open>CPU_SET\<close> ignores identifiers outside the 1024 bits of a \<^verbatim>\<open>cpu_set_t\<close>.\<close>

definition cpu_mask :: "int list \<Rightarrow> int list" where
  "cpu_mask ids = filter (\<lambda>i. 0 \<le> i \<and> i < 1024) ids"

definition bindCpus :: "'r runtime \<Rightarrow> string \<Rightarrow> string \<Rightarrow> string \<Rightarrow> ('r exec_st, bool) st" where
  "bindCpus rt out err cpu_ids =
     (if cpu_ids = ''-'' \<or> cpu_ids = [] then st_return False
      else
        st_bind (emits [Extrae 9000100 1, Job_out out (''[C++ EXECUTOR] Assigning CPU affinity: '' @ cpu_ids @ nl)]) (\<lambda>_.
        case parse_cpu_ids (getline_tokens (CHR '','') [] cpu_ids) of
          Inl bad \<Rightarrow>
            st_bind (emits [Job_err err (''[C++ EXECUTOR] WARNING: Invalid CPU ID in affinity string: '' @ bad @ nl)])
              (\<lambda>_. st_return False)
        | Inr cpu_list \<Rightarrow>
            if cpu_list = [] then st_return False
            else
              st_bind (on_r (\<lambda>r. case sched_setaffinity rt (cpu_mask cpu_list) r of (e, r') \<Rightarrow> (Inr e, r'))) (\<lambda>failure.
              case failure of
                Some reason \<Rightarrow>
                  st_bind (emits [Extrae 9000100 0,
                      Job_err err (''[C++ EXECUTOR] WARNING: Could not assign CPU affinity '' @ cpu_ids @ '': '' @ reason @ nl)])
                    (\<lambda>_. st_return False)
              | None \<Rightarrow>
                  st_bind (emits [Setenv ''COMPSS_BINDED_CPUS'' cpu_ids,
                      Setenv ''COMPSS_NUM_CPUS'' (nat_to_string (length cpu_list)),
                      Extrae 9000100 0,
                      Job_out out (''[C++ EXECUTOR] Successfully bound to CPUs: '' @ cpu_ids @ nl)])
                    (\<lambda>_. st_return True))))"

section \<open>bindGpus\<close>

definition gpu_mask_list :: "string \<Rightarrow> nat list" where
  "gpu_mask_list gpu_ids =
     (if CHR '','' \<in> set gpu_ids then
        map (\<lambda>i. if i < length (getline_tokens (CHR '','') [] gpu_ids) then 1 else 0) [0, 1, 2, 3]
      else
        (case stoi gpu_ids of
           Inl _ \<Rightarrow> [0, 0, 0, 0]
         | Inr gpu_id \<Rightarrow>
             if 0 \<le> gpu_id \<and> gpu_id < 4 then [0, 0, 0, 0][nat gpu_id := 1] else [0, 0, 0, 0]))"

text \<open>The reversed list read as a binary number.\<close>

definition assigned_gpus :: "string \<Rightarrow> nat" where
  "assigned_gpus gpu_ids = foldl (\<lambda>acc b. 2 * acc + b) 0 (rev (gpu_mask_list gpu_ids))"

definition bindGpus :: "string \<Rightarrow> string \<Rightarrow> ('r exec_st, unit) st" where
  "bindGpus out gpu_ids =
     (if gpu_ids = ''-'' \<or> gpu_ids = [] then st_return ()
      else
        emits
          [Extrae 9000100 2,
           Extrae 9000160 (int (assigned_gpus gpu_ids)),
           Job_out out (''[C++ EXECUTOR] Assigning GPU affinity: '' @ gpu_ids @ nl),
           Setenv ''COMPSS_BINDED_GPUS'' gpu_ids,
           Setenv ''CUDA_VISIBLE_DEVICES'' gpu_ids,
           Setenv ''GPU_DEVICE_ORDINAL'' gpu_ids,
           Extrae 9000100 0,
           Job_out out (''[C++ EXECUTOR] Successfully bound to GPUs: '' @ gpu_ids @ nl)])"

section \<open>executeTask\<close>

definition end_line :: "string \<Rightarrow> bool \<Rightarrow> string" where
  "end_line i ok = ''END_TASK '' @ i @ (if ok then '' 0'' else '' 1'') @ nl"

definition source_module :: "'r runtime \<Rightarrow> TaskMessage \<Rightarrow> ('r exec_st, unit) st" where
  "source_module rt m =
     log_rethrow (on_r (source_func rt (module m)))
       (\<lambda>e. case e of
          Rcpp_exception w \<Rightarrow> [Job_err (job_err m) (''[C++ EXECUTOR] ERROR: R error during source(): '' @ w @ nl)]
        | _ \<Rightarrow> [])"

definition build_args :: "'r runtime \<Rightarrow> TaskMessage \<Rightarrow> ('r exec_st, (string \<times> sexp) list \<times> int \<times> int) st" where
  "build_args rt m =
     log_rethrow (on_r (buildFunctionArgs rt (params m)))
       (\<lambda>e. case e of
          Rcpp_exception w \<Rightarrow> [Job_err (job_err m) (''[C++ EXECUTOR] R Error building function arguments: '' @ w @ nl)]
        | Std_exception w \<Rightarrow> [Job_err (job_err m) (''[C++ EXECUTOR] Error building function arguments: '' @ w @ nl)]
        | _ \<Rightarrow> [Job_err (job_err m) (''[C++ EXECUTOR] Unknown error building function arguments'' @ nl)])"

definition call_function ::
    "'r runtime \<Rightarrow> TaskMessage \<Rightarrow> (string \<times> sexp) list \<Rightarrow> ('r exec_st, sexp) st" where
  "call_function rt m args =
     log_rethrow
       (st_bind (emits [Job_out (job_out m) (''[C++ EXECUTOR] About to call function: '' @ func m @ nl),
                        Job_err (job_err m) (''[C++ EXECUTOR] About to call function: '' @ func m @ nl)]) (\<lambda>_.
        st_bind
          (if args = [] then
             st_bind (emits [Job_out (job_out m)
                 (''[C++ EXECUTOR] Zero-arg task: calling '' @ func m @ ''() directly'' @ nl)])
               (\<lambda>_. on_r (call_direct rt (func m)))
           else on_r (do_call rt (func m) args)) (\<lambda>result.
        st_bind (emits [Job_out (job_out m) (''[C++ EXECUTOR] Function call completed successfully'' @ nl)])
          (\<lambda>_. st_return result))))
       (\<lambda>e. let quoted = [CHR 0x27] @ func m @ [CHR 0x27] in
          case e of
          Rcpp_exception w \<Rightarrow>
            [Job_err (job_err m) (''[C++ EXECUTOR] Rcpp exception calling function '' @ quoted @ '': '' @ w @ nl)]
        | Std_exception w \<Rightarrow>
            [Job_err (job_err m) (''[C++ EXECUTOR] std exception calling function '' @ quoted @ '': '' @ w @ nl)]
        | _ \<Rightarrow> [Job_err (job_err m) (''[C++ EXECUTOR] Unknown exception calling function '' @ quoted @ nl)])"

text \<open>\<^verbatim>\<open>s.substr(0, s.find('-'))\<close>.\<close>

definition before_dash :: "string \<Rightarrow> string" where
  "before_dash s = (case find_first_if (\<lambda>c. c = CHR ''-'') s of None \<Rightarrow> s | Some n \<Rightarrow> take n s)"

definition store_result :: "'r runtime \<Rightarrow> TaskMessage \<Rightarrow> sexp \<Rightarrow> int \<Rightarrow> ('r exec_st, unit) st" where
  "store_result rt m result return_index =
     st_bind (st_lift (get_param (params m) (return_index + 3))) (\<lambda>rv_name.
     st_bind (st_lift (get_param (params m) (return_index + 5))) (\<lambda>raw.
     st_bind (emits [Extrae 9000100 9]) (\<lambda>_.
     st_bind (on_r (compss_serialize rt result (stripValueSuffix raw) (before_dash rv_name))) (\<lambda>_.
     emits [Extrae 9000100 0,
            Job_out (job_out m) (''Return value serialized to '' @ stripValueSuffix raw @ nl)]))))"

text \<open>The body of the \<^verbatim>\<open>try\<close> block.\<close>

definition task_body :: "'r runtime \<Rightarrow> TaskMessage \<Rightarrow> ('r exec_st, bool) st" where
  "task_body rt m =
     st_bind (emits [Job_out (job_out m) (''[C++ EXECUTOR] About to source module: '' @ module m @ nl)]) (\<lambda>_.
     st_bind (st_gets (\<lambda>s. file_good rt (r_state s) (module m))) (\<lambda>good.
     if \<not> good then
       st_bind (emits [Job_err (job_err m)
             (''[C++ EXECUTOR] ERROR: Module file does not exist or is not readable: '' @ module m @ nl),
           Fifo (end_line (task_id m) False)])
         (\<lambda>_. st_return False)
     else
       st_bind (emits [Extrae 9000100 5]) (\<lambda>_.
       st_bind (source_module rt m) (\<lambda>_.
       st_bind (emits [Extrae 9000100 0, Job_out (job_out m) (''Finished source(module)'' @ nl)]) (\<lambda>_.
       st_bind (st_gets (\<lambda>s. env_exists rt (r_state s) (func m))) (\<lambda>exists.
       if \<not> exists then
         st_bind (emits [Job_err (job_err m) (''Function '' @ func m @ '' does not exist'' @ nl),
             Extrae 9000100 13, Fifo (end_line (task_id m) False), Extrae 9000100 0])
           (\<lambda>_. st_return False)
       else
         st_bind (build_args rt m) (\<lambda>(args, return_index, num_returns).
         st_bind (emits [Extrae 9000100 6]) (\<lambda>_.
         st_bind (call_function rt m args) (\<lambda>result.
         st_bind (emits [Extrae 9000100 0]) (\<lambda>_.
         st_bind (if 0 < num_returns then store_result rt m result return_index else st_return ()) (\<lambda>_.
         st_bind (emits [Extrae 9000100 11, Fifo (end_line (task_id m) True), Extrae 9000100 0]) (\<lambda>_.
         st_return True))))))))))))"

definition task_error_text :: "exn \<Rightarrow> string" where
  "task_error_text e =
     (case e of
        Rcpp_exception w \<Rightarrow> ''R Error: '' @ w @ nl
      | Std_exception w \<Rightarrow> ''Error: '' @ w @ nl
      | _ \<Rightarrow> ''Error: unknown exception'' @ nl)"

definition executeTask :: "'r runtime \<Rightarrow> TaskMessage \<Rightarrow> ('r exec_st, bool) st" where
  "executeTask rt m =
     st_bind (emits [Job_out (job_out m)
         (''[C++ EXECUTOR] Received task execution with id: '' @ task_id m @ '', module: '' @ module m @
          '', function: '' @ func m @ nl)]) (\<lambda>_.
     st_bind (if cpus m \<noteq> ''-'' \<and> cpus m \<noteq> [] then bindCpus rt (job_out m) (job_err m) (cpus m)
              else st_return False) (\<lambda>_.
     st_bind (if gpus m \<noteq> ''-'' \<and> gpus m \<noteq> [] then bindGpus (job_out m) (gpus m) else st_return ()) (\<lambda>_.
     st_catch (task_body rt m)
       (\<lambda>e. st_bind (emits [Job_err (job_err m) (task_error_text e), Extrae 9000100 13,
              Fifo (end_line (task_id m) False), Extrae 9000100 0])
            (\<lambda>_. st_return False)))))"

section \<open>The process\<close>

fun message_loop :: "'r runtime \<Rightarrow> string list \<Rightarrow> ('r exec_st, unit) st" where
  "message_loop rt [] = st_return ()"
| "message_loop rt (line # lines) =
     (if line = [] then message_loop rt lines
      else if line = ''QUIT'' then st_return ()
      else
        (case parseTaskMessage line of
           None \<Rightarrow> st_bind (emits [Stdout (''Received: '' @ line @ nl)]) (\<lambda>_. message_loop rt lines)
         | Some m \<Rightarrow>
             st_bind (emits [Extrae 9000200 6, Extrae 9000100 4]) (\<lambda>_.
             st_bind (executeTask rt m) (\<lambda>_.
             st_bind (emits [Extrae 9000100 0, Extrae 9000200 0]) (\<lambda>_.
             message_loop rt lines)))))"

text \<open>
  Starting the embedded R: \<open>set_options\<close> and \<open>load_rcpp\<close> return R's error flag, the others
  may throw; \<open>bind_functions\<close> stands for the six look-ups in the loaded package.
\<close>

record 'r startup =
  set_options :: "'r \<Rightarrow> bool \<times> 'r"
  load_rcpp :: "'r \<Rightarrow> bool \<times> 'r"
  library_rcompss :: "('r, unit) st"
  require_qs :: "('r, bool) st"
  require_rmvl :: "('r, bool) st"
  bind_functions :: "('r, unit) st"
  r_libs_user :: "string option"
  pid :: string

definition try_namespace :: "string \<Rightarrow> ('r, bool) st \<Rightarrow> ('r exec_st, unit) st" where
  "try_namespace name m =
     st_catch
       (st_bind (on_r m) (\<lambda>loaded.
          if loaded then st_return ()
          else emits [Stderr (''[C++ EXECUTOR] WARNING: Failed to load '' @ name @ '' namespace'' @ nl)]))
       (\<lambda>_. emits [Stderr (''[C++ EXECUTOR] WARNING: Exception loading '' @ name @ '' namespace'' @ nl)])"

definition initR :: "'r startup \<Rightarrow> ('r exec_st, unit) st" where
  "initR su =
     st_bind (st_gets r_initialized) (\<lambda>already.
     if already then st_return ()
     else
       st_bind (emits [Setenv_default ''R_ENABLE_JIT'' ''0'', Setenv_default ''R_DISABLE_BYTECODE'' ''1'',
           Setenv_default ''R_COMPILE_PKGS'' ''0'']) (\<lambda>_.
       st_bind (\<lambda>s. (Inr (), s\<lparr>r_initialized := True\<rparr>)) (\<lambda>_.
       st_bind (on_r (\<lambda>r. case set_options su r of (e, r') \<Rightarrow> (Inr e, r'))) (\<lambda>error.
       st_bind (if error then emits [Stderr (''[C++ EXECUTOR] Failed to set options(jit=0)'' @ nl)]
                else st_return ()) (\<lambda>_.
       st_bind (on_r (\<lambda>r. case load_rcpp su r of (e, r') \<Rightarrow> (Inr e, r'))) (\<lambda>error.
       if error then
         st_bind (emits [Stderr (''[C++ EXECUTOR] Failed to load Rcpp. R_LIBS_USER='' @
             (case r_libs_user su of None \<Rightarrow> ''<unset>'' | Some d \<Rightarrow> d) @ nl)])
           (\<lambda>_. st_throw (Std_exception ''Failed to load Rcpp''))
       else
         st_bind (log_rethrow (on_r (library_rcompss su))
           (\<lambda>e. if is_std_exception e
                then [Stderr (''[C++ EXECUTOR] Failed to load RCOMPSs: '' @ what e @ nl)] else [])) (\<lambda>_.
         st_bind (try_namespace ''qs'' (require_qs su)) (\<lambda>_.
         st_bind (try_namespace ''RMVL'' (require_rmvl su)) (\<lambda>_.
         on_r (bind_functions su))))))))))"

definition shutdownR :: "('r exec_st, unit) st" where
  "shutdownR =
     st_bind (st_gets r_initialized) (\<lambda>up.
       if up then st_bind (emits [End_R]) (\<lambda>_. (\<lambda>s. (Inr (), s\<lparr>r_initialized := False\<rparr>)))
       else st_return ())"

definition run :: "'r runtime \<Rightarrow> 'r startup \<Rightarrow> int \<Rightarrow> string list \<Rightarrow> ('r exec_st, int) st" where
  "run rt su executor_id lines =
     st_bind (emits [Stdout (''[C++ EXECUTOR] RCOMPSs executor PID: '' @ pid su @ nl), Extrae_init,
         Extrae 9000200 1, Extrae 8001003 8, Extrae 8001112 (executor_id mod 2 ^ 32), Extrae 9000200 3]) (\<lambda>_.
     st_bind (initR su) (\<lambda>_.
     st_bind (emits [Extrae 9000200 0]) (\<lambda>_.
     st_bind (message_loop rt lines) (\<lambda>_.
     st_bind (emits [Destroy_contexts, Extrae 9000200 0, Extrae_flush, Extrae_fini,
         Stdout (''RCOMPSs executor finish PID: '' @ pid su @ nl)]) (\<lambda>_.
     st_return 0)))))"

text \<open>\<^verbatim>\<open>main\<close>: \<open>argv\<close> with the program name; an exception that leaves \<^verbatim>\<open>run\<close> ends the process.\<close>

definition executor_main ::
    "'r runtime \<Rightarrow> 'r startup \<Rightarrow> string list \<Rightarrow> string list \<Rightarrow> ('r exec_st, int) st" where
  "executor_main rt su argv lines =
     (if length argv < 4 then
        st_bind (emits [Stderr (''Usage: rcompss_executor <input_fifo> <output_fifo> <executor_id>'' @ nl)])
          (\<lambda>_. st_return 1)
      else
        st_bind (st_lift (atoi (argv ! 3))) (\<lambda>executor_id.
        st_bind (run rt su executor_id lines) (\<lambda>status.
        st_bind shutdownR (\<lambda>_. st_return status))))"

section \<open>Reports on the result pipe\<close>

fun fifo_lines :: "event list \<Rightarrow> string list" where
  "fifo_lines [] = []"
| "fifo_lines (Fifo l # es) = l # fifo_lines es"
| "fifo_lines (_ # es) = fifo_lines es"

lemma fifo_lines_append [simp]: "fifo_lines (es @ es') = fifo_lines es @ fifo_lines es'"
  by (induction es rule: fifo_lines.induct) auto

text \<open>\<open>quiet m\<close>: \<open>m\<close> puts nothing on the pipe, however it ends.\<close>

definition quiet :: "('r exec_st, 'a) st \<Rightarrow> bool" where
  "quiet m \<longleftrightarrow> (\<forall>s r s'. m s = (r, s') \<longrightarrow> fifo_lines (trace s') = fifo_lines (trace s))"

named_theorems quiet_intros \<open>computations that put nothing on the result pipe\<close>

lemma quiet_bind [quiet_intros]: "quiet m \<Longrightarrow> (\<And>a. quiet (k a)) \<Longrightarrow> quiet (st_bind m k)"
  by (fastforce simp: quiet_def st_bind_def split: prod.splits sum.splits)

lemma quiet_basic [quiet_intros]:
  "quiet (st_return a)" "quiet (st_throw e)" "quiet (st_lift r)" "quiet (st_gets f)" "quiet (Pair r)"
  by (simp_all add: quiet_def st_gets_def)

lemma quiet_emits [quiet_intros]: "fifo_lines es = [] \<Longrightarrow> quiet (emits es)"
  by (simp add: quiet_def emits_def)

lemma quiet_on_r [quiet_intros]: "quiet (on_r m)"
  by (auto simp: quiet_def on_r_def split: prod.splits)

lemma quiet_catch [quiet_intros]: "quiet m \<Longrightarrow> (\<And>e. quiet (h e)) \<Longrightarrow> quiet (st_catch m h)"
  by (fastforce simp: quiet_def st_catch_def split: prod.splits sum.splits if_splits)

lemma quiet_log_rethrow [quiet_intros]: "quiet m \<Longrightarrow> (\<And>e. fifo_lines (f e) = []) \<Longrightarrow> quiet (log_rethrow m f)"
  unfolding log_rethrow_def by (intro quiet_intros)

lemma quiet_if [quiet_intros]: "(b \<Longrightarrow> quiet m) \<Longrightarrow> (\<not> b \<Longrightarrow> quiet k) \<Longrightarrow> quiet (if b then m else k)"
  by simp

lemma quiet_bindCpus [quiet_intros]: "quiet (bindCpus rt out err cs)"
  unfolding bindCpus_def by (auto intro!: quiet_intros split: sum.splits option.splits)

lemma quiet_bindGpus [quiet_intros]: "quiet (bindGpus out gs)"
  unfolding bindGpus_def by (auto intro!: quiet_intros)

lemma quiet_source [quiet_intros]: "quiet (source_module rt m)"
  unfolding source_module_def by (auto intro!: quiet_intros split: exn.splits)

lemma quiet_build_args [quiet_intros]: "quiet (build_args rt m)"
  unfolding build_args_def by (auto intro!: quiet_intros split: exn.splits)

lemma quiet_call [quiet_intros]: "quiet (call_function rt m args)"
  unfolding call_function_def by (auto simp: Let_def intro!: quiet_intros split: exn.splits)

lemma quiet_store [quiet_intros]: "quiet (store_result rt m result i)"
  unfolding store_result_def by (auto intro!: quiet_intros)

text \<open>
  \<open>reports i m\<close>: when \<open>m\<close> returns \<open>b\<close> it has put exactly the line for task \<open>i\<close> with status
  \<open>b\<close> on the pipe, and when it throws it has put nothing there.
\<close>

definition reports :: "string \<Rightarrow> ('r exec_st, bool) st \<Rightarrow> bool" where
  "reports i m \<longleftrightarrow>
     (\<forall>s r s'. m s = (r, s') \<longrightarrow>
        fifo_lines (trace s') = fifo_lines (trace s) @ (case r of Inr b \<Rightarrow> [end_line i b] | Inl _ \<Rightarrow> []))"

lemma reports_bind: "quiet m \<Longrightarrow> (\<And>a. reports i (k a)) \<Longrightarrow> reports i (st_bind m k)"
  by (fastforce simp: quiet_def reports_def st_bind_def split: prod.splits sum.splits)

lemma reports_return: "fifo_lines es = [end_line i b] \<Longrightarrow> reports i (st_bind (emits es) (\<lambda>_. st_return b))"
  by (simp add: reports_def emits_def st_bind_def)

lemma reports_if: "(b \<Longrightarrow> reports i m) \<Longrightarrow> (\<not> b \<Longrightarrow> reports i k) \<Longrightarrow> reports i (if b then m else k)"
  by simp

lemma reports_catch: "reports i m \<Longrightarrow> (\<And>e. reports i (h e)) \<Longrightarrow> reports i (st_catch m h)"
  by (fastforce simp: reports_def st_catch_def split: prod.splits sum.splits if_splits)

lemma reports_task_body: "reports (task_id m) (task_body rt m)"
  unfolding task_body_def
  by (auto intro!: reports_bind reports_if reports_return quiet_intros split: prod.splits)

lemma reports_executeTask: "reports (task_id m) (executeTask rt m)"
  unfolding executeTask_def
  by (auto intro!: reports_bind reports_catch reports_task_body reports_return quiet_intros)

text \<open>No C++ exception leaves \<^verbatim>\<open>executeTask\<close>.\<close>

definition never_throws :: "('s, 'a) st \<Rightarrow> bool" where
  "never_throws m \<longleftrightarrow> (\<forall>s e s'. m s = (Inl e, s') \<longrightarrow> \<not> catchable e)"

lemma never_throws_bind: "never_throws m \<Longrightarrow> (\<And>a. never_throws (k a)) \<Longrightarrow> never_throws (st_bind m k)"
  by (fastforce simp: never_throws_def st_bind_Inl_conv)

lemma never_throws_basic: "never_throws (st_return a)" "never_throws (emits es)" "never_throws (Pair (Inr a))"
  by (simp_all add: never_throws_def emits_def)

lemma never_throws_catch: "(\<And>e. never_throws (h e)) \<Longrightarrow> never_throws (st_catch m h)"
  by (fastforce simp: never_throws_def st_catch_Inl_conv)

lemma never_throws_bindCpus: "never_throws (bindCpus rt out err cs)"
proof -
  have "never_throws (on_r (\<lambda>r. case sched_setaffinity rt l r of (e, r') \<Rightarrow> (Inr e, r')))" for l
    by (auto simp: never_throws_def on_r_def split: prod.splits)
  then show ?thesis
    unfolding bindCpus_def
    by (auto intro!: never_throws_bind never_throws_basic split: sum.splits option.splits)
qed

lemma never_throws_executeTask: "never_throws (executeTask rt m)"
  unfolding executeTask_def bindGpus_def
  by (auto intro!: never_throws_bind never_throws_catch never_throws_basic never_throws_bindCpus)

section \<open>What a task does to the R session\<close>

text \<open>
  The contract of \<^verbatim>\<open>executeTask\<close> without its reporting: source the module, build the
  arguments, call the function, store the result.
\<close>

definition store_spec :: "'r runtime \<Rightarrow> TaskMessage \<Rightarrow> sexp \<Rightarrow> int \<Rightarrow> ('r, unit) st" where
  "store_spec rt m result ri =
     st_bind (st_lift (get_param (params m) (ri + 3))) (\<lambda>name.
     st_bind (st_lift (get_param (params m) (ri + 5))) (\<lambda>raw.
     compss_serialize rt result (stripValueSuffix raw) (before_dash name)))"

definition call_spec :: "'r runtime \<Rightarrow> TaskMessage \<Rightarrow> (string \<times> sexp) list \<Rightarrow> ('r, sexp) st" where
  "call_spec rt m args = (if args = [] then call_direct rt (func m) else do_call rt (func m) args)"

definition task_spec :: "'r runtime \<Rightarrow> TaskMessage \<Rightarrow> ('r, unit) st" where
  "task_spec rt m =
     st_bind (st_gets (\<lambda>r. file_good rt r (module m))) (\<lambda>good.
     if \<not> good then st_throw (Std_exception ''no module'')
     else
       st_bind (source_func rt (module m)) (\<lambda>_.
       st_bind (st_gets (\<lambda>r. env_exists rt r (func m))) (\<lambda>exists.
       if \<not> exists then st_throw (Std_exception ''no function'')
       else
         st_bind (buildFunctionArgs rt (params m)) (\<lambda>(args, ri, nret).
         st_bind (call_spec rt m args) (\<lambda>result.
         if 0 < nret then store_spec rt m result ri else st_return ())))))"

text \<open>The R session (or rather its process) after the attempt to bind CPUs.\<close>

definition cpu_bound :: "'r runtime \<Rightarrow> string \<Rightarrow> 'r \<Rightarrow> 'r" where
  "cpu_bound rt cs r =
     (if cs = ''-'' \<or> cs = [] then r
      else
        (case parse_cpu_ids (getline_tokens (CHR '','') [] cs) of
           Inl _ \<Rightarrow> r
         | Inr l \<Rightarrow> if l = [] then r else snd (sched_setaffinity rt (cpu_mask l) r)))"

text \<open>\<open>sim R m n\<close>: \<open>m\<close> and \<open>n\<close> end with results related by \<open>R\<close> and the same R session.\<close>

definition sim :: "(exn + 'a \<Rightarrow> exn + 'b \<Rightarrow> bool) \<Rightarrow> ('r exec_st, 'a) st \<Rightarrow> ('r, 'b) st \<Rightarrow> bool" where
  "sim R m n \<longleftrightarrow> (\<forall>s. R (fst (m s)) (fst (n (r_state s))) \<and> r_state (snd (m s)) = snd (n (r_state s)))"

text \<open>A task's status against the outcome of the contract.\<close>

fun status_rel :: "exn + bool \<Rightarrow> exn + unit \<Rightarrow> bool" where
  "status_rel (Inr b) (Inr ()) = b"
| "status_rel (Inr b) (Inl e) = (\<not> b \<and> catchable e)"
| "status_rel (Inl e) (Inl e') = (e = e')"
| "status_rel (Inl e) (Inr ()) = False"

lemma sim_bind:
  assumes "sim (=) m n" "\<And>a. sim R (k a) (l a)" "\<And>e. R (Inl e) (Inl e)"
  shows "sim R (st_bind m k) (st_bind n l)"
  unfolding sim_def
proof
  fix s
  obtain r t where m: "m s = (r, t)" by fastforce
  with assms(1) [unfolded sim_def, rule_format, of s] have n: "n (r_state s) = (r, r_state t)"
    by (simp add: prod_eq_iff)
  show "R (fst (st_bind m k s)) (fst (st_bind n l (r_state s)))
      \<and> r_state (snd (st_bind m k s)) = snd (st_bind n l (r_state s))"
    using m n assms(2,3) by (cases r) (auto simp: st_bind_def sim_def)
qed

lemma sim_emits: "sim R k l \<Longrightarrow> sim R (st_bind (emits es) (\<lambda>_. k)) l"
  unfolding sim_def
proof
  fix s assume sim: "\<forall>s. R (fst (k s)) (fst (l (r_state s))) \<and> r_state (snd (k s)) = snd (l (r_state s))"
  show "R (fst (st_bind (emits es) (\<lambda>_. k) s)) (fst (l (r_state s)))
      \<and> r_state (snd (st_bind (emits es) (\<lambda>_. k) s)) = snd (l (r_state s))"
    using sim [rule_format, of "s\<lparr>trace := trace s @ es\<rparr>"] by (simp add: emits_def st_bind_def)
qed

lemma sim_emits_eq: "sim (=) (emits es) (st_return ())" "sim (=) (emits es) (Pair (Inr ()))"
  by (simp_all add: sim_def emits_def)

lemma sim_on_r: "sim (=) (on_r m) m"
  by (auto simp: sim_def on_r_def split: prod.splits)

lemma sim_lift: "sim (=) (st_lift r) (st_lift r)" "sim (=) (st_return a) (st_return a)"
  by (simp_all add: sim_def)

lemma sim_log_rethrow: "sim (=) m n \<Longrightarrow> sim (=) (log_rethrow m f) n"
  unfolding sim_def log_rethrow_def
proof (intro allI)
  fix s assume sim: "\<forall>s. fst (m s) = fst (n (r_state s)) \<and> r_state (snd (m s)) = snd (n (r_state s))"
  obtain r t where m: "m s = (r, t)" by fastforce
  then have "fst (n (r_state s)) = r" "snd (n (r_state s)) = r_state t"
    using sim [rule_format, of s] by simp_all
  with m show "fst (st_catch m (\<lambda>e. st_bind (emits (f e)) (\<lambda>_. st_throw e)) s) = fst (n (r_state s))
      \<and> r_state (snd (st_catch m (\<lambda>e. st_bind (emits (f e)) (\<lambda>_. st_throw e)) s)) = snd (n (r_state s))"
    by (cases r) (auto simp: st_catch_def emits_def st_bind_def)
qed

lemma sim_gets: "(\<And>b. sim R (k b) (l b)) \<Longrightarrow> sim R (st_bind (st_gets (\<lambda>s. g (r_state s))) k) (st_bind (st_gets g) l)"
  by (simp add: sim_def st_bind_gets_apply)

lemma sim_if: "(b \<Longrightarrow> sim R m n) \<Longrightarrow> (\<not> b \<Longrightarrow> sim R k l) \<Longrightarrow> sim R (if b then m else k) (if b then n else l)"
  by simp

lemma sim_call: "sim (=) (call_function rt m args) (call_spec rt m args)"
proof -
  let ?done = "\<lambda>result. st_bind (emits [Job_out (job_out m) (''[C++ EXECUTOR] Function call completed successfully'' @ nl)])
          (\<lambda>_. st_return result)"
  have "sim (=) (st_bind
      (if args = [] then
         st_bind (emits [Job_out (job_out m) (''[C++ EXECUTOR] Zero-arg task: calling '' @ func m @ ''() directly'' @ nl)])
           (\<lambda>_. on_r (call_direct rt (func m)))
       else on_r (do_call rt (func m) args)) ?done) (st_bind (call_spec rt m args) st_return)"
    unfolding call_spec_def by (intro sim_bind sim_if sim_emits sim_on_r sim_lift) simp
  then show ?thesis
    unfolding call_function_def by (intro sim_log_rethrow sim_emits) (simp add: st_bind_right_unit)
qed

lemma sim_store: "sim (=) (store_result rt m result i) (store_spec rt m result i)"
proof -
  have "sim (=) (st_bind (on_r (compss_serialize rt result p n)) (\<lambda>_. emits es))
      (st_bind (compss_serialize rt result p n) (\<lambda>_. st_return ()))" for p n es
    by (intro sim_bind sim_on_r sim_emits_eq) simp
  moreover have "st_bind (compss_serialize rt result p n) (\<lambda>_. st_return ()) = compss_serialize rt result p n" for p n
    using st_bind_right_unit [of "compss_serialize rt result p n"] by (simp add: st_bind_unit)
  ultimately show ?thesis
    unfolding store_result_def store_spec_def by (intro sim_bind sim_lift sim_emits) simp_all
qed

lemma sim_task_body: "sim status_rel (task_body rt m) (task_spec rt m)"
proof -
  have fin: "sim status_rel (st_bind (emits es) (\<lambda>_. st_return True)) (st_return ())" for es
    by (simp add: sim_def emits_def st_bind_def)
  have fail: "sim status_rel (st_bind (emits es) (\<lambda>_. st_return False)) (st_throw (Std_exception w))" for es w
    by (simp add: sim_def emits_def st_bind_def)
  have fail': "sim status_rel (st_return False) (Pair (Inl (Std_exception w)))" for w
    by (simp add: sim_def)
  have store: "sim status_rel
      (st_bind (if b then store_result rt m result i else st_return ())
        (\<lambda>_. st_bind (emits es) (\<lambda>_. st_return True)))
      (if b then store_spec rt m result i else st_return ())" for b result i es
  proof -
    have "sim status_rel (st_bind (if b then store_result rt m result i else st_return ())
        (\<lambda>_. st_bind (emits es) (\<lambda>_. st_return True)))
      (st_bind (if b then store_spec rt m result i else st_return ()) (\<lambda>_. st_return ()))"
      by (intro sim_bind sim_if sim_store sim_lift fin) simp
    then show ?thesis by (simp add: st_bind_unit)
  qed
  show ?thesis
    unfolding task_body_def task_spec_def
    by (intro sim_emits sim_gets)
       (auto simp: fail fail' source_module_def build_args_def
          intro!: sim_emits sim_gets sim_bind sim_log_rethrow sim_on_r sim_call store split: prod.splits)
qed

lemma bindCpus_session:
  "fst (bindCpus rt out err cs s) \<in> range Inr \<and> r_state (snd (bindCpus rt out err cs s)) = cpu_bound rt cs (r_state s)"
  by (auto simp: bindCpus_def cpu_bound_def st_bind_def emits_def on_r_def split: sum.splits option.splits prod.splits)

lemma bindGpus_session: "bindGpus out gs s = (Inr (), snd (bindGpus out gs s)) \<and> r_state (snd (bindGpus out gs s)) = r_state s"
  by (simp add: bindGpus_def emits_def)

lemma executeTask_session:
  obtains t where "r_state t = cpu_bound rt (cpus m) (r_state s)"
    and "executeTask rt m s = st_catch (task_body rt m)
       (\<lambda>e. st_bind (emits [Job_err (job_err m) (task_error_text e), Extrae 9000100 13,
              Fifo (end_line (task_id m) False), Extrae 9000100 0]) (\<lambda>_. st_return False)) t"
proof -
  let ?h = "st_catch (task_body rt m)
       (\<lambda>e. st_bind (emits [Job_err (job_err m) (task_error_text e), Extrae 9000100 13,
              Fifo (end_line (task_id m) False), Extrae 9000100 0]) (\<lambda>_. st_return False))"
  let ?c = "if cpus m \<noteq> ''-'' \<and> cpus m \<noteq> [] then bindCpus rt (job_out m) (job_err m) (cpus m) else st_return False"
  let ?g = "if gpus m \<noteq> ''-'' \<and> gpus m \<noteq> [] then bindGpus (job_out m) (gpus m) else st_return ()"
  obtain s1 where s1: "emits [Job_out (job_out m) (''[C++ EXECUTOR] Received task execution with id: '' @ task_id m @
      '', module: '' @ module m @ '', function: '' @ func m @ nl)] s = (Inr (), s1)" "r_state s1 = r_state s"
    by (simp add: emits_def)
  obtain b s2 where s2: "?c s1 = (Inr b, s2)" "r_state s2 = cpu_bound rt (cpus m) (r_state s1)"
  proof (cases "cpus m \<noteq> ''-'' \<and> cpus m \<noteq> []")
    case True
    with that show ?thesis
      using bindCpus_session [of rt "job_out m" "job_err m" "cpus m" s1]
      by (cases "bindCpus rt (job_out m) (job_err m) (cpus m) s1") auto
  next
    case False
    with that [of False s1] show ?thesis by (auto simp: cpu_bound_def)
  qed
  obtain s3 where s3: "?g s2 = (Inr (), s3)" "r_state s3 = r_state s2"
  proof (cases "gpus m \<noteq> ''-'' \<and> gpus m \<noteq> []")
    case True
    with that show ?thesis
      using bindGpus_session [of "job_out m" "gpus m" s2] by (cases "bindGpus (job_out m) (gpus m) s2") auto
  next
    case False
    with that [of s2] show ?thesis by auto
  qed
  have "executeTask rt m s = ?h s3"
    unfolding executeTask_def
    by (simp only: st_bind_def s1(1) s2(1) s3(1) prod.case sum.case)
  with s1 s2 s3 that show ?thesis by simp
qed

lemma executeTask_status:
  "status_rel (fst (executeTask rt m s)) (fst (task_spec rt m (cpu_bound rt (cpus m) (r_state s))))
   \<and> r_state (snd (executeTask rt m s)) = snd (task_spec rt m (cpu_bound rt (cpus m) (r_state s)))"
proof -
  obtain t where t: "r_state t = cpu_bound rt (cpus m) (r_state s)"
    and run: "executeTask rt m s = st_catch (task_body rt m)
       (\<lambda>e. st_bind (emits [Job_err (job_err m) (task_error_text e), Extrae 9000100 13,
              Fifo (end_line (task_id m) False), Extrae 9000100 0]) (\<lambda>_. st_return False)) t"
    by (rule executeTask_session)
  obtain r u where body: "task_body rt m t = (r, u)" by fastforce
  have "status_rel r (fst (task_spec rt m (r_state t))) \<and> r_state u = snd (task_spec rt m (r_state t))"
    using sim_task_body [of rt m, unfolded sim_def, rule_format, of t] body by simp
  then show ?thesis
    unfolding run t [symmetric]
    by (cases r; cases "fst (task_spec rt m (r_state t))") (auto simp: st_catch_def body st_bind_def emits_def)
qed

section \<open>The message loop\<close>

text \<open>The tasks a sequence of lines asks for.\<close>

fun tasks_of :: "string list \<Rightarrow> TaskMessage list" where
  "tasks_of [] = []"
| "tasks_of (line # lines) =
     (if line = [] then tasks_of lines
      else if line = ''QUIT'' then []
      else (case parseTaskMessage line of None \<Rightarrow> tasks_of lines | Some m \<Rightarrow> m # tasks_of lines))"

definition end_lines :: "TaskMessage list \<Rightarrow> bool list \<Rightarrow> string list" where
  "end_lines ms bs = map (\<lambda>(m, b). end_line (task_id m) b) (zip ms bs)"

lemma message_loop_reports:
  "message_loop rt lines s = (r, s') \<Longrightarrow>
     \<exists>bs. fifo_lines (trace s') = fifo_lines (trace s) @ end_lines (tasks_of lines) bs
        \<and> length bs \<le> length (tasks_of lines)
        \<and> (r = Inr () \<longrightarrow> length bs = length (tasks_of lines))
           \<and> (\<forall>e. r = Inl e \<longrightarrow> \<not> catchable e \<and> length bs < length (tasks_of lines))"
proof (induction lines arbitrary: s)
  case Nil
  then show ?case by (auto simp: end_lines_def)
next
  case (Cons line lines)
  show ?case
  proof (cases "line = [] \<or> line = ''QUIT''")
    case True
    with Cons show ?thesis by (cases "line = []") (auto simp: end_lines_def)
  next
    case line: False
    show ?thesis
    proof (cases "parseTaskMessage line")
      case None
      with Cons.prems line have "message_loop rt lines
          (s\<lparr>trace := trace s @ [Stdout (''Received: '' @ line @ nl)]\<rparr>) = (r, s')"
        by (simp add: st_bind_def emits_def)
      from Cons.IH [OF this] None line show ?thesis by simp
    next
      case (Some m)
      let ?s1 = "s\<lparr>trace := trace s @ [Extrae 9000200 6, Extrae 9000100 4]\<rparr>"
      obtain q t where q: "executeTask rt m ?s1 = (q, t)" by fastforce
      from reports_executeTask [of m rt] q
      have pipe: "fifo_lines (trace t) = fifo_lines (trace s) @ (case q of Inr b \<Rightarrow> [end_line (task_id m) b] | Inl _ \<Rightarrow> [])"
        by (auto simp: reports_def)
      show ?thesis
      proof (cases q)
        case (Inl e)
        with Cons.prems line Some q have "r = Inl e" "s' = t"
          by (simp_all add: st_bind_def emits_def)
        moreover have "\<not> catchable e"
          using never_throws_executeTask [of rt m] q Inl by (auto simp: never_throws_def)
        ultimately show ?thesis
          using pipe Inl Some line by (intro exI [of _ "[]"]) (simp add: end_lines_def)
      next
        case (Inr b)
        with Cons.prems line Some q have "message_loop rt lines
            (t\<lparr>trace := trace t @ [Extrae 9000100 0, Extrae 9000200 0]\<rparr>) = (r, s')"
          by (simp add: st_bind_def emits_def)
        from Cons.IH [OF this] obtain bs where
          "fifo_lines (trace s') = fifo_lines (trace t) @ end_lines (tasks_of lines) bs"
          "length bs \<le> length (tasks_of lines)"
          "r = Inr () \<longrightarrow> length bs = length (tasks_of lines)"
          "\<forall>e. r = Inl e \<longrightarrow> \<not> catchable e \<and> length bs < length (tasks_of lines)"
          by auto
        with pipe Inr line Some show ?thesis
          by (intro exI [of _ "b # bs"]) (auto simp: end_lines_def split: sum.splits)
      qed
    qed
  qed
qed

lemma before_dash_return_name: "CHR ''-'' \<notin> set n \<Longrightarrow> before_dash (buildReturnValueName n) = n"
proof -
  assume n: "CHR ''-'' \<notin> set n"
  then have "find_first_if (\<lambda>c. c = CHR ''-'') (n @ ''-RETURN_VALUE'') = Some (length n)"
    by (subst find_first_if_append) auto
  then show ?thesis by (simp add: before_dash_def buildReturnValueName_def)
qed

lemma strip_data_prefix: "CHR '':'' \<notin> set path \<Longrightarrow> stripValueSuffix (pre @ CHR '':'' # path) = path"
proof -
  assume path: "CHR '':'' \<notin> set path"
  have "find_last_if (\<lambda>c. c = CHR '':'') (pre @ CHR '':'' # path) = Some (length pre)"
    by (rule find_last_if_append) (use path in auto)
  then show ?thesis by (simp add: stripValueSuffix_def)
qed

lemma assigned_gpus_value:
  shows "\<lbrakk>CHR '','' \<notin> set gs; stoi gs = Inr i; 0 \<le> i; i < 4\<rbrakk> \<Longrightarrow> assigned_gpus gs = 2 ^ nat i"
    and "CHR '','' \<in> set gs \<Longrightarrow>
      assigned_gpus gs = 2 ^ min 4 (length (getline_tokens (CHR '','') [] gs)) - 1"
proof -
  assume a: "CHR '','' \<notin> set gs" "stoi gs = Inr i" "0 \<le> i" "i < 4"
  then have "i \<in> {0, 1, 2, 3}" by auto
  with a show "assigned_gpus gs = 2 ^ nat i"
    by (auto simp: assigned_gpus_def gpu_mask_list_def numeral_2_eq_2 numeral_3_eq_3)
next
  assume a: "CHR '','' \<in> set gs"
  let ?n = "length (getline_tokens (CHR '','') [] gs)"
  consider "?n = 0" | "?n = 1" | "?n = 2" | "?n = 3" | "4 \<le> ?n" by linarith
  then show "assigned_gpus gs = 2 ^ min 4 ?n - 1"
    using a by cases (simp_all add: assigned_gpus_def gpu_mask_list_def min_def
        length_greater_0_conv [symmetric] del: length_greater_0_conv length_0_conv)
qed

section \<open>Properties\<close>

text \<open>
  C5. When \<^verbatim>\<open>executeTask\<close> returns, it has put exactly one line on the result pipe,
  \<^verbatim>\<open>END_TASK <id> 0\<close> if it returns true and \<^verbatim>\<open>END_TASK <id> 1\<close> if it returns false. No C++
  exception leaves it. It fails to return only when one of the steps of the abstract task is
  carried away by a long jump of R or by undefined behaviour, and then nothing was reported.
\<close>

theorem one_report_per_task:
  "case executeTask rt m s of
     (Inr b, s') \<Rightarrow> fifo_lines (trace s') = fifo_lines (trace s) @ [end_line (task_id m) b]
   | (Inl e, s') \<Rightarrow> \<not> catchable e \<and> fst (task_spec rt m (cpu_bound rt (cpus m) (r_state s))) = Inl e
       \<and> fifo_lines (trace s') = fifo_lines (trace s)"
proof (cases "executeTask rt m s")
  case (Pair r s')
  with never_throws_executeTask [of rt m] have "\<not> catchable e" if "r = Inl e" for e
    using that unfolding never_throws_def by blast
  moreover have "status_rel r (fst (task_spec rt m (cpu_bound rt (cpus m) (r_state s))))"
    using executeTask_status [of rt m s] Pair by simp
  then have "fst (task_spec rt m (cpu_bound rt (cpus m) (r_state s))) = Inl e" if "r = Inl e" for e
    using that by (cases "fst (task_spec rt m (cpu_bound rt (cpus m) (r_state s)))") auto
  ultimately show ?thesis using Pair reports_executeTask [of m rt]
    by (cases r) (auto simp: reports_def)
qed

text \<open>
  C7. The executor's message loop answers every task of its input once and in order: the
  lines on the result pipe are the reports of the tasks up to \<^verbatim>\<open>QUIT\<close>. When control is carried
  out of a task by a long jump or undefined behaviour, the reports are those of the tasks before it.
\<close>

theorem loop_reports_all_tasks:
  assumes "message_loop rt lines s = (r, s')"
  shows "\<exists>bs. fifo_lines (trace s') = fifo_lines (trace s) @ end_lines (tasks_of lines) bs
           \<and> length bs \<le> length (tasks_of lines)
           \<and> (r = Inr () \<longrightarrow> length bs = length (tasks_of lines))
           \<and> (\<forall>e. r = Inl e \<longrightarrow> \<not> catchable e \<and> length bs < length (tasks_of lines))"
  by (rule message_loop_reports [OF assms])

definition idle :: "'r \<Rightarrow> 'r exec_st" where
  "idle r = \<lparr>r_state = r, trace = [], r_initialized = True\<rparr>"

text \<open>
  C6. A task is reported as successful exactly when, in the R session the executor has after
  trying to bind the CPUs, the module was readable and sourced, the function existed, the
  arguments were built, the call returned and, if the task has return values, the result
  was stored; the R session afterwards is the one these steps leave, no step is repeated
  and none follows a failed one.
\<close>

theorem success_iff_all_steps:
  "(fst (executeTask rt m s) = Inr True
      \<longleftrightarrow> fst (task_spec rt m (cpu_bound rt (cpus m) (r_state s))) = Inr ())
   \<and> r_state (snd (executeTask rt m s)) = snd (task_spec rt m (cpu_bound rt (cpus m) (r_state s)))"
proof -
  let ?r = "fst (executeTask rt m s)" and ?n = "fst (task_spec rt m (cpu_bound rt (cpus m) (r_state s)))"
  from executeTask_status [of rt m s] have rel: "status_rel ?r ?n" by simp
  then have "?r = Inr True \<longleftrightarrow> ?n = Inr ()"
    by (cases ?r; cases ?n) auto
  with executeTask_status [of rt m s] show ?thesis by simp
qed

text \<open>The whole path of a task that finds its module and function and computes a result.\<close>

lemma executeTask_stores:
  assumes "params m = encode_params nodes m1 m2 target m3 nret args
             ([ty, d, str, buildReturnValueName meth, ct, pre @ CHR '':'' # path] @ extra)"
    and "list_all (\<lambda>a. spec_ok (arg_spec a)) args"
    and "int (length nodes) + 14 + int (length (concat (map arg_tokens args))) + int (length extra) + int nret \<le> int_max"
    and "0 < nret" "CHR ''-'' \<notin> set meth" "CHR '':'' \<notin> set path"
    and "file_good rt r (module m)" "source_func rt (module m) r = (Inr (), r1)" "env_exists rt r1 (func m)"
    and "arg_values rt args r1 = (Inr vs, r2)"
    and "call_spec rt m (filter (\<lambda>a. \<not> rcompssIsReturnValuePlaceholderArgName (fst a)) vs) r2 = (Inr result, r3)"
    and "r = cpu_bound rt (cpus m) (r_state s)"
  shows "r_state (snd (executeTask rt m s)) = snd (compss_serialize rt result path meth r3)
       \<and> (fst (executeTask rt m s) = Inr True \<longleftrightarrow> fst (compss_serialize rt result path meth r3) = Inr ())"
proof -
  let ?rets = "[ty, d, str, buildReturnValueName meth, ct, pre @ CHR '':'' # path] @ extra"
  let ?ri = "int (length nodes) + 8 + int (length (concat (map arg_tokens args)))"
  let ?kept = "filter (\<lambda>a. \<not> rcompssIsReturnValuePlaceholderArgName (fst a)) vs"
  have built: "buildFunctionArgs rt (params m) r1 = (Inr (?kept, ?ri, int nret), r2)"
    using buildFunctionArgs_decodes [of nodes nret args ?rets rt m1 m2 target m3] assms(2,3,10)
    by (simp add: args_fit_def assms(1) st_bind_def)
  let ?front = "(int_to_string (int (length nodes)) # nodes) @ [m1, m2, target, m3, int_to_string (int nret),
      int_to_string (int (length args) + int nret + parseBool target)] @ concat (map arg_tokens args)"
  have ps: "params m = ?front @ ?rets @ []" by (simp add: assms(1) encode_params_def)
  have len: "int (length (?front @ ?rets @ [])) \<le> int_max" "int (length ?front) + 1 = ?ri"
    using assms(3) by simp_all
  have get: "get_param (params m) (?ri + int k) = Inr (?rets ! k)" if "k < 6" for k
    using get_param_append [of "int k" ?rets ?front "[]"] that len unfolding ps by (simp add: add_ac)
  have "get_param (params m) (?ri + 3) = Inr (buildReturnValueName meth)"
    "get_param (params m) (?ri + 5) = Inr (pre @ CHR '':'' # path)"
    using get [of 3] get [of 5] by simp_all
  then have "store_spec rt m result ?ri = compss_serialize rt result path meth"
    using before_dash_return_name [OF assms(5)] strip_data_prefix [OF assms(6)]
    by (simp add: store_spec_def)
  then have "task_spec rt m r = compss_serialize rt result path meth r3"
    using assms(4,7-9,11) built
    by (simp add: task_spec_def st_bind_gets_apply st_bind_Inr)
  with executeTask_status [of rt m s] assms(12) show ?thesis
    by (cases "fst (executeTask rt m s)"; cases "fst (compss_serialize rt result path meth r3)") auto
qed

text \<open>
  C4. End to end: a task whose parameter vector encodes its arguments and whose return value
  carries the placeholder name of a serialization method is executed by calling the
  function on the decoded arguments and storing the result under the return value's path
  with that very method.
\<close>

theorem task_end_to_end:
  assumes "params m = encode_params nodes m1 m2 target m3 nret args
             ([ty, d, str, buildReturnValueName meth, ct, pre @ CHR '':'' # path] @ extra)"
    and "list_all (\<lambda>a. spec_ok (arg_spec a)) args"
    and "int (length nodes) + 14 + int (length (concat (map arg_tokens args))) + int (length extra) + int nret \<le> int_max"
    and "0 < nret" "CHR ''-'' \<notin> set meth" "CHR '':'' \<notin> set path"
    and "file_good rt r (module m)" "source_func rt (module m) r = (Inr (), r1)" "env_exists rt r1 (func m)"
    and "arg_values rt args r1 = (Inr vs, r2)"
    and "call_spec rt m (filter (\<lambda>a. \<not> rcompssIsReturnValuePlaceholderArgName (fst a)) vs) r2 = (Inr result, r3)"
    and "r = cpu_bound rt (cpus m) (r_state s)"
  shows "r_state (snd (executeTask rt m s)) = snd (compss_serialize rt result path meth r3)
       \<and> (fst (executeTask rt m s) = Inr True \<longleftrightarrow> fst (compss_serialize rt result path meth r3) = Inr ())"
  by (rule executeTask_stores [OF assms])

definition end_to_end_message :: TaskMessage where
  "end_to_end_message = example_message
     \<lparr>params := encode_params [''n0''] ''a'' ''b'' ''null'' ''c'' 1 example_args
        ([''10'', ''0'', ''3'', buildReturnValueName ''qs'', ''FILE'', ''d1'' @ CHR '':'' # ''/w/qs-r''] @ [''z''])\<rparr>"

theorem task_end_to_end_witness:
  "fst (executeTask example_runtime end_to_end_message (idle 0)) = Inr True
   \<and> r_state (snd (executeTask example_runtime end_to_end_message (idle 0))) = 111"
proof -
  let ?vs = "[(''x'', r_int (- 5)), (''s'', r_string ''a b''), (''cpp-RETURN_VALUE'', r_string ''/w/r'')]"
  have ok: "list_all (\<lambda>a. spec_ok (arg_spec a)) example_args"
    by (simp add: example_args_def in_int_range_def int_min_def int_max_def)
  have len: "int (length [''n0'']) + 14 + int (length (concat (map arg_tokens example_args)))
      + int (length [''z'']) + int 1 \<le> int_max"
    by (simp add: example_args_def arg_tokens_def int_max_def)
  have vals: "arg_values example_runtime example_args 1 = (Inr ?vs, 1)"
    by (simp add: example_args_def st_bind_def stripValueSuffix_def find_last_if_def)
  have call: "call_spec example_runtime end_to_end_message
      (filter (\<lambda>a. \<not> rcompssIsReturnValuePlaceholderArgName (fst a)) ?vs) 1 = (Inr (r_int 2), 11)"
    by (simp add: call_spec_def rcompssIsReturnValuePlaceholderArgName_def kSuffix_def example_runtime_def)
  have cpu: "(0 :: nat) = cpu_bound example_runtime (cpus end_to_end_message) (r_state (idle 0))"
    by (simp add: cpu_bound_def end_to_end_message_def example_message_def example_runtime_def idle_def
        split: sum.splits)
  show ?thesis
    using task_end_to_end [of end_to_end_message "[''n0'']" "''a''" "''b''" "''null''" "''c''" 1 example_args
        "''10''" "''0''" "''3''" "''qs''" "''FILE''" "''d1''" "''/w/qs-r''" "[''z'']", OF _ ok len _ _ _ _ _ _ vals call cpu]
    by (simp add: end_to_end_message_def example_message_def example_runtime_def)
qed

text \<open>An input with noise, a task that succeeds, a task whose module is not there, and a task after \<^verbatim>\<open>QUIT\<close>.\<close>

definition task_line :: "TaskMessage \<Rightarrow> string" where
  "task_line m = join_with (CHR '' '') (task_tokens m ''a'' ''b'' ''c'' ''d'' ''e'')"

definition example_lines :: "string list" where
  "example_lines =
     [''noise'', task_line end_to_end_message, [], task_line (end_to_end_message\<lparr>task_id := ''8'', module := ''x.R''\<rparr>), ''QUIT'',
      task_line end_to_end_message]"

lemma example_task_succeeds: "fst (executeTask example_runtime end_to_end_message s) = Inr True"
proof -
  let ?vs = "[(''x'', r_int (- 5)), (''s'', r_string ''a b''), (''cpp-RETURN_VALUE'', r_string ''/w/r'')]"
  have ok: "list_all (\<lambda>a. spec_ok (arg_spec a)) example_args"
    by (simp add: example_args_def in_int_range_def int_min_def int_max_def)
  have len: "int (length [''n0'']) + 14 + int (length (concat (map arg_tokens example_args)))
      + int (length [''z'']) + int 1 \<le> int_max"
    by (simp add: example_args_def arg_tokens_def int_max_def)
  have vals: "arg_values example_runtime example_args (r_state s + 1) = (Inr ?vs, r_state s + 1)"
    by (simp add: example_args_def st_bind_def stripValueSuffix_def find_last_if_def)
  have call: "call_spec example_runtime end_to_end_message
      (filter (\<lambda>a. \<not> rcompssIsReturnValuePlaceholderArgName (fst a)) ?vs) (r_state s + 1) = (Inr (r_int 2), r_state s + 11)"
    by (simp add: call_spec_def rcompssIsReturnValuePlaceholderArgName_def kSuffix_def example_runtime_def)
  have cpu: "r_state s = cpu_bound example_runtime (cpus end_to_end_message) (r_state s)"
    by (simp add: cpu_bound_def end_to_end_message_def example_message_def example_runtime_def split: sum.splits)
  show ?thesis
    using executeTask_stores [of end_to_end_message "[''n0'']" "''a''" "''b''" "''null''" "''c''" 1 example_args
        "''10''" "''0''" "''3''" "''qs''" "''FILE''" "''d1''" "''/w/qs-r''" "[''z'']", OF _ ok len _ _ _ _ _ _ vals call cpu]
    by (simp add: end_to_end_message_def example_message_def example_runtime_def)
qed

lemma example_task_fails:
  "fst (executeTask example_runtime (end_to_end_message\<lparr>task_id := ''8'', module := ''x.R''\<rparr>) s) = Inr False"
proof -
  let ?m = "end_to_end_message\<lparr>task_id := ''8'', module := ''x.R''\<rparr>"
  have "\<not> file_good example_runtime r (module ?m)" for r by (simp add: example_runtime_def)
  then have "fst (task_spec example_runtime ?m r) = Inl (Std_exception ''no module'')" for r
    by (simp add: task_spec_def st_bind_gets_apply)
  moreover have "fst (executeTask example_runtime ?m s) \<noteq> Inl (Std_exception t)" for t
    using never_throws_executeTask [of example_runtime ?m] by (cases "executeTask example_runtime ?m s") (force simp: never_throws_def)
  ultimately show ?thesis using executeTask_status [of example_runtime ?m s]
    by (cases "fst (executeTask example_runtime ?m s)") auto
qed

lemma message_loop_task:
  assumes "parseTaskMessage line = Some m" "line \<noteq> []" "line \<noteq> ''QUIT''" "\<And>s. fst (executeTask rt m s) = Inr b"
  shows "\<exists>t. message_loop rt (line # lines) s = message_loop rt lines t
     \<and> fifo_lines (trace t) = fifo_lines (trace s) @ [end_line (task_id m) b]"
proof -
  let ?s = "s\<lparr>trace := trace s @ [Extrae 9000200 6, Extrae 9000100 4]\<rparr>"
  obtain t where t: "executeTask rt m ?s = (Inr b, t)" using assms(4) [of ?s] by (cases "executeTask rt m ?s") simp
  with reports_executeTask [of m rt] have "fifo_lines (trace t) = fifo_lines (trace s) @ [end_line (task_id m) b]"
    by (auto simp: reports_def)
  with t assms(1-3) show ?thesis
    by (intro exI [of _ "t\<lparr>trace := trace t @ [Extrae 9000100 0, Extrae 9000200 0]\<rparr>"]) (simp add: st_bind_def emits_def)
qed

theorem loop_reports_all_tasks_witness:
  "\<exists>s'. message_loop example_runtime example_lines (idle 0) = (Inr (), s')
     \<and> fifo_lines (trace s') = [end_line ''7'' True, end_line ''8'' False]
     \<and> (\<exists>bs. end_lines (tasks_of example_lines) bs = fifo_lines (trace s') \<and> length bs = 2)"
proof -
  let ?m = "end_to_end_message\<lparr>task_id := ''8'', module := ''x.R''\<rparr>" and ?loop = "message_loop example_runtime"
  have parse: "parseTaskMessage (task_line end_to_end_message) = Some end_to_end_message" "parseTaskMessage (task_line ?m) = Some ?m"
    "parseTaskMessage ''noise'' = None" "task_line end_to_end_message \<noteq> []" "task_line ?m \<noteq> []"
    "task_line end_to_end_message \<noteq> ''QUIT''" "task_line ?m \<noteq> ''QUIT''"
    by code_simp+
  have tasks: "length (tasks_of example_lines) = 2" using parse by (simp add: example_lines_def)
  obtain s1 where s1: "?loop example_lines (idle 0) = ?loop (tl example_lines) s1" "fifo_lines (trace s1) = []"
    using parse(3) by (auto simp: example_lines_def st_bind_def emits_def idle_def)
  obtain s2 where s2: "?loop (tl example_lines) s1 = ?loop (tl (tl example_lines)) s2" "fifo_lines (trace s2) = [end_line ''7'' True]"
    using message_loop_task [OF parse(1,4,6) example_task_succeeds, of "tl (tl example_lines)" s1] s1(2)
    by (auto simp: example_lines_def end_to_end_message_def example_message_def)
  obtain s3 where s3: "?loop (tl (tl example_lines)) s2 = ?loop (drop 4 example_lines) s3"
    "fifo_lines (trace s3) = [end_line ''7'' True, end_line ''8'' False]"
    using message_loop_task [OF parse(2,5,7) example_task_fails, of "drop 4 example_lines" s2] s2(2)
    by (auto simp: example_lines_def)
  have "?loop (drop 4 example_lines) s3 = (Inr (), s3)" by (simp add: example_lines_def st_return_def)
  with s1(1) s2(1) s3(1) have run: "?loop example_lines (idle 0) = (Inr (), s3)" by simp
  from loop_reports_all_tasks [OF run] tasks obtain bs where
    "fifo_lines (trace s3) = fifo_lines (trace (idle (0 :: nat))) @ end_lines (tasks_of example_lines) bs" "length bs = 2" by auto
  moreover have "fifo_lines (trace (idle (0 :: nat))) = []" by (simp add: idle_def)
  ultimately show ?thesis using run s3(2) by auto
qed

text \<open>
  \<^verbatim>\<open>bindCpus\<close> returns true exactly when every identifier of the list is a number and the
  operating system accepted the mask of those below 1024; then, and only then, it exports
  the list and its length to the task.
\<close>

theorem bindCpus_exports:
  assumes "bindCpus rt out err cs s = (Inr b, s')"
  shows "(b \<longleftrightarrow> cs \<noteq> ''-'' \<and> cs \<noteq> [] \<and>
      (\<exists>l. parse_cpu_ids (getline_tokens (CHR '','') [] cs) = Inr l \<and> l \<noteq> [] \<and>
           fst (sched_setaffinity rt (cpu_mask l) (r_state s)) = None))
   \<and> (b \<longrightarrow> (\<exists>l. parse_cpu_ids (getline_tokens (CHR '','') [] cs) = Inr l \<and>
           Setenv ''COMPSS_BINDED_CPUS'' cs \<in> set (drop (length (trace s)) (trace s')) \<and>
           Setenv ''COMPSS_NUM_CPUS'' (nat_to_string (length l)) \<in> set (drop (length (trace s)) (trace s'))))
   \<and> (\<not> b \<longrightarrow> (\<forall>k v. Setenv k v \<notin> set (drop (length (trace s)) (trace s'))))"
  using assms
  by (auto simp: bindCpus_def st_bind_def emits_def on_r_def split: if_splits sum.splits option.splits prod.splits)

theorem bindCpus_exports_witness:
  "Setenv ''COMPSS_NUM_CPUS'' ''2'' \<in> set (trace (snd (bindCpus example_runtime ''o'' ''e'' ''0,3'' (idle 0))))"
proof -
  have ids: "parse_cpu_ids (getline_tokens (CHR '','') [] ''0,3'') = Inr [0, 3]" by code_simp
  have two: "nat_to_string (Suc (Suc 0)) = ''2''" by code_simp
  have "bindCpus example_runtime ''o'' ''e'' ''0,3'' (idle 0)
      = (Inr True, snd (bindCpus example_runtime ''o'' ''e'' ''0,3'' (idle 0)))"
    by (simp add: bindCpus_def ids st_bind_def emits_def on_r_def example_runtime_def
        del: parse_cpu_ids.simps getline_tokens.simps)
  moreover have "trace (idle (0 :: nat)) = []" by (simp add: idle_def)
  ultimately show ?thesis
    using bindCpus_exports [of example_runtime "''o''" "''e''" "''0,3''" "idle 0" True]
    by (auto simp: ids two simp del: parse_cpu_ids.simps getline_tokens.simps)
qed

text \<open>
  The GPU mask that is traced is the bit of the one GPU assigned when the list names a
  single GPU from 0 to 3, and with two or more entries the lowest bits, as many as there
  are entries up to four, whichever GPUs the entries name.
\<close>

theorem gpu_mask_value:
  "(CHR '','' \<notin> set gs \<and> stoi gs = Inr i \<and> 0 \<le> i \<and> i < 4 \<longrightarrow> assigned_gpus gs = 2 ^ nat i)
   \<and> (CHR '','' \<in> set gs \<longrightarrow> assigned_gpus gs = 2 ^ min 4 (length (getline_tokens (CHR '','') [] gs)) - 1)"
  using assigned_gpus_value by simp

theorem gpu_mask_value_witness: "assigned_gpus ''3'' = 8 \<and> assigned_gpus ''2,3'' = 3"
proof -
  have "stoi ''3'' = Inr 3" by code_simp
  then have "assigned_gpus ''3'' = 8" using gpu_mask_value [of "''3''" 3] by simp
  moreover have "length (getline_tokens (CHR '','') [] ''2,3'') = 2" by code_simp
  then have "assigned_gpus ''2,3'' = 3" using gpu_mask_value [of "''2,3''"] by (simp add: min_def)
  ultimately show ?thesis by simp
qed

end
