(* ===== verification/Worker.thy ===== *)
theory Worker
  imports Executor
begin

text \<open>
  The worker process, \<^verbatim>\<open>src/worker/WorkerCore.cpp\<close> and \<^verbatim>\<open>WorkerMain.cpp\<close>: it starts one executor per
  pair of pipes, emits its trace events, waits for all executors and reports whether one failed.
  The operating system is a parameter: \<open>access_x\<close> is \<^verbatim>\<open>access(path, X_OK) == 0\<close>, \<open>fork_pid i\<close> what the
  parent gets from the \<open>i\<close>-th \<^verbatim>\<open>fork\<close>, \<open>exec\<close> the exit status of the program an \<^verbatim>\<open>execl\<close> turns into
  (\<open>None\<close> when \<^verbatim>\<open>execl\<close> returns) and \<open>wait_for\<close> what \<^verbatim>\<open>waitpid\<close> reports.
\<close>

section \<open>The process and its surroundings\<close>

datatype wait_result = Wait_failed | Exited nat | Signaled nat | Other_status

record worker_env =
  access_x :: "string \<Rightarrow> bool"
  fork_pid :: "nat \<Rightarrow> int"
  exec :: "string list \<Rightarrow> nat option"
  wait_for :: "int \<Rightarrow> wait_result"
  epoch_seconds :: int

datatype worker_event =
    Out string
  | Err string
  | Trace_init
  | Trace_event nat u64
  | Trace_flush
  | Trace_fini

text \<open>\<open>started\<close> lists the children with the pid the parent knows them by and their arguments.\<close>

record worker =
  script_dir :: string
  pipe_pairs :: "(string \<times> string) list"
  executor_pids :: "int list"
  started :: "(int \<times> string list) list"
  events :: "worker_event list"

definition event :: "worker_event \<Rightarrow> worker \<Rightarrow> worker" where
  "event e w = w\<lparr>events := events w @ [e]\<rparr>"

section \<open>Starting the executors\<close>

text \<open>What a child becomes: the executor, or a process that exits with status 1.\<close>

definition child_status :: "worker_env \<Rightarrow> string list \<Rightarrow> nat" where
  "child_status env argv = (case exec env argv of Some st \<Rightarrow> st | None \<Rightarrow> 1)"

definition executor_argv :: "string \<Rightarrow> nat \<Rightarrow> string \<times> string \<Rightarrow> string list" where
  "executor_argv executor_path i pipes =
     [executor_path, fst pipes, snd pipes, int_to_string (int i)]"

fun fork_executors :: "worker_env \<Rightarrow> string \<Rightarrow> nat \<Rightarrow> (string \<times> string) list \<Rightarrow> worker \<Rightarrow> worker" where
  "fork_executors env executor_path i [] w = w"
| "fork_executors env executor_path i (pipes # rest) w =
     (let pid = fork_pid env i;
          w' = (if 0 < pid
                then w\<lparr>executor_pids := (executor_pids w)[i := pid],
                       started := started w @ [(pid, executor_argv executor_path i pipes)]\<rparr>
                else w)
      in fork_executors env executor_path (Suc i) rest w')"

definition spawnExecutors :: "worker_env \<Rightarrow> worker \<Rightarrow> worker" where
  "spawnExecutors env w =
     (let w1 = w\<lparr>executor_pids := replicate (length (pipe_pairs w)) (- 1)\<rparr>;
          executor_path = script_dir w @ ''/rcompss_executor''
      in if \<not> access_x env executor_path
         then event (Err ''[C++ WORKER] rcompss_executor not executable'') w1
         else fork_executors env executor_path 0 (pipe_pairs w) w1)"

section \<open>Waiting\<close>

definition wait_one :: "worker_env \<Rightarrow> int \<Rightarrow> nat \<times> worker \<Rightarrow> nat \<times> worker" where
  "wait_one env child fw =
     (case fw of (failures, w) \<Rightarrow>
        if child \<le> 0 then (failures, w)
        else
          (case wait_for env child of
             Wait_failed \<Rightarrow> (failures + 1, w)
           | Exited st \<Rightarrow>
               if st \<noteq> 0
               then (failures + 1, event (Err (''[C++ WORKER] Executor '' @ int_to_string child @ '' exited with status '' @ nat_to_string st)) w)
               else (failures, w)
           | Signaled sig \<Rightarrow>
               (failures + 1, event (Err (''[C++ WORKER] Executor '' @ int_to_string child @ '' killed by signal '' @ nat_to_string sig)) w)
           | Other_status \<Rightarrow> (failures, w)))"

definition waitExecutors :: "worker_env \<Rightarrow> worker \<Rightarrow> nat \<times> worker" where
  "waitExecutors env w = fold (wait_one env) (executor_pids w) (0, w)"

definition run_worker :: "worker_env \<Rightarrow> worker \<Rightarrow> int \<times> worker" where
  "run_worker env w =
     (let w1 = fold event [Out ''[C++ WORKER] Starting R Worker!'', Trace_init, Trace_event 8000001 1, Trace_event 9000200 1] w;
          w2 = spawnExecutors env w1;
          w3 = fold event [Trace_event 9000200 0, Trace_event 8000001 0,
                 Trace_event 8000001 (ucast (word_of_int (epoch_seconds env) :: u32)), Trace_event 8000001 0,
                 Trace_flush, Trace_fini] w2;
          (failures, w4) = waitExecutors env w3
      in (if failures = 0 then 0 else 1,
          if failures \<noteq> 0 then event (Err (''[C++ WORKER] '' @ nat_to_string failures @ '' executor(s) failed'')) w4 else w4))"

section \<open>The command line\<close>

fun pair_up :: "string list \<Rightarrow> (string \<times> string) list" where
  "pair_up (a # b # rest) = (a, b) # pair_up rest"
| "pair_up _ = []"

definition new_worker :: "string \<Rightarrow> (string \<times> string) list \<Rightarrow> worker" where
  "new_worker dir pairs = \<lparr>script_dir = dir, pipe_pairs = pairs, executor_pids = [], started = [], events = []\<rparr>"

definition worker_main :: "worker_env \<Rightarrow> string list \<Rightarrow> int \<times> worker" where
  "worker_main env argv =
     (if length argv < 3 \<or> (length argv - 2) mod 2 \<noteq> 0
      then (1, event (Err ''Usage: rcompss_worker <script_dir> <cmd_pipe1> <result_pipe1> [<cmd_pipe2> <result_pipe2> ...]'')
              (new_worker [] []))
      else run_worker env (new_worker (argv ! 1) (pair_up (drop 2 argv))))"

section \<open>Laws\<close>

lemma event_simps [simp]:
  "pipe_pairs (event e w) = pipe_pairs w" "executor_pids (event e w) = executor_pids w"
  "started (event e w) = started w" "script_dir (event e w) = script_dir w"
  by (simp_all add: event_def)

lemma fork_executors_started:
  "started (fork_executors env path i ps w) =
     started w @ map (\<lambda>(j, pp). (fork_pid env j, executor_argv path j pp))
       (filter (\<lambda>(j, pp). 0 < fork_pid env j) (enumerate i ps))"
  by (induction ps arbitrary: i w) (auto simp: Let_def)

lemma fork_executors_pids:
  "length (executor_pids w) = i + length ps \<Longrightarrow>
     executor_pids (fork_executors env path i ps w) =
       take i (executor_pids w) @ map (\<lambda>(j, pid). if 0 < fork_pid env j then fork_pid env j else pid)
         (enumerate i (drop i (executor_pids w)))"
proof (induction ps arbitrary: i w)
  case Nil
  then show ?case by simp
next
  case (Cons p ps)
  then have i: "i < length (executor_pids w)" by simp
  have split: "drop i (executor_pids w) = executor_pids w ! i # drop (Suc i) (executor_pids w)"
    using i by (simp add: Cons_nth_drop_Suc)
  show ?case
  proof (cases "0 < fork_pid env i")
    case True
    with Cons.prems show ?thesis
      by (simp add: Let_def Cons.IH split take_Suc_conv_app_nth)
  next
    case False
    with Cons.prems i show ?thesis
      by (simp add: Let_def Cons.IH split take_Suc_conv_app_nth)
  qed
qed

text \<open>The pids waited for that belong to a process are those of the children started.\<close>

lemma spawn_pids:
  "started w = [] \<Longrightarrow>
   filter (\<lambda>pid. 0 < pid) (executor_pids (spawnExecutors env w)) = map fst (started (spawnExecutors env w))"
proof -
  assume "started w = []"
  moreover have "filter (\<lambda>pid. 0 < pid) (map (\<lambda>(j, pid). if 0 < fork_pid env j then fork_pid env j else pid)
        (enumerate i (replicate (length ps) (- 1 :: int))))
      = map (fork_pid env \<circ> fst) (filter (\<lambda>(j, pp). 0 < fork_pid env j) (enumerate i ps))"
    for i and ps :: "(string \<times> string) list"
    by (induction ps arbitrary: i) auto
  ultimately show ?thesis
    by (simp add: spawnExecutors_def Let_def fork_executors_pids fork_executors_started o_def case_prod_beta)
qed

text \<open>
  When an executor counts as failed: \<^verbatim>\<open>waitpid\<close> fails, or reports a status other than 0 or a signal.
\<close>

definition executor_failed :: "worker_env \<Rightarrow> int \<Rightarrow> bool" where
  "executor_failed env child \<longleftrightarrow> wait_for env child \<noteq> Exited 0 \<and> wait_for env child \<noteq> Other_status"

lemma wait_counts:
  "fst (fold (wait_one env) pids (n, w)) = n + length (filter (executor_failed env) (filter (\<lambda>pid. 0 < pid) pids))"
proof (induction pids arbitrary: n w)
  case Nil
  then show ?case by simp
next
  case (Cons child pids)
  obtain m v where one: "wait_one env child (n, w) = (m, v)" by fastforce
  then have "m = n + (if 0 < child \<and> executor_failed env child then 1 else 0)"
    by (auto simp: wait_one_def executor_failed_def split: wait_result.splits if_splits)
  with Cons.IH [of m v] show ?case by (simp add: one)
qed

lemma wait_started: "started (snd (fold (wait_one env) pids (n, w))) = started w"
proof (induction pids arbitrary: n w)
  case Nil
  then show ?case by simp
next
  case (Cons child pids)
  obtain m v where one: "wait_one env child (n, w) = (m, v)" by fastforce
  then have "started v = started w" by (auto simp: wait_one_def split: wait_result.splits if_splits)
  with Cons.IH [of m v] show ?case by (simp add: one)
qed

text \<open>The state in which the executors are waited for.\<close>

definition spawned :: "worker_env \<Rightarrow> worker \<Rightarrow> worker" where
  "spawned env w =
     spawnExecutors env (fold event [Out ''[C++ WORKER] Starting R Worker!'', Trace_init, Trace_event 8000001 1, Trace_event 9000200 1] w)"

abbreviation failed_executors :: "worker_env \<Rightarrow> worker \<Rightarrow> nat" where
  "failed_executors env w \<equiv> length (filter (\<lambda>(pid, argv). executor_failed env pid) (started w))"

lemma run_worker_status:
  assumes "started w = []"
  shows "started (snd (run_worker env w)) = started (spawned env w)
    \<and> fst (run_worker env w) = (if failed_executors env (spawned env w) = 0 then 0 else 1)
    \<and> (failed_executors env (spawned env w) \<noteq> 0 \<longrightarrow> last (events (snd (run_worker env w))) =
         Err (''[C++ WORKER] '' @ nat_to_string (failed_executors env (spawned env w)) @ '' executor(s) failed''))"
proof -
  let ?s = "spawned env w"
  define w3 where "w3 = fold event [Trace_event 9000200 0, Trace_event 8000001 0,
     Trace_event 8000001 (ucast (word_of_int (epoch_seconds env) :: u32)), Trace_event 8000001 0, Trace_flush, Trace_fini] ?s"
  have w3: "executor_pids w3 = executor_pids ?s" "started w3 = started ?s" by (simp_all add: w3_def)
  obtain k w4 where wait: "waitExecutors env w3 = (k, w4)" by fastforce
  have run: "run_worker env w = (if k = 0 then 0 else 1,
       if k \<noteq> 0 then event (Err (''[C++ WORKER] '' @ nat_to_string k @ '' executor(s) failed'')) w4 else w4)"
    using wait by (simp add: run_worker_def spawned_def w3_def Let_def)
  have same: "started (snd (run_worker env w)) = started ?s"
    using wait_started [of env "executor_pids w3" 0 w3] wait w3 by (simp add: run waitExecutors_def)
  have pids: "filter (\<lambda>pid. 0 < pid) (executor_pids ?s) = map fst (started ?s)"
    unfolding spawned_def by (rule spawn_pids) (simp add: assms(1))
  have "k = length (filter (executor_failed env) (map fst (started ?s)))"
    using wait_counts [of env "executor_pids w3" 0 w3] wait pids w3(1) by (simp add: waitExecutors_def)
  then have "k = failed_executors env ?s" by (simp add: filter_map comp_def case_prod_unfold)
  with same show ?thesis by (simp add: run event_def)
qed

lemma even_pairs: "3 \<le> n \<Longrightarrow> (n - 2) mod 2 = 0 \<longleftrightarrow> even (n :: nat)"
  by presburger

text \<open>
  C25. The worker exits with 0 exactly when its arguments are pairs of pipes after a directory and
  none of the executors it managed to start failed: \<^verbatim>\<open>waitpid\<close> succeeded for each and reported
  neither a status other than 0 nor a signal. Otherwise it exits with 1 and, for proper arguments,
  last prints how many failed. With an executable executor and working forks there is one executor
  per pair, started on that pair with its index, which the executor's \<^verbatim>\<open>main\<close> reads back. Executors
  that could not be started do not count: without an executable the worker exits with 0.
\<close>

theorem worker_exit_status:
  assumes "worker_main env argv = (status, w)" "int (length argv) \<le> int_max"
  shows "(status = 0 \<longleftrightarrow> 3 \<le> length argv \<and> even (length argv) \<and> (\<forall>(pid, av) \<in> set (started w). \<not> executor_failed env pid))
    \<and> (status \<noteq> 0 \<longrightarrow> status = 1)
    \<and> (status \<noteq> 0 \<and> 3 \<le> length argv \<and> even (length argv) \<longrightarrow> last (events w) =
         Err (''[C++ WORKER] '' @ nat_to_string (failed_executors env w) @ '' executor(s) failed''))
    \<and> ((\<forall>(pid, av) \<in> set (started w). wait_for env pid = Exited (child_status env av)) \<longrightarrow>
         (status = 0 \<longleftrightarrow> 3 \<le> length argv \<and> even (length argv) \<and> (\<forall>(pid, av) \<in> set (started w). child_status env av = 0)))
    \<and> (3 \<le> length argv \<and> even (length argv) \<and> access_x env (argv ! 1 @ ''/rcompss_executor'') \<and> (\<forall>i. 0 < fork_pid env i) \<longrightarrow>
         length (started w) = length argv div 2 - 1 \<and>
         (\<forall>i < length (started w).
            snd (started w ! i) = [argv ! 1 @ ''/rcompss_executor'', argv ! (2 * i + 2), argv ! (2 * i + 3), int_to_string (int i)] \<and>
            executor_main rt su (snd (started w ! i)) lines =
              st_bind (run rt su (int i) lines) (\<lambda>st. st_bind shutdownR (\<lambda>_. st_return st))))
    \<and> (\<not> access_x env (argv ! 1 @ ''/rcompss_executor'') \<longrightarrow> started w = [])"
proof (cases "3 \<le> length argv \<and> even (length argv)")
  case False
  then have "length argv < 3 \<or> (length argv - 2) mod 2 \<noteq> 0" using even_pairs [of "length argv"] by linarith
  with assms(1) False show ?thesis by (auto simp: worker_main_def new_worker_def)
next
  case True
  define ps where "ps = pair_up (drop 2 argv)"
  define w0 where "w0 = new_worker (argv ! 1) ps"
  have "\<not> (length argv < 3 \<or> (length argv - 2) mod 2 \<noteq> 0)" using True even_pairs [of "length argv"] by linarith
  then have run: "run_worker env w0 = (status, w)"
    using assms(1) by (simp add: worker_main_def w0_def ps_def)
  have "started w0 = []" by (simp add: w0_def new_worker_def)
  from run_worker_status [OF this, of env] run
  have st: "started w = started (spawned env w0)" "status = (if failed_executors env w = 0 then 0 else 1)"
    "failed_executors env w \<noteq> 0 \<longrightarrow> last (events w) =
       Err (''[C++ WORKER] '' @ nat_to_string (failed_executors env w) @ '' executor(s) failed'')"
    by auto
  have none: "status = 0 \<longleftrightarrow> (\<forall>(pid, av) \<in> set (started w). \<not> executor_failed env pid)"
    unfolding st(2) by (auto simp: filter_empty_conv)
  have exits: "status = 0 \<longleftrightarrow> (\<forall>(pid, av) \<in> set (started w). child_status env av = 0)"
    if "\<forall>(pid, av) \<in> set (started w). wait_for env pid = Exited (child_status env av)"
    unfolding none using that by (fastforce simp: executor_failed_def)
  have pairs: "length (pair_up xs) = length xs div 2 \<and>
      (\<forall>i < length xs div 2. pair_up xs ! i = (xs ! (2 * i), xs ! (2 * i + 1)))" for xs :: "string list"
    by (induction xs rule: pair_up.induct) (auto simp: nth_Cons split: nat.split)
  have path: "started w = (if access_x env (argv ! 1 @ ''/rcompss_executor'')
      then map (\<lambda>(j, pp). (fork_pid env j, executor_argv (argv ! 1 @ ''/rcompss_executor'') j pp))
             (filter (\<lambda>(j, pp). 0 < fork_pid env j) (enumerate 0 ps)) else [])"
    by (simp add: st(1) spawned_def spawnExecutors_def Let_def fork_executors_started w0_def new_worker_def)
  have "length (started w) = length argv div 2 - 1 \<and> (\<forall>i < length (started w).
        snd (started w ! i) = [argv ! 1 @ ''/rcompss_executor'', argv ! (2 * i + 2), argv ! (2 * i + 3), int_to_string (int i)])"
    if "access_x env (argv ! 1 @ ''/rcompss_executor'')" "\<forall>i. 0 < fork_pid env i"
  proof -
    have "started w = map (\<lambda>(j, pp). (fork_pid env j, executor_argv (argv ! 1 @ ''/rcompss_executor'') j pp)) (enumerate 0 ps)"
      using path that by (simp add: case_prod_beta)
    moreover have "length ps = length argv div 2 - 1" using pairs [of "drop 2 argv"] by (simp add: ps_def)
    moreover have "ps ! i = (argv ! (2 * i + 2), argv ! (2 * i + 3))" if "i < length ps" for i
      using pairs [of "drop 2 argv"] that True by (auto simp: ps_def nth_drop numeral_eq_Suc)
    ultimately show ?thesis by (simp add: executor_argv_def nth_enumerate_eq)
  qed
  note started_args = this
  have reads: "executor_main rt su [a, b, c, int_to_string (int i)] lines =
      st_bind (run rt su (int i) lines) (\<lambda>st. st_bind shutdownR (\<lambda>_. st_return st))" if "int i \<le> int_max" for a b c i
    using atoi_nat_to_string [OF that] by (simp add: executor_main_def int_to_string_def)
  have "int i \<le> int_max" if "i < length argv div 2 - 1" for i using that assms(2) by linarith
  with started_args reads have children: "access_x env (argv ! 1 @ ''/rcompss_executor'') \<and> (\<forall>i. 0 < fork_pid env i) \<longrightarrow>
         length (started w) = length argv div 2 - 1 \<and>
         (\<forall>i < length (started w).
            snd (started w ! i) = [argv ! 1 @ ''/rcompss_executor'', argv ! (2 * i + 2), argv ! (2 * i + 3), int_to_string (int i)] \<and>
            executor_main rt su (snd (started w ! i)) lines =
              st_bind (run rt su (int i) lines) (\<lambda>st. st_bind shutdownR (\<lambda>_. st_return st)))"
    by auto
  have "\<not> access_x env (argv ! 1 @ ''/rcompss_executor'') \<longrightarrow> started w = []" using path by simp
  moreover have "status \<noteq> 0 \<longrightarrow> status = 1 \<and> failed_executors env w \<noteq> 0" by (simp add: st(2))
  ultimately show ?thesis using True none exits children st(3) by (intro conjI impI) (blast+)
qed

text \<open>Two executors, of which the second is killed.\<close>

definition two_executors :: worker_env where
  "two_executors =
     \<lparr>access_x = (\<lambda>_. True), fork_pid = (\<lambda>i. 100 + int i), exec = (\<lambda>_. Some 0),
      wait_for = (\<lambda>pid. if pid = 100 then Exited 0 else Signaled 9), epoch_seconds = 0\<rparr>"

theorem worker_exit_status_witness:
  "\<exists>w. worker_main two_executors [''w'', ''/d'', ''c1'', ''r1'', ''c2'', ''r2''] = (1, w)
     \<and> map snd (started w) = [[''/d/rcompss_executor'', ''c1'', ''r1'', ''0''], [''/d/rcompss_executor'', ''c2'', ''r2'', ''1'']]
     \<and> last (events w) = Err ''[C++ WORKER] 1 executor(s) failed''"
proof -
  let ?argv = "[''w'', ''/d'', ''c1'', ''r1'', ''c2'', ''r2'']"
  obtain status w where run: "worker_main two_executors ?argv = (status, w)" by fastforce
  note spec = worker_exit_status [OF run]
  let ?w0 = "new_worker ''/d'' [(''c1'', ''r1''), (''c2'', ''r2'')]"
  have main: "worker_main two_executors ?argv = run_worker two_executors ?w0" by (simp add: worker_main_def)
  have num: "int_to_string 0 = ''0''" "int_to_string 1 = ''1''" by code_simp+
  have "started (spawned two_executors ?w0) =
      [(100, [''/d/rcompss_executor'', ''c1'', ''r1'', ''0'']), (101, [''/d/rcompss_executor'', ''c2'', ''r2'', ''1''])]"
    by (simp add: spawned_def spawnExecutors_def fork_executors_started new_worker_def executor_argv_def two_executors_def num
        del: fork_executors.simps)
  then have "started (snd (worker_main two_executors ?argv)) =
      [(100, [''/d/rcompss_executor'', ''c1'', ''r1'', ''0'']), (101, [''/d/rcompss_executor'', ''c2'', ''r2'', ''1''])]"
    using run_worker_status [of ?w0 two_executors] unfolding main by (simp add: new_worker_def)
  then have started: "started w = [(100, [''/d/rcompss_executor'', ''c1'', ''r1'', ''0'']), (101, [''/d/rcompss_executor'', ''c2'', ''r2'', ''1''])]"
    by (simp add: run)
  have "status \<noteq> 0" using conjunct1 [OF spec] started by (simp add: int_max_def executor_failed_def two_executors_def)
  moreover have "status = 1" using conjunct1 [OF conjunct2 [OF spec]] \<open>status \<noteq> 0\<close> by (simp add: int_max_def)
  moreover have "failed_executors two_executors w = 1" using started by (simp add: executor_failed_def two_executors_def)
  moreover have "nat_to_string 1 = ''1''" by code_simp
  ultimately have "last (events w) = Err ''[C++ WORKER] 1 executor(s) failed''"
    using conjunct1 [OF conjunct2 [OF conjunct2 [OF spec]]] by (simp add: int_max_def)
  with started run \<open>status = 1\<close> show ?thesis by simp
qed

end
