(* ===== verification/Rcpp_Api.thy ===== *)
theory Rcpp_Api
  imports R_Values
begin

text \<open>
  The conversions of the Rcpp library the package calls on R objects. Rcpp is not part of
  the sources, so its functions are a parameter (\<open>rcpp\<close>); the locale \<open>rcpp_api\<close> states what
  its documentation promises for the shapes the package relies on, and \<open>reference_rcpp\<close>
  is an implementation of that promise.
\<close>

section \<open>The conversions\<close>

text \<open>
  \<open>as_string\<close>, \<open>as_int\<close>, \<open>as_double\<close>, \<open>as_bool\<close> are \<^verbatim>\<open>Rcpp::as\<close> at scalar types;
  \<open>list_elements\<close> is \<^verbatim>\<open>Rcpp::as<Rcpp::List>\<close>, \<open>strings_of\<close> \<^verbatim>\<open>Rcpp::as<Rcpp::CharacterVector>\<close>
  with \<^verbatim>\<open>R_NaString\<close> as \<open>None\<close>, \<open>names_of\<close> \<^verbatim>\<open>x.names()\<close>, \<open>list_get\<close> \<^verbatim>\<open>x["name"]\<close> and
  \<open>list_push_back\<close> \<^verbatim>\<open>x.push_back(v)\<close>.
\<close>

record rcpp =
  as_string :: "sexp \<Rightarrow> string res"
  as_int :: "sexp \<Rightarrow> int res"
  as_double :: "sexp \<Rightarrow> u64 res"
  as_bool :: "sexp \<Rightarrow> bool res"
  list_elements :: "sexp \<Rightarrow> sexp list res"
  strings_of :: "sexp \<Rightarrow> string option list res"
  names_of :: "sexp \<Rightarrow> string option list res"
  list_get :: "sexp \<Rightarrow> string \<Rightarrow> sexp res"
  list_push_back :: "sexp \<Rightarrow> sexp \<Rightarrow> sexp"

fun c_string :: "rstring \<Rightarrow> string" where
  "c_string NA_STRING = ''NA''"
| "c_string (CHARSXP _ bs) = bytes_string bs"

fun string_opt :: "rstring \<Rightarrow> string option" where
  "string_opt NA_STRING = None"
| "string_opt (CHARSXP _ bs) = Some (bytes_string bs)"

text \<open>A list as R code builds it: elements with their names.\<close>

definition named_list :: "(string \<times> sexp) list \<Rightarrow> sexp" where
  "named_list kvs =
     VECSXP (map snd kvs)
       (if kvs = [] then []
        else [(''names'', STRSXP (map (\<lambda>kv. CHARSXP CE_NATIVE (string_bytes (fst kv))) kvs) [])])"

locale rcpp_api =
  fixes rcpp :: rcpp
  assumes as_string_scalar: "as_string rcpp (STRSXP [CHARSXP e bs] a) = Inr (bytes_string bs)"
    and as_int_scalar: "as_int rcpp (INTSXP [w] a) = Inr (sint w)"
    and elements: "list_elements rcpp (VECSXP xs a) = Inr xs"
    and strings: "strings_of rcpp (STRSXP ss a) = Inr (map string_opt ss)"
    and names: "alist_get a ''names'' = Some (STRSXP ss b) \<Longrightarrow> length ss = length xs \<Longrightarrow>
      names_of rcpp (VECSXP xs a) = Inr (map string_opt ss)"
    and get: "alist_get a ''names'' = Some (STRSXP ss b) \<Longrightarrow> length ss = length xs \<Longrightarrow>
      alist_get (zip (map string_opt ss) xs) (Some k) = Some v \<Longrightarrow> list_get rcpp (VECSXP xs a) k = Inr v"
    and push: "\<exists>b. list_push_back rcpp (VECSXP xs a) v = VECSXP (xs @ [v]) b \<and> alist_get b ''dim'' = None"
begin

lemma as_string_r_string [simp]: "as_string rcpp (r_string s) = Inr s"
  by (simp add: r_string_def as_string_scalar)

lemma named_list_elements: "list_elements rcpp (named_list kvs) = Inr (map snd kvs)"
  by (simp add: named_list_def elements)

lemma named_list_names:
  "kvs \<noteq> [] \<Longrightarrow> names_of rcpp (named_list kvs) = Inr (map (\<lambda>kv. Some (fst kv)) kvs)"
  by (simp add: named_list_def names)

end

section \<open>The reference conversions\<close>

definition not_compatible :: exn where
  "not_compatible = Rcpp_exception ''Not compatible with requested type''"

definition reference_names :: "sexp \<Rightarrow> string option list res" where
  "reference_names x =
     (case alist_get (ATTRIB x) ''names'' of
        Some (STRSXP ss _) \<Rightarrow> Inr (map string_opt ss)
      | _ \<Rightarrow> Inl not_compatible)"

definition reference_list_get :: "sexp \<Rightarrow> string \<Rightarrow> sexp res" where
  "reference_list_get x k =
     (case x of
        VECSXP xs _ \<Rightarrow>
          res_bind (reference_names x) (\<lambda>ns.
            case alist_get (zip ns xs) (Some k) of
              None \<Rightarrow> Inl (Std_exception ''Index out of bounds'')
            | Some v \<Rightarrow> Inr v)
      | _ \<Rightarrow> Inl not_compatible)"

definition reference_rcpp :: rcpp where
  "reference_rcpp =
     \<lparr>as_string = (\<lambda>x. case x of STRSXP [s] _ \<Rightarrow> Inr (c_string s) | _ \<Rightarrow> Inl not_compatible),
      as_int = (\<lambda>x. case x of INTSXP [w] _ \<Rightarrow> Inr (sint w) | LGLSXP [w] _ \<Rightarrow> Inr (sint w) | _ \<Rightarrow> Inl not_compatible),
      as_double = (\<lambda>x. case x of REALSXP [d] _ \<Rightarrow> Inr d | _ \<Rightarrow> Inl not_compatible),
      as_bool = (\<lambda>x. case x of LGLSXP [w] _ \<Rightarrow> Inr (w \<noteq> 0) | _ \<Rightarrow> Inl not_compatible),
      list_elements = (\<lambda>x. case x of VECSXP xs _ \<Rightarrow> Inr xs | _ \<Rightarrow> Inl not_compatible),
      strings_of = (\<lambda>x. case x of STRSXP ss _ \<Rightarrow> Inr (map string_opt ss) | _ \<Rightarrow> Inl not_compatible),
      names_of = reference_names,
      list_get = reference_list_get,
      list_push_back = (\<lambda>x v. case x of VECSXP xs _ \<Rightarrow> VECSXP (xs @ [v]) [] | _ \<Rightarrow> x)\<rparr>"

interpretation refrcpp: rcpp_api reference_rcpp
  by unfold_locales (auto simp: reference_rcpp_def reference_names_def reference_list_get_def)

end
