(* ===== verification/Serialize_Api.thy ===== *)
theory Serialize_Api
  imports Core_Utils Serialization_Roundtrip Rcpp_Api
begin

text \<open>
  The serialization entry points of \<^verbatim>\<open>src/compssmodule.cpp\<close>: choosing the method, writing an
  object with it, choosing the reader from the file name, and waiting for future objects.
  Reading and writing with the native method is the model of \<^verbatim>\<open>Serialization.cpp\<close>; the
  packages \<^verbatim>\<open>qs\<close> and \<^verbatim>\<open>RMVL\<close>, the R functions called by name and the COMPSs runtime are
  parameters. The lines sent to \<^verbatim>\<open>std::cerr\<close>, \<^verbatim>\<open>Rcpp::Rcerr\<close> and the log in \<^verbatim>\<open>/tmp\<close>, and the
  check after writing that only prints, are left out.
\<close>

section \<open>State and surroundings\<close>

text \<open>The files, the height of R's protection stack and the rest of the R session.\<close>

record 'x node =
  files :: file_system
  pp_height :: nat
  session :: 'x

record 'x host =
  getenv :: "string \<Rightarrow> string option"
  out_env :: ostream_env
  c_api :: r_api
  frames :: nat
  conv :: rcpp
  class_of :: "sexp \<Rightarrow> ('x node, string list) st"
  require_namespace :: "string \<Rightarrow> ('x node, bool) st"
  get_namespace :: "string \<Rightarrow> ('x node, unit) st"
  qs_qsave :: "sexp \<Rightarrow> string \<Rightarrow> int \<Rightarrow> ('x node, unit) st"
  qs_qread :: "string \<Rightarrow> int \<Rightarrow> ('x node, sexp) st"
  geterrmessage :: "('x node, string) st"
  mvl_open :: "bool \<Rightarrow> string \<Rightarrow> ('x node, sexp) st"
  mvl_write_object :: "sexp \<Rightarrow> sexp \<Rightarrow> string \<Rightarrow> ('x node, unit) st"
  mvl_close :: "sexp \<Rightarrow> ('x node, unit) st"
  dollar :: "sexp \<Rightarrow> string \<Rightarrow> ('x node, sexp) st"
  mvl2R :: "sexp \<Rightarrow> ('x node, sexp) st"
  gs_get_file :: "int \<Rightarrow> string \<Rightarrow> 'x node \<Rightarrow> 'x node"
  r_warning :: "string \<Rightarrow> ('x node, unit) st"

definition lower :: "string \<Rightarrow> string" where
  "lower s = map to_lower s"

definition get_default_serialization_method :: "'x host \<Rightarrow> string" where
  "get_default_serialization_method h =
     (case getenv h ''RCOMPSs_SERIALIZATION'' of
        None \<Rightarrow> ''cpp''
      | Some method \<Rightarrow>
          if method \<noteq> [] then
            if lower method = ''cpp'' \<or> lower method = ''qs'' \<or> lower method = ''rmvl'' then method
            else ''cpp''
          else ''cpp'')"

text \<open>\<^verbatim>\<open>serializeSEXP\<close> and \<^verbatim>\<open>unserializeSEXP\<close> on this state.\<close>

definition cpp_write :: "'x host \<Rightarrow> sexp \<Rightarrow> string \<Rightarrow> ('x node, unit) st" where
  "cpp_write h object filepath =
     (\<lambda>s. case serializeSEXP (out_env h) object filepath (files s) of (r, fs) \<Rightarrow> (r, s\<lparr>files := fs\<rparr>))"

definition cpp_read :: "'x host \<Rightarrow> string \<Rightarrow> ('x node, sexp) st" where
  "cpp_read h filepath =
     (\<lambda>s. case unserializeSEXP (c_api h) (frames h) filepath (files s) (pp_height s) of
        (r, n) \<Rightarrow> (r, s\<lparr>pp_height := n\<rparr>))"

definition opens :: "string \<Rightarrow> ('x node, bool) st" where
  "opens filepath = st_gets (\<lambda>s. files s filepath \<noteq> None)"

section \<open>rcompss_serialize\<close>

text \<open>
  The handlers around the calls of the \<^verbatim>\<open>qs\<close> functions: standard exceptions go on, anything
  else is replaced. The message fetched from R is thrown inside the inner \<^verbatim>\<open>try\<close>, whose own
  handler catches it.
\<close>

definition guard_qs :: "'x host \<Rightarrow> string \<Rightarrow> ('x node, 'a) st \<Rightarrow> ('x node, 'a) st" where
  "guard_qs h call m =
     st_catch m (\<lambda>e.
       if is_std_exception e then st_throw e
       else
         st_catch
           (st_bind (geterrmessage h) (\<lambda>r_error.
              st_throw (Rcpp_exception (''R error in qs::'' @ call @ '': '' @ r_error))))
           (\<lambda>_. st_throw (Rcpp_exception (''Unknown error calling qs::'' @ call))))"

definition qs_save :: "'x host \<Rightarrow> sexp \<Rightarrow> string \<Rightarrow> int \<Rightarrow> ('x node, unit) st" where
  "qs_save h object filepath mthreads =
     st_bind (require_namespace h ''qs'') (\<lambda>ns_loaded.
       if \<not> ns_loaded
       then st_throw (Rcpp_exception ''Failed to load qs package namespace. Is qs installed?'')
       else
         st_bind (get_namespace h ''qs'') (\<lambda>_.
         guard_qs h ''qsave''
           (st_bind (qs_qsave h object filepath mthreads) (\<lambda>_.
            st_bind (opens filepath) (\<lambda>good.
              if good then st_return ()
              else st_throw (Rcpp_exception (''qs::qsave did not create file: '' @ filepath)))))))"

definition mvl_write :: "'x host \<Rightarrow> sexp \<Rightarrow> string \<Rightarrow> ('x node, unit) st" where
  "mvl_write h object filepath =
     st_bind (get_namespace h ''RMVL'') (\<lambda>_.
     st_bind (mvl_open h True filepath) (\<lambda>con.
     st_bind (mvl_write_object h con object ''obj'') (\<lambda>_.
     mvl_close h con)))"

definition mvl_save :: "'x host \<Rightarrow> sexp \<Rightarrow> string \<Rightarrow> ('x node, unit) st" where
  "mvl_save h object filepath =
     st_catch (mvl_write h object filepath) (\<lambda>e.
       case e of
         Rcpp_exception _ \<Rightarrow>
           st_bind (require_namespace h ''RMVL'') (\<lambda>ns_loaded.
             if \<not> ns_loaded then st_throw (Rcpp_exception ''Failed to load RMVL package namespace'')
             else mvl_write h object filepath)
       | _ \<Rightarrow> st_throw e)"

definition serialize_with :: "'x host \<Rightarrow> sexp \<Rightarrow> string \<Rightarrow> string \<Rightarrow> int \<Rightarrow> ('x node, unit) st" where
  "serialize_with h object filepath method mthreads =
     (if lower method = ''cpp'' then cpp_write h object filepath
      else if lower method = ''qs'' then qs_save h object filepath mthreads
      else if lower method = ''rmvl'' then mvl_save h object filepath
      else st_throw (Rcpp_exception (''Unknown serialization method: '' @ [CHR 0x27] @ method @ [CHR 0x27] @
        ''. Valid methods: cpp, qs, RMVL'')))"

definition rcompss_serialize ::
    "'x host \<Rightarrow> sexp \<Rightarrow> string \<Rightarrow> string \<Rightarrow> int \<Rightarrow> ('x node, unit) st" where
  "rcompss_serialize h object filepath ser_method mthreads =
     st_catch
       (serialize_with h object filepath
          (if ser_method = [] then get_default_serialization_method h else ser_method) mthreads)
       (\<lambda>e. if is_std_exception e
            then st_throw (Rcpp_exception (''Failed to serialize object: '' @ what e))
            else st_throw e)"

section \<open>rcompss_unserialize\<close>

definition cpp_load :: "'x host \<Rightarrow> string \<Rightarrow> ('x node, sexp) st" where
  "cpp_load h filepath =
     st_bind (opens filepath) (\<lambda>good.
       if good then cpp_read h filepath
       else st_throw (Rcpp_exception (''Failed to open file for verification: '' @ filepath)))"

definition qs_load :: "'x host \<Rightarrow> string \<Rightarrow> int \<Rightarrow> ('x node, sexp) st" where
  "qs_load h filepath mthreads =
     st_bind (require_namespace h ''qs'') (\<lambda>ns_loaded.
       if \<not> ns_loaded
       then st_throw (Rcpp_exception ''Failed to load qs package namespace. Is qs installed?'')
       else
         st_bind (get_namespace h ''qs'') (\<lambda>_.
         st_bind (opens filepath) (\<lambda>good.
           if \<not> good
           then st_throw (Rcpp_exception (''File does not exist or cannot be opened: '' @ filepath))
           else guard_qs h ''qread'' (qs_qread h filepath mthreads))))"

definition mvl_load :: "'x host \<Rightarrow> string \<Rightarrow> ('x node, sexp) st" where
  "mvl_load h filepath =
     st_bind (require_namespace h ''RMVL'') (\<lambda>ns_loaded.
       if \<not> ns_loaded
       then st_throw (Rcpp_exception ''Failed to load RMVL package namespace. Is RMVL installed?'')
       else
         st_bind (get_namespace h ''RMVL'') (\<lambda>_.
         st_bind (mvl_open h False filepath) (\<lambda>con.
         st_bind (dollar h con ''obj'') (\<lambda>obj_sexp.
         st_bind (mvl2R h obj_sexp) (\<lambda>result.
         st_bind (mvl_close h con) (\<lambda>_. st_return result))))))"

definition unserialize_with :: "'x host \<Rightarrow> string \<Rightarrow> string \<Rightarrow> int \<Rightarrow> ('x node, sexp) st" where
  "unserialize_with h method filepath mthreads =
     (if method = ''cpp'' then cpp_load h filepath
      else if method = ''qs'' then qs_load h filepath mthreads
      else if method = ''RMVL'' then mvl_load h filepath
      else cpp_read h filepath)"

definition rcompss_unserialize :: "'x host \<Rightarrow> string \<Rightarrow> int \<Rightarrow> ('x node, sexp) st" where
  "rcompss_unserialize h filepath mthreads =
     st_catch (unserialize_with h (extractSerializationMethod filepath) filepath mthreads)
       (\<lambda>e. if is_std_exception e
            then st_throw (Rcpp_exception (''Failed to unserialize object: '' @ what e))
            else st_throw (Rcpp_exception ''Failed to unserialize object: unknown error''))"

section \<open>Type tests on R objects and rcompss_wait_on\<close>

definition single_class :: "'x host \<Rightarrow> sexp \<Rightarrow> ('x node, string) st" where
  "single_class h obj =
     st_bind (class_of h obj) (\<lambda>r_class_vec.
       st_return (if length r_class_vec = 1 then r_class_vec ! 0 else []))"

definition rcompss_is_future_object :: "'x host \<Rightarrow> sexp \<Rightarrow> ('x node, bool) st" where
  "rcompss_is_future_object h obj =
     st_bind (single_class h obj) (\<lambda>r_class. st_return (isFutureObject r_class))"

definition rcompss_is_future_object_path :: "'x host \<Rightarrow> sexp \<Rightarrow> ('x node, bool) st" where
  "rcompss_is_future_object_path h obj =
     st_bind (single_class h obj) (\<lambda>r_class. st_return (isFutureObjectPath r_class))"

definition rcompss_is_list :: "'x host \<Rightarrow> sexp \<Rightarrow> ('x node, bool) st" where
  "rcompss_is_list h obj =
     st_bind (single_class h obj) (\<lambda>r_class. st_return (isList r_class))"

definition Get_File :: "'x host \<Rightarrow> int \<Rightarrow> string \<Rightarrow> ('x node, unit) st" where
  "Get_File h app_id outputfileName = (\<lambda>s. (Inr (), gs_get_file h app_id outputfileName s))"

text \<open>Fetching the file of a future object and reading it.\<close>

definition fetch :: "'x host \<Rightarrow> string \<Rightarrow> int \<Rightarrow> ('x node, sexp) st" where
  "fetch h outputfile mthreads =
     st_bind (Get_File h 0 outputfile) (\<lambda>_. rcompss_unserialize h outputfile mthreads)"

definition fetch_future :: "'x host \<Rightarrow> sexp \<Rightarrow> int \<Rightarrow> ('x node, sexp) st" where
  "fetch_future h fo mthreads =
     st_bind (st_lift (list_elements (conv h) fo)) (\<lambda>_.
     st_bind (st_lift (res_bind (list_get (conv h) fo ''outputfile'') (as_string (conv h)))) (\<lambda>outputfile.
     fetch h outputfile mthreads))"

definition wait_element :: "'x host \<Rightarrow> int \<Rightarrow> sexp \<Rightarrow> ('x node, sexp) st" where
  "wait_element h mthreads obj =
     st_bind (rcompss_is_future_object h obj) (\<lambda>future.
       if future then fetch_future h obj mthreads else st_return obj)"

definition wait_path :: "'x host \<Rightarrow> int \<Rightarrow> string option \<Rightarrow> ('x node, sexp) st" where
  "wait_path h mthreads path =
     (let file_name = (case path of None \<Rightarrow> ''NA'' | Some p \<Rightarrow> p) in
      st_catch (fetch h file_name mthreads) (\<lambda>_.
        st_bind (r_warning h (''File '' @ file_name @ '' does not exist. Returning the original character.''))
          (\<lambda>_. st_return (r_string file_name))))"

definition wait_body :: "'x host \<Rightarrow> sexp \<Rightarrow> int \<Rightarrow> ('x node, sexp) st" where
  "wait_body h future_obj mthreads =
     st_bind (rcompss_is_future_object h future_obj) (\<lambda>future.
     if future then fetch_future h future_obj mthreads
     else
       st_bind (rcompss_is_list h future_obj) (\<lambda>is_list.
       if is_list then
         st_bind (st_lift (list_elements (conv h) future_obj)) (\<lambda>obj_list.
         st_bind (st_map (wait_element h mthreads) obj_list) (\<lambda>return_list.
         st_return (VECSXP return_list [])))
       else
         st_bind (rcompss_is_future_object_path h future_obj) (\<lambda>is_path.
         if is_path then
           st_bind (st_lift (strings_of (conv h) future_obj)) (\<lambda>paths.
           st_bind (st_map (wait_path h mthreads) paths) (\<lambda>return_list.
           st_return (VECSXP return_list [])))
         else
           st_bind (r_warning h ''Unknown future object type. Returning as is.'')
             (\<lambda>_. st_return future_obj))))"

definition rcompss_wait_on :: "'x host \<Rightarrow> sexp \<Rightarrow> int \<Rightarrow> int \<Rightarrow> ('x node, sexp) st" where
  "rcompss_wait_on h future_obj mthreads nthreads =
     st_catch (wait_body h future_obj mthreads)
       (\<lambda>e. if is_std_exception e
            then st_throw (Rcpp_exception (''Failed to wait on future object: '' @ what e))
            else st_throw e)"

section \<open>The exceptions that leave the entry points\<close>

definition prefixed :: "string \<Rightarrow> exn \<Rightarrow> bool" where
  "prefixed p e = (case e of Rcpp_exception m \<Rightarrow> take (length p) m = p | _ \<Rightarrow> \<not> catchable e)"

lemma serialize_throws:
  "throws_only (\<lambda>e. e = Foreign_exception \<or> prefixed ''Failed to serialize object: '' e)
     (rcompss_serialize h x path m k)"
proof -
  have "e = Foreign_exception \<or> prefixed p e" if "\<not> catchable e" for e p
    using that by (cases e) (auto simp: prefixed_def)
  moreover have "e = Foreign_exception" if "catchable e" "\<not> is_std_exception e" for e
    using that by (cases e) auto
  ultimately show ?thesis
    unfolding rcompss_serialize_def
    by (intro throws_only_catch) (auto intro!: throws_only_throw simp: prefixed_def)
qed

lemma unserialize_throws:
  "throws_only (prefixed ''Failed to unserialize object: '') (rcompss_unserialize h path k)"
  unfolding rcompss_unserialize_def
  by (intro throws_only_catch) (auto intro!: throws_only_throw simp: prefixed_def split: exn.splits)

end
