(* ===== verification/Gpu_Context.thy ===== *)
theory Gpu_Context
  imports Serialize_Api "HOL-Library.Multiset"
begin

text \<open>
  GPU contexts: \<^verbatim>\<open>core/GPUDefinitions.hpp\<close>, \<^verbatim>\<open>kernels/RunContext.cpp\<close>, \<^verbatim>\<open>kernels/ContextManager.cpp\<close>,
  \<^verbatim>\<open>adapters/RContextManager.cpp\<close> and the exports of \<^verbatim>\<open>src/compssmodule.cpp\<close> over them. Context objects
  live in a heap of their own; CUDA streams, library handles and buffers are resources with
  fresh numbers. \<open>use_cuda\<close> is the \<^verbatim>\<open>USE_CUDA\<close> switch of the build. CUDA, cuSOLVER and cuBLAS are
  a parameter: \<open>succeeds\<close> says which of the calls made so far return success; using a destroyed
  resource is an error code, reading a handle that was never assigned is undefined.
\<close>

section \<open>Placement and mode\<close>

datatype OperationPlacement = GPU | CPU

datatype RunMode = SYNC | ASYNC

definition GetInputOperationPlacement :: "string \<Rightarrow> OperationPlacement res" where
  "GetInputOperationPlacement aPlacement =
     (if lower aPlacement = ''gpu'' then Inr GPU
      else if lower aPlacement = ''cpu'' then Inr CPU
      else Inl (Std_exception (''Invalid operation placement: '' @ aPlacement)))"

definition GetInputRunMode :: "string \<Rightarrow> RunMode res" where
  "GetInputRunMode aRunMode =
     (if lower aRunMode = ''sync'' then Inr SYNC
      else if lower aRunMode = ''async'' then Inr ASYNC
      else Inl (Std_exception (''Invalid run mode: '' @ aRunMode)))"

section \<open>The device and the objects\<close>

datatype cuda_call =
    StreamCreate | StreamSynchronize | StreamDestroy
  | CuSolverCreate | CuSolverDestroy | CuBlasCreate | CuBlasDestroy
  | Malloc nat | Free | MemcpyAsync nat | MemsetAsync nat | Memcpy nat | Memset_call nat | LibraryCall string

text \<open>
  \<open>iterate\<close> is the order in which an \<^verbatim>\<open>unordered_map\<close> visits its entries.
\<close>

record cuda_env =
  use_cuda :: bool
  succeeds :: "cuda_call \<Rightarrow> nat \<Rightarrow> bool"
  error_string :: "cuda_call \<Rightarrow> string"
  iterate :: "(string \<times> nat) list \<Rightarrow> (string \<times> nat) list"

text \<open>\<open>None\<close> is the null pointer for buffers, and a handle that was never assigned.\<close>

record run_context =
  mpInfo :: "nat option"
  mpWorkBufferDevice :: "nat option"
  mWorkBufferSizeDevice :: nat
  mpWorkBufferHost :: "nat option"
  mWorkBufferSizeHost :: nat
  mCuSolverHandle :: "nat option"
  mCuBlasHandle :: "nat option"
  mCudaStream :: "nat option"
  mRunMode :: RunMode
  mOperationPlacement :: OperationPlacement

record context_manager =
  mContexts :: "(string \<times> nat) list"
  mpCurrentContext :: "nat option"
  mpGPUContext :: "nat option"

record gpu =
  ctx_heap :: "nat \<Rightarrow> run_context option"
  live :: "nat set"
  next_id :: nat
  calls_made :: nat
  mpInstance :: "context_manager option"
  messages :: "string list"

text \<open>A line on \<^verbatim>\<open>stderr\<close>; the source file, line number and numeric code that some carry are left out.\<close>

definition message :: "string \<Rightarrow> (gpu, unit) st" where
  "message t = (\<lambda>s. (Inr (), s\<lparr>messages := messages s @ [t]\<rparr>))"

definition cuda :: "cuda_env \<Rightarrow> cuda_call \<Rightarrow> (gpu, bool) st" where
  "cuda e c = (\<lambda>s. (Inr (succeeds e c (calls_made s)), s\<lparr>calls_made := Suc (calls_made s)\<rparr>))"

definition fresh_resource :: "(gpu, nat) st" where
  "fresh_resource = (\<lambda>s. (Inr (next_id s), s\<lparr>next_id := Suc (next_id s), live := insert (next_id s) (live s)\<rparr>))"

definition create :: "cuda_env \<Rightarrow> cuda_call \<Rightarrow> (gpu, nat option) st" where
  "create e c =
     st_bind (cuda e c) (\<lambda>ok. if ok then st_bind fresh_resource (\<lambda>r. st_return (Some r)) else st_return None)"

definition use_resource :: "cuda_env \<Rightarrow> cuda_call \<Rightarrow> nat \<Rightarrow> (gpu, bool) st" where
  "use_resource e c r = st_bind (cuda e c) (\<lambda>ok. st_gets (\<lambda>s. ok \<and> r \<in> live s))"

definition destroy :: "cuda_env \<Rightarrow> cuda_call \<Rightarrow> nat \<Rightarrow> (gpu, bool) st" where
  "destroy e c r =
     st_bind (use_resource e c r) (\<lambda>ok. \<lambda>s. (Inr ok, if ok then s\<lparr>live := live s - {r}\<rparr> else s))"

text \<open>\<^verbatim>\<open>cudaFree(nullptr)\<close> succeeds and does nothing.\<close>

definition cudaFree :: "cuda_env \<Rightarrow> nat option \<Rightarrow> (gpu, bool) st" where
  "cudaFree e p = (case p of None \<Rightarrow> st_return True | Some r \<Rightarrow> destroy e Free r)"

definition cuda_failed :: "cuda_env \<Rightarrow> cuda_call \<Rightarrow> (gpu, unit) st" where
  "cuda_failed e c = message (''[RCOMPSs GPU] CUDA error - '' @ error_string e c)"

definition GPU_ERROR_CHECK :: "cuda_env \<Rightarrow> cuda_call \<Rightarrow> (gpu, bool) st \<Rightarrow> (gpu, unit) st" where
  "GPU_ERROR_CHECK e c m =
     st_bind m (\<lambda>ok.
       if ok then st_return ()
       else st_bind (cuda_failed e c) (\<lambda>_. st_throw (Std_exception (''CUDA error: '' @ error_string e c))))"

definition GPU_ERROR_CHECK_NO_THROW :: "cuda_env \<Rightarrow> cuda_call \<Rightarrow> (gpu, bool) st \<Rightarrow> (gpu, unit) st" where
  "GPU_ERROR_CHECK_NO_THROW e c m = st_bind m (\<lambda>ok. if ok then st_return () else cuda_failed e c)"

text \<open>Reading and writing a context object; a handle must have been assigned to be passed on.\<close>

definition the_context :: "nat \<Rightarrow> (gpu, run_context) st" where
  "the_context a =
     (\<lambda>s. case ctx_heap s a of None \<Rightarrow> (Inl Undefined_behaviour, s) | Some c \<Rightarrow> (Inr c, s))"

definition update :: "nat \<Rightarrow> (run_context \<Rightarrow> run_context) \<Rightarrow> (gpu, unit) st" where
  "update a f = st_bind (the_context a) (\<lambda>c. \<lambda>s. (Inr (), s\<lparr>ctx_heap := (ctx_heap s)(a \<mapsto> f c)\<rparr>))"

definition assigned :: "nat option \<Rightarrow> (gpu, nat) st" where
  "assigned h = (case h of None \<Rightarrow> st_throw Undefined_behaviour | Some r \<Rightarrow> st_return r)"

section \<open>RunContext\<close>

text \<open>
  Creating the stream and the handles of a GPU context, shared by the constructor and
  \<^verbatim>\<open>SetOperationPlacement\<close>. The codes of the handle functions are ignored.
\<close>

definition create_handles :: "cuda_env \<Rightarrow> nat \<Rightarrow> (gpu, unit) st" where
  "create_handles e this =
     st_bind (create e CuSolverCreate) (\<lambda>solver.
     st_bind (update this (\<lambda>c. c\<lparr>mCuSolverHandle := (if solver = None then mCuSolverHandle c else solver)\<rparr>)) (\<lambda>_.
     st_bind (st_bind (the_context this) (\<lambda>c. assigned (mCuSolverHandle c))) (\<lambda>_.
     st_bind (create e CuBlasCreate) (\<lambda>blas.
     st_bind (update this (\<lambda>c. c\<lparr>mCuBlasHandle := (if blas = None then mCuBlasHandle c else blas)\<rparr>)) (\<lambda>_.
     st_bind (st_bind (the_context this) (\<lambda>c. assigned (mCuBlasHandle c))) (\<lambda>_. st_return ()))))))"

definition create_or_throw :: "cuda_env \<Rightarrow> cuda_call \<Rightarrow> (gpu, nat option) st" where
  "create_or_throw e c =
     st_bind (create e c) (\<lambda>r.
     st_bind (GPU_ERROR_CHECK e c (st_return (r \<noteq> None))) (\<lambda>_. st_return r))"

definition init_device :: "cuda_env \<Rightarrow> nat \<Rightarrow> (gpu, unit) st" where
  "init_device e this =
     st_bind (create_or_throw e StreamCreate) (\<lambda>stream.
     st_bind (update this (\<lambda>c. c\<lparr>mCudaStream := stream\<rparr>)) (\<lambda>_.
     st_bind (create_handles e this) (\<lambda>_.
     st_bind (create_or_throw e (Malloc 4)) (\<lambda>info.
     update this (\<lambda>c. c\<lparr>mpInfo := info\<rparr>)))))"

definition blank_context :: run_context where
  "blank_context =
     \<lparr>mpInfo = None, mpWorkBufferDevice = None, mWorkBufferSizeDevice = 0, mpWorkBufferHost = None,
      mWorkBufferSizeHost = 0, mCuSolverHandle = None, mCuBlasHandle = None, mCudaStream = None,
      mRunMode = SYNC, mOperationPlacement = CPU\<rparr>"

text \<open>\<^verbatim>\<open>new RunContext(placement, mode)\<close>; the memory is given back when the constructor throws.\<close>

definition new_RunContext :: "cuda_env \<Rightarrow> OperationPlacement \<Rightarrow> RunMode \<Rightarrow> (gpu, nat) st" where
  "new_RunContext e aOperationPlacement aRunMode =
     st_bind (\<lambda>s. (Inr (next_id s),
        s\<lparr>next_id := Suc (next_id s), ctx_heap := (ctx_heap s)(next_id s \<mapsto> blank_context)\<rparr>)) (\<lambda>this.
     st_catch
       (st_bind
          (if use_cuda e then
             st_bind (if aOperationPlacement = GPU then init_device e this else st_return ()) (\<lambda>_.
             update this (\<lambda>c. c\<lparr>mOperationPlacement := aOperationPlacement\<rparr>))
           else message ''[RCOMPSs GPU] Context is running without GPU support'') (\<lambda>_.
        st_bind (update this (\<lambda>c. c\<lparr>mRunMode := aRunMode\<rparr>)) (\<lambda>_. st_return this)))
       (\<lambda>ex. st_bind (\<lambda>s. (Inr (), s\<lparr>ctx_heap := (ctx_heap s)(this := None)\<rparr>)) (\<lambda>_. st_throw ex)))"

definition RunContext_Sync :: "cuda_env \<Rightarrow> nat \<Rightarrow> (gpu, unit) st" where
  "RunContext_Sync e this =
     st_bind (the_context this) (\<lambda>c.
       if use_cuda e \<and> mOperationPlacement c = GPU
       then st_bind (assigned (mCudaStream c)) (\<lambda>stream. GPU_ERROR_CHECK e StreamSynchronize (use_resource e StreamSynchronize stream))
       else st_return ())"

text \<open>Destroying the handles; failures are only reported.\<close>

definition destroy_handle :: "cuda_env \<Rightarrow> cuda_call \<Rightarrow> string \<Rightarrow> nat option \<Rightarrow> (gpu, unit) st" where
  "destroy_handle e c what_is h =
     st_bind (assigned h) (\<lambda>r.
     st_bind (destroy e c r) (\<lambda>ok.
       if ok then st_return () else message (''[RCOMPSs GPU] Error While Destroying '' @ what_is)))"

definition destroy_handles :: "cuda_env \<Rightarrow> run_context \<Rightarrow> (gpu, unit) st" where
  "destroy_handles e c =
     st_bind (destroy_handle e CuSolverDestroy ''CuSolver Handle'' (mCuSolverHandle c)) (\<lambda>_.
     st_bind (destroy_handle e CuBlasDestroy ''CuBlas Handle'' (mCuBlasHandle c)) (\<lambda>_.
     destroy_handle e StreamDestroy ''CUDA stream'' (mCudaStream c)))"

text \<open>\<^verbatim>\<open>delete[]\<close> of a host buffer: undefined when it is not allocated.\<close>

definition delete_host :: "nat option \<Rightarrow> (gpu, unit) st" where
  "delete_host p =
     (case p of
        None \<Rightarrow> st_return ()
      | Some r \<Rightarrow> (\<lambda>s. if r \<in> live s then (Inr (), s\<lparr>live := live s - {r}\<rparr>) else (Inl Undefined_behaviour, s)))"

definition delete_RunContext :: "cuda_env \<Rightarrow> nat \<Rightarrow> (gpu, unit) st" where
  "delete_RunContext e this =
     st_bind (the_context this) (\<lambda>c.
     st_bind
       (if use_cuda e then
          st_bind (st_catch (RunContext_Sync e this) (\<lambda>_. st_return ())) (\<lambda>_.
          st_bind (GPU_ERROR_CHECK_NO_THROW e Free (cudaFree e (mpWorkBufferDevice c))) (\<lambda>_.
          st_bind (delete_host (mpWorkBufferHost c)) (\<lambda>_.
            if mOperationPlacement c = GPU then
              st_bind (destroy_handles e c) (\<lambda>_. GPU_ERROR_CHECK_NO_THROW e Free (cudaFree e (mpInfo c)))
            else st_return ())))
        else st_return ()) (\<lambda>_.
     \<lambda>s. (Inr (), s\<lparr>ctx_heap := (ctx_heap s)(this := None)\<rparr>)))"

definition RunContext_GetRunMode :: "nat \<Rightarrow> (gpu, RunMode) st" where
  "RunContext_GetRunMode this = st_bind (the_context this) (\<lambda>c. st_return (mRunMode c))"

definition RunContext_GetOperationPlacement :: "nat \<Rightarrow> (gpu, OperationPlacement) st" where
  "RunContext_GetOperationPlacement this = st_bind (the_context this) (\<lambda>c. st_return (mOperationPlacement c))"

definition FreeWorkBufferDevice :: "cuda_env \<Rightarrow> nat \<Rightarrow> (gpu, unit) st" where
  "FreeWorkBufferDevice e this =
     st_bind (the_context this) (\<lambda>c.
       if mOperationPlacement c = GPU then
         st_bind (RunContext_Sync e this) (\<lambda>_. GPU_ERROR_CHECK e Free (cudaFree e (mpWorkBufferDevice c)))
       else st_return ())"

definition FreeWorkBufferHost :: "cuda_env \<Rightarrow> nat \<Rightarrow> (gpu, unit) st" where
  "FreeWorkBufferHost e this =
     st_bind (the_context this) (\<lambda>c.
       if mOperationPlacement c = GPU then
         st_bind (RunContext_Sync e this) (\<lambda>_. delete_host (mpWorkBufferHost c))
       else st_return ())"

definition ClearUp :: "cuda_env \<Rightarrow> nat \<Rightarrow> (gpu, unit) st" where
  "ClearUp e this =
     st_bind (the_context this) (\<lambda>c.
     st_bind
       (if mOperationPlacement c = GPU then
          st_bind (RunContext_Sync e this) (\<lambda>_.
          st_bind (GPU_ERROR_CHECK e Free (cudaFree e (mpWorkBufferDevice c))) (\<lambda>_.
          st_bind (delete_host (mpWorkBufferHost c)) (\<lambda>_.
          st_bind (destroy_handles e c) (\<lambda>_.
          GPU_ERROR_CHECK e Free (cudaFree e (mpInfo c))))))
        else st_return ()) (\<lambda>_.
     update this (\<lambda>c. c\<lparr>mpInfo := None, mWorkBufferSizeDevice := 0, mpWorkBufferDevice := None,
       mWorkBufferSizeHost := 0, mpWorkBufferHost := None\<rparr>)))"

definition RunContext_SetOperationPlacement :: "cuda_env \<Rightarrow> nat \<Rightarrow> OperationPlacement \<Rightarrow> (gpu, unit) st" where
  "RunContext_SetOperationPlacement e this aOperationPlacement =
     (if use_cuda e then
        st_bind (the_context this) (\<lambda>c.
          if mOperationPlacement c = GPU \<and> aOperationPlacement = GPU then FreeWorkBufferDevice e this
          else
            st_bind (ClearUp e this) (\<lambda>_.
            st_bind (update this (\<lambda>c. c\<lparr>mOperationPlacement := aOperationPlacement\<rparr>)) (\<lambda>_.
              if aOperationPlacement = GPU then init_device e this else st_return ())))
      else
        st_bind (message ''[RCOMPSs GPU] Context is running without GPU support, Mode of operation is set automatically to CPU'')
          (\<lambda>_. update this (\<lambda>c. c\<lparr>mOperationPlacement := CPU\<rparr>)))"

definition RunContext_SetRunMode :: "cuda_env \<Rightarrow> nat \<Rightarrow> RunMode \<Rightarrow> (gpu, unit) st" where
  "RunContext_SetRunMode e this aRunMode =
     st_bind (the_context this) (\<lambda>c.
     st_bind (if mRunMode c = ASYNC \<and> aRunMode = SYNC then RunContext_Sync e this else st_return ()) (\<lambda>_.
     update this (\<lambda>c. c\<lparr>mRunMode := aRunMode\<rparr>)))"

text \<open>\<^verbatim>\<open>GetStream\<close>, \<^verbatim>\<open>GetCusolverDnHandle\<close>, \<^verbatim>\<open>GetCuBlasDnHandle\<close> and \<^verbatim>\<open>GetInfoPointer\<close>.\<close>

definition no_metadata :: exn where
  "no_metadata = Std_exception ''Cannot get context metadata while running CPU context''"

definition device_part :: "(run_context \<Rightarrow> 'a) \<Rightarrow> nat \<Rightarrow> (gpu, 'a) st" where
  "device_part part this =
     st_bind (the_context this) (\<lambda>c.
       if mOperationPlacement c = CPU then st_throw no_metadata else st_return (part c))"

definition GetStream :: "nat \<Rightarrow> (gpu, nat) st" where
  "GetStream this = st_bind (device_part mCudaStream this) assigned"

definition GetCusolverDnHandle :: "nat \<Rightarrow> (gpu, nat) st" where
  "GetCusolverDnHandle this = st_bind (device_part mCuSolverHandle this) assigned"

definition GetCuBlasDnHandle :: "nat \<Rightarrow> (gpu, nat) st" where
  "GetCuBlasDnHandle this = st_bind (device_part mCuBlasHandle this) assigned"

definition GetInfoPointer :: "nat \<Rightarrow> (gpu, nat option) st" where
  "GetInfoPointer this = device_part mpInfo this"

text \<open>The size is stored before the allocation that may fail.\<close>

definition RequestWorkBufferDevice :: "cuda_env \<Rightarrow> nat \<Rightarrow> nat \<Rightarrow> (gpu, nat option) st" where
  "RequestWorkBufferDevice e this aBufferSize =
     st_bind (the_context this) (\<lambda>c.
       if aBufferSize = 0 then st_return (mpWorkBufferDevice c)
       else if mOperationPlacement c = CPU then st_throw no_metadata
       else
         st_bind
           (if mWorkBufferSizeDevice c < aBufferSize then
              st_bind (GPU_ERROR_CHECK e Free (cudaFree e (mpWorkBufferDevice c))) (\<lambda>_.
              st_bind (update this (\<lambda>c. c\<lparr>mWorkBufferSizeDevice := aBufferSize\<rparr>)) (\<lambda>_.
              st_bind (create_or_throw e (Malloc aBufferSize)) (\<lambda>r.
              update this (\<lambda>c. c\<lparr>mpWorkBufferDevice := r\<rparr>))))
            else st_return ())
           (\<lambda>_. st_bind (the_context this) (\<lambda>c. st_return (mpWorkBufferDevice c))))"

definition RequestWorkBufferHost :: "cuda_env \<Rightarrow> nat \<Rightarrow> nat \<Rightarrow> (gpu, nat option) st" where
  "RequestWorkBufferHost e this aBufferSize =
     st_bind (the_context this) (\<lambda>c.
       if aBufferSize = 0 then st_return (mpWorkBufferHost c)
       else if mOperationPlacement c = CPU then st_throw no_metadata
       else
         st_bind
           (if mWorkBufferSizeHost c < aBufferSize then
              st_bind (delete_host (mpWorkBufferHost c)) (\<lambda>_.
              st_bind fresh_resource (\<lambda>r.
              update this (\<lambda>c. c\<lparr>mWorkBufferSizeHost := aBufferSize, mpWorkBufferHost := Some r\<rparr>)))
            else st_return ())
           (\<lambda>_. st_bind (the_context this) (\<lambda>c. st_return (mpWorkBufferHost c))))"

section \<open>ContextManager\<close>

definition no_stream :: "string \<Rightarrow> exn" where
  "no_stream nm = Std_exception (''No stream with that name: '' @ nm)"

text \<open>\<^verbatim>\<open>mContexts[name] = p\<close>.\<close>

fun put_context :: "string \<Rightarrow> nat \<Rightarrow> (string \<times> nat) list \<Rightarrow> (string \<times> nat) list" where
  "put_context k v [] = [(k, v)]"
| "put_context k v ((k', v') # kvs) = (if k' = k then (k, v) # kvs else (k', v') # put_context k v kvs)"

definition erase_context :: "string \<Rightarrow> (string \<times> nat) list \<Rightarrow> (string \<times> nat) list" where
  "erase_context k kvs = filter (\<lambda>kv. fst kv \<noteq> k) kvs"

definition set_manager :: "context_manager \<Rightarrow> (gpu, unit) st" where
  "set_manager m = (\<lambda>s. (Inr (), s\<lparr>mpInstance := Some m\<rparr>))"

definition GetInstance :: "cuda_env \<Rightarrow> (gpu, context_manager) st" where
  "GetInstance e =
     st_bind (st_gets mpInstance) (\<lambda>i.
       case i of
         Some m \<Rightarrow> st_return m
       | None \<Rightarrow>
           st_bind (set_manager \<lparr>mContexts = [], mpCurrentContext = None, mpGPUContext = None\<rparr>) (\<lambda>_.
           st_bind (new_RunContext e CPU SYNC) (\<lambda>c.
           (let m = \<lparr>mContexts = [(''default'', c)], mpCurrentContext = Some c, mpGPUContext = None\<rparr> in
            st_bind (set_manager m) (\<lambda>_. st_return m)))))"

definition GetContext :: "context_manager \<Rightarrow> string \<Rightarrow> (gpu, nat) st" where
  "GetContext m aRunContextName =
     (case alist_get (mContexts m) aRunContextName of
        None \<Rightarrow> st_throw (no_stream aRunContextName)
      | Some c \<Rightarrow> st_return c)"

definition Manager_SyncContext :: "cuda_env \<Rightarrow> context_manager \<Rightarrow> string \<Rightarrow> (gpu, unit) st" where
  "Manager_SyncContext e m aRunContextName =
     (case alist_get (mContexts m) aRunContextName of
        None \<Rightarrow> st_throw (no_stream aRunContextName)
      | Some c \<Rightarrow> RunContext_Sync e c)"

definition SyncMainContext :: "cuda_env \<Rightarrow> context_manager \<Rightarrow> (gpu, unit) st" where
  "SyncMainContext e m =
     (case alist_get (mContexts m) ''default'' of
        None \<Rightarrow> st_throw (Std_exception ''_Map_base::at'')
      | Some c \<Rightarrow> RunContext_Sync e c)"

definition Manager_SyncAll :: "cuda_env \<Rightarrow> context_manager \<Rightarrow> (gpu, unit) st" where
  "Manager_SyncAll e m = st_for (\<lambda>kv. RunContext_Sync e (snd kv)) (iterate e (mContexts m))"

definition DestroyInstance :: "cuda_env \<Rightarrow> (gpu, unit) st" where
  "DestroyInstance e =
     st_bind (st_gets mpInstance) (\<lambda>i.
       case i of
         None \<Rightarrow> st_return ()
       | Some m \<Rightarrow>
           st_bind (Manager_SyncAll e m) (\<lambda>_.
           st_bind (st_for (\<lambda>kv. delete_RunContext e (snd kv)) (iterate e (mContexts m))) (\<lambda>_.
           st_bind
             (case mpGPUContext m of
                Some g \<Rightarrow> if use_cuda e then delete_RunContext e g else st_return ()
              | None \<Rightarrow> st_return ()) (\<lambda>_.
           \<lambda>s. (Inr (), s\<lparr>mpInstance := None\<rparr>)))))"

definition GetOperationContext :: "cuda_env \<Rightarrow> (gpu, nat) st" where
  "GetOperationContext e =
     st_bind (GetInstance e) (\<lambda>m.
       case mpCurrentContext m of
         None \<Rightarrow> st_throw (Std_exception ''No current operation context available'')
       | Some c \<Rightarrow> st_return c)"

definition Manager_CreateRunContext :: "cuda_env \<Rightarrow> string \<Rightarrow> (gpu, nat) st" where
  "Manager_CreateRunContext e aRunContextName =
     st_bind (GetInstance e) (\<lambda>m.
     st_bind (new_RunContext e CPU SYNC) (\<lambda>run_context.
     st_bind (set_manager (m\<lparr>mContexts := put_context aRunContextName run_context (mContexts m)\<rparr>)) (\<lambda>_.
     st_return run_context)))"

text \<open>Taking a context out of the map and deleting it.\<close>

definition remove_context :: "cuda_env \<Rightarrow> context_manager \<Rightarrow> string \<Rightarrow> (gpu, unit) st" where
  "remove_context e m aRunContextName =
     st_bind (GetContext m aRunContextName) (\<lambda>deleted_context.
     st_bind (set_manager (m\<lparr>mContexts := erase_context aRunContextName (mContexts m)\<rparr>)) (\<lambda>_.
     delete_RunContext e deleted_context))"

definition Manager_DeleteRunContext :: "cuda_env \<Rightarrow> context_manager \<Rightarrow> string \<Rightarrow> (gpu, unit) st" where
  "Manager_DeleteRunContext e m aRunContextName =
     st_bind (GetContext m aRunContextName) (\<lambda>c.
       if mpCurrentContext m = Some c then
         if aRunContextName = ''default''
         then message ''[RCOMPSs GPU] WARNING: Cannot delete default RunContext''
         else
           st_bind (GetContext m ''default'') (\<lambda>default_context.
           remove_context e (m\<lparr>mpCurrentContext := Some default_context\<rparr>) aRunContextName)
       else remove_context e m aRunContextName)"

definition GetGPUContext :: "cuda_env \<Rightarrow> (gpu, nat) st" where
  "GetGPUContext e =
     (if use_cuda e then
        st_bind (GetInstance e) (\<lambda>m.
          case mpGPUContext m of
            Some g \<Rightarrow> st_return g
          | None \<Rightarrow>
              st_bind (new_RunContext e GPU SYNC) (\<lambda>g.
              st_bind (set_manager (m\<lparr>mpGPUContext := Some g\<rparr>)) (\<lambda>_. st_return g)))
      else st_throw (Std_exception ''Code is compiled without CUDA support''))"

section \<open>The adapters and their exports\<close>

text \<open>\<^verbatim>\<open>try { ... } catch (const std::exception& e) { Rcpp::stop(...) }\<close>.\<close>

definition stop_with :: "string \<Rightarrow> ('s, 'a) st \<Rightarrow> ('s, 'a) st" where
  "stop_with prefix m =
     st_catch m (\<lambda>e. if is_std_exception e then st_throw (Rcpp_exception (prefix @ '': '' @ what e)) else st_throw e)"

definition in_context :: "cuda_env \<Rightarrow> string \<Rightarrow> (nat \<Rightarrow> (gpu, 'a) st) \<Rightarrow> (gpu, 'a) st" where
  "in_context e nm act = st_bind (GetInstance e) (\<lambda>m. st_bind (GetContext m nm) act)"

definition SetOperationPlacement :: "cuda_env \<Rightarrow> string \<Rightarrow> string \<Rightarrow> (gpu, unit) st" where
  "SetOperationPlacement e nm aOperationPlacement =
     st_bind (st_lift (GetInputOperationPlacement aOperationPlacement)) (\<lambda>pl.
     in_context e nm (\<lambda>c. RunContext_SetOperationPlacement e c pl))"

definition GetOperationPlacement :: "cuda_env \<Rightarrow> string \<Rightarrow> (gpu, string) st" where
  "GetOperationPlacement e nm =
     st_bind (in_context e nm RunContext_GetOperationPlacement) (\<lambda>pl.
     st_return (if pl = CPU then ''CPU'' else ''GPU''))"

definition SetRunMode :: "cuda_env \<Rightarrow> string \<Rightarrow> string \<Rightarrow> (gpu, unit) st" where
  "SetRunMode e nm aRunMode =
     st_bind (GetInstance e) (\<lambda>m.
     st_bind (st_lift (GetInputRunMode (lower aRunMode))) (\<lambda>mode.
     st_bind (GetContext m nm) (\<lambda>c. RunContext_SetRunMode e c mode)))"

definition GetRunMode :: "cuda_env \<Rightarrow> string \<Rightarrow> (gpu, string) st" where
  "GetRunMode e nm =
     st_bind (in_context e nm RunContext_GetRunMode) (\<lambda>mode.
     st_return (if mode = SYNC then ''SYNC'' else ''ASYNC''))"

definition SyncContext :: "cuda_env \<Rightarrow> string \<Rightarrow> (gpu, unit) st" where
  "SyncContext e nm = st_bind (GetInstance e) (\<lambda>m. Manager_SyncContext e m nm)"

definition FinalizeRunContext :: "cuda_env \<Rightarrow> string \<Rightarrow> (gpu, unit) st" where
  "FinalizeRunContext e nm =
     st_bind (GetInstance e) (\<lambda>m.
     st_bind (SyncContext e nm) (\<lambda>_.
       if use_cuda e then st_bind (GetContext m nm) (FreeWorkBufferHost e) else st_return ()))"

definition CreateRunContext :: "cuda_env \<Rightarrow> string \<Rightarrow> (gpu, unit) st" where
  "CreateRunContext e nm = st_bind (Manager_CreateRunContext e nm) (\<lambda>_. st_return ())"

definition SyncAll :: "cuda_env \<Rightarrow> (gpu, unit) st" where
  "SyncAll e = st_bind (GetInstance e) (\<lambda>m. Manager_SyncAll e m)"

definition GetNumOfContexts :: "cuda_env \<Rightarrow> (gpu, nat) st" where
  "GetNumOfContexts e = st_bind (GetInstance e) (\<lambda>m. st_return (length (mContexts m)))"

definition SetOperationContext :: "cuda_env \<Rightarrow> string \<Rightarrow> (gpu, unit) st" where
  "SetOperationContext e nm =
     st_bind (GetInstance e) (\<lambda>m.
     st_bind (GetContext m nm) (\<lambda>c. set_manager (m\<lparr>mpCurrentContext := Some c\<rparr>)))"

definition DeleteRunContext :: "cuda_env \<Rightarrow> string \<Rightarrow> (gpu, unit) st" where
  "DeleteRunContext e nm = st_bind (GetInstance e) (\<lambda>m. Manager_DeleteRunContext e m nm)"

definition GetAllContextNames :: "cuda_env \<Rightarrow> (gpu, string list) st" where
  "GetAllContextNames e = st_bind (GetInstance e) (\<lambda>m. st_return (map fst (iterate e (mContexts m))))"

definition rcompss_create_gpu_context :: "cuda_env \<Rightarrow> string \<Rightarrow> (gpu, unit) st" where
  "rcompss_create_gpu_context e nm = stop_with ''Failed to create GPU context'' (CreateRunContext e nm)"

definition rcompss_set_operation_placement :: "cuda_env \<Rightarrow> string \<Rightarrow> string \<Rightarrow> (gpu, unit) st" where
  "rcompss_set_operation_placement e nm placement =
     stop_with ''Failed to set operation placement'' (SetOperationPlacement e nm placement)"

definition rcompss_get_operation_placement :: "cuda_env \<Rightarrow> string \<Rightarrow> (gpu, string) st" where
  "rcompss_get_operation_placement e nm = stop_with ''Failed to get operation placement'' (GetOperationPlacement e nm)"

definition rcompss_set_run_mode :: "cuda_env \<Rightarrow> string \<Rightarrow> string \<Rightarrow> (gpu, unit) st" where
  "rcompss_set_run_mode e nm run_mode = stop_with ''Failed to set run mode'' (SetRunMode e nm run_mode)"

definition rcompss_get_run_mode :: "cuda_env \<Rightarrow> string \<Rightarrow> (gpu, string) st" where
  "rcompss_get_run_mode e nm = stop_with ''Failed to get run mode'' (GetRunMode e nm)"

definition rcompss_sync_context :: "cuda_env \<Rightarrow> string \<Rightarrow> (gpu, unit) st" where
  "rcompss_sync_context e nm = stop_with ''Failed to sync context'' (SyncContext e nm)"

definition rcompss_sync_all_contexts :: "cuda_env \<Rightarrow> (gpu, unit) st" where
  "rcompss_sync_all_contexts e = stop_with ''Failed to sync all contexts'' (SyncAll e)"

definition rcompss_get_num_contexts :: "cuda_env \<Rightarrow> (gpu, nat) st" where
  "rcompss_get_num_contexts e = stop_with ''Failed to get number of contexts'' (GetNumOfContexts e)"

definition rcompss_set_operation_context :: "cuda_env \<Rightarrow> string \<Rightarrow> (gpu, unit) st" where
  "rcompss_set_operation_context e nm = stop_with ''Failed to set operation context'' (SetOperationContext e nm)"

definition rcompss_delete_context :: "cuda_env \<Rightarrow> string \<Rightarrow> (gpu, unit) st" where
  "rcompss_delete_context e nm = stop_with ''Failed to delete context'' (DeleteRunContext e nm)"

definition rcompss_get_all_context_names :: "cuda_env \<Rightarrow> (gpu, string list) st" where
  "rcompss_get_all_context_names e = stop_with ''Failed to get context names'' (GetAllContextNames e)"

definition rcompss_finalize_context :: "cuda_env \<Rightarrow> string \<Rightarrow> (gpu, unit) st" where
  "rcompss_finalize_context e nm = stop_with ''Failed to finalize context'' (FinalizeRunContext e nm)"

end
