(* ===== verification/Gpu_Safety.thy ===== *)
theory Gpu_Safety
  imports Gpu_Context
begin

text \<open>
  What stays true of the GPU contexts under any sequence of the operations R can call:
  no pointer the manager keeps dangles, and nothing undefined happens unless CUDA calls fail.
\<close>

section \<open>Contexts\<close>

text \<open>No CUDA call fails, or there is no CUDA.\<close>

definition reliable :: "cuda_env \<Rightarrow> bool" where
  "reliable e \<longleftrightarrow> (\<forall>c n. succeeds e c n)"

definition calm :: "cuda_env \<Rightarrow> bool" where
  "calm e \<longleftrightarrow> \<not> use_cuda e \<or> reliable e"

text \<open>The operations of the package never request a work buffer.\<close>

definition no_buffers :: "run_context \<Rightarrow> bool" where
  "no_buffers c \<longleftrightarrow> mpWorkBufferDevice c = None \<and> mpWorkBufferHost c = None"

definition handles_set :: "run_context \<Rightarrow> bool" where
  "handles_set c \<longleftrightarrow> mCudaStream c \<noteq> None \<and> mCuSolverHandle c \<noteq> None \<and> mCuBlasHandle c \<noteq> None"

definition good :: "cuda_env \<Rightarrow> run_context \<Rightarrow> bool" where
  "good e c \<longleftrightarrow> no_buffers c \<and> (calm e \<and> use_cuda e \<and> mOperationPlacement c = GPU \<longrightarrow> handles_set c)"

text \<open>
  Compared with \<open>s0\<close> only the object \<open>this\<close> may have changed, and it satisfies \<open>g\<close>.
\<close>

definition around :: "(run_context \<Rightarrow> bool) \<Rightarrow> nat \<Rightarrow> gpu \<Rightarrow> gpu \<Rightarrow> bool" where
  "around g this s0 s \<longleftrightarrow>
     mpInstance s = mpInstance s0 \<and> next_id s0 \<le> next_id s \<and>
     (\<forall>a. a \<noteq> this \<longrightarrow> ctx_heap s a = ctx_heap s0 a) \<and> (\<exists>c. ctx_heap s this = Some c \<and> g c)"

text \<open>What may be thrown: only what C++ handlers can see, unless CUDA calls fail.\<close>

definition fails :: "cuda_env \<Rightarrow> (gpu \<Rightarrow> bool) \<Rightarrow> exn \<Rightarrow> gpu \<Rightarrow> bool" where
  "fails e P ex s \<longleftrightarrow> P s \<and> (calm e \<longrightarrow> catchable ex)"

text \<open>A predicate that does not look at the device, the call counter and the messages.\<close>

definition ignores_device :: "(gpu \<Rightarrow> bool) \<Rightarrow> bool" where
  "ignores_device P \<longleftrightarrow>
     (\<forall>s n l k ms. P s \<longrightarrow> next_id s \<le> n \<longrightarrow> P (s\<lparr>next_id := n, live := l, calls_made := k, messages := ms\<rparr>))"

lemma ignores_deviceD:
  assumes "ignores_device P" "P s"
  shows "P (s\<lparr>messages := ms\<rparr>)" "P (s\<lparr>calls_made := k\<rparr>)" "P (s\<lparr>live := l\<rparr>)"
    "P (s\<lparr>next_id := Suc (next_id s), live := l\<rparr>)"
proof -
  note I = assms(1) [unfolded ignores_device_def, rule_format, OF assms(2)]
  show "P (s\<lparr>messages := ms\<rparr>)" using I [where n = "next_id s" and l = "live s" and k = "calls_made s" and ms = ms] by simp
  show "P (s\<lparr>calls_made := k\<rparr>)" using I [where n = "next_id s" and l = "live s" and k = k and ms = "messages s"] by simp
  show "P (s\<lparr>live := l\<rparr>)" using I [where n = "next_id s" and l = l and k = "calls_made s" and ms = "messages s"] by simp
  show "P (s\<lparr>next_id := Suc (next_id s), live := l\<rparr>)" using I [where n = "Suc (next_id s)" and l = l and k = "calls_made s" and ms = "messages s"] by simp
qed

lemma around_ignores: "ignores_device (around g this s0)"
  by (auto simp: ignores_device_def around_def)

lemma meets_message: "ignores_device P \<Longrightarrow> meets P (message t) (\<lambda>_. P) E"
  by (simp add: message_def meets_def ignores_deviceD)

lemma meets_cuda: "ignores_device P \<Longrightarrow> meets P (cuda e c) (\<lambda>ok s. P s \<and> (reliable e \<longrightarrow> ok)) E"
  by (simp add: cuda_def meets_def ignores_deviceD reliable_def)

lemma meets_fresh: "ignores_device P \<Longrightarrow> meets P fresh_resource (\<lambda>_. P) E"
  by (simp add: fresh_resource_def meets_def ignores_deviceD)

lemma meets_const: "(b \<Longrightarrow> meets P m Q E) \<Longrightarrow> meets (\<lambda>s. P s \<and> b) m Q E"
  by (auto simp: meets_def)

lemma meets_const_left: "(b \<Longrightarrow> meets P m Q E) \<Longrightarrow> meets (\<lambda>s. b \<and> P s) m Q E"
  by (auto simp: meets_def)

lemma meets_create:
  assumes "ignores_device P"
  shows "meets P (create e c) (\<lambda>r s. P s \<and> (reliable e \<longrightarrow> r \<noteq> None)) E"
  unfolding create_def
  by (rule meets_bind [OF meets_cuda [OF assms]], rule meets_const, rule meets_if)
     (auto intro!: meets_bind [OF meets_fresh [OF assms]] meets_rules)

lemma meets_use: "ignores_device P \<Longrightarrow> meets P (use_resource e c r) (\<lambda>_. P) E"
  unfolding use_resource_def
  by (rule meets_bind [OF meets_cuda]) (auto intro!: meets_rules)

lemma meets_destroy: "ignores_device P \<Longrightarrow> meets P (destroy e c r) (\<lambda>_. P) E"
  unfolding destroy_def
  by (rule meets_bind [OF meets_use]) (auto intro!: meets_step simp: ignores_deviceD)

lemma meets_cudaFree: "ignores_device P \<Longrightarrow> meets P (cudaFree e p) (\<lambda>_. P) E"
  unfolding cudaFree_def by (auto intro!: meets_rules meets_destroy)

lemma meets_check:
  "ignores_device P \<Longrightarrow> meets P m (\<lambda>_. P) (fails e P) \<Longrightarrow> meets P (GPU_ERROR_CHECK e c m) (\<lambda>_. P) (fails e P)"
  unfolding GPU_ERROR_CHECK_def cuda_failed_def
  by (rule meets_bind, assumption) (auto intro!: meets_rules meets_bind [OF meets_message] simp: fails_def)

lemma meets_no_throw:
  "ignores_device P \<Longrightarrow> meets P m (\<lambda>_. P) E \<Longrightarrow> meets P (GPU_ERROR_CHECK_NO_THROW e c m) (\<lambda>_. P) E"
  unfolding GPU_ERROR_CHECK_NO_THROW_def cuda_failed_def
  by (rule meets_bind, assumption) (auto intro!: meets_rules meets_message)

lemma meets_the_context:
  "(\<And>c. g c \<Longrightarrow> meets (around g this s0) (k c) Q E) \<Longrightarrow> meets (around g this s0) (st_bind (the_context this) k) Q E"
  by (fastforce simp: meets_def the_context_def st_bind_def around_def)

lemma meets_update:
  "(\<And>c. g c \<Longrightarrow> g' (f c)) \<Longrightarrow> meets (around g this s0) (update this f) (\<lambda>_. around g' this s0) E"
  unfolding update_def by (rule meets_the_context) (auto simp: meets_def around_def)

lemma meets_delete_none: "p = None \<Longrightarrow> meets P (delete_host p) (\<lambda>_. P) E"
  by (simp add: delete_host_def meets_def)

text \<open>A failure no handler sees, in a run in which CUDA calls fail.\<close>

definition strict :: "cuda_env \<Rightarrow> exn \<Rightarrow> gpu \<Rightarrow> bool" where
  "strict e ex s \<longleftrightarrow> \<not> calm e \<and> \<not> catchable ex"

lemma meets_assigned_strict: "(calm e \<Longrightarrow> h \<noteq> None) \<Longrightarrow> meets P (assigned h) (\<lambda>_. P) (strict e)"
  unfolding assigned_def by (auto intro!: meets_rules simp: strict_def)

lemma meets_assigned:
  "(calm e \<Longrightarrow> h \<noteq> None) \<Longrightarrow> meets P (assigned h) (\<lambda>_. P) (fails e P)"
  unfolding assigned_def by (auto intro!: meets_rules simp: fails_def)

section \<open>Operations on one context\<close>

abbreviation steady :: "cuda_env \<Rightarrow> nat \<Rightarrow> gpu \<Rightarrow> (gpu, 'a) st \<Rightarrow> bool" where
  "steady e this s0 m \<equiv>
     meets (around (good e) this s0) m (\<lambda>_. around (good e) this s0) (fails e (around (good e) this s0))"

lemmas device_rules = meets_rules meets_message meets_check meets_no_throw meets_use meets_destroy meets_cudaFree
  around_ignores meets_delete_none

lemma steady_sync: "steady e this s0 (RunContext_Sync e this)"
  unfolding RunContext_Sync_def
  by (rule meets_the_context)
     (auto intro!: device_rules meets_bind [OF meets_assigned] simp: good_def handles_set_def)

lemma strict_destroy_handle:
  "ignores_device P \<Longrightarrow> (calm e \<Longrightarrow> h \<noteq> None) \<Longrightarrow> meets P (destroy_handle e c w h) (\<lambda>_. P) (strict e)"
  unfolding destroy_handle_def
  by (rule meets_bind [OF meets_assigned_strict]) (auto intro!: device_rules meets_bind [OF meets_destroy])

lemma strict_destroy_handles:
  "use_cuda e \<Longrightarrow> mOperationPlacement c = GPU \<Longrightarrow> good e c \<Longrightarrow> ignores_device P \<Longrightarrow>
     meets P (destroy_handles e c) (\<lambda>_. P) (strict e)"
  unfolding destroy_handles_def
  by (auto intro!: meets_bind [OF strict_destroy_handle] strict_destroy_handle simp: good_def handles_set_def)

lemma steady_destroy_handles:
  assumes "use_cuda e" "mOperationPlacement c = GPU" "good e c"
  shows "steady e this s0 (destroy_handles e c)"
proof (cases "calm e")
  case True
  show ?thesis by (rule meets_weaken [OF strict_destroy_handles [OF assms around_ignores]]) (auto simp: strict_def True)
next
  case False
  have ne: "meets P (assigned h) (\<lambda>_. P) (fails e P)" for h and P :: "gpu \<Rightarrow> bool"
    by (rule meets_assigned) (simp add: False)
  show ?thesis
    unfolding destroy_handles_def destroy_handle_def
    by (auto intro!: meets_bind [OF meets_bind [OF ne]] meets_bind [OF ne] device_rules meets_bind [OF meets_destroy])
qed

lemma steady_update:
  "(\<And>c. good e c \<Longrightarrow> good e (f c)) \<Longrightarrow> steady e this s0 (update this f)"
  by (rule meets_update)

lemma steady_ClearUp: "use_cuda e \<Longrightarrow> steady e this s0 (ClearUp e this)"
  unfolding ClearUp_def
  by (rule meets_the_context, rule meets_bind [where R = "\<lambda>_. around (good e) this s0"], rule meets_if)
     (auto intro!: meets_bind [OF steady_sync] meets_bind [OF meets_check] meets_bind [OF meets_delete_none]
        meets_bind [OF steady_destroy_handles] device_rules steady_update simp: good_def no_buffers_def handles_set_def)

lemma steady_FreeWorkBufferDevice: "steady e this s0 (FreeWorkBufferDevice e this)"
  unfolding FreeWorkBufferDevice_def
  by (rule meets_the_context) (auto intro!: device_rules meets_bind [OF steady_sync])

lemma steady_FreeWorkBufferHost: "steady e this s0 (FreeWorkBufferHost e this)"
  unfolding FreeWorkBufferHost_def
  by (rule meets_the_context)
     (auto intro!: device_rules meets_bind [OF steady_sync] simp: good_def no_buffers_def)

lemma steady_SetRunMode: "steady e this s0 (RunContext_SetRunMode e this mode)"
  unfolding RunContext_SetRunMode_def
  by (rule meets_the_context, rule meets_bind [where R = "\<lambda>_. around (good e) this s0"])
     (auto intro!: device_rules steady_sync steady_update simp: good_def no_buffers_def handles_set_def)

lemma steady_reads: "steady e this s0 (RunContext_GetRunMode this)" "steady e this s0 (RunContext_GetOperationPlacement this)"
  unfolding RunContext_GetRunMode_def RunContext_GetOperationPlacement_def
  by (rule meets_the_context, rule meets_return, assumption)+

text \<open>Setting up the device side of a context that has no handles yet.\<close>

lemma meets_create_or_throw:
  assumes "ignores_device P"
  shows "meets P (create_or_throw e c) (\<lambda>r s. P s \<and> r \<noteq> None) (\<lambda>ex s. P s \<and> \<not> reliable e)"
  unfolding create_or_throw_def
proof (rule meets_bind [OF meets_create [OF assms]])
  fix r
  show "meets (\<lambda>s. P s \<and> (reliable e \<longrightarrow> r \<noteq> None))
     (st_bind (GPU_ERROR_CHECK e c (st_return (r \<noteq> None))) (\<lambda>_. st_return r)) (\<lambda>r s. P s \<and> r \<noteq> None)
     (\<lambda>ex s. P s \<and> \<not> reliable e)"
  proof (cases r)
    case None
    then show ?thesis
      unfolding GPU_ERROR_CHECK_def cuda_failed_def message_def
      by (auto simp: meets_def st_bind_def ignores_deviceD [OF assms])
  next
    case (Some x)
    then show ?thesis by (simp add: GPU_ERROR_CHECK_def meets_def)
  qed
qed

text \<open>\<open>p\<close> collects what has been set so far when no call fails.\<close>

definition stage :: "cuda_env \<Rightarrow> (run_context \<Rightarrow> bool) \<Rightarrow> run_context \<Rightarrow> bool" where
  "stage e p c \<longleftrightarrow> no_buffers c \<and> (reliable e \<longrightarrow> p c)"

lemma stage_weak: "around (stage e p) this s0 s \<Longrightarrow> \<not> reliable e \<Longrightarrow> around no_buffers this s0 s"
  by (auto simp: around_def stage_def)

definition broken :: "cuda_env \<Rightarrow> nat \<Rightarrow> gpu \<Rightarrow> exn \<Rightarrow> gpu \<Rightarrow> bool" where
  "broken e this s0 ex s \<longleftrightarrow> around no_buffers this s0 s \<and> \<not> reliable e"

lemma stage_create:
  "meets (around (stage e p) this s0) (create e c) (\<lambda>r s. around (stage e p) this s0 s \<and> (reliable e \<longrightarrow> r \<noteq> None)) E"
  by (rule meets_create [OF around_ignores])

lemma stage_create_or_throw:
  "meets (around (stage e p) this s0) (create_or_throw e c) (\<lambda>r s. around (stage e p) this s0 s \<and> r \<noteq> None) (broken e this s0)"
  by (rule meets_weaken [OF meets_create_or_throw [OF around_ignores [of "stage e p" this s0]]]) (auto simp: broken_def dest: stage_weak)

lemma stage_update:
  "(\<And>c. stage e p c \<Longrightarrow> stage e q (f c)) \<Longrightarrow>
     meets (around (stage e p) this s0) (update this f) (\<lambda>_. around (stage e q) this s0) E"
  by (rule meets_update)

lemma stage_assigned:
  "(\<And>c. p c \<Longrightarrow> part c \<noteq> None) \<Longrightarrow>
   meets (around (stage e p) this s0) (st_bind (the_context this) (\<lambda>c. assigned (part c)))
     (\<lambda>_. around (stage e p) this s0) (broken e this s0)"
proof (rule meets_the_context)
  fix c assume part: "\<And>c. p c \<Longrightarrow> part c \<noteq> None" and c: "stage e p c"
  show "meets (around (stage e p) this s0) (assigned (part c)) (\<lambda>_. around (stage e p) this s0) (broken e this s0)"
  proof (cases "part c")
    case None
    with part [of c] c have "\<not> reliable e" by (auto simp: stage_def)
    then show ?thesis
      unfolding assigned_def None option.case
      by (intro meets_throw) (auto simp: broken_def dest: stage_weak)
  next
    case (Some x)
    then show ?thesis by (simp add: assigned_def meets_def)
  qed
qed

lemma stage_handles:
  "meets (around (stage e (\<lambda>c. mCudaStream c \<noteq> None)) this s0) (create_handles e this)
     (\<lambda>_. around (stage e handles_set) this s0) (broken e this s0)"
  unfolding create_handles_def
  apply (rule meets_bind [OF stage_create], rule meets_const)
  apply (rule meets_bind [OF stage_update [where q = "\<lambda>c. mCudaStream c \<noteq> None \<and> mCuSolverHandle c \<noteq> None"]])
   apply (auto simp: stage_def no_buffers_def)[1]
  apply (rule meets_bind [OF stage_assigned], simp)
  apply (rule meets_bind [OF stage_create], rule meets_const)
  apply (rule meets_bind [OF stage_update [where q = handles_set]])
   apply (auto simp: stage_def no_buffers_def handles_set_def)[1]
  apply (rule meets_bind [OF stage_assigned], simp add: handles_set_def)
  by (rule meets_return)

lemma stage_init_device:
  "meets (around no_buffers this s0) (init_device e this) (\<lambda>_. around (stage e handles_set) this s0) (broken e this s0)"
proof -
  have "meets (around (stage e (\<lambda>_. True)) this s0) (init_device e this) (\<lambda>_. around (stage e handles_set) this s0) (broken e this s0)"
    unfolding init_device_def
    apply (rule meets_bind [OF stage_create_or_throw], rule meets_const)
    apply (rule meets_bind [OF stage_update [where q = "\<lambda>c. mCudaStream c \<noteq> None"]])
     apply (auto simp: stage_def no_buffers_def)[1]
    apply (rule meets_bind [OF stage_handles])
    apply (rule meets_bind [OF stage_create_or_throw], rule meets_const)
    apply (rule stage_update)
    apply (auto simp: stage_def no_buffers_def handles_set_def)[1]
    done
  moreover have "stage e (\<lambda>_. True) = no_buffers" by (simp add: stage_def fun_eq_iff)
  ultimately show ?thesis by simp
qed

lemma stage_good: "stage e handles_set c \<Longrightarrow> good e c"
  by (auto simp: stage_def good_def calm_def)

lemma around_weaken: "around g this s0 s \<Longrightarrow> (\<And>c. g c \<Longrightarrow> g' c) \<Longrightarrow> around g' this s0 s"
  by (auto simp: around_def)

lemma broken_fails: "use_cuda e \<Longrightarrow> broken e this s0 ex s \<Longrightarrow> fails e (around (good e) this s0) ex s"
  by (auto simp: broken_def fails_def good_def calm_def around_def)

lemma steady_SetOperationPlacement: "steady e this s0 (RunContext_SetOperationPlacement e this pl)"
proof (cases "use_cuda e")
  case True
  have init: "meets (around no_buffers this s0) (init_device e this) (\<lambda>_. around (good e) this s0)
      (fails e (around (good e) this s0))"
    by (rule meets_weaken [OF stage_init_device])
       (auto intro: around_weaken [OF _ stage_good] broken_fails [OF True])
  have set: "meets (around (good e) this s0)
       (st_bind (update this (\<lambda>c. c\<lparr>mOperationPlacement := pl\<rparr>)) (\<lambda>_. if pl = GPU then init_device e this else st_return ()))
       (\<lambda>_. around (good e) this s0) (fails e (around (good e) this s0))"
  proof (cases pl)
    case GPU
    show ?thesis
      by (rule meets_bind [OF meets_update [where g' = no_buffers]]) (auto simp: GPU good_def no_buffers_def init)
  next
    case CPU
    show ?thesis
      by (rule meets_bind [OF steady_update]) (auto simp: CPU good_def no_buffers_def intro!: meets_rules)
  qed
  show ?thesis
    unfolding RunContext_SetOperationPlacement_def
    by (simp only: True if_True, rule meets_the_context, rule meets_if)
       (rule steady_FreeWorkBufferDevice, rule meets_bind [OF steady_ClearUp [OF True] set])
next
  case False
  then show ?thesis
    unfolding RunContext_SetOperationPlacement_def
    by (auto intro!: meets_bind [OF meets_message] steady_update around_ignores simp: good_def no_buffers_def)
qed

section \<open>Making and deleting a context\<close>

definition removed :: "nat \<Rightarrow> gpu \<Rightarrow> gpu \<Rightarrow> bool" where
  "removed a s0 s \<longleftrightarrow>
     mpInstance s = mpInstance s0 \<and> next_id s0 \<le> next_id s \<and> ctx_heap s = (ctx_heap s0)(a := None)"

text \<open>The state right after the object got its memory.\<close>

definition reserved :: "gpu \<Rightarrow> gpu" where
  "reserved s0 = s0\<lparr>next_id := Suc (next_id s0), ctx_heap := (ctx_heap s0)(next_id s0 \<mapsto> blank_context)\<rparr>"

lemma reserved_around: "s = reserved s0 \<Longrightarrow> around no_buffers (next_id s0) (reserved s0) s"
  by (auto simp: around_def reserved_def blank_context_def no_buffers_def)

lemma removed_again: "around g a (reserved s0) s \<Longrightarrow> a = next_id s0 \<Longrightarrow> removed a s0 (s\<lparr>ctx_heap := (ctx_heap s)(a := None)\<rparr>)"
  by (auto simp: around_def removed_def reserved_def)

lemma new_context_body:
  "meets (around no_buffers a r)
     (st_bind
        (if use_cuda e then
           st_bind (if pl = GPU then init_device e a else st_return ()) (\<lambda>_.
           update a (\<lambda>c. c\<lparr>mOperationPlacement := pl\<rparr>))
         else message t) (\<lambda>_.
      st_bind (update a (\<lambda>c. c\<lparr>mRunMode := mode\<rparr>)) (\<lambda>_. st_return a)))
     (\<lambda>b s. b = a \<and> around (good e) a r s)
     (fails e (around no_buffers a r))"
proof -
  have last: "meets (around (good e) a r) (st_bind (update a (\<lambda>c. c\<lparr>mRunMode := mode\<rparr>)) (\<lambda>_. st_return a))
      (\<lambda>b s. b = a \<and> around (good e) a r s) E" for E
    by (rule meets_bind [OF meets_update [where g' = "good e"]])
       (auto simp: good_def no_buffers_def handles_set_def intro!: meets_rules)
  show ?thesis
  proof (cases "use_cuda e")
    case True
    have "meets (around no_buffers a r) (st_bind (if pl = GPU then init_device e a else st_return ()) (\<lambda>_.
           update a (\<lambda>c. c\<lparr>mOperationPlacement := pl\<rparr>))) (\<lambda>_. around (good e) a r) (fails e (around no_buffers a r))"
    proof (cases pl)
      case GPU
      have "meets (around no_buffers a r) (init_device e a) (\<lambda>_. around (stage e handles_set) a r) (fails e (around no_buffers a r))"
        by (rule meets_weaken [OF stage_init_device]) (auto simp: broken_def fails_def calm_def True)
      then show ?thesis
        unfolding GPU
        by (simp, rule meets_bind, intro meets_update)
           (auto simp: stage_def good_def no_buffers_def handles_set_def calm_def)
    next
      case CPU
      have "meets (around no_buffers a r) (update a (\<lambda>c. c\<lparr>mOperationPlacement := CPU\<rparr>)) (\<lambda>_. around (good e) a r)
          (fails e (around no_buffers a r))"
        by (rule meets_update) (auto simp: good_def no_buffers_def)
      then show ?thesis by (simp add: CPU)
    qed
    with last show ?thesis by (simp add: True meets_bind)
  next
    case False
    have "meets (around no_buffers a r) (message t) (\<lambda>_. around (good e) a r) (fails e (around no_buffers a r))"
      by (rule meets_weaken [OF meets_message [OF around_ignores [of no_buffers a r]]])
         (auto simp: False good_def around_def)
    with last show ?thesis by (simp add: False meets_bind)
  qed
qed

text \<open>What a constructor that throws leaves.\<close>

definition unmade :: "cuda_env \<Rightarrow> gpu \<Rightarrow> exn \<Rightarrow> gpu \<Rightarrow> bool" where
  "unmade e s0 ex s \<longleftrightarrow> (calm e \<longrightarrow> catchable ex) \<and> (catchable ex \<longrightarrow> removed (next_id s0) s0 s)"

lemma meets_new_RunContext:
  "meets (\<lambda>s. s = s0) (new_RunContext e pl mode)
     (\<lambda>a s. a = next_id s0 \<and> around (good e) a (reserved s0) s) (unmade e s0)"
  unfolding new_RunContext_def
  apply (rule meets_bind [where R = "\<lambda>a s. a = next_id s0 \<and> s = reserved s0"])
   apply (simp add: meets_def reserved_def)
  subgoal for a
    apply (rule meets_catch [where E' = "\<lambda>ex s. a = next_id s0 \<and> fails e (around no_buffers a (reserved s0)) ex s"])
      apply (rule meets_weaken [where P = "\<lambda>s. a = next_id s0 \<and> around no_buffers a (reserved s0) s"])
         apply (rule meets_const_left)
         apply (rule meets_weaken [OF new_context_body [of a "reserved s0"]])
            apply (auto simp: reserved_around)
    apply (auto simp: meets_def st_bind_def unmade_def fails_def removed_again)
    done
  done

lemma meets_delete_RunContext:
  assumes "ctx_heap s0 a \<noteq> None" "good e (the (ctx_heap s0 a))"
  shows "meets (\<lambda>s. s = s0) (delete_RunContext e a) (\<lambda>_. removed a s0) (strict e)"
proof -
  have start: "around (good e) a s0 s0" using assms by (auto simp: around_def)
  have sync: "meets (around (good e) a s0) (st_catch (RunContext_Sync e a) (\<lambda>_. st_return ())) (\<lambda>_. around (good e) a s0) (strict e)"
    by (rule meets_catch [OF steady_sync]) (auto simp: fails_def strict_def intro!: meets_rules)
  have "meets (around (good e) a s0) (delete_RunContext e a) (\<lambda>_. removed a s0) (strict e)"
    unfolding delete_RunContext_def
  proof (rule meets_the_context)
    fix c assume c: "good e c"
    show "meets (around (good e) a s0) (st_bind (if use_cuda e then
          st_bind (st_catch (RunContext_Sync e a) (\<lambda>_. st_return ())) (\<lambda>_.
          st_bind (GPU_ERROR_CHECK_NO_THROW e Free (cudaFree e (mpWorkBufferDevice c))) (\<lambda>_.
          st_bind (delete_host (mpWorkBufferHost c)) (\<lambda>_.
            if mOperationPlacement c = GPU then
              st_bind (destroy_handles e c) (\<lambda>_. GPU_ERROR_CHECK_NO_THROW e Free (cudaFree e (mpInfo c)))
            else st_return ())))
        else st_return ()) (\<lambda>_. \<lambda>s. (Inr (), s\<lparr>ctx_heap := (ctx_heap s)(a := None)\<rparr>))) (\<lambda>_. removed a s0) (strict e)"
    proof (rule meets_bind [where R = "\<lambda>_. around (good e) a s0"])
      show "meets (around (good e) a s0) (if use_cuda e then
          st_bind (st_catch (RunContext_Sync e a) (\<lambda>_. st_return ())) (\<lambda>_.
          st_bind (GPU_ERROR_CHECK_NO_THROW e Free (cudaFree e (mpWorkBufferDevice c))) (\<lambda>_.
          st_bind (delete_host (mpWorkBufferHost c)) (\<lambda>_.
            if mOperationPlacement c = GPU then
              st_bind (destroy_handles e c) (\<lambda>_. GPU_ERROR_CHECK_NO_THROW e Free (cudaFree e (mpInfo c)))
            else st_return ())))
        else st_return ()) (\<lambda>_. around (good e) a s0) (strict e)"
        using c
        by (auto intro!: meets_bind [OF sync] meets_bind [OF meets_no_throw] meets_bind [OF meets_delete_none]
            meets_bind [OF strict_destroy_handles] device_rules simp: good_def no_buffers_def)
    qed (auto simp: meets_def around_def removed_def fun_eq_iff)
  qed
  then show ?thesis using start by (auto intro: meets_weaken)
qed

text \<open>The context functions R reaches, run on an existing object.\<close>

lemma steady_run:
  assumes "steady e a s0 m" "ctx_heap s0 a = Some c" "good e c"
  shows "meets (\<lambda>s. s = s0) m (\<lambda>_. around (good e) a s0) (fails e (around (good e) a s0))"
  using assms by (auto intro!: meets_weaken [OF assms(1)] simp: around_def)

text \<open>A CPU context is made without any call that can fail.\<close>

lemma meets_new_cpu:
  "meets (\<lambda>s. s = s0) (new_RunContext e CPU mode)
     (\<lambda>a s. a = next_id s0 \<and> around (good e) a (reserved s0) s) (\<lambda>_ _. False)"
  by (auto simp: meets_def new_RunContext_def reserved_def message_def update_def the_context_def st_bind_def st_catch_def
      blank_context_def around_def good_def no_buffers_def)

section \<open>The manager\<close>

definition manager_ok :: "gpu \<Rightarrow> context_manager \<Rightarrow> bool" where
  "manager_ok s m \<longleftrightarrow>
     distinct (map fst (mContexts m)) \<and> distinct (map snd (mContexts m)) \<and>
     (\<forall>a \<in> snd ` set (mContexts m). ctx_heap s a \<noteq> None) \<and>
     (\<exists>c. mpCurrentContext m = Some c \<and> ctx_heap s c \<noteq> None) \<and>
     (\<forall>g. mpGPUContext m = Some g \<longrightarrow>
        ctx_heap s g \<noteq> None \<and> g \<notin> snd ` set (mContexts m) \<and> mpCurrentContext m \<noteq> Some g)"

definition safe :: "cuda_env \<Rightarrow> gpu \<Rightarrow> bool" where
  "safe e s \<longleftrightarrow>
     (\<forall>a c. ctx_heap s a = Some c \<longrightarrow> a < next_id s \<and> good e c) \<and>
     (\<forall>m. mpInstance s = Some m \<longrightarrow> manager_ok s m)"

definition managed :: "cuda_env \<Rightarrow> context_manager \<Rightarrow> gpu \<Rightarrow> bool" where
  "managed e m s \<longleftrightarrow> safe e s \<and> mpInstance s = Some m"

lemma manager_ok_mono: "manager_ok s m \<Longrightarrow> (\<And>a. ctx_heap s a \<noteq> None \<Longrightarrow> ctx_heap s' a \<noteq> None) \<Longrightarrow> manager_ok s' m"
  by (simp add: manager_ok_def) blast

lemma around_safe:
  assumes "safe e s0" "ctx_heap s0 a \<noteq> None" "around (good e) a s0 s"
  shows "safe e s"
proof -
  have "ctx_heap s b \<noteq> None" if "ctx_heap s0 b \<noteq> None" for b
    using assms(3) that by (cases "b = a") (auto simp: around_def)
  moreover have "b < next_id s \<and> good e c" if "ctx_heap s b = Some c" for b c
    using assms that by (cases "b = a") (fastforce simp: around_def safe_def)+
  ultimately show ?thesis
    using assms(1,3) by (auto simp: safe_def around_def intro: manager_ok_mono)
qed

lemma fresh_None: "safe e s \<Longrightarrow> ctx_heap s (next_id s) = None"
  by (cases "ctx_heap s (next_id s)") (auto simp: safe_def)

lemma made_safe:
  assumes "safe e s0" "around (good e) (next_id s0) (reserved s0) s"
  shows "safe e s"
proof -
  have "ctx_heap s b \<noteq> None" if "ctx_heap s0 b \<noteq> None" for b
    using assms(2) that by (cases "b = next_id s0") (auto simp: around_def reserved_def)
  moreover have "b < next_id s \<and> good e c" if "ctx_heap s b = Some c" for b c
    using assms that by (cases "b = next_id s0") (fastforce simp: around_def safe_def reserved_def)+
  ultimately show ?thesis
    using assms by (auto simp: safe_def around_def reserved_def intro: manager_ok_mono)
qed

lemma unmade_safe:
  assumes "safe e s0" "removed (next_id s0) s0 s"
  shows "safe e s"
proof -
  have heap: "ctx_heap s = ctx_heap s0" using assms fresh_None [OF assms(1)] by (auto simp: removed_def fun_eq_iff)
  have "a < next_id s" if "ctx_heap s0 a = Some c" for a c
    using assms that by (fastforce simp: safe_def removed_def)
  moreover have "good e c" if "ctx_heap s0 a = Some c" for a c
    using assms(1) that by (auto simp: safe_def)
  moreover have "manager_ok s m" if "mpInstance s0 = Some m" for m
    using assms(1) that by (auto simp: safe_def heap intro: manager_ok_mono)
  ultimately show ?thesis using assms(2) by (auto simp: safe_def removed_def)
qed

text \<open>Deleting an object no pointer of the manager names.\<close>

lemma removed_safe:
  assumes "safe e s0" "removed a s0 s"
    and "\<forall>m. mpInstance s0 = Some m \<longrightarrow> a \<notin> snd ` set (mContexts m) \<and> mpCurrentContext m \<noteq> Some a \<and> mpGPUContext m \<noteq> Some a"
  shows "safe e s"
proof -
  have heap: "ctx_heap s b = (if b = a then None else ctx_heap s0 b)" for b
    using assms(2) by (simp add: removed_def)
  have "b < next_id s \<and> good e c" if "ctx_heap s b = Some c" for b c
    using assms(1,2) that by (fastforce simp: heap safe_def removed_def split: if_splits)
  moreover have "manager_ok s m" if "mpInstance s = Some m" for m
  proof -
    from that assms(2) have m: "mpInstance s0 = Some m" by (simp add: removed_def)
    with assms(1,3) have "manager_ok s0 m" "a \<notin> snd ` set (mContexts m)" "mpCurrentContext m \<noteq> Some a" "mpGPUContext m \<noteq> Some a"
      by (auto simp: safe_def)
    then show ?thesis by (auto simp: manager_ok_def heap)
  qed
  ultimately show ?thesis by (simp add: safe_def)
qed

section \<open>Operations of the manager\<close>

definition failing :: "cuda_env \<Rightarrow> exn \<Rightarrow> gpu \<Rightarrow> bool" where
  "failing e ex s \<longleftrightarrow> (calm e \<longrightarrow> catchable ex) \<and> (catchable ex \<longrightarrow> safe e s)"

abbreviation secure :: "cuda_env \<Rightarrow> (gpu, 'a) st \<Rightarrow> bool" where
  "secure e m \<equiv> meets (safe e) m (\<lambda>_. safe e) (failing e)"

lemma meets_at: "(\<And>s0. P s0 \<Longrightarrow> meets (\<lambda>s. s = s0) m Q E) \<Longrightarrow> meets P m Q E"
  by (auto simp: meets_def)

lemma safe_ignores: "ignores_device (safe e)"
  unfolding ignores_device_def
proof (intro allI impI)
  fix s n l k ms assume s: "safe e s" "next_id s \<le> n"
  let ?s = "s\<lparr>next_id := n, live := l, calls_made := k, messages := ms\<rparr>"
  have "manager_ok ?s m" if "mpInstance s = Some m" for m
    using s(1) that by (auto simp: safe_def intro: manager_ok_mono)
  with s show "safe e ?s" by (auto simp: safe_def) fastforce
qed

lemma managed_safe: "managed e m s \<Longrightarrow> safe e s"
  by (simp add: managed_def)

lemma managed_known:
  assumes "managed e m s" "a \<in> snd ` set (mContexts m) \<or> mpCurrentContext m = Some a \<or> mpGPUContext m = Some a"
  obtains c where "ctx_heap s a = Some c" "good e c" "a < next_id s"
proof -
  from assms have ok: "manager_ok s m" by (simp add: managed_def safe_def)
  from ok assms(2) have "ctx_heap s a \<noteq> None" by (auto simp: manager_ok_def)
  then obtain c where "ctx_heap s a = Some c" by blast
  with assms(1) that show thesis by (auto simp: managed_def safe_def)
qed

lemma meets_throw_std: "meets P (st_throw (Std_exception t)) Q E" if "\<And>s. P s \<Longrightarrow> E (Std_exception t) s"
  using that by (rule meets_throw)

lemma failing_std: "safe e s \<Longrightarrow> failing e (Std_exception t) s"
  by (simp add: failing_def)

lemma manager_ok_instance [simp]: "manager_ok (s\<lparr>mpInstance := x\<rparr>) m = manager_ok s m"
  by (simp add: manager_ok_def)

lemma meets_set_manager:
  "(\<And>s. P s \<Longrightarrow> safe e s \<and> manager_ok s m) \<Longrightarrow> meets P (set_manager m) (\<lambda>_. managed e m) E"
  by (auto simp: meets_def set_manager_def managed_def safe_def intro: manager_ok_mono)

lemma meets_GetInstance: "meets (safe e) (GetInstance e) (managed e) (failing e)"
proof (rule meets_at)
  fix s0 assume s0: "safe e s0"
  show "meets (\<lambda>s. s = s0) (GetInstance e) (managed e) (failing e)"
  proof (cases "mpInstance s0")
    case (Some m)
    with s0 show ?thesis by (simp add: meets_def GetInstance_def st_bind_gets_apply managed_def)
  next
    case None
    define m0 where "m0 = \<lparr>mContexts = [], mpCurrentContext = None, mpGPUContext = None\<rparr>"
    let ?s1 = "s0\<lparr>mpInstance := Some m0\<rparr>"
    have start: "GetInstance e s0 = st_bind (new_RunContext e CPU SYNC) (\<lambda>c.
        (let m = \<lparr>mContexts = [(''default'', c)], mpCurrentContext = Some c, mpGPUContext = None\<rparr> in
         st_bind (set_manager m) (\<lambda>_. st_return m))) ?s1"
      by (simp add: GetInstance_def st_bind_gets_apply None m0_def set_manager_def) (simp add: st_bind_def)
    have "meets (\<lambda>s. s = ?s1) (st_bind (new_RunContext e CPU SYNC) (\<lambda>c.
        (let m = \<lparr>mContexts = [(''default'', c)], mpCurrentContext = Some c, mpGPUContext = None\<rparr> in
         st_bind (set_manager m) (\<lambda>_. st_return m)))) (managed e) (failing e)"
    proof (rule meets_bind [where R = "\<lambda>c s. c = next_id ?s1 \<and> around (good e) c (reserved ?s1) s"])
      show "meets (\<lambda>s. s = ?s1) (new_RunContext e CPU SYNC) (\<lambda>c s. c = next_id ?s1 \<and> around (good e) c (reserved ?s1) s) (failing e)"
        by (rule meets_weaken [OF meets_new_cpu]) auto
    next
      fix c
      show "meets (\<lambda>s. c = next_id ?s1 \<and> around (good e) c (reserved ?s1) s)
         (let m = \<lparr>mContexts = [(''default'', c)], mpCurrentContext = Some c, mpGPUContext = None\<rparr> in
         st_bind (set_manager m) (\<lambda>_. st_return m)) (managed e) (failing e)"
        unfolding Let_def
      proof (rule meets_bind [where R = "\<lambda>_. managed e \<lparr>mContexts = [(''default'', c)], mpCurrentContext = Some c, mpGPUContext = None\<rparr>"])
        show "meets (\<lambda>s. c = next_id ?s1 \<and> around (good e) c (reserved ?s1) s)
            (set_manager \<lparr>mContexts = [(''default'', c)], mpCurrentContext = Some c, mpGPUContext = None\<rparr>)
            (\<lambda>_. managed e \<lparr>mContexts = [(''default'', c)], mpCurrentContext = Some c, mpGPUContext = None\<rparr>) (failing e)"
        proof (rule meetsI)
          fix s u s'
          assume s: "c = next_id ?s1 \<and> around (good e) c (reserved ?s1) s"
            and s': "set_manager \<lparr>mContexts = [(''default'', c)], mpCurrentContext = Some c, mpGPUContext = None\<rparr> s = (Inr u, s')"
          have "around (good e) (next_id s0) (reserved s0) (s\<lparr>mpInstance := None\<rparr>)"
            using s None by (auto simp: around_def reserved_def)
          from made_safe [OF s0 this] have "safe e (s\<lparr>mpInstance := None\<rparr>)" .
          moreover have "ctx_heap s c \<noteq> None" using s by (auto simp: around_def)
          ultimately show "managed e \<lparr>mContexts = [(''default'', c)], mpCurrentContext = Some c, mpGPUContext = None\<rparr> s'"
            using s' by (auto simp: set_manager_def managed_def safe_def manager_ok_def)
        qed (simp add: set_manager_def)
      qed (rule meets_return)
    qed
    then show ?thesis by (simp add: meets_def start)
  qed
qed

lemma meets_GetContext:
  "meets (managed e m) (GetContext m nm)
     (\<lambda>a s. managed e m s \<and> (a \<in> snd ` set (mContexts m) \<and> alist_get (mContexts m) nm = Some a)) (failing e)"
  unfolding GetContext_def no_stream_def
  by (auto intro!: meets_rules simp: failing_std managed_def dest: alist_get_SomeD split: option.split)
     (metis alist_get_SomeD image_eqI snd_conv)+

lemma meets_on_context:
  assumes "\<And>s0. steady e a s0 act" "a \<in> snd ` set (mContexts m) \<or> mpCurrentContext m = Some a \<or> mpGPUContext m = Some a"
  shows "meets (managed e m) act (\<lambda>_. managed e m) (failing e)"
proof (rule meets_at)
  fix s0 assume s0: "managed e m s0"
  from managed_known [OF this assms(2)] obtain c where c: "ctx_heap s0 a = Some c" "good e c" by blast
  have keep: "managed e m s \<and> safe e s" if "around (good e) a s0 s" for s
    using s0 that c(1) around_safe [of e s0 a s] by (auto simp: managed_def around_def)
  show "meets (\<lambda>s. s = s0) act (\<lambda>_. managed e m) (failing e)"
    by (rule meets_weaken [OF steady_run [OF assms(1) c]]) (auto simp: failing_def fails_def keep managed_safe)
qed

lemma meets_at_context:
  assumes "\<And>a s0. steady e a s0 (act a)"
  shows "meets (managed e m) (st_bind (GetContext m nm) act) (\<lambda>_. managed e m) (failing e)"
proof (rule meets_bind [OF meets_GetContext], rule meets_const)
  fix a assume "a \<in> snd ` set (mContexts m) \<and> alist_get (mContexts m) nm = Some a"
  then show "meets (managed e m) (act a) (\<lambda>_. managed e m) (failing e)"
    using assms by (intro meets_on_context) auto
qed

lemma secure_in_context:
  assumes "\<And>a s0. steady e a s0 (act a)"
  shows "secure e (in_context e nm act)"
  unfolding in_context_def
  by (rule meets_bind [OF meets_GetInstance], rule meets_weaken [OF meets_at_context [OF assms]])
     (auto simp: managed_safe)

lemma secure_bind_instance:
  "(\<And>m. meets (managed e m) (k m) Q (failing e)) \<Longrightarrow> meets (safe e) (st_bind (GetInstance e) k) Q (failing e)"
  by (rule meets_bind [OF meets_GetInstance])

lemma secure_st_lift: "(\<And>ex. r = Inl ex \<Longrightarrow> catchable ex) \<Longrightarrow> secure e (st_lift r)"
  by (cases r) (auto simp: meets_def failing_def)

lemma secure_SetOperationPlacement: "secure e (SetOperationPlacement e nm pl)"
  unfolding SetOperationPlacement_def
  by (rule meets_bind [OF secure_st_lift])
     (auto simp: GetInputOperationPlacement_def split: if_splits intro!: secure_in_context steady_SetOperationPlacement)

lemma secure_GetOperationPlacement: "secure e (GetOperationPlacement e nm)"
  unfolding GetOperationPlacement_def
  by (rule meets_bind [OF secure_in_context]) (auto intro!: meets_return steady_reads)

lemma secure_GetRunMode: "secure e (GetRunMode e nm)"
  unfolding GetRunMode_def
  by (rule meets_bind [OF secure_in_context]) (auto intro!: meets_return steady_reads)

lemma secure_SetRunMode: "secure e (SetRunMode e nm mode)"
  unfolding SetRunMode_def
proof (rule secure_bind_instance)
  fix m
  have "meets (managed e m) (st_lift (GetInputRunMode (lower mode))) (\<lambda>_. managed e m) (failing e)"
    by (auto simp: meets_def GetInputRunMode_def failing_def managed_def)
  then show "meets (managed e m) (st_bind (st_lift (GetInputRunMode (lower mode))) (\<lambda>md.
      st_bind (GetContext m nm) (\<lambda>c. RunContext_SetRunMode e c md))) (\<lambda>_. safe e) (failing e)"
    by (rule meets_bind) (rule meets_weaken [OF meets_at_context [OF steady_SetRunMode]], auto simp: managed_safe)
qed

lemma meets_Manager_SyncContext: "meets (managed e m) (Manager_SyncContext e m nm) (\<lambda>_. managed e m) (failing e)"
proof -
  have "Manager_SyncContext e m nm = st_bind (GetContext m nm) (RunContext_Sync e)"
    by (simp add: Manager_SyncContext_def GetContext_def split: option.split)
  then show ?thesis by (simp add: meets_at_context [OF steady_sync])
qed

lemma secure_SyncContext: "secure e (SyncContext e nm)"
  unfolding SyncContext_def
  by (rule secure_bind_instance, rule meets_weaken [OF meets_Manager_SyncContext]) (auto simp: managed_safe)

lemma GetInstance_again: "mpInstance s = Some m \<Longrightarrow> GetInstance e s = (Inr m, s)"
  by (simp add: GetInstance_def st_bind_gets_apply)

lemma secure_FinalizeRunContext: "secure e (FinalizeRunContext e nm)"
  unfolding FinalizeRunContext_def
proof (rule secure_bind_instance)
  fix m
  have "meets (managed e m) (SyncContext e nm) (\<lambda>_. managed e m) (failing e)"
  proof (rule meetsI)
    fix s u s' assume s: "managed e m s" and run: "SyncContext e nm s = (Inr u, s')"
    then have "Manager_SyncContext e m nm s = (Inr u, s')"
      by (simp add: SyncContext_def st_bind_def GetInstance_again managed_def)
    with meets_Inr [OF meets_Manager_SyncContext s] show "managed e m s'" by blast
  next
    fix s ex s' assume s: "managed e m s" and run: "SyncContext e nm s = (Inl ex, s')"
    then have "Manager_SyncContext e m nm s = (Inl ex, s')"
      by (simp add: SyncContext_def st_bind_def GetInstance_again managed_def)
    with meets_Inl [OF meets_Manager_SyncContext s] show "failing e ex s'" by blast
  qed
  moreover have "meets (managed e m) (if use_cuda e then st_bind (GetContext m nm) (FreeWorkBufferHost e) else st_return ())
      (\<lambda>_. safe e) (failing e)"
    by (intro meets_if meets_return meets_weaken [OF meets_at_context [OF steady_FreeWorkBufferHost]])
       (auto simp: managed_safe)
  ultimately show "meets (managed e m) (st_bind (SyncContext e nm) (\<lambda>_. if use_cuda e
      then st_bind (GetContext m nm) (FreeWorkBufferHost e) else st_return ())) (\<lambda>_. safe e) (failing e)"
    by (rule meets_bind)
qed

text \<open>The map visits each entry once, in some order.\<close>

definition visits_all :: "cuda_env \<Rightarrow> bool" where
  "visits_all e \<longleftrightarrow> (\<forall>xs. mset (iterate e xs) = mset xs)"

lemma visits_set: "visits_all e \<Longrightarrow> set (iterate e xs) = set xs"
  by (metis visits_all_def set_mset_mset)

lemma secure_SyncAll:
  assumes "visits_all e"
  shows "secure e (SyncAll e)"
  unfolding SyncAll_def
proof (rule secure_bind_instance)
  fix m
  have "meets (managed e m) (Manager_SyncAll e m) (\<lambda>_. managed e m) (failing e)"
    unfolding Manager_SyncAll_def
    by (rule meets_for, rule meets_on_context [OF steady_sync]) (auto simp: visits_set [OF assms])
  then show "meets (managed e m) (Manager_SyncAll e m) (\<lambda>_. safe e) (failing e)"
    by (rule meets_weaken) (auto simp: managed_safe)
qed

lemma secure_counts: "secure e (GetNumOfContexts e)" "secure e (GetAllContextNames e)"
  unfolding GetNumOfContexts_def GetAllContextNames_def
  by (rule secure_bind_instance, rule meets_return, erule managed_safe)+

lemma manager_current:
  "manager_ok s m \<Longrightarrow> ctx_heap s d \<noteq> None \<Longrightarrow> mpGPUContext m \<noteq> Some d \<Longrightarrow> manager_ok s (m\<lparr>mpCurrentContext := Some d\<rparr>)"
  by (cases "mpGPUContext m") (simp_all add: manager_ok_def)

lemma secure_SetOperationContext: "secure e (SetOperationContext e nm)"
  unfolding SetOperationContext_def
proof (rule secure_bind_instance, rule meets_bind [OF meets_GetContext], rule meets_weaken [OF meets_set_manager])
  fix m a s assume "managed e m s \<and> (a \<in> snd ` set (mContexts m) \<and> alist_get (mContexts m) nm = Some a)"
  then have ok: "manager_ok s m" "safe e s" "a \<in> snd ` set (mContexts m)" by (auto simp: managed_def safe_def)
  then have "ctx_heap s a \<noteq> None" "mpGPUContext m \<noteq> Some a" unfolding manager_ok_def by blast+
  with ok(1,2) show "safe e s \<and> manager_ok s (m\<lparr>mpCurrentContext := Some a\<rparr>)"
    using manager_current by blast
qed (auto simp: managed_safe)

lemma put_keys: "fst ` set (put_context k v kvs) = insert k (fst ` set kvs)"
  by (induction k v kvs rule: put_context.induct) (auto split: if_splits)

lemma put_values: "snd ` set (put_context k v kvs) \<subseteq> insert v (snd ` set kvs)"
  by (induction k v kvs rule: put_context.induct) (auto split: if_splits)

lemma put_distinct_keys: "distinct (map fst kvs) \<Longrightarrow> distinct (map fst (put_context k v kvs))"
proof (induction k v kvs rule: put_context.induct)
  case (2 k v k' v' kvs)
  then show ?case using put_keys [of k v kvs] by (cases "k' = k") simp_all
qed simp

lemma put_distinct_values:
  "distinct (map snd kvs) \<Longrightarrow> v \<notin> snd ` set kvs \<Longrightarrow> distinct (map snd (put_context k v kvs))"
proof (induction k v kvs rule: put_context.induct)
  case (2 k v k' v' kvs)
  then show ?case using put_values [of k v kvs] by (cases "k' = k") auto
qed simp

lemma manager_put:
  assumes "manager_ok s m" "ctx_heap s c \<noteq> None" "c \<notin> snd ` set (mContexts m)" "mpGPUContext m \<noteq> Some c"
  shows "manager_ok s (m\<lparr>mContexts := put_context nm c (mContexts m)\<rparr>)"
proof -
  have "a = c \<or> a \<in> snd ` set (mContexts m)" if "a \<in> snd ` set (put_context nm c (mContexts m))" for a
    using put_values [of nm c "mContexts m"] that by blast
  moreover have "distinct (map fst (mContexts m))" "distinct (map snd (mContexts m))"
    "\<forall>a \<in> snd ` set (mContexts m). ctx_heap s a \<noteq> None"
    using assms(1) by (simp_all add: manager_ok_def)
  ultimately have "distinct (map fst (put_context nm c (mContexts m)))" "distinct (map snd (put_context nm c (mContexts m)))"
    "\<forall>a \<in> snd ` set (put_context nm c (mContexts m)). ctx_heap s a \<noteq> None"
    "\<forall>g. mpGPUContext m = Some g \<longrightarrow> g \<notin> snd ` set (put_context nm c (mContexts m))"
    using assms(2-4) assms(1) [unfolded manager_ok_def] put_distinct_keys put_distinct_values by metis+
  with assms(1) show ?thesis by (simp add: manager_ok_def)
qed

lemma secure_CreateRunContext: "secure e (CreateRunContext e nm)"
  unfolding CreateRunContext_def Manager_CreateRunContext_def st_bind_assoc
proof (rule secure_bind_instance, rule meets_at)
  fix m s0 assume s0: "managed e m s0"
  show "meets (\<lambda>s. s = s0) (st_bind (new_RunContext e CPU SYNC) (\<lambda>c. st_bind (set_manager (m\<lparr>mContexts := put_context nm c (mContexts m)\<rparr>))
     (\<lambda>_. st_bind (st_return c) (\<lambda>_. st_return ())))) (\<lambda>_. safe e) (failing e)"
  proof (rule meets_bind [where R = "\<lambda>c s. c = next_id s0 \<and> around (good e) c (reserved s0) s"])
    show "meets (\<lambda>s. s = s0) (new_RunContext e CPU SYNC) (\<lambda>c s. c = next_id s0 \<and> around (good e) c (reserved s0) s) (failing e)"
      by (rule meets_weaken [OF meets_new_cpu]) auto
    fix c
    have "safe e s \<and> manager_ok s (m\<lparr>mContexts := put_context nm c (mContexts m)\<rparr>)"
      if s: "c = next_id s0 \<and> around (good e) c (reserved s0) s" for s
    proof
      show "safe e s" by (rule made_safe [of e s0]) (use s s0 in \<open>auto simp: managed_def\<close>)
      then have "manager_ok s m" using s s0 by (auto simp: managed_def around_def reserved_def safe_def)
      moreover have "ctx_heap s0 c = None" using fresh_None [of e s0] s0 s by (simp add: managed_def)
      ultimately show "manager_ok s (m\<lparr>mContexts := put_context nm c (mContexts m)\<rparr>)"
      proof (intro manager_put)
        have ok: "manager_ok s0 m" using s0 by (simp add: managed_def safe_def)
        show "ctx_heap s c \<noteq> None" using s by (auto simp: around_def)
        show "c \<notin> snd ` set (mContexts m)" "mpGPUContext m \<noteq> Some c"
          using ok \<open>ctx_heap s0 c = None\<close> unfolding manager_ok_def by blast+
      qed
    qed
    then show "meets (\<lambda>s. c = next_id s0 \<and> around (good e) c (reserved s0) s)
        (st_bind (set_manager (m\<lparr>mContexts := put_context nm c (mContexts m)\<rparr>)) (\<lambda>_. st_bind (st_return c) (\<lambda>_. st_return ())))
        (\<lambda>_. safe e) (failing e)"
      by (intro meets_bind [OF meets_set_manager]) (auto intro!: meets_Pair simp: managed_safe)
  qed
qed

lemma erase_properties:
  assumes "manager_ok s m" "alist_get (mContexts m) nm = Some a" "mpCurrentContext m \<noteq> Some a"
  shows "manager_ok s (m\<lparr>mContexts := erase_context nm (mContexts m)\<rparr>)"
    and "a \<notin> snd ` set (erase_context nm (mContexts m)) \<and> mpGPUContext m \<noteq> Some a"
proof -
  have sub: "set (erase_context nm (mContexts m)) \<subseteq> set (mContexts m)" by (auto simp: erase_context_def)
  have dist: "distinct (map fst (mContexts m))" "distinct (map snd (mContexts m))" using assms(1) by (simp_all add: manager_ok_def)
  have entry: "(nm, a) \<in> set (mContexts m)" using alist_get_SomeD [OF assms(2)] .
  have "distinct (map fst (erase_context nm (mContexts m)))" "distinct (map snd (erase_context nm (mContexts m)))"
    using dist by (simp_all add: erase_context_def distinct_map_filter)
  with assms(1) sub show "manager_ok s (m\<lparr>mContexts := erase_context nm (mContexts m)\<rparr>)"
    unfolding manager_ok_def by (simp, blast)
  have "kv = (nm, a)" if "kv \<in> set (mContexts m)" "snd kv = a" for kv
    using dist(2) entry that by (metis distinct_map inj_on_def snd_conv)
  then have "a \<notin> snd ` set (erase_context nm (mContexts m))"
    by (auto simp: erase_context_def)
  moreover have "mpGPUContext m \<noteq> Some a"
    using assms(1) entry unfolding manager_ok_def by (metis image_eqI snd_conv)
  ultimately show "a \<notin> snd ` set (erase_context nm (mContexts m)) \<and> mpGPUContext m \<noteq> Some a" ..
qed

text \<open>Taking a context that is not the current one out of the map.\<close>

lemma meets_remove_context:
  assumes "safe e s0" "manager_ok s0 m" "alist_get (mContexts m) nm = Some a" "mpCurrentContext m \<noteq> Some a"
  shows "meets (\<lambda>s. s = s0) (remove_context e m nm) (\<lambda>_. safe e) (failing e)"
proof -
  let ?m = "m\<lparr>mContexts := erase_context nm (mContexts m)\<rparr>"
  let ?s1 = "s0\<lparr>mpInstance := Some ?m\<rparr>"
  note erased = erase_properties [OF assms(2-4)]
  have s1: "safe e ?s1" using assms(1) erased(1) by (auto simp: safe_def)
  have "a \<in> snd ` set (mContexts m)" using alist_get_SomeD [OF assms(3)] by (metis image_eqI snd_conv)
  with assms(2) have "ctx_heap s0 a \<noteq> None" unfolding manager_ok_def by blast
  then have "ctx_heap ?s1 a \<noteq> None" "good e (the (ctx_heap ?s1 a))" using assms(1) by (auto simp: safe_def)
  from meets_delete_RunContext [OF this]
  have "meets (\<lambda>s. s = ?s1) (delete_RunContext e a) (\<lambda>_. safe e) (failing e)"
    by (rule meets_weaken)
       (use removed_safe [OF s1, of a] erased(2) assms(4) in \<open>auto simp: strict_def failing_def\<close>)
  moreover have "remove_context e m nm s0 = delete_RunContext e a ?s1"
    by (simp add: remove_context_def GetContext_def assms(3) set_manager_def st_bind_def)
  ultimately show ?thesis by (simp add: meets_def)
qed

lemma secure_DeleteRunContext: "secure e (DeleteRunContext e nm)"
  unfolding DeleteRunContext_def Manager_DeleteRunContext_def
proof (rule secure_bind_instance, rule meets_bind [OF meets_GetContext], rule meets_at)
  fix m a s0 assume s0: "managed e m s0 \<and> (a \<in> snd ` set (mContexts m) \<and> alist_get (mContexts m) nm = Some a)"
  then have ok: "safe e s0" "manager_ok s0 m" "mpInstance s0 = Some m" and a: "alist_get (mContexts m) nm = Some a"
    by (auto simp: managed_def safe_def)
  show "meets (\<lambda>s. s = s0) (if mpCurrentContext m = Some a then
         if nm = ''default'' then message ''[RCOMPSs GPU] WARNING: Cannot delete default RunContext''
         else st_bind (GetContext m ''default'') (\<lambda>d. remove_context e (m\<lparr>mpCurrentContext := Some d\<rparr>) nm)
       else remove_context e m nm) (\<lambda>_. safe e) (failing e)"
  proof (cases "mpCurrentContext m = Some a")
    case False
    with meets_remove_context [OF ok(1,2) a] show ?thesis by simp
  next
    case current: True
    show ?thesis
    proof (cases "nm = ''default''")
      case True
      have "meets (safe e) (message ''[RCOMPSs GPU] WARNING: Cannot delete default RunContext'') (\<lambda>_. safe e) (failing e)"
        by (rule meets_message [OF safe_ignores])
      then show ?thesis using ok(1) True current by (auto intro: meets_weaken)
    next
      case other: False
      show ?thesis
      proof (cases "alist_get (mContexts m) ''default''")
        case None
        then show ?thesis
          using other current ok(1) by (simp add: meets_def GetContext_def no_stream_def failing_std)
      next
        case (Some d)
        have d: "(''default'', d) \<in> set (mContexts m)" "(nm, a) \<in> set (mContexts m)"
          using alist_get_SomeD [OF Some] alist_get_SomeD [OF a] .
        have "d \<noteq> a"
          using d ok(2) other unfolding manager_ok_def by (metis distinct_map inj_on_def prod.inject snd_conv)
        have "ctx_heap s0 d \<noteq> None" "mpGPUContext m \<noteq> Some d"
          using d(1) ok(2) unfolding manager_ok_def by (metis image_eqI snd_conv)+
        with ok(2) have "manager_ok s0 (m\<lparr>mpCurrentContext := Some d\<rparr>)" by (intro manager_current)
        from meets_remove_context [OF ok(1) this, of nm a] a \<open>d \<noteq> a\<close>
        have "meets (\<lambda>s. s = s0) (remove_context e (m\<lparr>mpCurrentContext := Some d\<rparr>) nm) (\<lambda>_. safe e) (failing e)" by simp
        then show ?thesis using other current Some by (simp add: GetContext_def)
      qed
    qed
  qed
qed

section \<open>Any sequence of calls from R\<close>

datatype gpu_op =
    Create_context string
  | Set_placement string string
  | Get_placement string
  | Set_mode string string
  | Get_mode string
  | Sync_context string
  | Sync_all
  | Count_contexts
  | Use_context string
  | Delete_context string
  | Context_names
  | Finalize_context string

fun perform :: "cuda_env \<Rightarrow> gpu_op \<Rightarrow> (gpu, unit) st" where
  "perform e (Create_context nm) = rcompss_create_gpu_context e nm"
| "perform e (Set_placement nm pl) = rcompss_set_operation_placement e nm pl"
| "perform e (Get_placement nm) = st_bind (rcompss_get_operation_placement e nm) (\<lambda>_. st_return ())"
| "perform e (Set_mode nm md) = rcompss_set_run_mode e nm md"
| "perform e (Get_mode nm) = st_bind (rcompss_get_run_mode e nm) (\<lambda>_. st_return ())"
| "perform e (Sync_context nm) = rcompss_sync_context e nm"
| "perform e Sync_all = rcompss_sync_all_contexts e"
| "perform e Count_contexts = st_bind (rcompss_get_num_contexts e) (\<lambda>_. st_return ())"
| "perform e (Use_context nm) = rcompss_set_operation_context e nm"
| "perform e (Delete_context nm) = rcompss_delete_context e nm"
| "perform e Context_names = st_bind (rcompss_get_all_context_names e) (\<lambda>_. st_return ())"
| "perform e (Finalize_context nm) = rcompss_finalize_context e nm"

definition initial_gpu :: gpu where
  "initial_gpu = \<lparr>ctx_heap = Map.empty, live = {}, next_id = 0, calls_made = 0, mpInstance = None, messages = []\<rparr>"

text \<open>The states a process can be in after calls that did not end it.\<close>

inductive reachable :: "cuda_env \<Rightarrow> gpu \<Rightarrow> bool" for e where
  start: "reachable e initial_gpu"
| returned: "reachable e s \<Longrightarrow> perform e op s = (Inr (), s') \<Longrightarrow> reachable e s'"
| thrown: "reachable e s \<Longrightarrow> perform e op s = (Inl ex, s') \<Longrightarrow> catchable ex \<Longrightarrow> reachable e s'"

lemma secure_stop_with:
  assumes "secure e m"
  shows "secure e (stop_with p m)"
  unfolding stop_with_def
  by (rule meets_catch [OF assms]) (auto simp: meets_def failing_def)

lemma secure_ignore: "secure e m \<Longrightarrow> secure e (st_bind m (\<lambda>_. st_return ()))"
  by (rule meets_bind) (auto intro: meets_return)

lemma secure_perform: "visits_all e \<Longrightarrow> secure e (perform e op)"
  by (cases op)
     (auto simp: rcompss_create_gpu_context_def rcompss_set_operation_placement_def rcompss_get_operation_placement_def
        rcompss_set_run_mode_def rcompss_get_run_mode_def rcompss_sync_context_def rcompss_sync_all_contexts_def
        rcompss_get_num_contexts_def rcompss_set_operation_context_def rcompss_delete_context_def
        rcompss_get_all_context_names_def rcompss_finalize_context_def
      intro!: secure_stop_with secure_ignore secure_CreateRunContext secure_SetOperationPlacement secure_GetOperationPlacement
        secure_SetRunMode secure_GetRunMode secure_SyncContext secure_SyncAll secure_counts secure_SetOperationContext
        secure_DeleteRunContext secure_FinalizeRunContext)

lemma reachable_safe:
  assumes "visits_all e"
  shows "reachable e s \<Longrightarrow> safe e s"
proof (induction rule: reachable.induct)
  case start
  show ?case by (simp add: safe_def initial_gpu_def)
next
  case (returned s op s')
  then show ?case using meets_Inr [OF secure_perform [OF assms]] by blast
next
  case (thrown s op ex s')
  then show ?case using meets_Inl [OF secure_perform [OF assms]] unfolding failing_def by blast
qed

text \<open>
  C26. Whatever sequence of the GPU context functions R has called, no pointer of the context
  manager dangles: names are unique, every named context and the current one exist. And when no
  CUDA call fails (or the build has no CUDA), the next call is never undefined behaviour: it
  returns or throws what a handler can see.
\<close>

theorem contexts_never_dangle:
  assumes "reachable e s" "visits_all e"
  shows "(case mpInstance s of
            None \<Rightarrow> True
          | Some m \<Rightarrow>
              distinct (map fst (mContexts m)) \<and> distinct (map snd (mContexts m)) \<and>
              (\<forall>a \<in> snd ` set (mContexts m). ctx_heap s a \<noteq> None) \<and>
              (\<exists>c. mpCurrentContext m = Some c \<and> ctx_heap s c \<noteq> None))
       \<and> (calm e \<longrightarrow> (case perform e op s of (Inr _, _) \<Rightarrow> True | (Inl ex, _) \<Rightarrow> catchable ex))"
proof
  note safe = reachable_safe [OF assms(2,1)]
  show "case mpInstance s of
            None \<Rightarrow> True
          | Some m \<Rightarrow>
              distinct (map fst (mContexts m)) \<and> distinct (map snd (mContexts m)) \<and>
              (\<forall>a \<in> snd ` set (mContexts m). ctx_heap s a \<noteq> None) \<and>
              (\<exists>c. mpCurrentContext m = Some c \<and> ctx_heap s c \<noteq> None)"
    using safe by (cases "mpInstance s") (simp_all add: safe_def manager_ok_def)
  show "calm e \<longrightarrow> (case perform e op s of (Inr _, _) \<Rightarrow> True | (Inl ex, _) \<Rightarrow> catchable ex)"
  proof
    assume "calm e"
    obtain r s' where run: "perform e op s = (r, s')" by fastforce
    show "case perform e op s of (Inr _, _) \<Rightarrow> True | (Inl ex, _) \<Rightarrow> catchable ex"
      using meets_Inl [OF secure_perform [OF assms(2)] safe, of op _ s'] run \<open>calm e\<close>
      by (cases r) (auto simp: failing_def)
  qed
qed

definition no_cuda :: cuda_env where
  "no_cuda = \<lparr>use_cuda = False, succeeds = (\<lambda>_ _. True), error_string = (\<lambda>_. []), iterate = (\<lambda>xs. xs)\<rparr>"

theorem contexts_never_dangle_witness:
  "case perform no_cuda (Delete_context ''default'') (snd (perform no_cuda (Create_context ''a'') initial_gpu)) of
     (Inr _, _) \<Rightarrow> True | (Inl ex, _) \<Rightarrow> catchable ex"
proof -
  let ?s = "snd (perform no_cuda (Create_context ''a'') initial_gpu)"
  have "perform no_cuda (Create_context ''a'') initial_gpu = (Inr (), ?s)"
    by (simp add: rcompss_create_gpu_context_def stop_with_def CreateRunContext_def Manager_CreateRunContext_def GetInstance_def
        st_bind_gets_apply initial_gpu_def new_RunContext_def no_cuda_def st_catch_def st_bind_def st_gets_def set_manager_def
        message_def update_def the_context_def Let_def)
  from reachable.returned [OF reachable.start this] have "reachable no_cuda ?s" .
  moreover have "visits_all no_cuda" "calm no_cuda" by (simp_all add: visits_all_def calm_def no_cuda_def)
  ultimately show ?thesis by (rule contexts_never_dangle [THEN conjunct2, THEN mp])
qed

text \<open>
  A context that cannot be moved to the GPU is left marked as a GPU context without a
  stream: R gets the error, but the placement then reads GPU and the next synchronisation uses
  a stream that was never created.
\<close>

theorem failed_placement_is_kept:
  assumes "mpInstance s = Some m" "alist_get (mContexts m) nm = Some a" "ctx_heap s a = Some c"
    and "use_cuda e" "mOperationPlacement c = CPU" "mCudaStream c = None" "lower pl = ''gpu''"
    and "\<not> succeeds e StreamCreate (calls_made s)"
  shows "\<exists>s'. rcompss_set_operation_placement e nm pl s =
           (Inl (Rcpp_exception (''Failed to set operation placement: CUDA error: '' @ error_string e StreamCreate)), s')
       \<and> fst (rcompss_get_operation_placement e nm s') = Inr ''GPU''
       \<and> fst (rcompss_sync_context e nm s') = Inl Undefined_behaviour"
proof -
  define c1 where "c1 = c\<lparr>mpInfo := None, mWorkBufferSizeDevice := 0, mpWorkBufferDevice := None,
       mWorkBufferSizeHost := 0, mpWorkBufferHost := None, mOperationPlacement := GPU\<rparr>"
  define s' where "s' = s\<lparr>ctx_heap := (ctx_heap s)(a \<mapsto> c1), calls_made := Suc (calls_made s),
       messages := messages s @ [''[RCOMPSs GPU] CUDA error - '' @ error_string e StreamCreate]\<rparr>"
  have set: "RunContext_SetOperationPlacement e a GPU s = (Inl (Std_exception (''CUDA error: '' @ error_string e StreamCreate)), s')"
    using assms
    by (simp add: RunContext_SetOperationPlacement_def ClearUp_def update_def the_context_def init_device_def create_or_throw_def
        create_def cuda_def GPU_ERROR_CHECK_def cuda_failed_def message_def st_bind_def c1_def s'_def)
  have "rcompss_set_operation_placement e nm pl s =
      (Inl (Rcpp_exception (''Failed to set operation placement: CUDA error: '' @ error_string e StreamCreate)), s')"
    using assms set
    by (simp add: rcompss_set_operation_placement_def stop_with_def SetOperationPlacement_def GetInputOperationPlacement_def
        in_context_def GetInstance_again GetContext_def st_bind_def st_catch_def)
  moreover have s': "mpInstance s' = Some m" "ctx_heap s' a = Some c1" "mOperationPlacement c1 = GPU" "mCudaStream c1 = None"
    using assms by (simp_all add: s'_def c1_def)
  moreover have "fst (rcompss_get_operation_placement e nm s') = Inr ''GPU''"
    using assms(2) s'
    by (simp add: rcompss_get_operation_placement_def stop_with_def GetOperationPlacement_def RunContext_GetOperationPlacement_def
        in_context_def GetInstance_again GetContext_def the_context_def st_bind_def st_catch_def)
  moreover have "fst (rcompss_sync_context e nm s') = Inl Undefined_behaviour"
    using assms(2,4) s'
    by (simp add: rcompss_sync_context_def stop_with_def SyncContext_def Manager_SyncContext_def RunContext_Sync_def
        GetInstance_again the_context_def assigned_def st_bind_def st_catch_def)
  ultimately show ?thesis by blast
qed

definition failing_cuda :: cuda_env where
  "failing_cuda = \<lparr>use_cuda = True, succeeds = (\<lambda>_ _. False), error_string = (\<lambda>_. ''out of memory''), iterate = (\<lambda>xs. xs)\<rparr>"

definition one_context :: gpu where
  "one_context = \<lparr>ctx_heap = [0 \<mapsto> blank_context], live = {}, next_id = 1, calls_made = 0,
     mpInstance = Some \<lparr>mContexts = [(''default'', 0)], mpCurrentContext = Some 0, mpGPUContext = None\<rparr>, messages = []\<rparr>"

theorem failed_placement_is_kept_witness:
  "\<exists>s'. rcompss_set_operation_placement failing_cuda ''default'' ''GPU'' one_context =
       (Inl (Rcpp_exception ''Failed to set operation placement: CUDA error: out of memory''), s')
     \<and> fst (rcompss_sync_context failing_cuda ''default'' s') = Inl Undefined_behaviour"
proof -
  have "lower ''GPU'' = ''gpu''" by code_simp
  with failed_placement_is_kept [of one_context _ "''default''" 0 blank_context failing_cuda "''GPU''"] show ?thesis
    by (auto simp: one_context_def failing_cuda_def blank_context_def)
qed

end
