(* ===== verification/Gpu_Memory.thy ===== *)
theory Gpu_Memory
  imports Gpu_Safety
begin

text \<open>
  GPU buffers: \<^verbatim>\<open>kernels/MemoryHandler.cpp\<close>, the vector kernels of \<^verbatim>\<open>kernels/cuda/CudaVectorKernels.cu\<close>
  and the exports of \<^verbatim>\<open>src/compssmodule.cpp\<close> that move R vectors to the device, add them there and
  manage buffers through external pointers. Memory is a map from block numbers to bytes, host
  and device alike; a copy takes effect when it is called, as CUDA documents for pageable host
  memory. The addition of two doubles is a parameter, and so is the order in which the threads
  of a kernel run.
\<close>

section \<open>Memory\<close>

text \<open>\<open>externals\<close> are the external pointers R holds: block and size, or cleared.\<close>

record memory =
  device :: gpu
  blocks :: "nat \<Rightarrow> byte list option"
  externals :: "nat \<Rightarrow> (nat \<times> nat) option"
  next_external :: nat

record mem_env =
  cuda_of :: cuda_env
  junk :: "nat \<Rightarrow> byte"
  add_double :: "u64 \<Rightarrow> u64 \<Rightarrow> u64"
  schedule :: "nat list \<Rightarrow> nat list"

definition on_gpu :: "(gpu, 'a) st \<Rightarrow> (memory, 'a) st" where
  "on_gpu m = (\<lambda>s. case m (device s) of (r, d) \<Rightarrow> (r, s\<lparr>device := d\<rparr>))"

definition set_block :: "nat \<Rightarrow> byte list option \<Rightarrow> (memory, unit) st" where
  "set_block r v = (\<lambda>s. (Inr (), s\<lparr>blocks := (blocks s)(r := v)\<rparr>))"

text \<open>Copying between blocks; outside of a block it is undefined.\<close>

definition copy_bytes :: "nat option \<Rightarrow> nat option \<Rightarrow> nat \<Rightarrow> (memory, unit) st" where
  "copy_bytes dst src n =
     (\<lambda>s. case (dst, src) of
        (Some d, Some r) \<Rightarrow>
          (case (blocks s d, blocks s r) of
             (Some old, Some new) \<Rightarrow>
               if n \<le> length old \<and> n \<le> length new
               then (Inr (), s\<lparr>blocks := (blocks s)(d \<mapsto> take n new @ drop n old)\<rparr>)
               else (Inl Undefined_behaviour, s)
           | _ \<Rightarrow> (Inl Undefined_behaviour, s))
      | _ \<Rightarrow> (Inl Undefined_behaviour, s))"

text \<open>The memory of a numeric vector of R.\<close>

definition vector_bytes :: "u64 list \<Rightarrow> byte list" where
  "vector_bytes xs = concat (map u64_bytes xs)"

lemma length_vector_bytes [simp]: "length (vector_bytes xs) = 8 * length xs"
  by (simp add: vector_bytes_def length_concat_u64_bytes)

lemma u64s_of_vector_bytes [simp]: "u64s_of_bytes (length xs) (vector_bytes xs) = xs"
  by (simp add: vector_bytes_def u64s_of_bytes_concat)

definition r_vector :: "u64 list \<Rightarrow> (memory, nat) st" where
  "r_vector xs =
     (\<lambda>s. (Inr (next_id (device s)),
        s\<lparr>device := (device s)\<lparr>next_id := Suc (next_id (device s))\<rparr>,
          blocks := (blocks s)(next_id (device s) \<mapsto> vector_bytes xs)\<rparr>))"

definition vector_values :: "nat \<Rightarrow> (memory, u64 list) st" where
  "vector_values r =
     (\<lambda>s. case blocks s r of
        None \<Rightarrow> (Inl Undefined_behaviour, s)
      | Some bs \<Rightarrow> (Inr (u64s_of_bytes (length bs div 8) bs), s))"

section \<open>MemoryHandler\<close>

datatype MemoryTransfer = HOST_TO_DEVICE | DEVICE_TO_DEVICE | DEVICE_TO_HOST | HOST_TO_HOST

definition fill :: "mem_env \<Rightarrow> nat \<Rightarrow> nat \<Rightarrow> (memory, nat option) st" where
  "fill me n r = st_bind (set_block r (Some (map (junk me) [0..<n]))) (\<lambda>_. st_return (Some r))"

definition AllocateArray :: "mem_env \<Rightarrow> nat \<Rightarrow> OperationPlacement \<Rightarrow> (memory, nat option) st" where
  "AllocateArray me aSizeInBytes aPlacement =
     (if aSizeInBytes = 0 then st_return None
      else if aPlacement = GPU then
        if use_cuda (cuda_of me) then
          st_bind (on_gpu (create_or_throw (cuda_of me) (Malloc aSizeInBytes))) (\<lambda>r.
            case r of None \<Rightarrow> st_return None | Some p \<Rightarrow> fill me aSizeInBytes p)
        else st_return None
      else st_bind (on_gpu fresh_resource) (fill me aSizeInBytes))"

text \<open>The pointer is null afterwards.\<close>

definition DestroyArray :: "mem_env \<Rightarrow> nat option \<Rightarrow> OperationPlacement \<Rightarrow> (memory, unit) st" where
  "DestroyArray me apArray aPlacement =
     (case apArray of
        None \<Rightarrow> st_return ()
      | Some r \<Rightarrow>
          if aPlacement = GPU then
            if use_cuda (cuda_of me) then
              st_bind (on_gpu (GPU_ERROR_CHECK (cuda_of me) Free (cudaFree (cuda_of me) (Some r)))) (\<lambda>_. set_block r None)
            else st_return ()
          else st_bind (on_gpu (delete_host (Some r))) (\<lambda>_. set_block r None))"

definition device_context :: "exn \<Rightarrow> nat option \<Rightarrow> (gpu, run_context) st" where
  "device_context ex aContext =
     (case aContext of
        None \<Rightarrow> st_throw ex
      | Some this \<Rightarrow> st_bind (the_context this) (\<lambda>c. if mOperationPlacement c = CPU then st_throw ex else st_return c))"

text \<open>Waiting for the stream after an operation in synchronous mode.\<close>

definition sync_if_needed :: "cuda_env \<Rightarrow> run_context \<Rightarrow> nat \<Rightarrow> (gpu, unit) st" where
  "sync_if_needed e c stream =
     (if mRunMode c = SYNC then GPU_ERROR_CHECK e StreamSynchronize (use_resource e StreamSynchronize stream) else st_return ())"

definition on_stream :: "mem_env \<Rightarrow> cuda_call \<Rightarrow> exn \<Rightarrow> nat option \<Rightarrow> (memory, unit) st \<Rightarrow> (memory, unit) st" where
  "on_stream me call ex aContext effect =
     st_bind (on_gpu (device_context ex aContext)) (\<lambda>c.
     st_bind (on_gpu (assigned (mCudaStream c))) (\<lambda>stream.
     st_bind (on_gpu (GPU_ERROR_CHECK (cuda_of me) call (use_resource (cuda_of me) call stream))) (\<lambda>_.
     st_bind effect (\<lambda>_. on_gpu (sync_if_needed (cuda_of me) c stream)))))"

definition MemCpy :: "mem_env \<Rightarrow> nat option \<Rightarrow> nat option \<Rightarrow> nat \<Rightarrow> nat option \<Rightarrow> MemoryTransfer \<Rightarrow> (memory, unit) st" where
  "MemCpy me apDestination apSrcDataArray aSizeInBytes aContext aTransferType =
     (if aSizeInBytes = 0 then st_return ()
      else if aTransferType = HOST_TO_HOST then copy_bytes apDestination apSrcDataArray aSizeInBytes
      else if use_cuda (cuda_of me) then
        on_stream me (MemcpyAsync aSizeInBytes) (Std_exception ''CUDA Memcpy cannot be performed with CPU context'') aContext
          (copy_bytes apDestination apSrcDataArray aSizeInBytes)
      else st_return ())"

definition set_bytes :: "nat option \<Rightarrow> byte \<Rightarrow> nat \<Rightarrow> (memory, unit) st" where
  "set_bytes dst v n =
     (\<lambda>s. case dst of
        None \<Rightarrow> (Inl Undefined_behaviour, s)
      | Some d \<Rightarrow>
          (case blocks s d of
             Some old \<Rightarrow> if n \<le> length old then (Inr (), s\<lparr>blocks := (blocks s)(d \<mapsto> replicate n v @ drop n old)\<rparr>)
                          else (Inl Undefined_behaviour, s)
           | None \<Rightarrow> (Inl Undefined_behaviour, s)))"

definition Memset :: "mem_env \<Rightarrow> nat option \<Rightarrow> byte \<Rightarrow> nat \<Rightarrow> OperationPlacement \<Rightarrow> nat option \<Rightarrow> (memory, unit) st" where
  "Memset me apDestination aValue aSizeInBytes aPlacement aContext =
     (if aPlacement = CPU then set_bytes apDestination aValue aSizeInBytes
      else if use_cuda (cuda_of me) then
        on_stream me (MemsetAsync aSizeInBytes) (Std_exception ''CUDA Memset cannot be performed with CPU context'') aContext
          (set_bytes apDestination aValue aSizeInBytes)
      else st_return ())"

section \<open>The kernels on vectors\<close>

text \<open>
  The thread of block \<open>b\<close> and index \<open>t\<close> computes its number in 32-bit arithmetic; the number of
  blocks is handed over as a 32-bit number too.
\<close>

definition thread_ids :: "nat \<Rightarrow> nat list" where
  "thread_ids aNumElements =
     (let blocksPerGrid = ((aNumElements + 256 - 1) div 256) mod 2 ^ 32
      in concat (map (\<lambda>b. map (\<lambda>t. (b * 256 + t) mod 2 ^ 32) [0..<256]) [0..<blocksPerGrid]))"

definition PerformVectorAdd :: "(u64 \<Rightarrow> u64 \<Rightarrow> u64) \<Rightarrow> u64 list \<Rightarrow> u64 list \<Rightarrow> nat \<Rightarrow> nat \<Rightarrow> u64 list \<Rightarrow> u64 list" where
  "PerformVectorAdd add a b aNumElements tid result =
     (if tid < aNumElements then result[tid := add (a ! tid) (b ! tid)] else result)"

definition kernel_add :: "mem_env \<Rightarrow> u64 list \<Rightarrow> u64 list \<Rightarrow> nat \<Rightarrow> u64 list \<Rightarrow> u64 list" where
  "kernel_add me a b n result =
     fold (PerformVectorAdd (add_double me) a b n) (schedule me (thread_ids n)) result"

definition doubles :: "nat \<Rightarrow> byte list \<Rightarrow> u64 list" where
  "doubles n bs = u64s_of_bytes n (take (8 * n) bs)"

text \<open>A kernel over two inputs and a result, each the start of a device buffer.\<close>

definition launch_binary ::
    "(u64 list \<Rightarrow> u64 list \<Rightarrow> nat \<Rightarrow> u64 list \<Rightarrow> u64 list) \<Rightarrow> nat option \<Rightarrow> nat option \<Rightarrow> nat option \<Rightarrow> nat \<Rightarrow> (memory, unit) st" where
  "launch_binary run pa pb pr n =
     (\<lambda>s. if n = 0 then (Inr (), s) else
        (case (pa, pb, pr) of
           (Some a, Some b, Some r) \<Rightarrow>
             (case (blocks s a, blocks s b, blocks s r) of
                (Some av, Some bv, Some rv) \<Rightarrow>
                  if 8 * n \<le> length av \<and> 8 * n \<le> length bv \<and> 8 * n \<le> length rv
                  then (Inr (), s\<lparr>blocks := (blocks s)(r \<mapsto>
                     vector_bytes (run (doubles n av) (doubles n bv) n (doubles n rv)) @ drop (8 * n) rv)\<rparr>)
                  else (Inl Undefined_behaviour, s)
              | _ \<Rightarrow> (Inl Undefined_behaviour, s))
         | _ \<Rightarrow> (Inl Undefined_behaviour, s)))"

definition VectorAdd :: "mem_env \<Rightarrow> nat option \<Rightarrow> nat option \<Rightarrow> nat option \<Rightarrow> nat \<Rightarrow> nat \<Rightarrow> (memory, unit) st" where
  "VectorAdd me a b result aNumElements aContext =
     st_bind (on_gpu (GetStream aContext)) (\<lambda>_.
     st_bind (launch_binary (kernel_add me) a b result aNumElements) (\<lambda>_.
     on_gpu (RunContext_Sync (cuda_of me) aContext)))"

text \<open>The multiplication of two doubles is a parameter like their addition.\<close>

definition PerformVectorMultiply :: "(u64 \<Rightarrow> u64 \<Rightarrow> u64) \<Rightarrow> u64 list \<Rightarrow> u64 list \<Rightarrow> nat \<Rightarrow> nat \<Rightarrow> u64 list \<Rightarrow> u64 list" where
  "PerformVectorMultiply mul a b aNumElements tid result =
     (if tid < aNumElements then result[tid := mul (a ! tid) (b ! tid)] else result)"

definition kernel_multiply :: "mem_env \<Rightarrow> (u64 \<Rightarrow> u64 \<Rightarrow> u64) \<Rightarrow> u64 list \<Rightarrow> u64 list \<Rightarrow> nat \<Rightarrow> u64 list \<Rightarrow> u64 list" where
  "kernel_multiply me mul a b n result =
     fold (PerformVectorMultiply mul a b n) (schedule me (thread_ids n)) result"

definition VectorMultiply :: "mem_env \<Rightarrow> (u64 \<Rightarrow> u64 \<Rightarrow> u64) \<Rightarrow> nat option \<Rightarrow> nat option \<Rightarrow> nat option \<Rightarrow> nat \<Rightarrow> nat \<Rightarrow> (memory, unit) st" where
  "VectorMultiply me mul a b result aNumElements aContext =
     st_bind (on_gpu (GetStream aContext)) (\<lambda>_.
     st_bind (launch_binary (kernel_multiply me mul) a b result aNumElements) (\<lambda>_.
     on_gpu (RunContext_Sync (cuda_of me) aContext)))"

section \<open>The exports\<close>

definition no_cuda_build :: exn where
  "no_cuda_build = Rcpp_exception ''RCOMPSs was built without CUDA support (USE_CUDA is not defined).''"

text \<open>The active context, which must be on the GPU, put into synchronous mode.\<close>

definition active_gpu_context :: "mem_env \<Rightarrow> (memory, nat) st" where
  "active_gpu_context me =
     st_bind (on_gpu (GetOperationContext (cuda_of me))) (\<lambda>ctx.
     st_bind (on_gpu (RunContext_GetOperationPlacement ctx)) (\<lambda>pl.
       if pl = CPU
       then st_throw (Rcpp_exception ''Active operation context is CPU. Set placement to GPU and set a GPU operation context.'')
       else st_bind (on_gpu (RunContext_SetRunMode (cuda_of me) ctx SYNC)) (\<lambda>_. st_return ctx)))"

definition stop_if :: "bool \<Rightarrow> string \<Rightarrow> (memory, unit) st" where
  "stop_if b t = (if b then st_throw (Rcpp_exception t) else st_return ())"

text \<open>Copying a buffer of the host into a new vector of R.\<close>

definition result_vector :: "nat option \<Rightarrow> nat \<Rightarrow> (memory, nat) st" where
  "result_vector h n =
     st_bind (r_vector (replicate n 0)) (\<lambda>y.
     st_bind (if 0 < n then copy_bytes (Some y) h (8 * n) else st_return ()) (\<lambda>_. st_return y))"

definition roundtrip_body :: "mem_env \<Rightarrow> u64 list \<Rightarrow> (memory, u64 list) st" where
  "roundtrip_body me x =
     st_bind (r_vector x) (\<lambda>x_mem.
     st_bind (active_gpu_context me) (\<lambda>ctx.
     (let n = length x; bytes = 8 * n in
      st_bind (AllocateArray me bytes GPU) (\<lambda>d_buf.
      st_bind (AllocateArray me bytes CPU) (\<lambda>h_out.
      st_bind (stop_if (0 < bytes \<and> (d_buf = None \<or> h_out = None)) ''Memory allocation failed (device or host buffer).'') (\<lambda>_.
      st_bind (MemCpy me d_buf (Some x_mem) bytes (Some ctx) HOST_TO_DEVICE) (\<lambda>_.
      st_bind (MemCpy me h_out d_buf bytes (Some ctx) DEVICE_TO_HOST) (\<lambda>_.
      st_bind (result_vector h_out n) (\<lambda>y.
      st_bind (DestroyArray me d_buf GPU) (\<lambda>_.
      st_bind (DestroyArray me h_out CPU) (\<lambda>_.
      vector_values y)))))))))))"

definition rcompss_gpu_memory_roundtrip_double :: "mem_env \<Rightarrow> u64 list \<Rightarrow> (memory, u64 list) st" where
  "rcompss_gpu_memory_roundtrip_double me x =
     (if use_cuda (cuda_of me) then stop_with ''GPU memory roundtrip failed'' (roundtrip_body me x)
      else st_throw no_cuda_build)"

definition vector_add_body :: "mem_env \<Rightarrow> u64 list \<Rightarrow> u64 list \<Rightarrow> (memory, u64 list) st" where
  "vector_add_body me a b =
     st_bind (r_vector a) (\<lambda>a_mem.
     st_bind (r_vector b) (\<lambda>b_mem.
     st_bind (active_gpu_context me) (\<lambda>ctx.
     st_bind (stop_if (length a \<noteq> length b)
        (''Vectors must have the same size. a.size()='' @ nat_to_string (length a) @ '', b.size()='' @ nat_to_string (length b))) (\<lambda>_.
     (let n = length a; bytes = 8 * n in
      st_bind (AllocateArray me bytes GPU) (\<lambda>d_a.
      st_bind (AllocateArray me bytes GPU) (\<lambda>d_b.
      st_bind (AllocateArray me bytes GPU) (\<lambda>d_result.
      st_bind (stop_if (0 < bytes \<and> (d_a = None \<or> d_b = None \<or> d_result = None)) ''GPU memory allocation failed.'') (\<lambda>_.
      st_bind (MemCpy me d_a (Some a_mem) bytes (Some ctx) HOST_TO_DEVICE) (\<lambda>_.
      st_bind (MemCpy me d_b (Some b_mem) bytes (Some ctx) HOST_TO_DEVICE) (\<lambda>_.
      st_bind (VectorAdd me d_a d_b d_result n ctx) (\<lambda>_.
      st_bind (AllocateArray me bytes CPU) (\<lambda>h_result.
      st_bind (stop_if (h_result = None) ''Host memory allocation failed.'') (\<lambda>_.
      st_bind (MemCpy me h_result d_result bytes (Some ctx) DEVICE_TO_HOST) (\<lambda>_.
      st_bind (result_vector h_result n) (\<lambda>y.
      st_bind (DestroyArray me d_a GPU) (\<lambda>_.
      st_bind (DestroyArray me d_b GPU) (\<lambda>_.
      st_bind (DestroyArray me d_result GPU) (\<lambda>_.
      st_bind (DestroyArray me h_result CPU) (\<lambda>_.
      vector_values y))))))))))))))))))))"

definition rcompss_gpu_vector_add :: "mem_env \<Rightarrow> u64 list \<Rightarrow> u64 list \<Rightarrow> (memory, u64 list) st" where
  "rcompss_gpu_vector_add me a b =
     (if use_cuda (cuda_of me) then stop_with ''GPU vector addition failed'' (vector_add_body me a b)
      else st_throw no_cuda_build)"

section \<open>Buffers held by R\<close>

text \<open>What R passes as a handle: an external pointer or something else.\<close>

datatype gpu_handle = Other_object | External nat

definition no_cuda_support :: exn where
  "no_cuda_support = Rcpp_exception ''RCOMPSs was built without CUDA support.''"

definition check_gpu_handle :: "gpu_handle \<Rightarrow> (memory, nat \<times> nat) st" where
  "check_gpu_handle handle =
     (case handle of
        Other_object \<Rightarrow>
          st_throw (Rcpp_exception ''Invalid GPU buffer handle (expected external pointer from rcompss_gpu_alloc).'')
      | External i \<Rightarrow>
          st_bind (st_gets (\<lambda>s. externals s i)) (\<lambda>buf.
            case buf of
              None \<Rightarrow> st_throw (Rcpp_exception ''GPU buffer handle is null or already freed.'')
            | Some b \<Rightarrow> st_return b))"

definition rcompss_gpu_alloc :: "mem_env \<Rightarrow> int \<Rightarrow> (memory, gpu_handle) st" where
  "rcompss_gpu_alloc me n =
     (if \<not> use_cuda (cuda_of me) then st_throw no_cuda_support
      else if n \<le> 0 then st_throw (Rcpp_exception ''rcompss_gpu_alloc: n must be positive.'')
      else
        st_bind (on_gpu (GetOperationContext (cuda_of me))) (\<lambda>ctx.
        st_bind (on_gpu (RunContext_GetOperationPlacement ctx)) (\<lambda>pl.
        st_bind (stop_if (pl \<noteq> GPU) ''Active context must be GPU. Set placement and operation context first.'') (\<lambda>_.
        st_bind (AllocateArray me (nat n * 8) GPU) (\<lambda>ptr.
          case ptr of
            None \<Rightarrow> st_throw (Rcpp_exception ''GPU allocation failed.'')
          | Some p \<Rightarrow>
              (\<lambda>s. (Inr (External (next_external s)),
                 s\<lparr>externals := (externals s)(next_external s \<mapsto> (p, nat n * 8)), next_external := Suc (next_external s)\<rparr>)))))))"

definition rcompss_copy_to_gpu :: "mem_env \<Rightarrow> u64 list \<Rightarrow> gpu_handle \<Rightarrow> (memory, unit) st" where
  "rcompss_copy_to_gpu me r_vec handle =
     (if \<not> use_cuda (cuda_of me) then st_throw no_cuda_support
      else
        st_bind (r_vector r_vec) (\<lambda>r_mem.
        st_bind (check_gpu_handle handle) (\<lambda>(ptr, size_bytes).
        (let bytes = length r_vec * 8 in
         st_bind (stop_if (size_bytes < bytes) ''Vector length exceeds GPU buffer size.'') (\<lambda>_.
         st_bind (on_gpu (GetOperationContext (cuda_of me))) (\<lambda>ctx.
         MemCpy me (Some ptr) (Some r_mem) bytes (Some ctx) HOST_TO_DEVICE))))))"

definition rcompss_copy_from_gpu :: "mem_env \<Rightarrow> gpu_handle \<Rightarrow> (memory, u64 list) st" where
  "rcompss_copy_from_gpu me handle =
     (if \<not> use_cuda (cuda_of me) then st_throw no_cuda_support
      else
        st_bind (check_gpu_handle handle) (\<lambda>(ptr, size_bytes).
        (let n = size_bytes div 8 in
         st_bind (r_vector (replicate n 0)) (\<lambda>result.
         st_bind
           (if 0 < n then
              st_bind (on_gpu (GetOperationContext (cuda_of me))) (\<lambda>ctx.
              MemCpy me (Some result) (Some ptr) size_bytes (Some ctx) DEVICE_TO_HOST)
            else st_return ()) (\<lambda>_.
         vector_values result)))))"

text \<open>Freeing clears the external pointer; it is also what the finalizer does.\<close>

definition rcompss_gpu_free :: "mem_env \<Rightarrow> gpu_handle \<Rightarrow> (memory, unit) st" where
  "rcompss_gpu_free me handle =
     (if \<not> use_cuda (cuda_of me) then st_return ()
      else
        (case handle of
           Other_object \<Rightarrow> st_return ()
         | External i \<Rightarrow>
             st_bind (st_gets (\<lambda>s. externals s i)) (\<lambda>buf.
             st_bind (case buf of None \<Rightarrow> st_return () | Some (ptr, size_bytes) \<Rightarrow> DestroyArray me (Some ptr) GPU) (\<lambda>_.
             \<lambda>s. (Inr (), s\<lparr>externals := (externals s)(i := None)\<rparr>)))))"

definition rcompss_gpu_vector_add_kernel :: "mem_env \<Rightarrow> gpu_handle \<Rightarrow> gpu_handle \<Rightarrow> gpu_handle \<Rightarrow> (memory, unit) st" where
  "rcompss_gpu_vector_add_kernel me d_a_handle d_b_handle d_result_handle =
     (if \<not> use_cuda (cuda_of me) then st_throw no_cuda_support
      else
        st_bind (check_gpu_handle d_a_handle) (\<lambda>(a, a_size).
        st_bind (check_gpu_handle d_b_handle) (\<lambda>(b, b_size).
        st_bind (check_gpu_handle d_result_handle) (\<lambda>(r, r_size).
        (let n = r_size div 8 in
         st_bind (stop_if (a_size < n * 8 \<or> b_size < n * 8) ''Input buffers too small for result length.'') (\<lambda>_.
         st_bind (on_gpu (GetOperationContext (cuda_of me))) (\<lambda>ctx.
         VectorAdd me (Some a) (Some b) (Some r) n ctx)))))))"

section \<open>The kernel covers every element in any order\<close>

definition runs_all :: "mem_env \<Rightarrow> bool" where
  "runs_all me \<longleftrightarrow> (\<forall>ts. set (schedule me ts) = set ts)"

lemma thread_ids_cover:
  assumes "n + 255 < 2 ^ 32"
  shows "{0..<n} \<subseteq> set (thread_ids n)"
proof
  fix i assume "i \<in> {0..<n}"
  then have i: "i < n" by simp
  have "i div 256 < (n + 256 - 1) div 256" using i by linarith
  moreover have "(n + 256 - 1) div 256 < 2 ^ 32" using assms by simp
  moreover have "(i div 256 * 256 + i mod 256) mod 2 ^ 32 = i" using i assms by simp
  ultimately show "i \<in> set (thread_ids n)"
    unfolding thread_ids_def Let_def
    by (auto simp del: div_mult_mod_eq intro!: bexI [of _ "i div 256"] image_eqI [of _ _ "i mod 256"])
qed

lemma fold_adds_length: "length (fold (PerformVectorAdd add a b n) ts r) = length r"
  by (induction ts arbitrary: r) (simp_all add: PerformVectorAdd_def)

lemma fold_adds_nth:
  "i < length r \<Longrightarrow>
     fold (PerformVectorAdd add a b n) ts r ! i = (if i \<in> set ts \<and> i < n then add (a ! i) (b ! i) else r ! i)"
  by (induction ts arbitrary: r) (auto simp: PerformVectorAdd_def nth_list_update)

lemma kernel_add_value:
  assumes "runs_all me" "n + 255 < 2 ^ 32" "length a = n" "length b = n" "length r = n"
  shows "kernel_add me a b n r = map2 (add_double me) a b"
proof (rule nth_equalityI)
  show "length (kernel_add me a b n r) = length (map2 (add_double me) a b)"
    using assms by (simp add: kernel_add_def fold_adds_length)
  fix i assume "i < length (kernel_add me a b n r)"
  then have "i < n" using assms(5) by (simp add: kernel_add_def fold_adds_length)
  moreover from this have "i \<in> set (schedule me (thread_ids n))"
    using thread_ids_cover [OF assms(2)] assms(1) by (auto simp: runs_all_def)
  ultimately show "kernel_add me a b n r ! i = map2 (add_double me) a b ! i"
    using assms(3-5) by (simp add: kernel_add_def fold_adds_nth)
qed

section \<open>Running on a context that is ready\<close>

text \<open>The active context is on the GPU with a live stream, and no CUDA call fails.\<close>

definition ready :: "mem_env \<Rightarrow> nat \<Rightarrow> nat \<Rightarrow> memory \<Rightarrow> bool" where
  "ready me ctx st s \<longleftrightarrow>
     use_cuda (cuda_of me) \<and> reliable (cuda_of me) \<and>
     (\<exists>m c. mpInstance (device s) = Some m \<and> mpCurrentContext m = Some ctx \<and> ctx_heap (device s) ctx = Some c \<and>
        mOperationPlacement c = GPU \<and> mCudaStream c = Some st) \<and>
     st \<in> live (device s) \<and> (\<forall>r \<in> live (device s). r < next_id (device s))"

lemma ready_cuda: "ready me ctx st s \<Longrightarrow> use_cuda (cuda_of me)" "ready me ctx st s \<Longrightarrow> succeeds (cuda_of me) c n"
  by (simp_all add: ready_def reliable_def)

lemma run_current:
  assumes "ready me ctx st s"
  shows "on_gpu (GetOperationContext (cuda_of me)) s = (Inr ctx, s)"
    and "on_gpu (RunContext_GetOperationPlacement ctx) s = (Inr GPU, s)"
  using assms
  by (auto simp: on_gpu_def ready_def GetOperationContext_def GetInstance_again st_bind_def RunContext_GetOperationPlacement_def
      the_context_def)

text \<open>What a step may change: blocks, the next number and the live resources.\<close>

definition stepped :: "mem_env \<Rightarrow> nat \<Rightarrow> nat \<Rightarrow> memory \<Rightarrow> (nat \<Rightarrow> byte list option) \<Rightarrow> nat set \<Rightarrow> nat \<Rightarrow> memory \<Rightarrow> bool" where
  "stepped me ctx st s bl lv nx s' \<longleftrightarrow>
     ready me ctx st s' \<and> blocks s' = bl \<and> live (device s') = lv \<and> next_id (device s') = nx \<and>
     externals s' = externals s \<and> next_external s' = next_external s"

lemma active_ready:
  assumes "ready me ctx st s"
  shows "\<exists>s'. active_gpu_context me s = (Inr ctx, s') \<and>
     stepped me ctx st s (blocks s) (live (device s)) (next_id (device s)) s'"
proof -
  have rel: "succeeds (cuda_of me) c n" for c n using ready_cuda [OF assms] by simp
  show ?thesis
    using assms run_current [OF assms]
    by (auto simp: active_gpu_context_def st_bind_def on_gpu_def RunContext_SetRunMode_def RunContext_Sync_def the_context_def
        assigned_def GPU_ERROR_CHECK_def use_resource_def cuda_def rel update_def st_gets_def stepped_def ready_def)
qed

lemma allocate_gpu_ready:
  assumes "ready me ctx st s" "0 < n"
  shows "\<exists>s'. AllocateArray me n GPU s = (Inr (Some (next_id (device s))), s') \<and>
     stepped me ctx st s ((blocks s)(next_id (device s) \<mapsto> map (junk me) [0..<n]))
       (insert (next_id (device s)) (live (device s))) (Suc (next_id (device s))) s'"
proof -
  have rel: "succeeds (cuda_of me) c n" for c n using ready_cuda [OF assms(1)] by simp
  show ?thesis
    using assms
    by (auto simp: AllocateArray_def on_gpu_def create_or_throw_def create_def cuda_def rel fresh_resource_def GPU_ERROR_CHECK_def
        fill_def set_block_def st_bind_def stepped_def ready_def less_Suc_eq)
qed

lemma allocate_cpu_ready:
  assumes "ready me ctx st s" "0 < n"
  shows "\<exists>s'. AllocateArray me n CPU s = (Inr (Some (next_id (device s))), s') \<and>
     stepped me ctx st s ((blocks s)(next_id (device s) \<mapsto> map (junk me) [0..<n]))
       (insert (next_id (device s)) (live (device s))) (Suc (next_id (device s))) s'"
  using assms
  by (auto simp: AllocateArray_def on_gpu_def fresh_resource_def fill_def set_block_def st_bind_def stepped_def ready_def less_Suc_eq)

lemma destroy_ready:
  assumes "ready me ctx st s" "r \<in> live (device s)" "r \<noteq> st"
  shows "\<exists>s'. DestroyArray me (Some r) pl s = (Inr (), s') \<and>
     stepped me ctx st s ((blocks s)(r := None)) (live (device s) - {r}) (next_id (device s)) s'"
proof -
  have rel: "succeeds (cuda_of me) c n" for c n using ready_cuda [OF assms(1)] by simp
  show ?thesis
    using assms
    by (cases pl)
       (auto simp: DestroyArray_def on_gpu_def GPU_ERROR_CHECK_def cudaFree_def destroy_def use_resource_def cuda_def rel st_gets_def
         delete_host_def set_block_def st_bind_def stepped_def ready_def)
qed

lemma r_vector_ready:
  assumes "ready me ctx st s"
  shows "\<exists>s'. r_vector xs s = (Inr (next_id (device s)), s') \<and>
     stepped me ctx st s ((blocks s)(next_id (device s) \<mapsto> vector_bytes xs)) (live (device s)) (Suc (next_id (device s))) s'"
  using assms by (auto simp: r_vector_def stepped_def ready_def less_Suc_eq)

lemma memcpy_ready:
  assumes "ready me ctx st s" "0 < n" "kind \<noteq> HOST_TO_HOST" "blocks s d = Some old" "blocks s r = Some new"
    "n \<le> length old" "n \<le> length new"
  shows "\<exists>s'. MemCpy me (Some d) (Some r) n (Some ctx) kind s = (Inr (), s') \<and>
     stepped me ctx st s ((blocks s)(d \<mapsto> take n new @ drop n old)) (live (device s)) (next_id (device s)) s'"
proof -
  have rel: "succeeds (cuda_of me) c n" for c n using ready_cuda [OF assms(1)] by simp
  show ?thesis
    using assms
    by (auto simp: MemCpy_def on_stream_def on_gpu_def device_context_def the_context_def assigned_def GPU_ERROR_CHECK_def
        use_resource_def cuda_def rel st_gets_def copy_bytes_def sync_if_needed_def st_bind_def stepped_def ready_def)
qed

lemma vector_add_ready:
  assumes "ready me ctx st s" "0 < n" "blocks s a = Some av" "blocks s b = Some bv" "blocks s r = Some rv"
    "length av = 8 * n" "length bv = 8 * n" "length rv = 8 * n" "runs_all me" "n + 255 < 2 ^ 32"
  shows "\<exists>s'. VectorAdd me (Some a) (Some b) (Some r) n ctx s = (Inr (), s') \<and>
     stepped me ctx st s
       ((blocks s)(r \<mapsto> vector_bytes (map2 (add_double me) (u64s_of_bytes n av) (u64s_of_bytes n bv))))
       (live (device s)) (next_id (device s)) s'"
proof -
  have rel: "succeeds (cuda_of me) c n" for c n using ready_cuda [OF assms(1)] by simp
  have len: "length (u64s_of_bytes n bs) = n" for bs by (induction n arbitrary: bs) simp_all
  have "kernel_add me (doubles n av) (doubles n bv) n (doubles n rv) = map2 (add_double me) (u64s_of_bytes n av) (u64s_of_bytes n bv)"
    using kernel_add_value [OF assms(9,10), of "doubles n av" "doubles n bv" "doubles n rv"] assms(6-8)
    by (simp add: doubles_def len)
  then have launch: "launch_binary (kernel_add me) (Some a) (Some b) (Some r) n s = (Inr (),
      s\<lparr>blocks := (blocks s)(r \<mapsto> vector_bytes (map2 (add_double me) (u64s_of_bytes n av) (u64s_of_bytes n bv)))\<rparr>)"
    using assms(2-8) by (simp add: launch_binary_def)
  show ?thesis
    using assms(1)
    by (auto simp: VectorAdd_def launch on_gpu_def GetStream_def device_part_def the_context_def assigned_def RunContext_Sync_def
        GPU_ERROR_CHECK_def use_resource_def cuda_def rel st_gets_def st_bind_def stepped_def ready_def)
qed

lemmas stepped_parts = stepped_def

lemma stepped_ready: "stepped me ctx st s bl lv nx s' \<Longrightarrow> ready me ctx st s'"
  by (simp add: stepped_def)

lemma copy_bytes_ready:
  assumes "ready me ctx st s" "blocks s d = Some old" "blocks s r = Some new" "n \<le> length old" "n \<le> length new"
  shows "\<exists>s'. copy_bytes (Some d) (Some r) n s = (Inr (), s') \<and>
     stepped me ctx st s ((blocks s)(d \<mapsto> take n new @ drop n old)) (live (device s)) (next_id (device s)) s'"
  using assms by (auto simp: copy_bytes_def stepped_def ready_def)

lemma result_vector_ready:
  assumes "ready me ctx st s" "0 < n" "blocks s h = Some (vector_bytes ys)" "length ys = n" "h \<noteq> next_id (device s)"
  shows "\<exists>s'. result_vector (Some h) n s = (Inr (next_id (device s)), s') \<and>
     stepped me ctx st s ((blocks s)(next_id (device s) \<mapsto> vector_bytes ys)) (live (device s)) (Suc (next_id (device s))) s'"
proof -
  let ?N = "next_id (device s)" and ?z = "vector_bytes (replicate n 0)"
  from r_vector_ready [OF assms(1), of "replicate n 0"] obtain s1 where
    s1: "r_vector (replicate n 0) s = (Inr ?N, s1)" "stepped me ctx st s ((blocks s)(?N \<mapsto> ?z)) (live (device s)) (Suc ?N) s1" by blast
  have len: "length ?z = 8 * n" "length (vector_bytes ys) = 8 * n"
    using length_vector_bytes [of "replicate n 0"] length_vector_bytes [of ys] assms(4) by simp_all
  have "blocks s1 ?N = Some ?z" "blocks s1 h = Some (vector_bytes ys)"
    using s1(2) assms(3,5) by (simp_all add: stepped_def)
  from copy_bytes_ready [OF stepped_ready [OF s1(2)] this, of "8 * n"] len obtain s2 where
    s2: "copy_bytes (Some ?N) (Some h) (8 * n) s1 = (Inr (), s2)"
      "stepped me ctx st s1 ((blocks s1)(?N \<mapsto> vector_bytes ys)) (live (device s1)) (next_id (device s1)) s2" by auto
  show ?thesis
    using s1 s2 assms(2) by (auto simp: result_vector_def st_bind_def stepped_def)
qed

lemma vector_values_ready:
  "blocks s y = Some (vector_bytes ys) \<Longrightarrow> vector_values y s = (Inr ys, s)"
  by (simp add: vector_values_def)

lemma vector_add_ready_empty:
  assumes "ready me ctx st s"
  shows "\<exists>s'. VectorAdd me None None None 0 ctx s = (Inr (), s')"
proof -
  have rel: "succeeds (cuda_of me) c n" for c n using ready_cuda [OF assms] by simp
  show ?thesis
    using assms
    by (auto simp: VectorAdd_def launch_binary_def on_gpu_def GetStream_def device_part_def the_context_def assigned_def
        RunContext_Sync_def GPU_ERROR_CHECK_def use_resource_def cuda_def rel st_gets_def st_bind_def ready_def)
qed

section \<open>Steps as triples\<close>

text \<open>Exactly these resources, blocks and external pointers; \<open>k\<close> is the next number.\<close>

definition holding :: "mem_env \<Rightarrow> nat \<Rightarrow> nat \<Rightarrow> (nat \<Rightarrow> (nat \<times> nat) option) \<times> nat \<Rightarrow> nat \<Rightarrow> nat set \<Rightarrow> (nat \<Rightarrow> byte list option) \<Rightarrow> memory \<Rightarrow> bool" where
  "holding me ctx st ext k lv bl s \<longleftrightarrow>
     ready me ctx st s \<and> next_id (device s) = k \<and> live (device s) = lv \<and> blocks s = bl \<and> (externals s, next_external s) = ext"

abbreviation never :: "exn \<Rightarrow> memory \<Rightarrow> bool" where
  "never \<equiv> \<lambda>_ _. False"

lemma meets_value_bind:
  "meets P m (\<lambda>r s. P' s \<and> r = v) E \<Longrightarrow> meets P' (f v) Q E \<Longrightarrow> meets P (st_bind m f) Q E"
  by (rule meets_bind) (auto simp: meets_def)

lemma stepped_meets:
  assumes "\<And>s. holding me ctx st ext k lv bl s \<Longrightarrow> \<exists>s'. m s = (Inr v, s') \<and> stepped me ctx st s bl' lv' k' s'"
  shows "meets (holding me ctx st ext k lv bl) m (\<lambda>r s. holding me ctx st ext k' lv' bl' s \<and> r = v) never"
proof -
  have "holding me ctx st ext k' lv' bl' s'" if "holding me ctx st ext k lv bl s" "stepped me ctx st s bl' lv' k' s'" for s s'
    using that by (auto simp: holding_def stepped_def)
  with assms show ?thesis by (fastforce simp: meets_def)
qed

lemma step_r_vector:
  "meets (holding me ctx st ext k lv bl) (r_vector xs)
     (\<lambda>r s. holding me ctx st ext (Suc k) lv (bl(k \<mapsto> vector_bytes xs)) s \<and> r = k) never"
  by (rule stepped_meets) (use r_vector_ready in \<open>auto simp: holding_def\<close>)

lemma step_active:
  "meets (holding me ctx st ext k lv bl) (active_gpu_context me) (\<lambda>r s. holding me ctx st ext k lv bl s \<and> r = ctx) never"
  by (rule stepped_meets) (use active_ready in \<open>auto simp: holding_def\<close>)

lemma step_allocate:
  "0 < n \<Longrightarrow> meets (holding me ctx st ext k lv bl) (AllocateArray me n pl)
     (\<lambda>r s. holding me ctx st ext (Suc k) (insert k lv) (bl(k \<mapsto> map (junk me) [0..<n])) s \<and> r = Some k) never"
  by (cases pl; rule stepped_meets) (use allocate_gpu_ready allocate_cpu_ready in \<open>auto simp: holding_def\<close>)

lemma step_memcpy:
  "0 < n \<Longrightarrow> kind \<noteq> HOST_TO_HOST \<Longrightarrow> bl d = Some old \<Longrightarrow> bl r = Some new \<Longrightarrow> n = length old \<Longrightarrow> n = length new \<Longrightarrow>
     meets (holding me ctx st ext k lv bl) (MemCpy me (Some d) (Some r) n (Some ctx) kind)
       (\<lambda>u s. holding me ctx st ext k lv (bl(d \<mapsto> new)) s \<and> u = ()) never"
  by (rule stepped_meets) (use memcpy_ready [of me ctx st _ n kind d old r new] in \<open>auto simp: holding_def\<close>)

lemma step_destroy:
  "r \<in> lv \<Longrightarrow> r \<noteq> st \<Longrightarrow>
     meets (holding me ctx st ext k lv bl) (DestroyArray me (Some r) pl)
       (\<lambda>u s. holding me ctx st ext k (lv - {r}) (bl(r := None)) s \<and> u = ()) never"
  by (rule stepped_meets) (use destroy_ready in \<open>auto simp: holding_def\<close>)

lemma step_vector_add:
  assumes "0 < n" "bl a = Some (vector_bytes av)" "bl b = Some (vector_bytes bv)" "bl r = Some rv"
    "length av = n" "length bv = n" "length rv = 8 * n" "runs_all me" "n + 255 < 2 ^ 32"
  shows "meets (holding me ctx st ext k lv bl) (VectorAdd me (Some a) (Some b) (Some r) n ctx)
     (\<lambda>u s. holding me ctx st ext k lv (bl(r \<mapsto> vector_bytes (map2 (add_double me) av bv))) s \<and> u = ()) never"
proof (rule stepped_meets)
  fix s assume s: "holding me ctx st ext k lv bl s"
  have "u64s_of_bytes n (vector_bytes av) = av" "u64s_of_bytes n (vector_bytes bv) = bv"
    using u64s_of_vector_bytes [of av] u64s_of_vector_bytes [of bv] assms(5,6) by simp_all
  with vector_add_ready [of me ctx st s n a "vector_bytes av" b "vector_bytes bv" r rv] assms s
    length_vector_bytes [of av] length_vector_bytes [of bv]
  show "\<exists>s'. VectorAdd me (Some a) (Some b) (Some r) n ctx s = (Inr (), s') \<and>
      stepped me ctx st s (bl(r \<mapsto> vector_bytes (map2 (add_double me) av bv))) lv k s'"
    by (simp add: holding_def)
qed

lemma step_result:
  "0 < n \<Longrightarrow> bl h = Some (vector_bytes ys) \<Longrightarrow> length ys = n \<Longrightarrow> h \<noteq> k \<Longrightarrow>
     meets (holding me ctx st ext k lv bl) (result_vector (Some h) n)
       (\<lambda>r s. holding me ctx st ext (Suc k) lv (bl(k \<mapsto> vector_bytes ys)) s \<and> r = k) never"
  by (rule stepped_meets) (use result_vector_ready in \<open>auto simp: holding_def\<close>)

lemma step_finish:
  "bl y = Some (vector_bytes ys) \<Longrightarrow> lv' = lv \<Longrightarrow>
     meets (holding me ctx st ext k lv' bl) (vector_values y)
       (\<lambda>r s. (\<exists>k' bl'. holding me ctx st ext k' lv bl' s) \<and> r = ys) never"
  by (auto simp: meets_def holding_def vector_values_ready)

lemma step_stop:
  "\<not> b \<Longrightarrow> meets (holding me ctx st ext k lv bl) (stop_if b t) (\<lambda>u s. holding me ctx st ext k lv bl s \<and> u = ()) never"
  by (simp add: stop_if_def meets_def)

lemma holding_start: "ready me ctx st s \<Longrightarrow> holding me ctx st (externals s, next_external s) (next_id (device s)) (live (device s)) (blocks s) s"
  by (simp add: holding_def)

lemma vector_add_body_meets:
  assumes "runs_all me" "length a = length b" "length a + 255 < 2 ^ 32" "a \<noteq> []" "st < k" "\<forall>r \<in> lv. r < k"
  shows "meets (holding me ctx st ext k lv bl) (vector_add_body me a b)
     (\<lambda>r s. (\<exists>k' bl'. holding me ctx st ext k' lv bl' s) \<and> r = map2 (add_double me) a b) never"
proof -
  have n: "0 < length a" "0 < 8 * length a" using assms(4) by simp_all
  have len: "length (vector_bytes b) = 8 * length a"
    using assms(2) by simp
  note [simp] = assms(4) assms(2) [symmetric]
  show ?thesis
    unfolding vector_add_body_def Let_def
    apply (rule meets_value_bind [OF step_r_vector])
    apply (rule meets_value_bind [OF step_r_vector])
    apply (rule meets_value_bind [OF step_active])
    apply (rule meets_value_bind [OF step_stop], simp)
    apply (rule meets_value_bind [OF step_allocate], simp)
    apply (rule meets_value_bind [OF step_allocate], simp)
    apply (rule meets_value_bind [OF step_allocate], simp)
    apply (rule meets_value_bind [OF step_stop], simp)
    apply (rule meets_value_bind [OF step_memcpy], simp, simp, simp, simp, simp, simp)
    apply (rule meets_value_bind [OF step_memcpy], simp, simp, simp, simp, simp, simp)
    apply (rule meets_value_bind [OF step_vector_add], simp, simp, simp, simp, simp, simp, simp, rule assms(1), rule assms(3))
    apply (rule meets_value_bind [OF step_allocate], simp)
    apply (rule meets_value_bind [OF step_stop], simp)
    apply (rule meets_value_bind [OF step_memcpy], simp, simp, simp, simp, simp, simp)
    apply (rule meets_value_bind [OF step_result], simp, simp, simp, simp)
    apply (rule meets_value_bind [OF step_destroy], simp, use assms(5) in simp)
    apply (rule meets_value_bind [OF step_destroy], simp, use assms(5) in simp)
    apply (rule meets_value_bind [OF step_destroy], simp, use assms(5) in simp)
    apply (rule meets_value_bind [OF step_destroy], simp, use assms(5) in simp)
    apply (rule step_finish, simp)
    using assms(6) by (auto simp: insert_Diff_if)
qed

lemma roundtrip_body_meets:
  assumes "x \<noteq> []" "st < k" "\<forall>r \<in> lv. r < k"
  shows "meets (holding me ctx st ext k lv bl) (roundtrip_body me x)
     (\<lambda>r s. (\<exists>k' bl'. holding me ctx st ext k' lv bl' s) \<and> r = x) never"
proof -
  note [simp] = assms(1)
  show ?thesis
    unfolding roundtrip_body_def Let_def
    apply (rule meets_value_bind [OF step_r_vector])
    apply (rule meets_value_bind [OF step_active])
    apply (rule meets_value_bind [OF step_allocate], simp)
    apply (rule meets_value_bind [OF step_allocate], simp)
    apply (rule meets_value_bind [OF step_stop], simp)
    apply (rule meets_value_bind [OF step_memcpy], simp, simp, simp, simp, simp, simp)
    apply (rule meets_value_bind [OF step_memcpy], simp, simp, simp, simp, simp, simp)
    apply (rule meets_value_bind [OF step_result], simp, simp, simp, simp)
    apply (rule meets_value_bind [OF step_destroy], simp, use assms(2) in simp)
    apply (rule meets_value_bind [OF step_destroy], simp, use assms(2) in simp)
    apply (rule step_finish, simp)
    using assms(3) by (auto simp: insert_Diff_if)
qed

section \<open>Properties\<close>

lemma run_total:
  assumes "meets P m (\<lambda>r s. Q s \<and> r = v) never" "P s"
  shows "\<exists>s'. m s = (Inr v, s') \<and> Q s'"
proof -
  obtain r s' where run: "m s = (r, s')" by fastforce
  show ?thesis
    using meets_Inr [OF assms] meets_Inl [OF assms] run by (cases r) auto
qed

text \<open>
  C27. With a GPU context in place and no CUDA failure, adding two vectors of the same positive
  length on the device returns their elementwise sums whatever the order in which the kernel's
  threads run; a vector sent to the device and back is unchanged; and both free every buffer
  they allocate. Adding two empty vectors is refused. The vectors have fewer than \<open>2 ^ 32 - 255\<close>
  elements, so that the 32-bit numbers of the threads do not wrap.
\<close>

theorem gpu_vectors_correct:
  assumes "ready me ctx st s" "runs_all me" "length a = length b" "length a + 255 < 2 ^ 32"
  shows "(if a = [] then fst (rcompss_gpu_vector_add me a b s) =
             Inl (Rcpp_exception ''GPU vector addition failed: Host memory allocation failed.'')
          else \<exists>s'. rcompss_gpu_vector_add me a b s = (Inr (map2 (add_double me) a b), s') \<and>
              ready me ctx st s' \<and> live (device s') = live (device s))
       \<and> (\<exists>s'. rcompss_gpu_memory_roundtrip_double me a s = (Inr a, s') \<and>
              ready me ctx st s' \<and> live (device s') = live (device s))"
proof -
  note hold = holding_start [OF assms(1)]
  have k: "st < next_id (device s)" "\<forall>r \<in> live (device s). r < next_id (device s)" using assms(1) by (simp_all add: ready_def)
  note cuda = ready_cuda(1) [OF assms(1)]
  show ?thesis
  proof (cases "a = []")
    case False
    from run_total [OF vector_add_body_meets [OF assms(2-4) False k] hold] obtain s1 where
      s1: "vector_add_body me a b s = (Inr (map2 (add_double me) a b), s1)" "ready me ctx st s1" "live (device s1) = live (device s)"
      by (auto simp: holding_def)
    from run_total [OF roundtrip_body_meets [OF False k] hold] obtain s2 where
      s2: "roundtrip_body me a s = (Inr a, s2)" "ready me ctx st s2" "live (device s2) = live (device s)"
      by (auto simp: holding_def)
    show ?thesis
      using s1 s2 False cuda
      by (simp add: rcompss_gpu_vector_add_def rcompss_gpu_memory_roundtrip_double_def stop_with_def st_catch_def)
  next
    case True
    then have b: "b = []" using assms(3) by simp
    from r_vector_ready [OF assms(1), of "[]"] obtain s1 where s1: "r_vector [] s = (Inr (next_id (device s)), s1)"
      "ready me ctx st s1" "live (device s1) = live (device s)" by (auto simp: stepped_def)
    from active_ready [OF s1(2)] obtain s3 where s3: "active_gpu_context me s1 = (Inr ctx, s3)" "ready me ctx st s3"
      "live (device s3) = live (device s)" by (auto simp: stepped_def s1)
    from r_vector_ready [OF s3(2), of "[]"] obtain s4 where s4: "r_vector [] s3 = (Inr (next_id (device s3)), s4)" "ready me ctx st s4"
      "live (device s4) = live (device s)" "blocks s4 (next_id (device s3)) = Some []" by (auto simp: stepped_def s3 vector_bytes_def)
    have "roundtrip_body me [] s = (Inr [], s4)"
      using s1 s3 s4
      by (simp add: roundtrip_body_def st_bind_def AllocateArray_def stop_if_def MemCpy_def result_vector_def DestroyArray_def vector_values_def)
    note round = this
    from r_vector_ready [OF s1(2), of "[]"] obtain s2 where s2: "r_vector [] s1 = (Inr (next_id (device s1)), s2)" "ready me ctx st s2"
      by (auto simp: stepped_def)
    from active_ready [OF s2(2)] obtain s5 where s5: "active_gpu_context me s2 = (Inr ctx, s5)" "ready me ctx st s5"
      by (auto simp: stepped_def)
    from vector_add_ready_empty [OF s5(2)] obtain s6 where s6: "VectorAdd me None None None 0 ctx s5 = (Inr (), s6)" by blast
    have "vector_add_body me [] [] s = (Inl (Rcpp_exception ''Host memory allocation failed.''), s6)"
      using s1 s2 s5 s6
      by (simp add: vector_add_body_def st_bind_def AllocateArray_def stop_if_def MemCpy_def)
    then show ?thesis
      using True b round s4 cuda
      by (simp add: rcompss_gpu_vector_add_def rcompss_gpu_memory_roundtrip_double_def stop_with_def st_catch_def)
  qed
qed

text \<open>A device with one GPU context, whose CUDA never fails and whose threads run in order.\<close>

definition gpu_env :: mem_env where
  "gpu_env = \<lparr>cuda_of = \<lparr>use_cuda = True, succeeds = (\<lambda>_ _. True), error_string = (\<lambda>_. []), iterate = (\<lambda>xs. xs)\<rparr>,
     junk = (\<lambda>_. 0), add_double = (+), schedule = (\<lambda>ts. ts)\<rparr>"

definition gpu_state :: memory where
  "gpu_state =
     \<lparr>device = \<lparr>ctx_heap = [0 \<mapsto> blank_context\<lparr>mOperationPlacement := GPU, mCudaStream := Some 1, mRunMode := ASYNC\<rparr>], live = {1}, next_id = 2,
        calls_made = 0, mpInstance = Some \<lparr>mContexts = [(''default'', 0)], mpCurrentContext = Some 0, mpGPUContext = None\<rparr>, messages = []\<rparr>,
      blocks = Map.empty, externals = Map.empty, next_external = 0\<rparr>"

lemma gpu_state_ready: "ready gpu_env 0 1 gpu_state"
  by (simp add: ready_def gpu_env_def gpu_state_def reliable_def blank_context_def)

theorem gpu_vectors_correct_witness:
  "\<exists>s'. rcompss_gpu_vector_add gpu_env [1, 2] [3, 4] gpu_state = (Inr [4, 6], s') \<and> live (device s') = {1}"
proof -
  have "runs_all gpu_env" by (simp add: runs_all_def gpu_env_def)
  from gpu_vectors_correct [OF gpu_state_ready this, of "[1, 2]" "[3, 4]"] show ?thesis
    by (auto simp: gpu_env_def gpu_state_def)
qed

section \<open>The life of a buffer held by R\<close>

lemma step_current:
  "meets (holding me ctx st ext k lv bl) (on_gpu (GetOperationContext (cuda_of me))) (\<lambda>r s. holding me ctx st ext k lv bl s \<and> r = ctx) never"
  using run_current(1) by (auto simp: meets_def holding_def)

lemma step_placement:
  "meets (holding me ctx st ext k lv bl) (on_gpu (RunContext_GetOperationPlacement ctx))
     (\<lambda>r s. holding me ctx st ext k lv bl s \<and> r = GPU) never"
  using run_current(2) by (auto simp: meets_def holding_def)

lemma step_check:
  "ex i = Some b \<Longrightarrow> meets (holding me ctx st (ex, nx) k lv bl) (check_gpu_handle (External i))
     (\<lambda>r s. holding me ctx st (ex, nx) k lv bl s \<and> r = b) never"
  by (auto simp: meets_def holding_def check_gpu_handle_def st_bind_gets_apply)

text \<open>The calls run under what \<open>holding\<close> says of the build.\<close>

lemma meets_cuda_build:
  "(use_cuda (cuda_of me) \<Longrightarrow> meets (holding me ctx st ext k lv bl) m Q E) \<Longrightarrow>
     meets (holding me ctx st ext k lv bl) (if \<not> use_cuda (cuda_of me) then m' else m) Q E"
  by (cases "use_cuda (cuda_of me)") (simp, simp add: meets_def holding_def ready_def)

lemma step_alloc_handle:
  assumes "0 < n"
  shows "meets (holding me ctx st (ex, nx) k lv bl) (rcompss_gpu_alloc me (int n))
     (\<lambda>r s. holding me ctx st (ex(nx \<mapsto> (k, n * 8)), Suc nx) (Suc k) (insert k lv) (bl(k \<mapsto> map (junk me) [0..<n * 8])) s \<and> r = External nx)
     never"
  unfolding rcompss_gpu_alloc_def
  apply (rule meets_cuda_build)
  using assms apply (simp only: of_nat_le_0_iff nat_int if_False not_gr_zero [symmetric] not_not not_True_eq_False)
  apply (rule meets_value_bind [OF step_current])
  apply (rule meets_value_bind [OF step_placement])
  apply (rule meets_value_bind [OF step_stop], simp)
  apply (rule meets_value_bind [OF step_allocate], simp)
  by (auto simp: meets_def holding_def ready_def)

lemma step_copy_to_handle:
  assumes "xs \<noteq> []" "ex i = Some (r, 8 * length xs)" "bl r = Some old" "length old = 8 * length xs" "r < k"
  shows "meets (holding me ctx st (ex, nx) k lv bl) (rcompss_copy_to_gpu me xs (External i))
     (\<lambda>u s. holding me ctx st (ex, nx) (Suc k) lv (bl(k \<mapsto> vector_bytes xs, r \<mapsto> vector_bytes xs)) s \<and> u = ()) never"
  unfolding rcompss_copy_to_gpu_def
  apply (rule meets_cuda_build)
  apply (rule meets_value_bind [OF step_r_vector])
  apply (rule meets_value_bind [OF step_check], rule assms(2))
  apply (simp only: prod.case Let_def)
  apply (rule meets_value_bind [OF step_stop], simp)
  apply (rule meets_value_bind [OF step_current])
  by (rule step_memcpy) (use assms in auto)

lemma step_copy_from_handle:
  assumes "xs \<noteq> []" "ex i = Some (r, 8 * length xs)" "bl r = Some (vector_bytes xs)" "r < k"
  shows "meets (holding me ctx st (ex, nx) k lv bl) (rcompss_copy_from_gpu me (External i))
     (\<lambda>ys s. holding me ctx st (ex, nx) (Suc k) lv (bl(k \<mapsto> vector_bytes xs)) s \<and> ys = xs) never"
proof -
  have out: "meets (holding me ctx st ext k' lv' bl') (vector_values y) (\<lambda>ys s. holding me ctx st ext k' lv' bl' s \<and> ys = xs) never"
    if "bl' y = Some (vector_bytes xs)" for ext k' lv' bl' y
    using that by (auto simp: meets_def holding_def vector_values_ready)
  have n: "8 * length xs div 8 = length xs" "0 < length xs" using assms(1) by simp_all
  show ?thesis
    unfolding rcompss_copy_from_gpu_def
    apply (rule meets_cuda_build)
    apply (rule meets_value_bind [OF step_check], rule assms(2))
    apply (simp only: prod.case Let_def n if_True)
    apply (rule meets_value_bind [OF step_r_vector])
    apply (rule meets_value_bind)
     apply (rule meets_value_bind [OF step_current])
     apply (rule step_memcpy [where old = "vector_bytes (replicate (length xs) 0)" and new = "vector_bytes xs"])
          apply (use assms in auto)[6]
    apply (rule meets_weaken [OF out])
       apply (auto simp: holding_def)
    done
qed

lemma step_free_handle:
  assumes "ex i = Some (r, n)" "r \<in> lv" "r \<noteq> st"
  shows "meets (holding me ctx st (ex, nx) k lv bl) (rcompss_gpu_free me (External i))
     (\<lambda>u s. holding me ctx st (ex(i := None), nx) k (lv - {r}) (bl(r := None)) s \<and> u = ()) never"
proof -
  have get: "meets (holding me ctx st (ex, nx) k lv bl) (st_gets (\<lambda>s. externals s i))
      (\<lambda>b s. holding me ctx st (ex, nx) k lv bl s \<and> b = Some (r, n)) never"
    using assms(1) by (auto simp: meets_def st_gets_def holding_def)
  show ?thesis
    unfolding rcompss_gpu_free_def
    apply (rule meets_cuda_build)
    apply (simp only: gpu_handle.case)
    apply (rule meets_value_bind [OF get])
    apply (simp only: option.case prod.case)
    apply (rule meets_value_bind [OF step_destroy [OF assms(2,3)]])
    by (auto simp: meets_def holding_def ready_def)
qed

text \<open>What an R program does with a buffer.\<close>

definition gpu_session :: "mem_env \<Rightarrow> u64 list \<Rightarrow> (memory, gpu_handle \<times> u64 list) st" where
  "gpu_session me xs =
     st_bind (rcompss_gpu_alloc me (int (length xs))) (\<lambda>h.
     st_bind (rcompss_copy_to_gpu me xs h) (\<lambda>_.
     st_bind (rcompss_copy_from_gpu me h) (\<lambda>ys.
     st_bind (rcompss_gpu_free me h) (\<lambda>_. st_return (h, ys)))))"

text \<open>
  C28. A buffer allocated from R returns what was copied into it, is released by freeing it, and
  is not reachable afterwards: reading through the handle is refused and freeing again does
  nothing.
\<close>

theorem gpu_buffer_lifecycle:
  assumes "ready me ctx st s" "xs \<noteq> []"
  shows "\<exists>h s'. gpu_session me xs s = (Inr (h, xs), s') \<and> live (device s') = live (device s) \<and>
     rcompss_copy_from_gpu me h s' = (Inl (Rcpp_exception ''GPU buffer handle is null or already freed.''), s') \<and>
     fst (rcompss_gpu_free me h s') = Inr () \<and> live (device (snd (rcompss_gpu_free me h s'))) = live (device s)"
proof -
  let ?k = "next_id (device s)" and ?i = "next_external s" and ?n = "length xs"
  have k: "st < ?k" "\<forall>r \<in> live (device s). r < ?k" using assms(1) by (simp_all add: ready_def)
  have n: "0 < ?n" using assms(2) by simp
  have session: "\<exists>k' bl'. meets (holding me ctx st (externals s, ?i) ?k (live (device s)) (blocks s)) (gpu_session me xs)
      (\<lambda>r s'. holding me ctx st ((externals s)(?i := None), Suc ?i) k' (live (device s)) bl' s' \<and> r = (External ?i, xs)) never"
    unfolding gpu_session_def
    apply (intro exI)
    apply (rule meets_value_bind [OF step_alloc_handle [OF n]])
    apply (rule meets_value_bind [OF step_copy_to_handle [OF assms(2)]], simp, simp, simp, simp)
    apply (rule meets_value_bind [OF step_copy_from_handle [OF assms(2)]], simp, simp, simp)
    apply (rule meets_value_bind [OF step_free_handle], simp, simp, use k in simp)
    by (rule meets_return) (use k in \<open>auto simp: insert_Diff_if\<close>)
  then obtain k' bl' where "meets (holding me ctx st (externals s, ?i) ?k (live (device s)) (blocks s)) (gpu_session me xs)
      (\<lambda>r s'. holding me ctx st ((externals s)(?i := None), Suc ?i) k' (live (device s)) bl' s' \<and> r = (External ?i, xs)) never"
    by blast
  from run_total [OF this holding_start [OF assms(1)]] obtain s' where
    s': "gpu_session me xs s = (Inr (External ?i, xs), s')" "live (device s') = live (device s)" "externals s' ?i = None"
    by (auto simp: holding_def)
  have "rcompss_copy_from_gpu me (External ?i) s' = (Inl (Rcpp_exception ''GPU buffer handle is null or already freed.''), s')"
    using s'(3) ready_cuda(1) [OF assms(1)]
    by (simp add: rcompss_copy_from_gpu_def check_gpu_handle_def st_bind_def st_gets_def)
  moreover have "rcompss_gpu_free me (External ?i) s' = (Inr (), s'\<lparr>externals := (externals s')(?i := None)\<rparr>)"
    using s'(3) ready_cuda(1) [OF assms(1)]
    by (simp add: rcompss_gpu_free_def st_bind_def st_gets_def)
  ultimately show ?thesis using s' by (intro exI [of _ "External ?i"] exI [of _ s']) simp
qed

theorem gpu_buffer_lifecycle_witness:
  "\<exists>h s'. gpu_session gpu_env [7] gpu_state = (Inr (h, [7]), s') \<and> live (device s') = {1}"
  using gpu_buffer_lifecycle [OF gpu_state_ready, of "[7]"] by (auto simp: gpu_state_def)

end
