(* ===== verification/Gpu_Copy.thy ===== *)
theory Gpu_Copy
  imports Gpu_Memory
begin

text \<open>
  Copies that change the precision of numbers: \<^verbatim>\<open>memory::Copy\<close> and \<^verbatim>\<open>CopyDevice\<close> of
  \<^verbatim>\<open>kernels/MemoryHandler.cpp\<close> and the kernel of \<^verbatim>\<open>kernels/cuda/CudaMemoryKernels.cu\<close>. The conversion
  of one number, \<^verbatim>\<open>static_cast\<close>, is a parameter; buffers are given by their start.
\<close>

section \<open>Elements of a buffer\<close>

datatype precision = Float | Double

primrec width :: "precision \<Rightarrow> nat" where
  "width Float = 4"
| "width Double = 8"

definition elem :: "nat \<Rightarrow> nat \<Rightarrow> byte list \<Rightarrow> byte list" where
  "elem w i bs = take w (drop (w * i) bs)"

definition put_elem :: "nat \<Rightarrow> nat \<Rightarrow> byte list \<Rightarrow> byte list \<Rightarrow> byte list" where
  "put_elem w i x bs = take (w * i) bs @ x @ drop (w * i + w) bs"

type_synonym cast = "precision \<Rightarrow> precision \<Rightarrow> byte list \<Rightarrow> byte list"

text \<open>Every number becomes one of the right size.\<close>

definition proper_cast :: "cast \<Rightarrow> bool" where
  "proper_cast cast \<longleftrightarrow> (\<forall>T X x. length x = width T \<longrightarrow> length (cast T X x) = width X)"

section \<open>CudaMemoryKernels\<close>

text \<open>One thread: it reads the source as the threads before it left the memory.\<close>

definition PerformCopy ::
    "cast \<Rightarrow> precision \<Rightarrow> precision \<Rightarrow> nat \<Rightarrow> nat \<Rightarrow> nat \<Rightarrow> nat \<Rightarrow> (nat \<Rightarrow> byte list option) \<Rightarrow> nat \<Rightarrow> byte list option" where
  "PerformCopy cast T X apSource apDestination aNumElements tid bl =
     (if tid < aNumElements then
        (case (bl apSource, bl apDestination) of
           (Some src, Some des) \<Rightarrow> bl(apDestination \<mapsto> put_elem (width X) tid (cast T X (elem (width T) tid src)) des)
         | _ \<Rightarrow> bl)
      else bl)"

text \<open>Copying element by element in the given order; outside of the buffers it is undefined.\<close>

definition copy_in_order ::
    "cast \<Rightarrow> precision \<Rightarrow> precision \<Rightarrow> nat option \<Rightarrow> nat option \<Rightarrow> nat \<Rightarrow> nat list \<Rightarrow> (memory, unit) st" where
  "copy_in_order cast T X apSource apDestination n order =
     (\<lambda>s. if n = 0 then (Inr (), s) else
        (case (apSource, apDestination) of
           (Some r, Some d) \<Rightarrow>
             (case (blocks s r, blocks s d) of
                (Some src, Some des) \<Rightarrow>
                  if width T * n \<le> length src \<and> width X * n \<le> length des
                  then (Inr (), s\<lparr>blocks := fold (PerformCopy cast T X r d n) order (blocks s)\<rparr>)
                  else (Inl Undefined_behaviour, s)
              | _ \<Rightarrow> (Inl Undefined_behaviour, s))
         | _ \<Rightarrow> (Inl Undefined_behaviour, s)))"

definition CudaMemoryKernels_Copy ::
    "mem_env \<Rightarrow> cast \<Rightarrow> precision \<Rightarrow> precision \<Rightarrow> nat option \<Rightarrow> nat option \<Rightarrow> nat \<Rightarrow> nat \<Rightarrow> (memory, unit) st" where
  "CudaMemoryKernels_Copy me cast T X apSource apDestination aNumElements aContext =
     st_bind (on_gpu (GetStream aContext)) (\<lambda>_.
     st_bind (copy_in_order cast T X apSource apDestination aNumElements (schedule me (thread_ids aNumElements))) (\<lambda>_.
     on_gpu (RunContext_Sync (cuda_of me) aContext)))"

section \<open>MemoryHandler\<close>

text \<open>\<^verbatim>\<open>std::copy\<close> is undefined when the destination starts inside the source.\<close>

definition std_copy :: "cast \<Rightarrow> precision \<Rightarrow> precision \<Rightarrow> nat option \<Rightarrow> nat option \<Rightarrow> nat \<Rightarrow> (memory, unit) st" where
  "std_copy cast T X apSource apDestination n =
     (if 0 < n \<and> apSource = apDestination then st_throw Undefined_behaviour
      else copy_in_order cast T X apSource apDestination n [0..<n])"

definition CopyDevice ::
    "mem_env \<Rightarrow> cast \<Rightarrow> precision \<Rightarrow> precision \<Rightarrow> nat option \<Rightarrow> nat option \<Rightarrow> nat \<Rightarrow> (memory, unit) st" where
  "CopyDevice me cast T X apSource apDestination aNumElements =
     st_bind (on_gpu (GetOperationContext (cuda_of me))) (\<lambda>current.
     st_bind (on_gpu (RunContext_GetOperationPlacement current)) (\<lambda>pl.
     st_bind (if pl = CPU then on_gpu (GetGPUContext (cuda_of me)) else st_return current) (\<lambda>context.
     CudaMemoryKernels_Copy me cast T X apSource apDestination aNumElements context)))"

definition memory_Copy ::
    "mem_env \<Rightarrow> cast \<Rightarrow> precision \<Rightarrow> precision \<Rightarrow> nat option \<Rightarrow> nat option \<Rightarrow> nat \<Rightarrow> OperationPlacement \<Rightarrow> (memory, unit) st" where
  "memory_Copy me cast T X apSource apDestination aNumElements aOperationPlacement =
     (if aOperationPlacement = CPU then std_copy cast T X apSource apDestination aNumElements
      else if use_cuda (cuda_of me) then CopyDevice me cast T X apSource apDestination aNumElements
      else st_throw (Std_exception ''CUDA Copy cannot be performed with CPU Compiled code''))"

section \<open>The order of the elements does not matter\<close>

lemma length_elem: "w * n \<le> length bs \<Longrightarrow> i < n \<Longrightarrow> length (elem w i bs) = w"
proof -
  assume "w * n \<le> length bs" "i < n"
  then have "w * i + w \<le> w * n" by (metis Suc_leI add.commute mult_Suc_right mult_le_mono2)
  with \<open>w * n \<le> length bs\<close> show ?thesis by (simp add: elem_def)
qed

lemma length_put_elem: "w * n \<le> length bs \<Longrightarrow> i < n \<Longrightarrow> length x = w \<Longrightarrow> length (put_elem w i x bs) = length bs"
proof -
  assume a: "w * n \<le> length bs" "i < n" "length x = w"
  then have "w * i + w \<le> w * n" by (metis Suc_leI add.commute mult_Suc_right mult_le_mono2)
  with a show ?thesis by (simp add: put_elem_def)
qed

lemma nth_put_elem:
  assumes "w * n \<le> length bs" "i < n" "length x = w" "p < length bs"
  shows "put_elem w i x bs ! p = (if w * i \<le> p \<and> p < w * i + w then x ! (p - w * i) else bs ! p)"
proof -
  have "w * i + w \<le> w * n" using assms(2) by (metis Suc_leI add.commute mult_Suc_right mult_le_mono2)
  then have "w * i + w \<le> length bs" using assms(1) by linarith
  with assms(3,4) show ?thesis by (auto simp: put_elem_def nth_append)
qed

lemma width_pos [simp]: "0 < width T"
  by (cases T) simp_all

lemma in_element: "0 < w \<Longrightarrow> w * i \<le> p \<and> p < w * i + w \<longleftrightarrow> p div w = (i :: nat)"
  by (metis add.commute div_nat_eqI dividend_less_times_div mult.commute mult_Suc times_div_less_eq_dividend)

lemma length_chunks: "(\<And>i. i < n \<Longrightarrow> length (f i) = w) \<Longrightarrow> length (concat (map f [0..<n])) = w * n"
  by (induction n) simp_all

lemma chunks_nth:
  assumes "0 < w"
  shows "(\<And>i. i < n \<Longrightarrow> length (f i) = w) \<Longrightarrow> p < w * n \<Longrightarrow> concat (map f [0..<n]) ! p = f (p div w) ! (p mod w)"
proof (induction n)
  case (Suc n)
  have len: "length (concat (map f [0..<n])) = w * n"
    using Suc.prems(1) by (intro length_chunks) simp
  show ?case
  proof (cases "p < w * n")
    case True
    then show ?thesis using Suc len by (simp add: nth_append)
  next
    case False
    with Suc.prems(2) have "p div w = n" using in_element [OF assms, of n p] by simp
    moreover from this have "p - w * n = p mod w" by (metis minus_mult_div_eq_mod)
    ultimately show ?thesis using False len by (simp add: nth_append)
  qed
qed simp

lemma fold_copy:
  assumes "proper_cast cast" "r \<noteq> d" "bl r = Some src" "width T * n \<le> length src"
  shows "bl d = Some des \<Longrightarrow> width X * n \<le> length des \<Longrightarrow>
    \<exists>D. fold (PerformCopy cast T X r d n) ts bl = bl(d \<mapsto> D) \<and> length D = length des \<and>
      (\<forall>p < length des. D ! p = (if p < width X * n \<and> p div width X \<in> set ts
         then cast T X (elem (width T) (p div width X) src) ! (p mod width X) else des ! p))"
  using assms(3)
proof (induction ts arbitrary: bl des)
  case Nil
  then show ?case by (intro exI [of _ des]) auto
next
  case (Cons t ts)
  let ?w = "width X" and ?x = "cast T X (elem (width T) t src)"
  show ?case
  proof (cases "t < n")
    case False
    then have "PerformCopy cast T X r d n t bl = bl" by (simp add: PerformCopy_def)
    moreover have "p div ?w \<noteq> t" if "p < ?w * n" for p
      using that False by (metis less_mult_imp_div_less mult.commute)
    ultimately show ?thesis using Cons.IH [OF Cons.prems] by (auto cong: conj_cong)
  next
    case True
    let ?des = "put_elem ?w t ?x des"
    have x: "length ?x = ?w" using assms(1,4) True length_elem unfolding proper_cast_def by blast
    have len: "length ?des = length des" by (rule length_put_elem [OF Cons.prems(2) True x])
    have step: "PerformCopy cast T X r d n t bl = bl(d \<mapsto> ?des)"
      using True Cons.prems(1,3) by (simp add: PerformCopy_def)
    have bound: "?w * n \<le> length ?des" using Cons.prems(2) len by simp
    have src: "(bl(d \<mapsto> ?des)) r = Some src" using Cons.prems(3) assms(2) by simp
    from Cons.IH [where bl = "bl(d \<mapsto> ?des)", OF fun_upd_same bound src] obtain D where
      D: "fold (PerformCopy cast T X r d n) ts (bl(d \<mapsto> ?des)) = bl(d \<mapsto> D)" "length D = length des"
        "\<forall>p < length des. D ! p = (if p < ?w * n \<and> p div ?w \<in> set ts
           then cast T X (elem (width T) (p div ?w) src) ! (p mod ?w) else ?des ! p)" unfolding len fun_upd_upd by blast
    have "?des ! p = (if p div ?w = t then ?x ! (p mod ?w) else des ! p)" if "p < length des" for p
      unfolding nth_put_elem [OF Cons.prems(2) True x that] in_element [OF width_pos]
      by (auto simp: minus_mult_div_eq_mod)
    moreover have "p < ?w * n" if "p div ?w = t" for p
      using that True by (metis div_less_iff_less_mult mult.commute width_pos)
    ultimately show ?thesis
      using D by (intro exI [of _ D]) (auto simp: step)
  qed
qed

lemma copy_in_any_order:
  assumes "proper_cast cast" "r \<noteq> d" "bl r = Some src" "width T * n \<le> length src" "bl d = Some des" "width X * n \<le> length des"
    and "{0..<n} \<subseteq> set ts"
  shows "fold (PerformCopy cast T X r d n) ts bl =
    bl(d \<mapsto> concat (map (\<lambda>i. cast T X (elem (width T) i src)) [0..<n]) @ drop (width X * n) des)"
proof -
  let ?w = "width X" and ?f = "\<lambda>i. cast T X (elem (width T) i src)"
  from fold_copy [OF assms(1-6), of ts] obtain D where
    D: "fold (PerformCopy cast T X r d n) ts bl = bl(d \<mapsto> D)" "length D = length des"
      "\<And>p. p < length des \<Longrightarrow> D ! p = (if p < ?w * n \<and> p div ?w \<in> set ts then ?f (p div ?w) ! (p mod ?w) else des ! p)" by blast
  have f: "length (?f i) = ?w" if "i < n" for i using assms(1) length_elem [OF assms(4) that] by (simp add: proper_cast_def)
  have "D = concat (map ?f [0..<n]) @ drop (?w * n) des"
  proof (rule nth_equalityI)
    show "length D = length (concat (map ?f [0..<n]) @ drop (?w * n) des)"
      using D(2) length_chunks [OF f] assms(6) by simp
    fix p assume "p < length D"
    then have p: "p < length des" using D(2) by simp
    show "D ! p = (concat (map ?f [0..<n]) @ drop (?w * n) des) ! p"
    proof (cases "p < ?w * n")
      case True
      then have "p div ?w < n" by (metis less_mult_imp_div_less mult.commute)
      then have "p div ?w \<in> set ts" using assms(7) by auto
      with True show ?thesis using D(3) [OF p] chunks_nth [OF width_pos f True] length_chunks [OF f] by (simp add: nth_append)
    next
      case False
      then show ?thesis using D(3) [OF p] length_chunks [OF f] p by (simp add: nth_append)
    qed
  qed
  with D(1) show ?thesis by simp
qed

lemma copy_in_order_value:
  assumes "proper_cast cast" "r \<noteq> d" "blocks s r = Some src" "width T * n \<le> length src" "blocks s d = Some des" "width X * n \<le> length des"
    and "{0..<n} \<subseteq> set order"
  shows "copy_in_order cast T X (Some r) (Some d) n order s = (Inr (),
    s\<lparr>blocks := (blocks s)(d \<mapsto> concat (map (\<lambda>i. cast T X (elem (width T) i src)) [0..<n]) @ drop (width X * n) des)\<rparr>)"
proof (cases "n = 0")
  case True
  then have "(blocks s)(d \<mapsto> concat (map (\<lambda>i. cast T X (elem (width T) i src)) [0..<n]) @ drop (width X * n) des) = blocks s"
    using assms(5) by (simp add: fun_upd_idem)
  with True show ?thesis by (simp add: copy_in_order_def)
next
  case False
  with assms copy_in_any_order [OF assms(1,2,3,4,5,6,7)] show ?thesis by (simp add: copy_in_order_def)
qed

text \<open>The multiplication kernel computes elementwise products, as the addition kernel sums.\<close>

lemma kernel_multiply_value:
  assumes "runs_all me" "n + 255 < 2 ^ 32" "length a = n" "length b = n" "length r = n"
  shows "kernel_multiply me mul a b n r = map2 mul a b"
proof -
  have "PerformVectorMultiply mul a b n = PerformVectorAdd mul a b n"
    by (intro ext) (simp add: PerformVectorMultiply_def PerformVectorAdd_def)
  then have "kernel_multiply me mul a b n r = kernel_add (me\<lparr>add_double := mul\<rparr>) a b n r"
    by (simp add: kernel_multiply_def kernel_add_def)
  also have "\<dots> = map2 mul a b"
    using kernel_add_value [of "me\<lparr>add_double := mul\<rparr>" n a b r] assms by (simp add: runs_all_def)
  finally show ?thesis .
qed

section \<open>Properties\<close>

text \<open>
  C35. Copying with a change of precision gives the same memory on the device, whatever the order
  of its threads, as on the host: the numbers of the source, each converted, at the start of the
  destination, and the rest of the destination as it was. There are fewer than \<open>2 ^ 32 - 255\<close> numbers,
  so that the 32-bit numbers of the threads do not wrap.
\<close>

theorem precision_copy_correct:
  assumes "ready me ctx st s" "runs_all me" "proper_cast cast" "src \<noteq> dst" "blocks s src = Some sv" "blocks s dst = Some dv"
    and "width T * n \<le> length sv" "width X * n \<le> length dv" "n + 255 < 2 ^ 32"
  shows "\<exists>s1 s2. memory_Copy me cast T X (Some src) (Some dst) n GPU s = (Inr (), s1) \<and>
      memory_Copy me cast T X (Some src) (Some dst) n CPU s = (Inr (), s2) \<and> blocks s1 = blocks s2 \<and>
      blocks s2 = (blocks s)(dst \<mapsto> concat (map (\<lambda>i. cast T X (elem (width T) i sv)) [0..<n]) @ drop (width X * n) dv) \<and>
      ready me ctx st s1 \<and> live (device s1) = live (device s)"
proof -
  let ?new = "(blocks s)(dst \<mapsto> concat (map (\<lambda>i. cast T X (elem (width T) i sv)) [0..<n]) @ drop (width X * n) dv)"
  note whole = copy_in_order_value [OF assms(3-5,7,6,8)]
  have rel: "succeeds (cuda_of me) c n" for c n using ready_cuda [OF assms(1)] by simp
  have "{0..<n} \<subseteq> set (schedule me (thread_ids n))"
    using thread_ids_cover [OF assms(9)] assms(2) by (simp add: runs_all_def)
  note launch = whole [OF this]
  have "\<exists>s1. CopyDevice me cast T X (Some src) (Some dst) n s = (Inr (), s1) \<and> blocks s1 = ?new \<and> ready me ctx st s1 \<and>
      live (device s1) = live (device s)"
    using assms(1)
    by (auto simp: CopyDevice_def CudaMemoryKernels_Copy_def run_current [OF assms(1)] launch on_gpu_def GetStream_def device_part_def
        the_context_def assigned_def RunContext_Sync_def GPU_ERROR_CHECK_def use_resource_def cuda_def rel st_gets_def st_bind_def
        ready_def GetOperationContext_def GetInstance_again RunContext_GetOperationPlacement_def)
  moreover have "memory_Copy me cast T X (Some src) (Some dst) n CPU s = (Inr (), s\<lparr>blocks := ?new\<rparr>)"
    using whole [of "[0..<n]"] assms(4) by (simp add: memory_Copy_def std_copy_def)
  ultimately show ?thesis
    using ready_cuda(1) [OF assms(1)] by (auto simp: memory_Copy_def)
qed

text \<open>A conversion that keeps the first bytes and fills up with zeros.\<close>

definition pad_cast :: cast where
  "pad_cast T X x = take (width X) (x @ replicate (width X) 0)"

lemma pad_cast_proper: "proper_cast pad_cast"
  by (auto simp: proper_cast_def pad_cast_def)

theorem precision_copy_correct_witness:
  "\<exists>s1. memory_Copy gpu_env pad_cast Float Double (Some 5) (Some 6) 1 GPU (gpu_state\<lparr>blocks := [5 \<mapsto> [1, 2, 3, 4], 6 \<mapsto> replicate 9 7]\<rparr>) = (Inr (), s1) \<and>
     blocks s1 6 = Some [1, 2, 3, 4, 0, 0, 0, 0, 7]"
proof -
  let ?s = "gpu_state\<lparr>blocks := [5 \<mapsto> [1, 2, 3, 4], 6 \<mapsto> replicate 9 7]\<rparr>"
  have ready: "ready gpu_env 0 1 ?s" using gpu_state_ready by (simp add: ready_def)
  have runs: "runs_all gpu_env" by (simp add: runs_all_def gpu_env_def)
  have "(\<exists>s1 s2. memory_Copy gpu_env pad_cast Float Double (Some 5) (Some 6) 1 GPU ?s = (Inr (), s1) \<and>
      memory_Copy gpu_env pad_cast Float Double (Some 5) (Some 6) 1 CPU ?s = (Inr (), s2) \<and> blocks s1 = blocks s2 \<and>
      blocks s2 = (blocks ?s)(6 \<mapsto> concat (map (\<lambda>i. pad_cast Float Double (elem (width Float) i [1, 2, 3, 4])) [0..<1]) @
        drop (width Double * 1) (replicate 9 7)) \<and> ready gpu_env 0 1 s1 \<and> live (device s1) = live (device ?s))"
    using precision_copy_correct [OF ready runs pad_cast_proper, of 5 6 "[1, 2, 3, 4]" "replicate 9 7" Float 1 Double] by simp
  then show ?thesis
    by (auto simp: pad_cast_def elem_def numeral_eq_Suc)
qed

end
