(* ===== verification/Serialize_Codec.thy ===== *)
theory Serialize_Codec
  imports Serialize_Api
begin

text \<open>
  What the readers of the package promise about its writers, as the interface \<open>codec\<close>, its
  interpretation on the native serializer, and the properties of the entry points of
  \<open>Serialize_Api\<close>: dispatch by file name, errors, waiting for futures.
\<close>

section \<open>The interface of a serialization method\<close>

text \<open>
  A writer, a reader, the objects and paths they handle in a state, and what reading makes
  of an object.
\<close>

locale codec =
  fixes save :: "sexp \<Rightarrow> string \<Rightarrow> ('s, unit) st"
    and load :: "string \<Rightarrow> ('s, sexp) st"
    and fits :: "sexp \<Rightarrow> string \<Rightarrow> 's \<Rightarrow> bool"
    and view :: "sexp \<Rightarrow> sexp"
  assumes saved: "fits x p s \<Longrightarrow> \<exists>s1 s2. save x p s = (Inr (), s1) \<and> load p s1 = (Inr (view x), s2)"
begin

lemma save_ok: "fits x p s \<Longrightarrow> fst (save x p s) = Inr ()"
  using saved [of x p s] by force

lemma load_ok: "fits x p s \<Longrightarrow> fst (load p (snd (save x p s))) = Inr (view x)"
  using saved [of x p s] by force

text \<open>Handlers around both ends change nothing on success.\<close>

lemma saved_catch:
  "fits x p s \<Longrightarrow> \<exists>s1 s2. st_catch (save x p) hs s = (Inr (), s1) \<and> st_catch (load p) hl s1 = (Inr (view x), s2)"
  using saved [of x p s] by (force simp: st_catch_def)

end

section \<open>The native method\<close>

text \<open>The machine takes the object and the reader has room for it.\<close>

definition cpp_fits :: "'x host \<Rightarrow> sexp \<Rightarrow> string \<Rightarrow> 'x node \<Rightarrow> bool" where
  "cpp_fits h x p s \<longleftrightarrow>
     r_object_api (c_api h) \<and> ample (c_api h) \<and>
     can_open (out_env h) p \<and> accepting (out_env h) \<and> (\<forall>out. closed (out_env h) out = out) \<and>
     wf_sexp x \<and> object_depth x \<le> frames h \<and> pp_height s + object_nodes x < pp_limit (c_api h)"

text \<open>Reading a file that holds the concrete syntax of an object.\<close>

definition readable :: "'x host \<Rightarrow> sexp \<Rightarrow> 'x node \<Rightarrow> bool" where
  "readable h x s \<longleftrightarrow>
     r_object_api (c_api h) \<and> ample (c_api h) \<and>
     wf_sexp x \<and> object_depth x \<le> frames h \<and> pp_height s + object_nodes x < pp_limit (c_api h)"

lemma native_read:
  assumes "readable h x s" "to_wire x = Some w" "files s p = Some (file_bytes w)"
  shows "cpp_read h p s = (Inr (norm_sexp x), s)"
proof -
  from assms(1) have api: "r_object_api (c_api h)" "ample (c_api h)"
    and x: "wf_sexp x" "object_depth x \<le> frames h" "pp_height s + object_nodes x < pp_limit (c_api h)"
    by (simp_all add: readable_def)
  from r_object_api.build_norm(1) [OF api(1) x(1)] assms(2) have
    w: "wire_ok w" "build (c_api h) w = Inr (norm_sexp x)" by auto
  have fit: "wire_depth w \<le> frames h" "pp_height s + nodes w < pp_limit (c_api h)"
    using x(2,3) assms(2) by (simp_all add: object_depth_def object_nodes_def)
  have v: "kMinReadVersion \<le> kVersion" "3 \<le> kVersion" "kVersion \<le> kVersion"
    by (simp_all add: kMinReadVersion_def kVersion_def)
  have "read_file (c_api h) (frames h) \<lparr>rest = file_bytes w, pp_stack = pp_height s, protect_count = 0\<rparr>
      = (Inr (norm_sexp x), \<lparr>rest = [], pp_stack = pp_height s, protect_count = nodes w\<rparr>)"
    using read_file_reads [OF api(2) v(1,3) w(1) wire_in_current [OF v(2)] w(2) fit, of "[]"]
    by (simp add: file_bytes_versioned)
  then show ?thesis
    using assms(3) by (simp add: cpp_read_def unserializeSEXP_def)
qed

lemma native_write:
  assumes "cpp_write h x p s = (Inr (), s')" "\<forall>out. closed (out_env h) out = out"
  shows "\<exists>w. to_wire x = Some w \<and> s' = s\<lparr>files := (files s)(p \<mapsto> file_bytes w)\<rparr>"
proof -
  from assms have "write_file (out_env h) x [] = (Inr (), snd (write_file (out_env h) x []))"
    and s': "s' = s\<lparr>files := (files s)(p \<mapsto> snd (write_file (out_env h) x []))\<rparr>"
    by (auto simp: cpp_write_def serializeSEXP_def split: if_splits prod.splits)
  from write_file_ok [OF this(1)] s' show ?thesis by auto
qed

lemma native_roundtrip:
  assumes "cpp_fits h x p s"
  shows "\<exists>w. to_wire x = Some w
     \<and> cpp_write h x p s = (Inr (), s\<lparr>files := (files s)(p \<mapsto> file_bytes w)\<rparr>)
     \<and> cpp_read h p (s\<lparr>files := (files s)(p \<mapsto> file_bytes w)\<rparr>)
         = (Inr (norm_sexp x), s\<lparr>files := (files s)(p \<mapsto> file_bytes w)\<rparr>)"
proof -
  from assms have api: "r_object_api (c_api h)"
    and env: "can_open (out_env h) p" "accepting (out_env h)" "\<forall>out. closed (out_env h) out = out"
    and x: "wf_sexp x" and r: "readable h x s"
    by (simp_all add: cpp_fits_def readable_def)
  from r_object_api.build_norm(1) [OF api x] obtain w where
    w: "to_wire x = Some w" "wire_ok w" by blast
  have "serializeSEXP (out_env h) x p fs = (Inr (), fs(p \<mapsto> file_bytes w))" for fs
    using env(1,3) write_file_delivers [OF env(2) w(1,2)] by (simp add: serializeSEXP_def)
  moreover have "readable h x (s\<lparr>files := (files s)(p \<mapsto> file_bytes w)\<rparr>)" using r by (simp add: readable_def)
  from native_read [OF this w(1), of p] have "cpp_read h p (s\<lparr>files := (files s)(p \<mapsto> file_bytes w)\<rparr>)
      = (Inr (norm_sexp x), s\<lparr>files := (files s)(p \<mapsto> file_bytes w)\<rparr>)" by simp
  ultimately show ?thesis
    using w(1) by (simp add: cpp_write_def)
qed

interpretation native: codec "cpp_write h" "cpp_read h" "cpp_fits h" norm_sexp for h :: "'x host"
proof unfold_locales
  show "\<exists>s1 s2. cpp_write h x p s = (Inr (), s1) \<and> cpp_read h p s1 = (Inr (norm_sexp x), s2)"
    if "cpp_fits h x p s" for x p and s :: "'x node"
    using native_roundtrip [OF that] by blast
qed

section \<open>Dispatch\<close>

text \<open>The methods whose names the readers recognise.\<close>

definition known_method :: "string \<Rightarrow> bool" where
  "known_method m \<longleftrightarrow> m = ''cpp'' \<or> m = ''qs'' \<or> m = ''RMVL''"

lemma known_method_name: "known_method m \<Longrightarrow> method_name m \<and> m \<noteq> []"
  by (auto simp: known_method_def)

lemma lower_known [simp]: "lower ''cpp'' = ''cpp''" "lower ''qs'' = ''qs''" "lower ''RMVL'' = ''rmvl''"
  by code_simp+

interpretation native_with:
  codec "\<lambda>x p. serialize_with h x p ''cpp'' k" "\<lambda>p. unserialize_with h ''cpp'' p k" "cpp_fits h" norm_sexp
  for h :: "'x host" and k :: int
proof unfold_locales
  fix x p and s :: "'x node"
  assume "cpp_fits h x p s"
  from native_roundtrip [OF this] obtain w where
    "cpp_write h x p s = (Inr (), s\<lparr>files := (files s)(p \<mapsto> file_bytes w)\<rparr>)"
    "cpp_read h p (s\<lparr>files := (files s)(p \<mapsto> file_bytes w)\<rparr>)
       = (Inr (norm_sexp x), s\<lparr>files := (files s)(p \<mapsto> file_bytes w)\<rparr>)" by blast
  then show "\<exists>s1 s2. serialize_with h x p ''cpp'' k s = (Inr (), s1)
      \<and> unserialize_with h ''cpp'' p k s1 = (Inr (norm_sexp x), s2)"
    by (simp add: serialize_with_def unserialize_with_def cpp_load_def opens_def st_bind_gets_apply)
qed

lemma api_roundtrip:
  assumes "codec (\<lambda>x p. serialize_with h x p m k) (\<lambda>p. unserialize_with h m p k) fits view"
    and "extractSerializationMethod path = m" "m \<noteq> []" "fits x path s"
  shows "\<exists>s1 s2. rcompss_serialize h x path m k s = (Inr (), s1)
       \<and> rcompss_unserialize h path k s1 = (Inr (view x), s2)"
  using codec.saved_catch [OF assms(1,4)] assms(2,3)
  by (simp add: rcompss_serialize_def rcompss_unserialize_def)

lemma native_api:
  assumes "cpp_fits h x path s" "extractSerializationMethod path = ''cpp''"
  shows "\<exists>w. to_wire x = Some w
     \<and> rcompss_serialize h x path ''cpp'' k s = (Inr (), s\<lparr>files := (files s)(path \<mapsto> file_bytes w)\<rparr>)
     \<and> rcompss_unserialize h path k (s\<lparr>files := (files s)(path \<mapsto> file_bytes w)\<rparr>)
         = (Inr (norm_sexp x), s\<lparr>files := (files s)(path \<mapsto> file_bytes w)\<rparr>)"
  using native_roundtrip [OF assms(1)] assms(2)
  by (auto simp: rcompss_serialize_def serialize_with_def rcompss_unserialize_def unserialize_with_def
      cpp_load_def opens_def st_bind_gets_apply st_catch_def)

lemma api_read:
  assumes "readable h x s" "to_wire x = Some w" "files s path = Some (file_bytes w)"
    and "extractSerializationMethod path = ''cpp''"
  shows "rcompss_unserialize h path k s = (Inr (norm_sexp x), s)"
  using native_read [OF assms(1-3)] assms(3,4)
  by (simp add: rcompss_unserialize_def unserialize_with_def cpp_load_def opens_def st_bind_gets_apply st_catch_def)

lemma api_write:
  assumes "rcompss_serialize h x path ''cpp'' k s = (Inr (), s')" "\<forall>out. closed (out_env h) out = out"
  shows "\<exists>w. to_wire x = Some w \<and> s' = s\<lparr>files := (files s)(path \<mapsto> file_bytes w)\<rparr>"
proof -
  from assms(1) have "cpp_write h x path s = (Inr (), s')"
    by (auto simp: rcompss_serialize_def serialize_with_def st_catch_Inr_conv split: if_splits)
  from native_write [OF this assms(2)] show ?thesis .
qed

text \<open>
  What the code relies on of the two packages: their namespaces load, an object that \<^verbatim>\<open>qsave\<close> has
  stored \<^verbatim>\<open>qread\<close> returns as \<open>v\<close>, and so does reading the element \<^verbatim>\<open>obj\<close> of an RMVL file into which it
  was written under that name. Only functions of the packages occur here.
\<close>

definition namespace_loads :: "'x host \<Rightarrow> string \<Rightarrow> bool" where
  "namespace_loads h ns \<longleftrightarrow> (\<forall>s. require_namespace h ns s = (Inr True, s) \<and> get_namespace h ns s = (Inr (), s))"

definition qs_keeps :: "'x host \<Rightarrow> int \<Rightarrow> sexp \<Rightarrow> string \<Rightarrow> 'x node \<Rightarrow> sexp \<Rightarrow> bool" where
  "qs_keeps h k x p s v \<longleftrightarrow> namespace_loads h ''qs'' \<and>
     (\<exists>s1 s2. qs_qsave h x p k s = (Inr (), s1) \<and> files s1 p \<noteq> None \<and> qs_qread h p k s1 = (Inr v, s2))"

definition mvl_keeps :: "'x host \<Rightarrow> sexp \<Rightarrow> string \<Rightarrow> 'x node \<Rightarrow> sexp \<Rightarrow> bool" where
  "mvl_keeps h x p s v \<longleftrightarrow> namespace_loads h ''RMVL'' \<and>
     (\<exists>out s1 s2 s3 in_con s4 obj s5 s6 s7.
        mvl_open h True p s = (Inr out, s1) \<and> mvl_write_object h out x ''obj'' s1 = (Inr (), s2) \<and> mvl_close h out s2 = (Inr (), s3) \<and>
        mvl_open h False p s3 = (Inr in_con, s4) \<and> dollar h in_con ''obj'' s4 = (Inr obj, s5) \<and>
        mvl2R h obj s5 = (Inr v, s6) \<and> mvl_close h in_con s6 = (Inr (), s7))"

text \<open>With these laws each package is a codec, through the functions that choose by the method.\<close>

lemma qs_codec:
  "codec (\<lambda>x p. serialize_with h x p ''qs'' k) (\<lambda>p. unserialize_with h ''qs'' p k) (\<lambda>x p s. qs_keeps h k x p s (view x)) view"
proof unfold_locales
  fix x p s assume "qs_keeps h k x p s (view x)"
  then obtain s1 s2 where "namespace_loads h ''qs''" "qs_qsave h x p k s = (Inr (), s1)" "files s1 p \<noteq> None"
    "qs_qread h p k s1 = (Inr (view x), s2)" by (auto simp: qs_keeps_def)
  then show "\<exists>s1 s2. serialize_with h x p ''qs'' k s = (Inr (), s1) \<and> unserialize_with h ''qs'' p k s1 = (Inr (view x), s2)"
    by (intro exI [of _ s1] exI [of _ s2])
       (simp add: serialize_with_def unserialize_with_def qs_save_def qs_load_def guard_qs_def namespace_loads_def opens_def
          st_bind_def st_catch_def st_gets_def st_return_def)
qed

lemma mvl_codec:
  "codec (\<lambda>x p. serialize_with h x p ''RMVL'' k) (\<lambda>p. unserialize_with h ''RMVL'' p k) (\<lambda>x p s. mvl_keeps h x p s (view x)) view"
proof unfold_locales
  fix x p s assume "mvl_keeps h x p s (view x)"
  then obtain out s1 s2 s3 in_con s4 obj s5 s6 s7 where
    "namespace_loads h ''RMVL''" "mvl_open h True p s = (Inr out, s1)" "mvl_write_object h out x ''obj'' s1 = (Inr (), s2)"
    "mvl_close h out s2 = (Inr (), s3)" "mvl_open h False p s3 = (Inr in_con, s4)" "dollar h in_con ''obj'' s4 = (Inr obj, s5)"
    "mvl2R h obj s5 = (Inr (view x), s6)" "mvl_close h in_con s6 = (Inr (), s7)"
    by (auto simp: mvl_keeps_def)
  then show "\<exists>s1 s2. serialize_with h x p ''RMVL'' k s = (Inr (), s1) \<and> unserialize_with h ''RMVL'' p k s1 = (Inr (view x), s2)"
    by (intro exI [of _ s3] exI [of _ s7])
       (simp add: serialize_with_def unserialize_with_def mvl_save_def mvl_write_def mvl_load_def namespace_loads_def
          st_bind_def st_catch_def st_return_def)
qed

section \<open>Files that are not in the native format\<close>

lemma read_file_foreign:
  assumes "take 4 bs \<noteq> u32_bytes kMagic"
  shows "\<exists>e s'. read_file api depth \<lparr>rest = bs, pp_stack = n, protect_count = 0\<rparr> = (Inl e, s')
           \<and> is_std_exception e"
proof (cases "4 \<le> length bs")
  case True
  then have "u32_of_bytes (take 4 bs) \<noteq> kMagic"
    using assms u32_bytes_u32_of_bytes [of "take 4 bs"] by auto
  with True show ?thesis by (simp add: read_file_def readU32_def readBytes_def st_bind_def)
next
  case False
  then show ?thesis by (simp add: read_file_def readU32_def readBytes_def st_bind_def)
qed

lemma cpp_read_foreign:
  assumes "files s path = Some bs" "take 4 bs \<noteq> u32_bytes kMagic"
  shows "\<exists>e s'. cpp_read h path s = (Inl e, s') \<and> is_std_exception e"
proof -
  from read_file_foreign [OF assms(2), of "c_api h" "frames h" "pp_height s"] obtain e r where
    "read_file (c_api h) (frames h) \<lparr>rest = bs, pp_stack = pp_height s, protect_count = 0\<rparr> = (Inl e, r)"
    "is_std_exception e" by blast
  then show ?thesis by (simp add: cpp_read_def unserializeSEXP_def assms(1))
qed

lemma unknown_prefix_reader:
  assumes "\<not> known_method (extractSerializationMethod path)"
  shows "unserialize_with h (extractSerializationMethod path) path k = cpp_read h path"
  using assms by (auto simp: known_method_def unserialize_with_def)

lemma serialize_spelling:
  assumes "lower m = lower m'" "m \<noteq> []" "known_method m'"
  shows "rcompss_serialize h x path m k = rcompss_serialize h x path m' k"
  using assms by (auto simp: rcompss_serialize_def serialize_with_def known_method_def)

section \<open>Waiting\<close>

text \<open>Objects whose class R reports without side effects.\<close>

definition plain_class :: "'x host \<Rightarrow> sexp \<Rightarrow> string list \<Rightarrow> bool" where
  "plain_class h x cs \<longleftrightarrow> (\<forall>s. class_of h x s = (Inr cs, s))"

lemma single_class_plain:
  "plain_class h x cs \<Longrightarrow> single_class h x s = (Inr (if length cs = 1 then cs ! 0 else []), s)"
  by (simp add: plain_class_def single_class_def st_bind_def)

lemma is_future_plain:
  "plain_class h x cs \<Longrightarrow> rcompss_is_future_object h x s = (Inr (cs = [''future_object'']), s)"
  by (cases cs; cases "tl cs")
     (simp_all add: rcompss_is_future_object_def st_bind_def single_class_plain isFutureObject_def)

lemma is_list_plain: "plain_class h x cs \<Longrightarrow> rcompss_is_list h x s = (Inr (cs = [''list'']), s)"
  by (cases cs; cases "tl cs")
     (simp_all add: rcompss_is_list_def st_bind_def single_class_plain isList_def)

lemma is_path_plain:
  "plain_class h x cs \<Longrightarrow> rcompss_is_future_object_path h x s = (Inr (cs = [''future_object_path'']), s)"
  by (cases cs; cases "tl cs")
     (simp_all add: rcompss_is_future_object_path_def st_bind_def single_class_plain isFutureObjectPath_def)

text \<open>\<open>delivers h I x v\<close>: from a state of \<open>I\<close>, fetching the future \<open>x\<close> yields \<open>v\<close> and stays in \<open>I\<close>.\<close>

definition delivers :: "'x host \<Rightarrow> int \<Rightarrow> ('x node \<Rightarrow> bool) \<Rightarrow> sexp \<Rightarrow> sexp \<Rightarrow> bool" where
  "delivers h k I x v \<longleftrightarrow> (\<forall>s. I s \<longrightarrow> (\<exists>s'. fetch_future h x k s = (Inr v, s') \<and> I s'))"

lemma wait_list:
  assumes "plain_class h (VECSXP xs a) [''list'']" "list_elements (conv h) (VECSXP xs a) = Inr xs"
    and "\<And>x. x \<in> set xs \<Longrightarrow> plain_class h x (cls x)"
    and "\<And>x. x \<in> set xs \<Longrightarrow> cls x = [''future_object''] \<Longrightarrow> delivers h k I x (val x)" "I s"
  shows "\<exists>s'. rcompss_wait_on h (VECSXP xs a) k n s
       = (Inr (VECSXP (map (\<lambda>x. if cls x = [''future_object''] then val x else x) xs) []), s') \<and> I s'"
proof -
  let ?g = "\<lambda>x. if cls x = [''future_object''] then val x else x"
  have "\<exists>s'. wait_element h k x s = (Inr (?g x), s') \<and> I s'" if "x \<in> set xs" "I s" for x s
    using assms(3,4) [OF that(1)] that(2)
    by (auto simp: wait_element_def st_bind_def is_future_plain delivers_def)
  from st_map_invariant [of xs I "wait_element h k" ?g s, OF this assms(5)] obtain s' where
    "st_map (wait_element h k) xs s = (Inr (map ?g xs), s')" "I s'" by blast
  then show ?thesis
    using assms(1,2)
    by (intro exI [of _ s'])
       (simp add: rcompss_wait_on_def wait_body_def st_catch_def st_bind_def is_future_plain is_list_plain)
qed

lemma wait_path_element:
  assumes "wait_path h k p s = (Inr v, s')"
  shows "v = r_string (case p of None \<Rightarrow> ''NA'' | Some q \<Rightarrow> q)
       \<or> (\<exists>t. fetch h (case p of None \<Rightarrow> ''NA'' | Some q \<Rightarrow> q) k s = (Inr v, t))"
  using assms by (auto simp: wait_path_def Let_def st_catch_Inr_conv st_bind_Inr_conv)

lemma wait_path_throws:
  assumes "throws_only (\<lambda>e. \<not> catchable e) (r_warning h (''File '' @
      (case p of None \<Rightarrow> ''NA'' | Some q \<Rightarrow> q) @ '' does not exist. Returning the original character.''))"
  shows "throws_only (\<lambda>e. \<not> catchable e) (wait_path h k p)"
  unfolding wait_path_def Let_def
  by (rule throws_only_catch, rule throws_only_bind, rule assms, rule throws_only_return)

lemma wait_paths:
  assumes "plain_class h x [''future_object_path'']" "strings_of (conv h) x = Inr ps"
    and "\<And>m. throws_only (\<lambda>e. \<not> catchable e) (r_warning h m)"
  shows "case rcompss_wait_on h x k n s of
      (Inr r, s') \<Rightarrow> \<exists>ys. r = VECSXP ys [] \<and> list_all2 (\<lambda>p y. \<exists>t t'. wait_path h k p t = (Inr y, t')) ps ys
    | (Inl e, s') \<Rightarrow> \<not> catchable e"
proof -
  have run: "rcompss_wait_on h x k n s = st_catch (st_bind (st_map (wait_path h k) ps)
      (\<lambda>ys. st_return (VECSXP ys []))) (\<lambda>e. if is_std_exception e
        then st_throw (Rcpp_exception (''Failed to wait on future object: '' @ what e)) else st_throw e) s"
    by (simp add: rcompss_wait_on_def wait_body_def st_catch_def st_bind_def
        is_future_plain [OF assms(1)] is_list_plain [OF assms(1)] is_path_plain [OF assms(1)] assms(2))
  have only: "throws_only (\<lambda>e. \<not> catchable e) (st_map (wait_path h k) ps)"
    by (intro throws_only_map wait_path_throws assms(3))
  show ?thesis
  proof (cases "st_map (wait_path h k) ps s")
    case (Pair r s')
    then show ?thesis
      using throws_onlyD [OF only] st_map_pointwise [of "wait_path h k" ps s]
      by (cases r) (auto simp: run st_catch_def st_bind_def)
  qed
qed

section \<open>A concrete host\<close>

definition class_attribute :: "sexp \<Rightarrow> string list" where
  "class_attribute x =
     (case alist_get (ATTRIB x) ''class'' of
        Some (STRSXP cs _) \<Rightarrow> map c_string cs
      | _ \<Rightarrow> (case x of VECSXP _ _ \<Rightarrow> [''list''] | STRSXP _ _ \<Rightarrow> [''character'']
                | INTSXP _ _ \<Rightarrow> [''integer''] | _ \<Rightarrow> [''NULL'']))"

definition example_host :: "unit host" where
  "example_host =
     \<lparr>getenv = (\<lambda>_. None), out_env = good_stream, c_api = reference_api 100, frames = 100,
      conv = reference_rcpp, class_of = (\<lambda>x s. (Inr (class_attribute x), s)),
      require_namespace = (\<lambda>_ s. (Inr True, s)), get_namespace = (\<lambda>_ s. (Inr (), s)),
      qs_qsave = (\<lambda>_ _ _ s. (Inl Foreign_exception, s)), qs_qread = (\<lambda>_ _ s. (Inl Foreign_exception, s)),
      geterrmessage = (\<lambda>s. (Inr ''disk full'', s)),
      mvl_open = (\<lambda>_ _ s. (Inr NILSXP, s)), mvl_write_object = (\<lambda>_ _ _ s. (Inr (), s)),
      mvl_close = (\<lambda>_ s. (Inr (), s)), dollar = (\<lambda>x _ s. (Inr x, s)), mvl2R = (\<lambda>x s. (Inr x, s)),
      gs_get_file = (\<lambda>_ _ s. s), r_warning = (\<lambda>_ s. (Inr (), s))\<rparr>"

definition empty_node :: "unit node" where
  "empty_node = \<lparr>files = Map.empty, pp_height = 0, session = ()\<rparr>"

definition future_object :: "string \<Rightarrow> sexp" where
  "future_object path =
     VECSXP [r_string path]
       [(''names'', STRSXP [CHARSXP CE_NATIVE (string_bytes ''outputfile'')] []),
        (''class'', r_string ''future_object'')]"

lemma example_host_simps [simp]:
  "getenv example_host v = None" "out_env example_host = good_stream" "c_api example_host = reference_api 100"
  "frames example_host = 100" "conv example_host = reference_rcpp"
  "class_of example_host x s = (Inr (class_attribute x), s)"
  "gs_get_file example_host i p s = s" "r_warning example_host m s = (Inr (), s)"
  by (simp_all add: example_host_def)

lemma example_fits:
  "wf_sexp x \<Longrightarrow> object_depth x \<le> 100 \<Longrightarrow> object_nodes x < 100 \<Longrightarrow> pp_height s = 0 \<Longrightarrow> cpp_fits example_host x p s"
  by (simp add: cpp_fits_def refapi.r_object_api_axioms)

section \<open>Properties\<close>

text \<open>
  C19. What \<^verbatim>\<open>rcompss_serialize\<close> stores with a method under an argument file name built for it is
  what \<^verbatim>\<open>rcompss_unserialize\<close> returns for that file, because the reader finds the method in the name
  and calls the reader that belongs to the writer: the native reader for \<^verbatim>\<open>cpp\<close>, whatever fits the
  format; \<^verbatim>\<open>qs::qread\<close> for what \<^verbatim>\<open>qs::qsave\<close> stored; the element \<^verbatim>\<open>obj\<close> of the RMVL file for what
  was written there. Of the packages only the round trip of their own functions is assumed.
\<close>

theorem methods_dispatched:
  assumes "plain_name arg_name" "plain_name uid" "path = buildArgumentFilename d m arg_name i uid"
    and "m = ''cpp'' \<and> cpp_fits h x path s \<and> v = norm_sexp x
       \<or> m = ''qs'' \<and> qs_keeps h k x path s v
       \<or> m = ''RMVL'' \<and> mvl_keeps h x path s v"
  shows "\<exists>s1 s2. rcompss_serialize h x path m k s = (Inr (), s1) \<and> rcompss_unserialize h path k s1 = (Inr v, s2)"
proof -
  have name: "extractSerializationMethod path = m" if "known_method m"
    using method_of_argument [OF _ assms(1,2)] known_method_name [OF that] assms(3) by simp
  from assms(4) consider "m = ''cpp''" "cpp_fits h x path s" "v = norm_sexp x"
    | "m = ''qs''" "qs_keeps h k x path s v" | "m = ''RMVL''" "mvl_keeps h x path s v" by blast
  then show ?thesis
  proof cases
    case 1
    with api_roundtrip [OF native_with.codec_axioms _ _ 1(2)] name show ?thesis by (simp add: known_method_def)
  next
    case 2
    with api_roundtrip [OF qs_codec [where view = "\<lambda>_. v"], where path = path and x = x and s = s] name show ?thesis by (simp add: known_method_def)
  next
    case 3
    with api_roundtrip [OF mvl_codec [where view = "\<lambda>_. v"], where path = path and x = x and s = s] name show ?thesis by (simp add: known_method_def)
  qed
qed

text \<open>Packages that keep their objects in the session, each under names of its own.\<close>

definition package_host :: "(string \<Rightarrow> sexp option) host" where
  "package_host =
     \<lparr>getenv = (\<lambda>_. None), out_env = good_stream, c_api = reference_api 100, frames = 100,
      conv = reference_rcpp, class_of = (\<lambda>x s. (Inr (class_attribute x), s)),
      require_namespace = (\<lambda>_ s. (Inr True, s)), get_namespace = (\<lambda>_ s. (Inr (), s)),
      qs_qsave = (\<lambda>x p _ s. (Inr (), s\<lparr>files := (files s)(p \<mapsto> [11]), session := (session s)(''qs:'' @ p \<mapsto> x)\<rparr>)),
      qs_qread = (\<lambda>p _ s. (case session s (''qs:'' @ p) of None \<Rightarrow> Inl Foreign_exception | Some x \<Rightarrow> Inr x, s)),
      geterrmessage = (\<lambda>s. (Inr ''no such object'', s)),
      mvl_open = (\<lambda>_ p s. (Inr (r_string p), s)),
      mvl_write_object = (\<lambda>c x nm s. (case as_string reference_rcpp c of Inl e \<Rightarrow> (Inl e, s)
         | Inr p \<Rightarrow> (Inr (), s\<lparr>session := (session s)(nm @ '':'' @ p \<mapsto> x)\<rparr>))),
      mvl_close = (\<lambda>_ s. (Inr (), s)),
      dollar = (\<lambda>c nm s. (res_bind (as_string reference_rcpp c) (\<lambda>p. Inr (r_string (nm @ '':'' @ p))), s)),
      mvl2R = (\<lambda>c s. (res_bind (as_string reference_rcpp c)
         (\<lambda>p. case session s p of None \<Rightarrow> Inl Foreign_exception | Some x \<Rightarrow> Inr x), s)),
      gs_get_file = (\<lambda>_ _ s. s), r_warning = (\<lambda>_ s. (Inr (), s))\<rparr>"

definition package_node :: "(string \<Rightarrow> sexp option) node" where
  "package_node = \<lparr>files = Map.empty, pp_height = 0, session = Map.empty\<rparr>"

theorem methods_dispatched_witness:
  "(\<exists>s1 s2. rcompss_serialize package_host (r_int 7) (buildArgumentFilename ''/w'' ''qs'' ''x'' 1 ''u'') ''qs'' 1 package_node = (Inr (), s1)
     \<and> rcompss_unserialize package_host (buildArgumentFilename ''/w'' ''qs'' ''x'' 1 ''u'') 1 s1 = (Inr (r_int 7), s2))
   \<and> (\<exists>s1 s2. rcompss_serialize package_host (r_int 8) (buildArgumentFilename ''/w'' ''RMVL'' ''x'' 1 ''u'') ''RMVL'' 1 package_node = (Inr (), s1)
     \<and> rcompss_unserialize package_host (buildArgumentFilename ''/w'' ''RMVL'' ''x'' 1 ''u'') 1 s1 = (Inr (r_int 8), s2))"
proof
  have "qs_keeps package_host 1 (r_int 7) p s (r_int 7)" for p s
    by (simp add: qs_keeps_def namespace_loads_def package_host_def)
  then show "\<exists>s1 s2. rcompss_serialize package_host (r_int 7) (buildArgumentFilename ''/w'' ''qs'' ''x'' 1 ''u'') ''qs'' 1 package_node = (Inr (), s1)
     \<and> rcompss_unserialize package_host (buildArgumentFilename ''/w'' ''qs'' ''x'' 1 ''u'') 1 s1 = (Inr (r_int 7), s2)"
    by (intro methods_dispatched [OF _ _ refl]) (simp_all add: is_separator_def)
  have "mvl_keeps package_host (r_int 8) p s (r_int 8)" for p s
    by (simp add: mvl_keeps_def namespace_loads_def package_host_def refrcpp.as_string_r_string)
  then show "\<exists>s1 s2. rcompss_serialize package_host (r_int 8) (buildArgumentFilename ''/w'' ''RMVL'' ''x'' 1 ''u'') ''RMVL'' 1 package_node = (Inr (), s1)
     \<and> rcompss_unserialize package_host (buildArgumentFilename ''/w'' ''RMVL'' ''x'' 1 ''u'') 1 s1 = (Inr (r_int 8), s2)"
    by (intro methods_dispatched [OF _ _ refl]) (simp_all add: is_separator_def)
qed

text \<open>
  A method the writer accepts in another spelling (\<^verbatim>\<open>QS\<close>, \<^verbatim>\<open>rmvl\<close>) writes the file exactly
  as the canonical one does, but the reader does not recognise the name of the file: any
  content that does not start with the native magic number is refused with an exception,
  whatever the state of the packages.
\<close>

theorem spelling_mismatch:
  fixes h :: "'x host"
  assumes "lower m = lower m'" "known_method m'" "method_name m" "\<not> known_method m"
    and "plain_name arg_name" "plain_name uid" "path = buildArgumentFilename d m arg_name i uid"
  shows "rcompss_serialize h x path m k = rcompss_serialize h x path m' k
       \<and> (\<forall>s bs. files s path = Some bs \<and> take 4 bs \<noteq> u32_bytes kMagic \<longrightarrow>
            (\<exists>t. fst (rcompss_unserialize h path k s)
                   = Inl (Rcpp_exception (''Failed to unserialize object: '' @ t))))"
proof (intro conjI allI impI)
  show "rcompss_serialize h x path m k = rcompss_serialize h x path m' k"
    using serialize_spelling [OF assms(1) _ assms(2)] assms(3) by (simp add: method_name_def)
next
  fix s :: "'x node" and bs assume a: "files s path = Some bs \<and> take 4 bs \<noteq> u32_bytes kMagic"
  have "extractSerializationMethod path = m"
    using method_of_argument [OF assms(3,5,6)] assms(7) by simp
  with assms(4) have reader: "unserialize_with h (extractSerializationMethod path) path k = cpp_read h path"
    by (intro unknown_prefix_reader) simp
  from cpp_read_foreign [of s path bs h] a obtain e s' where
    "cpp_read h path s = (Inl e, s')" "is_std_exception e" by blast
  then show "\<exists>t. fst (rcompss_unserialize h path k s)
      = Inl (Rcpp_exception (''Failed to unserialize object: '' @ t))"
    using is_std_exception_catchable by (auto simp: rcompss_unserialize_def reader st_catch_def)
qed

theorem spelling_mismatch_witness:
  "\<exists>t. fst (rcompss_unserialize example_host (buildArgumentFilename ''/w'' ''QS'' ''x'' 1 ''u'') 1
        (empty_node\<lparr>files := [buildArgumentFilename ''/w'' ''QS'' ''x'' 1 ''u'' \<mapsto> [11, 14, 10, 12]]\<rparr>))
     = Inl (Rcpp_exception (''Failed to unserialize object: '' @ t))"
proof -
  let ?p = "buildArgumentFilename ''/w'' ''QS'' ''x'' 1 ''u''"
  have low: "lower ''QS'' = lower ''qs''" by code_simp
  have magic: "take 4 [11, 14, 10, 12] \<noteq> u32_bytes kMagic" by code_simp
  have "method_name ''QS''" by (simp add: method_name_def is_separator_def)
  from conjunct2 [OF spelling_mismatch [OF low _ this _ _ _ refl, where h = example_host and k = 1]]
  show ?thesis
    using magic by (auto simp: known_method_def is_separator_def)
qed

text \<open>
  Whatever the packages, the runtime and R do, a C++ exception leaves
  \<^verbatim>\<open>rcompss_unserialize\<close> only as an \<^verbatim>\<open>Rcpp::exception\<close> whose message starts with
  \<^verbatim>\<open>Failed to unserialize object\<close>; \<^verbatim>\<open>rcompss_serialize\<close> does the same for its own prefix,
  except that it lets an exception foreign to \<^verbatim>\<open>std::exception\<close> through.
\<close>

theorem api_errors_prefixed:
  "(case fst (rcompss_unserialize h path k s) of
      Inl e \<Rightarrow> prefixed ''Failed to unserialize object: '' e | Inr _ \<Rightarrow> True)
   \<and> (case fst (rcompss_serialize h x path m k s) of
      Inl e \<Rightarrow> e = Foreign_exception \<or> prefixed ''Failed to serialize object: '' e | Inr _ \<Rightarrow> True)"
proof
  show "case fst (rcompss_unserialize h path k s) of
      Inl e \<Rightarrow> prefixed ''Failed to unserialize object: '' e | Inr _ \<Rightarrow> True"
    using throws_onlyD [OF unserialize_throws, of h path k s]
    by (cases "rcompss_unserialize h path k s") (auto split: sum.splits)
  show "case fst (rcompss_serialize h x path m k s) of
      Inl e \<Rightarrow> e = Foreign_exception \<or> prefixed ''Failed to serialize object: '' e | Inr _ \<Rightarrow> True"
    using throws_onlyD [OF serialize_throws, of h x path m k s]
    by (cases "rcompss_serialize h x path m k s") (auto split: sum.splits)
qed

text \<open>
  When the \<^verbatim>\<open>qs\<close> writer fails with something other than a standard exception, the error
  text fetched from R never reaches the caller: whatever \<^verbatim>\<open>geterrmessage\<close> returns, the
  exception says that the error is unknown.
\<close>

theorem qs_error_text_lost:
  assumes "lower m = ''qs''" "m \<noteq> []"
    and "require_namespace h ''qs'' s = (Inr True, s1)" "get_namespace h ''qs'' s1 = (Inr (), s2)"
    and "qs_qsave h x path k s2 = (Inl Foreign_exception, s3)" "geterrmessage h s3 = (Inr r_msg, s4)"
  shows "rcompss_serialize h x path m k s
    = (Inl (Rcpp_exception ''Failed to serialize object: Unknown error calling qs::qsave''), s4)"
  using assms
  by (simp add: rcompss_serialize_def serialize_with_def qs_save_def guard_qs_def st_catch_def st_bind_def)

theorem qs_error_text_lost_witness:
  "fst (rcompss_serialize example_host NILSXP ''/w/qs-x'' ''qs'' 1 empty_node)
     = Inl (Rcpp_exception ''Failed to serialize object: Unknown error calling qs::qsave'')"
  by (subst qs_error_text_lost [where ?s1.0 = empty_node and ?s2.0 = empty_node and ?s3.0 = empty_node
        and ?s4.0 = empty_node and r_msg = "''disk full''"])
     (simp_all add: example_host_def)

text \<open>
  C20. Waiting on a list: every element whose class is \<^verbatim>\<open>future_object\<close> is replaced by the
  object its file delivers, every other element is returned as it is, positions are kept,
  and only the fetches change the state.
\<close>

theorem wait_on_list:
  assumes "plain_class h (VECSXP xs a) [''list'']" "list_elements (conv h) (VECSXP xs a) = Inr xs"
    and "\<And>x. x \<in> set xs \<Longrightarrow> plain_class h x (cls x)"
    and "\<And>x. x \<in> set xs \<Longrightarrow> cls x = [''future_object''] \<Longrightarrow> delivers h k I x (val x)" "I s"
  shows "\<exists>s'. rcompss_wait_on h (VECSXP xs a) k n s
       = (Inr (VECSXP (map (\<lambda>x. if cls x = [''future_object''] then val x else x) xs) []), s') \<and> I s'"
  by (rule wait_list [OF assms])

theorem wait_on_list_witness:
  "\<exists>s. fst (rcompss_wait_on example_host (VECSXP [r_int 1, future_object ''/w/cpp-r''] []) 1 1 s)
     = Inr (VECSXP [r_int 1, norm_sexp (r_int 7)] [])"
proof -
  let ?fo = "future_object ''/w/cpp-r''"
  have wf: "cpp_fits example_host (r_int 7) ''/w/cpp-r'' empty_node"
    by (rule example_fits)
       (simp_all add: r_int_def wf_sexp.simps Rf_getAttrib_def object_depth_def object_nodes_def
         to_wire.simps empty_node_def)
  have "extractSerializationMethod ''/w/cpp-r'' = ''cpp''" by code_simp
  from native_api [OF wf this, of 1] obtain w where
    get: "rcompss_unserialize example_host ''/w/cpp-r'' 1
        (empty_node\<lparr>files := (files empty_node)(''/w/cpp-r'' \<mapsto> file_bytes w)\<rparr>)
      = (Inr (norm_sexp (r_int 7)), empty_node\<lparr>files := (files empty_node)(''/w/cpp-r'' \<mapsto> file_bytes w)\<rparr>)"
    by blast
  let ?s = "empty_node\<lparr>files := (files empty_node)(''/w/cpp-r'' \<mapsto> file_bytes w)\<rparr>"
  have path: "list_get reference_rcpp ?fo ''outputfile'' = Inr (r_string ''/w/cpp-r'')"
    "list_elements reference_rcpp ?fo = Inr [r_string ''/w/cpp-r'']"
    by (simp_all add: future_object_def refrcpp.get refrcpp.elements)
  have del: "delivers example_host 1 (\<lambda>s. s = ?s) ?fo (norm_sexp (r_int 7))"
    using get by (simp add: delivers_def fetch_future_def fetch_def Get_File_def st_bind_def path)
  have "\<exists>s'. rcompss_wait_on example_host (VECSXP [r_int 1, ?fo] []) 1 1 ?s
      = (Inr (VECSXP (map (\<lambda>x. if class_attribute x = [''future_object''] then norm_sexp (r_int 7) else x)
           [r_int 1, ?fo]) []), s') \<and> s' = ?s"
  proof (rule wait_on_list)
    fix x assume x: "x \<in> set [r_int 1, ?fo]" "class_attribute x = [''future_object'']"
    then have "x = ?fo" by (auto simp: class_attribute_def r_int_def)
    with del show "delivers example_host 1 (\<lambda>s. s = ?s) x (norm_sexp (r_int 7))" by simp
  qed (simp_all add: plain_class_def class_attribute_def refrcpp.elements)
  moreover have "class_attribute ?fo = [''future_object'']" "class_attribute (r_int 1) = [''integer'']"
    by (simp_all add: class_attribute_def future_object_def r_int_def r_string_def)
  ultimately show ?thesis by (intro exI [of _ ?s]) auto
qed

text \<open>
  Waiting on a vector of paths: unless a long jump or undefined behaviour carries
  control away, the call returns a list with one element per path, each of them the object
  read from the file of that path after fetching it, or the path itself.
\<close>

theorem wait_on_paths:
  assumes "plain_class h x [''future_object_path'']" "strings_of (conv h) x = Inr ps"
    and "\<And>m. throws_only (\<lambda>e. \<not> catchable e) (r_warning h m)"
  shows "case rcompss_wait_on h x k n s of
      (Inr r, s') \<Rightarrow> \<exists>ys. r = VECSXP ys [] \<and> length ys = length ps \<and>
         (\<forall>i < length ps. ys ! i = r_string (case ps ! i of None \<Rightarrow> ''NA'' | Some q \<Rightarrow> q)
            \<or> (\<exists>t t'. fetch h (case ps ! i of None \<Rightarrow> ''NA'' | Some q \<Rightarrow> q) k t = (Inr (ys ! i), t')))
    | (Inl e, s') \<Rightarrow> \<not> catchable e"
proof (cases "rcompss_wait_on h x k n s")
  case (Pair r s')
  show ?thesis
  proof (cases r)
    case (Inl e)
    with wait_paths [OF assms, of k n s] Pair show ?thesis by simp
  next
    case (Inr v)
    with wait_paths [OF assms, of k n s] Pair obtain ys where
      ys: "v = VECSXP ys []" "list_all2 (\<lambda>p y. \<exists>t t'. wait_path h k p t = (Inr y, t')) ps ys"
      by auto
    have "ys ! i = r_string (case ps ! i of None \<Rightarrow> ''NA'' | Some q \<Rightarrow> q)
        \<or> (\<exists>t t'. fetch h (case ps ! i of None \<Rightarrow> ''NA'' | Some q \<Rightarrow> q) k t = (Inr (ys ! i), t'))"
      if "i < length ps" for i
      using list_all2_nthD [OF ys(2) that] wait_path_element by blast
    with ys(1) list_all2_lengthD [OF ys(2)] Pair Inr show ?thesis by simp
  qed
qed

theorem wait_on_paths_witness:
  "\<exists>ys. fst (rcompss_wait_on example_host (STRSXP [NA_STRING] [(''class'', r_string ''future_object_path'')])
        1 1 empty_node) = Inr (VECSXP ys []) \<and> length ys = 1"
proof -
  let ?x = "STRSXP [NA_STRING] [(''class'', r_string ''future_object_path'')]"
  have "class_attribute ?x = [''future_object_path'']" by (simp add: class_attribute_def r_string_def)
  then have cls: "plain_class example_host ?x [''future_object_path'']" by (simp add: plain_class_def)
  have strs: "strings_of (conv example_host) ?x = Inr [None]" by (simp add: refrcpp.strings)
  have warn: "throws_only (\<lambda>e. \<not> catchable e) (r_warning example_host m)" for m
    by (simp add: throws_only_def example_host_def)
  have "\<not> known_method (extractSerializationMethod ''NA'')" by code_simp
  then have "\<exists>m. rcompss_unserialize example_host ''NA'' 1 empty_node = (Inl (Rcpp_exception m), empty_node)"
    by (simp add: rcompss_unserialize_def unknown_prefix_reader st_catch_def cpp_read_def unserializeSEXP_def empty_node_def)
  then obtain m where "rcompss_unserialize example_host ''NA'' 1 empty_node = (Inl (Rcpp_exception m), empty_node)"
    by blast
  then have elem: "wait_path example_host 1 None empty_node = (Inr (r_string ''NA''), empty_node)"
    by (simp add: wait_path_def Let_def st_catch_def st_bind_def fetch_def Get_File_def)
  have ok: "fst (rcompss_wait_on example_host ?x 1 1 empty_node) \<noteq> Inl e" for e
    using elem strs
    by (simp add: rcompss_wait_on_def wait_body_def st_catch_def st_bind_def is_future_plain [OF cls]
        is_list_plain [OF cls] is_path_plain [OF cls])
  from wait_on_paths [OF cls strs warn, of 1 1 empty_node] ok show ?thesis
    by (cases "rcompss_wait_on example_host ?x 1 1 empty_node"; cases "fst (rcompss_wait_on example_host ?x 1 1 empty_node)")
       auto
qed

end
