(* ===== verification/Task_Decorator.thy ===== *)
theory Task_Decorator
  imports Serialize_Codec
begin

text \<open>
  \<^verbatim>\<open>src/core/TaskDecorator.cpp\<close> and the functions of \<^verbatim>\<open>src/compssmodule.cpp\<close> that submit a
  call of a task: typing the arguments, the metadata vectors of the COMPSs call, the name of
  the return value, writing the arguments that travel as files, and the constraint string.
\<close>

section \<open>Surroundings\<close>

text \<open>
  What this part calls beyond \<open>host\<close>: the clock and the random engine of the UID generator
  and the R functions \<^verbatim>\<open>typeof\<close>, \<^verbatim>\<open>length\<close> and \<^verbatim>\<open>as.character\<close>, which are looked up by name
  and so may be anything; \<open>double_text\<close> is \<^verbatim>\<open>std::to_string(double)\<close>.
\<close>

record 'x task_env =
  host :: "'x host"
  clock :: "'x node \<Rightarrow> cpp_tm \<times> 'x node"
  draw :: "'x node \<Rightarrow> nat \<times> 'x node"
  typeof_of :: "sexp \<Rightarrow> ('x node, string) st"
  length_of :: "sexp \<Rightarrow> ('x node, int) st"
  as_character :: "sexp \<Rightarrow> ('x node, string list) st"
  double_text :: "u64 \<Rightarrow> string"

definition rcompss_generate_uid :: "'x task_env \<Rightarrow> ('x node, string) st" where
  "rcompss_generate_uid e =
     (\<lambda>s. case UIDGenerator_generate (clock e) (draw e) s of (uid, s') \<Rightarrow> (Inr uid, s'))"

definition rcompss_par_type_mapping :: "'x task_env \<Rightarrow> sexp \<Rightarrow> ('x node, int) st" where
  "rcompss_par_type_mapping e arg = st_bind (typeof_of e arg) (\<lambda>r_type. st_return (mapType r_type))"

definition rcompss_is_basic_type :: "'x task_env \<Rightarrow> sexp \<Rightarrow> ('x node, bool) st" where
  "rcompss_is_basic_type e arg =
     st_bind (single_class (host e) arg) (\<lambda>r_class.
     st_bind (typeof_of e arg) (\<lambda>r_type.
     st_bind (length_of e arg) (\<lambda>len. st_return (isBasicType r_class r_type len))))"

section \<open>Typing one argument\<close>

record ProcessedArgument =
  compss_type :: int
  content_type :: string
  needs_serialization :: bool
  is_future_object :: bool

definition processArgument :: "string \<Rightarrow> string \<Rightarrow> int \<Rightarrow> int \<Rightarrow> ProcessedArgument" where
  "processArgument r_class r_type len class_length =
     (if class_length = 1 \<and> len = 1 \<and> (r_class = ''integer'' \<or> r_class = ''numeric'' \<or> r_class = ''character'')
      then \<lparr>compss_type = mapType r_type, content_type = [], needs_serialization = False,
            is_future_object = False\<rparr>
      else if class_length = 1 \<and> r_class = ''future_object''
      then \<lparr>compss_type = 10, content_type = ''future_object'', needs_serialization = True,
            is_future_object = True\<rparr>
      else \<lparr>compss_type = 10, content_type = ''object'', needs_serialization = True,
            is_future_object = False\<rparr>)"

text \<open>The type and content type that are stored at the argument's index.\<close>

definition type_argument :: "'x task_env \<Rightarrow> sexp list \<Rightarrow> int \<Rightarrow> ('x node, ProcessedArgument) st" where
  "type_argument e arguments index =
     st_bind (st_lift (vec_index arguments index)) (\<lambda>arg.
     st_bind (class_of (host e) arg) (\<lambda>class_vec.
     st_bind (typeof_of e arg) (\<lambda>r_type.
     st_bind (length_of e arg) (\<lambda>arg_length.
     st_return (processArgument (if class_vec = [] then [] else class_vec ! 0) r_type arg_length
       (int (length class_vec)))))))"

definition processSingleArgument ::
    "'x task_env \<Rightarrow> sexp list \<Rightarrow> int \<Rightarrow> int list \<times> string list \<Rightarrow> ('x node, int list \<times> string list) st" where
  "processSingleArgument e arguments index tc =
     st_catch
       (st_bind (type_argument e arguments index) (\<lambda>p.
          st_return ((fst tc)[nat index := compss_type p], (snd tc)[nat index := content_type p])))
       (\<lambda>_. st_return ((fst tc)[nat index := 10], (snd tc)[nat index := ''object'']))"

section \<open>Metadata\<close>

record TaskMetadata =
  arguments_type :: "int list"
  compss_directions :: "int list"
  compss_streams :: "int list"
  compss_prefixes :: "string list"
  content_types :: "string list"
  weights :: "string list"
  keep_renames :: "int list"
  num_returns :: int

definition processTaskMetadata :: "int \<Rightarrow> bool \<Rightarrow> TaskMetadata res" where
  "processTaskMetadata n has_return_value =
     res_bind (repInteger 0 n) (\<lambda>types.
     res_bind (repString [] n) (\<lambda>contents.
       if has_return_value then
         res_bind (repInteger 0 n) (\<lambda>directions.
         res_bind (repInteger 3 (n + 1)) (\<lambda>streams.
         res_bind (repString ''null'' (n + 1)) (\<lambda>prefixes.
         res_bind (repString ''1'' (n + 1)) (\<lambda>ws.
         res_bind (repInteger 0 n) (\<lambda>keeps.
         Inr \<lparr>arguments_type = concatInteger types 10, compss_directions = concatInteger directions 1,
              compss_streams = streams, compss_prefixes = prefixes,
              content_types = concatString contents [], weights = ws,
              keep_renames = concatInteger keeps 1, num_returns = 1\<rparr>)))))
       else
         res_bind (repInteger 0 n) (\<lambda>directions.
         res_bind (repInteger 3 n) (\<lambda>streams.
         res_bind (repString ''null'' n) (\<lambda>prefixes.
         res_bind (repString ''1'' n) (\<lambda>ws.
         res_bind (repInteger 0 n) (\<lambda>keeps.
         Inr \<lparr>arguments_type = types, compss_directions = directions, compss_streams = streams,
              compss_prefixes = prefixes, content_types = contents, weights = ws,
              keep_renames = keeps, num_returns = 0\<rparr>)))))))"

lemma processTaskMetadata_value:
  "processTaskMetadata n rv =
     (if n < 0 then Inl (Std_exception ''cannot create std::vector larger than max_size()'')
      else Inr \<lparr>arguments_type = replicate (nat n) 0 @ (if rv then [10] else []),
             compss_directions = replicate (nat n) 0 @ (if rv then [1] else []),
             compss_streams = replicate (nat n + of_bool rv) 3,
             compss_prefixes = replicate (nat n + of_bool rv) ''null'',
             content_types = replicate (nat n) [] @ (if rv then [[]] else []),
             weights = replicate (nat n + of_bool rv) ''1'',
             keep_renames = replicate (nat n) 0 @ (if rv then [1] else []), num_returns = of_bool rv\<rparr>)"
  by (auto simp: processTaskMetadata_def vector_utils nat_add_distrib)

text \<open>The list R gets: the metadata without types and content types.\<close>

definition rcompss_process_task_metadata ::
    "int \<Rightarrow> bool \<Rightarrow> (int list \<times> int list \<times> string list \<times> string list \<times> int list \<times> int) res" where
  "rcompss_process_task_metadata n has_return_value =
     res_bind (processTaskMetadata n has_return_value) (\<lambda>m.
       Inr (compss_directions m, compss_streams m, compss_prefixes m, weights m, keep_renames m, num_returns m))"

section \<open>TaskDecorator::executeTask\<close>

record TaskExecutionResult =
  processed_arguments :: sexp
  arguments_names :: "string list"
  arguments_type :: "int list"
  content_types :: "string list"
  compss_directions :: "int list"
  compss_streams :: "int list"
  compss_prefixes :: "string list"
  weights :: "string list"
  keep_renames :: "int list"
  num_returns :: int
  return_value_filename :: string
  return_value_name :: string
  register_marker :: string
  type_args_path :: string
  success :: bool
  error_message :: string

text \<open>A result as it is declared: an empty list, empty vectors and strings, \<open>success\<close> and \<open>num_returns\<close> set.\<close>

definition fresh_result :: TaskExecutionResult where
  "fresh_result =
     \<lparr>processed_arguments = VECSXP [] [], arguments_names = [], arguments_type = [], content_types = [],
      compss_directions = [], compss_streams = [], compss_prefixes = [], weights = [],
      keep_renames = [], num_returns = 0, return_value_filename = [], return_value_name = [],
      register_marker = [], type_args_path = [], success = False, error_message = []\<rparr>"

text \<open>
  The body works on the result, which keeps what was assigned when an exception arrives,
  and on the node.
\<close>

type_synonym 'x exec = "TaskExecutionResult \<times> 'x node"

definition assign :: "(TaskExecutionResult \<Rightarrow> TaskExecutionResult) \<Rightarrow> ('x exec, unit) st" where
  "assign f = (\<lambda>(r, s). (Inr (), (f r, s)))"

definition on_node :: "('x node, 'a) st \<Rightarrow> ('x exec, 'a) st" where
  "on_node m = (\<lambda>(r, s). case m s of (a, s') \<Rightarrow> (a, (r, s')))"

definition argument_names :: "string option list \<Rightarrow> int \<Rightarrow> string list" where
  "argument_names names n =
     map (\<lambda>i. if i < length names then (case names ! i of Some nm \<Rightarrow> nm | None \<Rightarrow> []) else []) [0..<nat n]"

definition buildReturnValue ::
    "'x task_env \<Rightarrow> string \<Rightarrow> string \<Rightarrow> ('x exec, unit) st" where
  "buildReturnValue e master_working_dir ser_method =
     st_bind (on_node (rcompss_generate_uid e)) (\<lambda>uid.
     assign (\<lambda>r. r\<lparr>return_value_filename := with_slash master_working_dir @ ser_method @ ''-ReturnValue_'' @ uid,
                   return_value_name := buildReturnValueName ser_method, num_returns := 1\<rparr>))"

text \<open>The loop over the arguments from index \<open>i\<close> on, \<open>n\<close> rounds.\<close>

fun type_arguments :: "'x task_env \<Rightarrow> sexp list \<Rightarrow> string list \<Rightarrow> nat \<Rightarrow> nat \<Rightarrow> ('x exec, unit) st" where
  "type_arguments e arguments ser_method i 0 = st_return ()"
| "type_arguments e arguments ser_method i (Suc n) =
     st_bind (st_lift (vec_index ser_method 0)) (\<lambda>_.
     st_bind (st_gets (\<lambda>(r, s). (arguments_type r, content_types r))) (\<lambda>tc.
     st_bind (on_node (processSingleArgument e arguments (int i) tc)) (\<lambda>tc'.
     st_bind (assign (\<lambda>r. r\<lparr>arguments_type := fst tc', content_types := snd tc'\<rparr>)) (\<lambda>_.
     type_arguments e arguments ser_method (Suc i) n))))"

text \<open>The part after the loop: metadata, return value, registration.\<close>

definition finish_result ::
    "'x task_env \<Rightarrow> string \<Rightarrow> int \<Rightarrow> string \<Rightarrow> string \<Rightarrow> string list \<Rightarrow> bool \<Rightarrow> ('x exec, unit) st" where
  "finish_result e function_name n master_working_dir filename ser_method return_value =
     st_bind (st_lift (processTaskMetadata n return_value)) (\<lambda>m.
     st_bind (assign (\<lambda>r. r\<lparr>compss_directions := TaskMetadata.compss_directions m,
         compss_streams := TaskMetadata.compss_streams m, compss_prefixes := TaskMetadata.compss_prefixes m,
         weights := TaskMetadata.weights m, keep_renames := TaskMetadata.keep_renames m,
         num_returns := TaskMetadata.num_returns m\<rparr>)) (\<lambda>_.
     st_bind
       (if return_value then
          st_bind (st_lift (vec_index ser_method 1)) (\<lambda>out_method.
          st_bind (buildReturnValue e master_working_dir out_method) (\<lambda>_.
          assign (\<lambda>r. r\<lparr>arguments_type := arguments_type r @ [10], content_types := content_types r @ [[]]\<rparr>)))
        else st_return ()) (\<lambda>_.
     assign (\<lambda>r. r\<lparr>register_marker := buildRegisterMarker function_name, type_args_path := filename,
       success := True\<rparr>))))"

definition execute_body ::
    "'x task_env \<Rightarrow> string \<Rightarrow> sexp \<Rightarrow> int \<Rightarrow> string \<Rightarrow> string \<Rightarrow> string list \<Rightarrow> bool \<Rightarrow> ('x exec, unit) st" where
  "execute_body e function_name arguments n master_working_dir filename ser_method return_value =
     st_bind (st_lift (names_of (conv (host e)) arguments)) (\<lambda>names.
     st_bind (assign (\<lambda>r. r\<lparr>arguments_names := argument_names names n\<rparr>)) (\<lambda>_.
     st_bind (st_lift (repInteger 0 n)) (\<lambda>types.
     st_bind (assign (\<lambda>r. r\<lparr>arguments_type := types\<rparr>)) (\<lambda>_.
     st_bind (st_lift (repString [] n)) (\<lambda>contents.
     st_bind (assign (\<lambda>r. r\<lparr>content_types := contents\<rparr>)) (\<lambda>_.
     st_bind (type_arguments e (vector_elts arguments) ser_method 0 (nat n)) (\<lambda>_.
     finish_result e function_name n master_working_dir filename ser_method return_value)))))))"

definition decorator_error :: "exn \<Rightarrow> string" where
  "decorator_error ex =
     (case ex of
        Rcpp_exception w \<Rightarrow> ''TaskDecorator Rcpp error: '' @ w
      | Std_exception w \<Rightarrow> ''TaskDecorator error: '' @ w
      | _ \<Rightarrow> ''TaskDecorator: Unknown error'')"

definition TaskDecorator_executeTask ::
    "'x task_env \<Rightarrow> string \<Rightarrow> sexp \<Rightarrow> int \<Rightarrow> string \<Rightarrow> string \<Rightarrow> string list \<Rightarrow> bool
      \<Rightarrow> ('x node, TaskExecutionResult) st" where
  "TaskDecorator_executeTask e function_name arguments n master_working_dir filename ser_method return_value =
     (\<lambda>s. case st_catch
            (execute_body e function_name arguments n master_working_dir filename ser_method return_value)
            (\<lambda>ex. assign (\<lambda>r. r\<lparr>error_message := decorator_error ex, success := False\<rparr>))
            (fresh_result, s) of
          (Inl ex, (r, s')) \<Rightarrow> (Inl ex, s')
        | (Inr _, (r, s')) \<Rightarrow> (Inr r, s'))"

section \<open>rcompss_execute_task\<close>

text \<open>
  The two methods after defaults: an empty one is replaced by the default, and one element
  is added when fewer than two were given.
\<close>

definition method_vector :: "'x host \<Rightarrow> string list \<Rightarrow> string list" where
  "method_vector h ser_method =
     (let vec = map (\<lambda>m. if m = [] then get_default_serialization_method h else m) (take 2 ser_method)
      in if length vec < 2
         then vec @ [if vec = [] then get_default_serialization_method h else vec ! 0]
         else vec)"

definition r_strings :: "string list \<Rightarrow> sexp" where
  "r_strings ss = STRSXP (map (\<lambda>s. CHARSXP CE_NATIVE (string_bytes s)) ss) []"

text \<open>\<open>vector<string>(n, "")\<close> filled with the non-empty names.\<close>

definition fill_names :: "string list \<Rightarrow> nat \<Rightarrow> string list" where
  "fill_names names n = map (\<lambda>i. if i < length names then names ! i else []) [0..<n]"

text \<open>Setting the names and the checks that follow; \<open>missing\<close> and \<open>mismatch\<close> give the messages.\<close>

definition set_names_checked ::
    "'x host \<Rightarrow> (nat \<Rightarrow> string) \<Rightarrow> string \<Rightarrow> sexp \<Rightarrow> string list \<Rightarrow> sexp res" where
  "set_names_checked h missing mismatch lst names =
     res_bind (setAttrib (c_api h) lst ''names'' (r_strings names)) (\<lambda>lst'.
       if alist_get (ATTRIB lst') ''names'' = None
       then Inl (Rcpp_exception (missing (length (vector_elts lst'))))
       else
         res_bind (names_of (conv h) lst') (\<lambda>ns.
           if length ns \<noteq> length (vector_elts lst')
           then Inl (Rcpp_exception (mismatch @ '' - processed_args size: '' @
                  nat_to_string (length (vector_elts lst')) @ '', names size: '' @ nat_to_string (length ns)))
           else Inr lst'))"

fun set_elt :: "sexp \<Rightarrow> nat \<Rightarrow> sexp \<Rightarrow> sexp res" where
  "set_elt (VECSXP xs a) i v = (if i < length xs then Inr (VECSXP (xs[i := v]) a) else Inl Undefined_behaviour)"
| "set_elt _ i v = Inl Undefined_behaviour"

text \<open>\<^verbatim>\<open>TYPEOF\<close> of a symbol is 1.\<close>

fun is_symbol :: "sexp \<Rightarrow> bool" where
  "is_symbol (OTHERSXP n _) = (n = 1)"
| "is_symbol _ = False"

text \<open>What becomes of the argument at index \<open>i\<close> of the list built so far.\<close>

definition ship_argument ::
    "'x task_env \<Rightarrow> sexp \<Rightarrow> string \<Rightarrow> string \<Rightarrow> TaskExecutionResult \<Rightarrow> nat \<Rightarrow> sexp \<Rightarrow> ('x node, sexp) st" where
  "ship_argument e arguments master_working_dir in_method result i processed_args =
     st_bind (st_lift (vec_index (arguments_type result) (int i))) (\<lambda>ty.
     st_bind (if ty = 10 then st_lift (vec_index (content_types result) (int i)) else st_return []) (\<lambda>ct.
       if ty = 10 \<and> ct = ''object'' then
         st_bind (st_lift (vec_index (vector_elts arguments) (int i))) (\<lambda>obj.
           if is_symbol obj then st_return processed_args
           else
             st_bind (rcompss_generate_uid e) (\<lambda>uid_result.
             st_bind (st_lift (vec_index (arguments_names result) (int i))) (\<lambda>name.
             st_bind (rcompss_serialize (host e) obj
                 (buildArgumentFilename master_working_dir in_method name (int i + 1) uid_result) in_method 1) (\<lambda>_.
             st_lift (set_elt processed_args i
               (r_string (buildArgumentFilename master_working_dir in_method name (int i + 1) uid_result)))))))
       else if ty = 10 \<and> ct = ''future_object'' then
         st_bind (st_lift (vec_index (vector_elts arguments) (int i))) (\<lambda>fo.
         st_bind (st_lift (list_elements (conv (host e)) fo)) (\<lambda>_.
         st_bind (st_lift (res_bind (list_get (conv (host e)) fo ''outputfile'') (as_string (conv (host e)))))
           (\<lambda>outputfile. st_lift (set_elt processed_args i (r_string outputfile)))))
       else st_return processed_args))"

fun ship_arguments ::
    "'x task_env \<Rightarrow> sexp \<Rightarrow> string \<Rightarrow> string \<Rightarrow> TaskExecutionResult \<Rightarrow> nat \<Rightarrow> nat \<Rightarrow> sexp \<Rightarrow> ('x node, sexp) st" where
  "ship_arguments e arguments dir in_method result i 0 processed_args = st_return processed_args"
| "ship_arguments e arguments dir in_method result i (Suc n) processed_args =
     st_bind (ship_argument e arguments dir in_method result i processed_args) (\<lambda>processed_args'.
     ship_arguments e arguments dir in_method result (Suc i) n processed_args')"

text \<open>The names the list starts with, and the list, its names and the result at the end.\<close>

definition initial_names :: "TaskExecutionResult \<Rightarrow> int \<Rightarrow> string list res" where
  "initial_names result n =
     (if int (length (arguments_names result)) \<noteq> n
      then (if n < 0 then Inl (Std_exception ''cannot create std::vector larger than max_size()'')
            else Inr (fill_names (arguments_names result) (nat n)))
      else Inr (arguments_names result))"

definition finish_arguments :: "'x host \<Rightarrow> TaskExecutionResult \<Rightarrow> bool \<Rightarrow> sexp \<Rightarrow> TaskExecutionResult res" where
  "finish_arguments h result return_value processed_args =
     (let returns = return_value \<and> 0 < num_returns result;
          full = (if returns then list_push_back (conv h) processed_args (r_string (return_value_filename result))
                  else processed_args);
          all_names = arguments_names result @ (if returns then [return_value_name result] else [])
      in res_bind
           (set_names_checked h
              (\<lambda>k. ''Names lost after modifications - processed_args size: '' @ nat_to_string k)
              ''Names size mismatch after modifications'' full (fill_names all_names (length (vector_elts full))))
           (\<lambda>named. Inr (result\<lparr>processed_arguments := named, arguments_names := all_names\<rparr>)))"

definition rcompss_execute_task ::
    "'x task_env \<Rightarrow> string \<Rightarrow> sexp \<Rightarrow> int \<Rightarrow> string \<Rightarrow> string \<Rightarrow> string list \<Rightarrow> bool
      \<Rightarrow> ('x node, TaskExecutionResult) st" where
  "rcompss_execute_task e function_name arguments n master_working_dir filename ser_method return_value =
     (let methods = method_vector (host e) ser_method in
      st_bind (TaskDecorator_executeTask e function_name arguments n master_working_dir filename methods return_value)
        (\<lambda>result.
      st_bind (st_lift (initial_names result n)) (\<lambda>names_vec.
      st_bind (st_lift (set_names_checked (host e) (\<lambda>_. ''Failed to set names on processed_args'')
          ''Names size mismatch'' arguments names_vec)) (\<lambda>processed_args.
      st_bind (ship_arguments e arguments master_working_dir (methods ! 0) result 0 (nat n) processed_args)
        (\<lambda>shipped.
      st_lift (finish_arguments (host e) result return_value shipped))))))"

section \<open>What a successful result looks like\<close>

text \<open>The pairs of type and content type an input argument can get.\<close>

definition typed :: "int \<Rightarrow> string \<Rightarrow> bool" where
  "typed ty ct \<longleftrightarrow> ct = [] \<and> ty \<in> {0, 1, 2, 3, 4, 7, 8, 10} \<or> ty = 10 \<and> (ct = ''object'' \<or> ct = ''future_object'')"

lemma typed_processArgument: "typed (compss_type (processArgument c t l k)) (content_type (processArgument c t l k))"
  using mapType_range [of t] by (simp add: processArgument_def typed_def)

lemma typed_object [simp]: "typed 10 ''object''"
  by (simp add: typed_def)

lemma type_argument_typed:
  "type_argument e xs i s = (Inr p, s') \<Longrightarrow> typed (compss_type p) (content_type p)"
  by (auto simp: type_argument_def st_bind_Inr_conv typed_processArgument)

lemma processSingleArgument_result:
  assumes "processSingleArgument e xs i tc s = (Inr tc', s')"
  shows "\<exists>ty ct. typed ty ct \<and> tc' = ((fst tc)[nat i := ty], (snd tc)[nat i := ct])"
proof (cases "type_argument e xs i s")
  case (Pair r t)
  show ?thesis
  proof (cases r)
    case (Inl ex)
    then show ?thesis
      using assms Pair
      by (intro exI [of _ 10] exI [of _ "''object''"])
         (auto simp: processSingleArgument_def st_catch_def st_bind_def split: if_splits)
  next
    case (Inr p)
    then show ?thesis
      using assms Pair type_argument_typed [of e xs i s p t]
      by (auto simp: processSingleArgument_def st_catch_def st_bind_def)
  qed
qed

lemma type_arguments_result:
  "type_arguments e xs ms i n (r, s) = (Inr (), (r', s')) \<Longrightarrow>
     \<exists>ts cs. r' = r\<lparr>arguments_type := ts, content_types := cs\<rparr>
       \<and> length ts = length (arguments_type r) \<and> length cs = length (content_types r)
       \<and> (\<forall>j < length ts. j < length cs \<longrightarrow>
            (if i \<le> j \<and> j < i + n then typed (ts ! j) (cs ! j)
             else ts ! j = arguments_type r ! j \<and> cs ! j = content_types r ! j))"
proof (induction n arbitrary: i r s)
  case 0
  then have "r' = r" by simp
  then show ?case by (intro exI [of _ "arguments_type r"] exI [of _ "content_types r"]) auto
next
  case (Suc n)
  let ?tc = "(arguments_type r, content_types r)"
  from Suc.prems obtain tc t where one: "processSingleArgument e xs (int i) ?tc s = (Inr tc, t)"
    and more: "type_arguments e xs ms (Suc i) n (r\<lparr>arguments_type := fst tc, content_types := snd tc\<rparr>, t)
      = (Inr (), (r', s'))"
    by (auto simp: st_bind_Inr_conv st_gets_def on_node_def assign_def split: prod.splits)
  from processSingleArgument_result [OF one] obtain ty ct where
    tc: "typed ty ct" "tc = ((arguments_type r)[i := ty], (content_types r)[i := ct])" by auto
  from Suc.IH [OF more] obtain ts cs where
    r': "r' = r\<lparr>arguments_type := ts, content_types := cs\<rparr>"
    and len: "length ts = length (arguments_type r)" "length cs = length (content_types r)"
    and at: "\<forall>j < length ts. j < length cs \<longrightarrow>
            (if Suc i \<le> j \<and> j < Suc i + n then typed (ts ! j) (cs ! j)
             else ts ! j = (arguments_type r)[i := ty] ! j \<and> cs ! j = (content_types r)[i := ct] ! j)"
    by (auto simp: tc(2))
  have "if i \<le> j \<and> j < i + Suc n then typed (ts ! j) (cs ! j)
        else ts ! j = arguments_type r ! j \<and> cs ! j = content_types r ! j"
    if "j < length ts" "j < length cs" for j
    using at that tc(1) len by (cases "j = i") (auto simp: nth_list_update split: if_splits)
  with r' len show ?case by blast
qed

definition result_ok :: "'x task_env \<Rightarrow> int \<Rightarrow> bool \<Rightarrow> string \<Rightarrow> string list \<Rightarrow> TaskExecutionResult \<Rightarrow> bool" where
  "result_ok e n rv dir ms r \<longleftrightarrow>
     0 \<le> n \<and> length (arguments_names r) = nat n
   \<and> (\<exists>ts cs. length ts = nat n \<and> length cs = nat n \<and> list_all2 typed ts cs
        \<and> arguments_type r = ts @ (if rv then [10] else []) \<and> content_types r = cs @ (if rv then [[]] else []))
   \<and> compss_directions r = replicate (nat n) 0 @ (if rv then [1] else [])
   \<and> compss_streams r = replicate (nat n + of_bool rv) 3
   \<and> compss_prefixes r = replicate (nat n + of_bool rv) ''null''
   \<and> weights r = replicate (nat n + of_bool rv) ''1''
   \<and> keep_renames r = replicate (nat n) 0 @ (if rv then [1] else [])
   \<and> num_returns r = of_bool rv
   \<and> (rv \<longrightarrow> 2 \<le> length ms \<and> return_value_name r = buildReturnValueName (ms ! 1)
        \<and> (\<exists>u s s'. rcompss_generate_uid e s = (Inr u, s')
             \<and> return_value_filename r = with_slash dir @ ms ! 1 @ ''-ReturnValue_'' @ u))"

text \<open>The body of \<open>executeTask\<close>, when no exception arrives.\<close>

lemma finish_result_ok:
  assumes "finish_result e f n dir file_nm ms rv (r1, s) = (Inr (), (r, s'))"
    and "length (arguments_names r1) = nat n"
    and "length (arguments_type r1) = nat n" "length (content_types r1) = nat n"
    and "list_all2 typed (arguments_type r1) (content_types r1)"
  shows "result_ok e n rv dir ms r \<and> success r"
proof (cases rv)
  case True
  with assms show ?thesis
    by (auto simp: finish_result_def st_bind_Inr_conv assign_def processTaskMetadata_value vec_index_Inr_conv
        buildReturnValue_def on_node_def result_ok_def split: if_splits prod.splits) blast+
next
  case False
  with assms show ?thesis
    by (auto simp: finish_result_def st_bind_Inr_conv assign_def processTaskMetadata_value result_ok_def
        split: if_splits)
qed

lemma execute_body_ok:
  assumes "execute_body e f args n dir file_nm ms rv (fresh_result, s) = (Inr (), (r, s'))"
  shows "result_ok e n rv dir ms r \<and> success r"
proof -
  from assms obtain names r1 s1 where n: "0 \<le> n" and
    loop: "type_arguments e (vector_elts args) ms 0 (nat n)
       (fresh_result\<lparr>arguments_names := argument_names names n, arguments_type := replicate (nat n) 0,
          content_types := replicate (nat n) []\<rparr>, s) = (Inr (), (r1, s1))" and
    rest: "finish_result e f n dir file_nm ms rv (r1, s1) = (Inr (), (r, s'))"
    by (auto simp: execute_body_def st_bind_Inr_conv assign_def repInteger_def repString_def rep_vector_def
        split: if_splits)
  from type_arguments_result [OF loop] obtain ts cs where
    r1: "r1 = fresh_result\<lparr>arguments_names := argument_names names n, arguments_type := ts, content_types := cs\<rparr>"
      "length ts = nat n" "length cs = nat n" "list_all2 typed ts cs"
    by (auto simp: list_all2_conv_all_nth)
  show ?thesis
    by (rule finish_result_ok [OF rest]) (simp_all add: r1 argument_names_def)
qed

lemma executeTask_body:
  assumes "execute_body e f args n dir file_nm ms rv (fresh_result, s) = (q, (r0, s0))"
    and "TaskDecorator_executeTask e f args n dir file_nm ms rv s = (Inr r, s')" "success r"
  shows "q = Inr () \<and> r0 = r"
proof (cases q)
  case (Inl ex)
  then have "r = r0\<lparr>error_message := decorator_error ex, success := False\<rparr>"
    using assms(1,2) by (simp add: TaskDecorator_executeTask_def st_catch_def assign_def split: if_splits)
  with assms(3) show ?thesis by simp
next
  case (Inr u)
  then show ?thesis
    using assms(1,2) by (simp add: TaskDecorator_executeTask_def st_catch_def)
qed

lemma executeTask_ok:
  assumes "TaskDecorator_executeTask e f args n dir file_nm ms rv s = (Inr r, s')" "success r"
  shows "result_ok e n rv dir ms r"
proof -
  obtain q r0 s0 where run: "execute_body e f args n dir file_nm ms rv (fresh_result, s) = (q, (r0, s0))"
    by (metis prod.collapse)
  with executeTask_body [OF run assms] execute_body_ok show ?thesis by blast
qed

section \<open>The description of an argument\<close>

text \<open>
  When R answers the questions about an argument the same way whenever it is asked, its type is that
  of the COMPSs numbering: a scalar of one of three classes goes by value with the number of its R
  type, everything else is a file.
\<close>

definition answers :: "'x task_env \<Rightarrow> sexp \<Rightarrow> string list \<Rightarrow> string \<Rightarrow> int \<Rightarrow> bool" where
  "answers e x cls t len \<longleftrightarrow>
     (\<forall>s. class_of (host e) x s = (Inr cls, s)) \<and> (\<forall>s. typeof_of e x s = (Inr t, s)) \<and> (\<forall>s. length_of e x s = (Inr len, s))"

definition compss_numbers :: "(string \<times> int) list" where
  "compss_numbers =
     [(''logical'', 0), (''CHAR'', 1), (''BYTE'', 2), (''SHORT'', 3), (''integer'', 4), (''double'', 7), (''character'', 8)]"

definition described_as :: "string list \<Rightarrow> string \<Rightarrow> int \<Rightarrow> int \<times> string" where
  "described_as cls t len =
     (if len = 1 \<and> cls \<in> {[''integer''], [''numeric''], [''character'']}
      then (case map_of compss_numbers t of Some k \<Rightarrow> k | None \<Rightarrow> 10, [])
      else if cls = [''future_object''] then (10, ''future_object'')
      else (10, ''object''))"

lemma mapType_number: "mapType t = (case map_of compss_numbers t of Some k \<Rightarrow> k | None \<Rightarrow> 10)"
  by (simp add: mapType_def compss_numbers_def)

lemma processArgument_described:
  "(compss_type p, content_type p) = described_as cls t len"
  if "p = processArgument (if cls = [] then [] else cls ! 0) t len (int (length cls))"
proof (cases "\<exists>c. cls = [c]")
  case True
  then obtain c where "cls = [c]" by blast
  with that show ?thesis by (simp add: processArgument_def described_as_def mapType_number)
next
  case False
  then have "int (length cls) \<noteq> 1" by (cases cls) auto
  then show ?thesis using that False by (auto simp: processArgument_def described_as_def)
qed

lemma processSingleArgument_described:
  assumes "answers e (xs ! i) cls t len" "i < length xs"
  shows "processSingleArgument e xs (int i) tc s =
     (Inr ((fst tc)[i := fst (described_as cls t len)], (snd tc)[i := snd (described_as cls t len)]), s)"
proof -
  let ?d = "processArgument (if cls = [] then [] else cls ! 0) t len (int (length cls))"
  have d: "compss_type ?d = fst (described_as cls t len)" "content_type ?d = snd (described_as cls t len)"
    by (simp_all add: processArgument_described [OF refl, of cls t len, symmetric])
  have "type_argument e xs (int i) s = (Inr ?d, s)"
    using assms by (simp add: type_argument_def answers_def vec_index_def st_bind_def st_return_def)
  then show ?thesis by (simp add: processSingleArgument_def st_bind_def st_catch_def st_return_def d)
qed

lemma type_arguments_described:
  "type_arguments e xs ms i n (r, s) = (Inr (), (r', s')) \<Longrightarrow> i \<le> j \<Longrightarrow> j < i + n \<Longrightarrow> j < length xs \<Longrightarrow>
     j < length (arguments_type r) \<Longrightarrow> j < length (content_types r) \<Longrightarrow> answers e (xs ! j) cls t len \<Longrightarrow>
     (arguments_type r' ! j, content_types r' ! j) = described_as cls t len"
proof (induction n arbitrary: i r s)
  case 0
  then show ?case by simp
next
  case (Suc n)
  from Suc.prems(1) obtain tc u where one: "processSingleArgument e xs (int i) (arguments_type r, content_types r) s = (Inr tc, u)"
    and more: "type_arguments e xs ms (Suc i) n (r\<lparr>arguments_type := fst tc, content_types := snd tc\<rparr>, u) = (Inr (), (r', s'))"
    by (auto simp: st_bind_Inr_conv st_gets_def on_node_def assign_def split: prod.splits)
  from processSingleArgument_result [OF one] have
    len: "length (fst tc) = length (arguments_type r)" "length (snd tc) = length (content_types r)" by auto
  show ?case
  proof (cases "j = i")
    case False
    with Suc.IH [OF more] Suc.prems(2-7) len show ?thesis by simp
  next
    case True
    with processSingleArgument_described [of e xs j cls t len "(arguments_type r, content_types r)" s] one Suc.prems
    have "fst tc ! j = fst (described_as cls t len)" "snd tc ! j = snd (described_as cls t len)" by auto
    moreover from type_arguments_result [OF more] True len Suc.prems(5,6)
    have "arguments_type r' ! j = fst tc ! j" "content_types r' ! j = snd tc ! j" by auto
    ultimately show ?thesis by simp
  qed
qed

lemma executeTask_described:
  assumes "TaskDecorator_executeTask e f args n dir file_nm ms rv s = (Inr r, s')" "success r"
    and "i < nat n" "i < length (vector_elts args)" "answers e (vector_elts args ! i) cls t len"
  shows "(arguments_type r ! i, content_types r ! i) = described_as cls t len"
proof -
  obtain q r0 s0 where run: "execute_body e f args n dir file_nm ms rv (fresh_result, s) = (q, (r0, s0))"
    by (metis prod.collapse)
  have "q = Inr () \<and> r0 = r" by (rule executeTask_body [OF run assms(1,2)])
  with run obtain names r1 s1 where n: "0 \<le> n" and
    loop: "type_arguments e (vector_elts args) ms 0 (nat n)
       (fresh_result\<lparr>arguments_names := argument_names names n, arguments_type := replicate (nat n) 0,
          content_types := replicate (nat n) []\<rparr>, s) = (Inr (), (r1, s1))" and
    rest: "finish_result e f n dir file_nm ms rv (r1, s1) = (Inr (), (r, s0))"
    by (auto simp: execute_body_def st_bind_Inr_conv assign_def repInteger_def repString_def rep_vector_def
        split: if_splits)
  from type_arguments_described [OF loop _ _ assms(4) _ _ assms(5)] assms(3)
  have d: "(arguments_type r1 ! i, content_types r1 ! i) = described_as cls t len" by simp
  from type_arguments_result [OF loop] have len: "length (arguments_type r1) = nat n" "length (content_types r1) = nat n" by auto
  have "arguments_type r = arguments_type r1 @ (if rv then [10] else [])" "content_types r = content_types r1 @ (if rv then [[]] else [])"
    using rest by (cases "rcompss_generate_uid e s1"; auto simp: finish_result_def st_bind_Inr_conv assign_def buildReturnValue_def on_node_def
        split: if_splits)+
  with d len assms(3) show ?thesis by (simp add: nth_append)
qed

section \<open>A concrete environment\<close>

definition example_env :: "unit task_env" where
  "example_env =
     \<lparr>host = example_host,
      clock = (\<lambda>s. (\<lparr>tm_year = 125, tm_mon = 11, tm_mday = 31, tm_hour = 23, tm_min = 59, tm_sec = 60\<rparr>, s)),
      draw = (\<lambda>s. (0, s)),
      typeof_of = (\<lambda>x s. (Inr (case x of VECSXP _ _ \<Rightarrow> ''list'' | INTSXP _ _ \<Rightarrow> ''integer'' | _ \<Rightarrow> ''character''), s)),
      length_of = (\<lambda>x s. (Inr (int (XLENGTH x)), s)), as_character = (\<lambda>_ s. (Inr [''?''], s)),
      double_text = (\<lambda>_. ''0.000000'')\<rparr>"

lemma example_env_simps [simp]:
  "host example_env = example_host" "typeof_of example_env x s =
     (Inr (case x of VECSXP _ _ \<Rightarrow> ''list'' | INTSXP _ _ \<Rightarrow> ''integer'' | _ \<Rightarrow> ''character''), s)"
  "length_of example_env x s = (Inr (int (XLENGTH x)), s)"
  by (simp_all add: example_env_def)

end
