(* ===== verification/Task_Shipping.thy ===== *)
theory Task_Shipping
  imports Task_Decorator Executor
begin

text \<open>
  What happens to the arguments and the return value of a submitted task: the files written
  for them, their names, and the properties of \<open>Task_Decorator\<close>.
\<close>

section \<open>Unique ids\<close>

text \<open>
  The clock shows a year from 1900 to 9999, the engine draws an index of the 62 characters,
  and neither writes files.
\<close>

definition clock_ok :: "'x task_env \<Rightarrow> bool" where
  "clock_ok e \<longleftrightarrow>
     (\<forall>s. files (snd (clock e s)) = files s \<and> 0 \<le> tm_year (fst (clock e s)) \<and> tm_year (fst (clock e s)) \<le> 8099) \<and>
     (\<forall>s. files (snd (draw e s)) = files s \<and> fst (draw e s) \<le> 61)"

lemma uid_random_files:
  assumes "\<forall>s. files (snd (dis s)) = files s"
  shows "files (snd (uid_random dis n s)) = files s"
proof (induction n arbitrary: s)
  case 0
  then show ?case by simp
next
  case (Suc n)
  obtain k t where d: "dis s = (k, t)" by fastforce
  obtain r u where r: "uid_random dis n t = (r, u)" by fastforce
  show ?case using Suc.IH [of t] assms by (simp add: d r) (metis d snd_conv)
qed

lemma uid_fresh:
  assumes "clock_ok e" "rcompss_generate_uid e s = (Inr u, s')"
  shows "files s' = files s \<and> length u = 65 \<and> plain_name u"
proof -
  obtain t s1 where c: "clock e s = (t, s1)" by fastforce
  have u: "u = fst (UIDGenerator_generate (clock e) (draw e) s)"
    and s': "s' = snd (UIDGenerator_generate (clock e) (draw e) s)"
    using assms(2) by (auto simp: rcompss_generate_uid_def split: prod.splits)
  have "files s' = files s"
    using assms(1) uid_random_files [of "draw e" 50 s1] unfolding s'
    by (auto simp: UIDGenerator_generate_def c clock_ok_def split: prod.splits) (metis c snd_conv)+
  moreover have "length u = 65 \<and> plain_name u"
    using generate_shape [of "clock e" s "fst (clock e s)" "draw e"] assms(1)
    unfolding u clock_ok_def by simp
  ultimately show ?thesis by simp
qed

section \<open>Files of arguments\<close>

definition argument_path :: "string \<Rightarrow> string \<Rightarrow> string list \<Rightarrow> nat \<Rightarrow> string \<Rightarrow> string" where
  "argument_path dir m names i u = buildArgumentFilename dir m (names ! i) (int i + 1) u"

lemma argument_path_distinct:
  assumes "method_name m" "plain_name (names ! i)" "plain_name (names ! j)" "plain_name u" "plain_name v"
    and "length u = 65" "length v = 65" "i \<noteq> j"
  shows "argument_path dir m names i u \<noteq> argument_path dir m names j v"
  using buildArgumentFilename_split [OF assms(1,1,2-5), of dir "int i + 1" dir "int j + 1"] assms(6-8)
  by (auto simp: argument_path_def)

lemma method_of_argument_path:
  "method_name m \<Longrightarrow> plain_name (names ! i) \<Longrightarrow> plain_name u \<Longrightarrow>
     extractSerializationMethod (argument_path dir m names i u) = m"
  by (simp add: argument_path_def method_of_argument)

text \<open>The arguments that travel as files written here.\<close>

definition ships :: "TaskExecutionResult \<Rightarrow> sexp \<Rightarrow> nat \<Rightarrow> bool" where
  "ships r args i \<longleftrightarrow>
     arguments_type r ! i = 10 \<and> content_types r ! i = ''object'' \<and> \<not> is_symbol (vector_elts args ! i)"

text \<open>Argument \<open>i\<close> has been written under the path that the list \<open>pa\<close> holds for it.\<close>

definition shipped :: "TaskExecutionResult \<Rightarrow> sexp \<Rightarrow> string \<Rightarrow> sexp \<Rightarrow> nat \<Rightarrow> 'x node \<Rightarrow> bool" where
  "shipped r args dir pa i s \<longleftrightarrow>
     (\<exists>u w. plain_name u \<and> length u = 65
        \<and> vector_elts pa ! i = r_string (argument_path dir ''cpp'' (arguments_names r) i u)
        \<and> to_wire (vector_elts args ! i) = Some w
        \<and> files s (argument_path dir ''cpp'' (arguments_names r) i u) = Some (file_bytes w))"

lemma set_elt_result:
  "set_elt pa i v = Inr pa' \<Longrightarrow>
     i < length (vector_elts pa) \<and> vector_elts pa' = (vector_elts pa)[i := v] \<and> ATTRIB pa' = ATTRIB pa"
  by (cases "(pa, i, v)" rule: set_elt.cases) (auto split: if_splits)

lemma ship_argument_result:
  assumes "ship_argument e args dir ''cpp'' r i pa s = (Inr pa', s')"
    and "clock_ok e" "\<forall>out. closed (out_env (host e)) out = out"
  shows "length (vector_elts pa') = length (vector_elts pa) \<and> ATTRIB pa' = ATTRIB pa
     \<and> (\<forall>j. j \<noteq> i \<longrightarrow> vector_elts pa' ! j = vector_elts pa ! j)
     \<and> (if ships r args i
        then \<exists>u w. plain_name u \<and> length u = 65
               \<and> vector_elts pa' ! i = r_string (argument_path dir ''cpp'' (arguments_names r) i u)
               \<and> to_wire (vector_elts args ! i) = Some w
               \<and> files s' = (files s)(argument_path dir ''cpp'' (arguments_names r) i u \<mapsto> file_bytes w)
        else files s' = files s)
     \<and> (content_types r ! i = [] \<or> arguments_type r ! i \<noteq> 10 \<longrightarrow> vector_elts pa' ! i = vector_elts pa ! i)"
proof (cases "ships r args i")
  case True
  from assms(1) True obtain u s1 nm s2 where
    u: "rcompss_generate_uid e s = (Inr u, s1)" and
    nm: "vec_index (arguments_names r) (int i) = Inr nm" and
    wr: "rcompss_serialize (host e) (vector_elts args ! i)
           (buildArgumentFilename dir ''cpp'' nm (int i + 1) u) ''cpp'' 1 s1 = (Inr (), s')" and
    set: "set_elt pa i (r_string (buildArgumentFilename dir ''cpp'' nm (int i + 1) u)) = Inr pa'"
    by (auto simp: ship_argument_def st_bind_Inr_conv ships_def vec_index_Inr_conv split: if_splits)
  have nm': "nm = arguments_names r ! i" using nm by (simp add: vec_index_Inr_conv)
  from api_write [OF wr assms(3)] obtain w where
    w: "to_wire (vector_elts args ! i) = Some w"
      "s' = s1\<lparr>files := (files s1)(buildArgumentFilename dir ''cpp'' nm (int i + 1) u \<mapsto> file_bytes w)\<rparr>" by blast
  show ?thesis
    using uid_fresh [OF assms(2) u] set_elt_result [OF set] w True
    by (auto simp: nm' argument_path_def ships_def)
next
  case False
  with assms(1) have "pa' = pa \<and> s' = s \<or> (s' = s \<and> (\<exists>v. set_elt pa i v = Inr pa')
      \<and> arguments_type r ! i = 10 \<and> content_types r ! i = ''future_object'')"
    by (auto simp: ship_argument_def st_bind_Inr_conv ships_def vec_index_Inr_conv split: if_splits)
  with False show ?thesis by (auto dest!: set_elt_result)
qed

lemma ship_arguments_result:
  assumes "clock_ok e" "\<forall>out. closed (out_env (host e)) out = out"
    and "\<forall>j < i + n. plain_name (arguments_names r ! j)"
  shows "ship_arguments e args dir ''cpp'' r i n pa s = (Inr pa', s') \<Longrightarrow>
      \<forall>j < i. ships r args j \<longrightarrow> shipped r args dir pa j s \<Longrightarrow>
     length (vector_elts pa') = length (vector_elts pa) \<and> ATTRIB pa' = ATTRIB pa
   \<and> (\<forall>j < i + n. ships r args j \<longrightarrow> shipped r args dir pa' j s')
   \<and> (\<forall>j. content_types r ! j = [] \<or> arguments_type r ! j \<noteq> 10 \<longrightarrow> vector_elts pa' ! j = vector_elts pa ! j)"
  using assms(3)
proof (induction n arbitrary: i pa s)
  case 0
  then show ?case by simp
next
  case (Suc n)
  from Suc.prems(1) obtain pa1 s1 where
    one: "ship_argument e args dir ''cpp'' r i pa s = (Inr pa1, s1)" and
    more: "ship_arguments e args dir ''cpp'' r (Suc i) n pa1 s1 = (Inr pa', s')"
    by (auto simp: st_bind_Inr_conv)
  note step = ship_argument_result [OF one assms(1,2)]
  have keep: "\<forall>j < Suc i. ships r args j \<longrightarrow> shipped r args dir pa1 j s1"
  proof (intro allI impI)
    fix j assume j: "j < Suc i" "ships r args j"
    show "shipped r args dir pa1 j s1"
    proof (cases "j = i")
      case True
      with step j(2) show ?thesis by (auto simp: shipped_def)
    next
      case False
      with j Suc.prems(2) have "shipped r args dir pa j s" by simp
      then obtain u w where old: "plain_name u" "length u = 65"
        "vector_elts pa ! j = r_string (argument_path dir ''cpp'' (arguments_names r) j u)"
        "to_wire (vector_elts args ! j) = Some w"
        "files s (argument_path dir ''cpp'' (arguments_names r) j u) = Some (file_bytes w)"
        by (auto simp: shipped_def)
      have "files s1 (argument_path dir ''cpp'' (arguments_names r) j u)
          = files s (argument_path dir ''cpp'' (arguments_names r) j u)"
        using step argument_path_distinct [of "''cpp''" "arguments_names r" j i u _ dir] Suc.prems(3) j(1) False old(1,2)
        by (auto split: if_splits)
      with old step False show ?thesis
        unfolding shipped_def by (intro exI [of _ u] exI [of _ w]) simp
    qed
  qed
  have "\<forall>j < Suc i + n. plain_name (arguments_names r ! j)" using Suc.prems(3) by simp
  from Suc.IH [OF more keep this] step show ?case by simp (metis)
qed

section \<open>The whole submission\<close>

lemma alist_get_attr_install: "alist_get (attr_install k v a) k' = (if k' = k then Some v else alist_get a k')"
  by (induction a) auto

lemma r_strings_not_nil [simp]: "r_strings ss \<noteq> NILSXP"
  by (simp add: r_strings_def)

lemma set_names_checked_result:
  assumes "r_object_api (c_api h)" "alist_get a ''dim'' = None" "length ss = length xs"
    and "set_names_checked h ms mm (VECSXP xs a) ss = Inr lst"
  shows "lst = VECSXP xs (attr_install ''names'' (r_strings ss) a)"
proof -
  have "setAttrib (c_api h) (VECSXP xs a) ''names'' (r_strings ss)
      = Inr (with_attrs (VECSXP xs a) (attr_put ''names'' (r_strings ss) (ATTRIB (VECSXP xs a))))"
    using assms(2,3) by (intro r_object_api.set_names [OF assms(1)])
      (simp_all add: Rf_getAttrib_def valid_names_def r_strings_def)
  with assms(4) show ?thesis
    by (auto simp: set_names_checked_def attr_put_def res_bind_Inr_conv split: if_splits)
qed

lemma set_elt_vec: "set_elt (VECSXP xs a) i v = Inr pa \<Longrightarrow> \<exists>ys. pa = VECSXP ys a \<and> length ys = length xs"
  by (auto split: if_splits)

lemma ship_argument_vec:
  "ship_argument e args dir m r i (VECSXP xs a) s = (Inr pa, s') \<Longrightarrow> \<exists>ys. pa = VECSXP ys a \<and> length ys = length xs"
  by (auto simp: ship_argument_def st_bind_Inr_conv split: if_splits dest: set_elt_vec)

lemma ship_arguments_vec:
  "ship_arguments e args dir m r i n (VECSXP xs a) s = (Inr pa, s') \<Longrightarrow>
     \<exists>ys. pa = VECSXP ys a \<and> length ys = length xs"
proof (induction n arbitrary: i xs s)
  case 0
  then show ?case by auto
next
  case (Suc n)
  from Suc.prems obtain pa1 s1 where "ship_argument e args dir m r i (VECSXP xs a) s = (Inr pa1, s1)"
    "ship_arguments e args dir m r (Suc i) n pa1 s1 = (Inr pa, s')"
    by (auto simp: st_bind_Inr_conv)
  with ship_argument_vec Suc.IH show ?case by metis
qed

lemma finish_arguments_result:
  assumes "finish_arguments h d rv (VECSXP ys b) = Inr r"
    and "r_object_api (c_api h)" "rcpp_api (conv h)" "alist_get b ''dim'' = None"
    and "length (arguments_names d) = length ys" "num_returns d = of_bool rv"
  shows "vector_elts (processed_arguments r) = ys @ (if rv then [r_string (return_value_filename d)] else [])
    \<and> Rf_getAttrib (processed_arguments r) ''names'' = r_strings (arguments_names r)
    \<and> r = d\<lparr>processed_arguments := processed_arguments r,
            arguments_names := arguments_names d @ (if rv then [return_value_name d] else [])\<rparr>"
proof -
  define ms where "ms = (\<lambda>k. ''Names lost after modifications - processed_args size: '' @ nat_to_string k)"
  define mm where "mm = ''Names size mismatch after modifications''"
  note fin = finish_arguments_def [of h d, folded ms_def mm_def]
  have full: "fill_names nms (length nms) = nms" for nms
    by (rule nth_equalityI) (simp_all add: fill_names_def)
  show ?thesis
  proof (cases rv)
    case True
    from rcpp_api.push [OF assms(3), of ys b "r_string (return_value_filename d)"] obtain b' where
      p: "list_push_back (conv h) (VECSXP ys b) (r_string (return_value_filename d))
            = VECSXP (ys @ [r_string (return_value_filename d)]) b'" "alist_get b' ''dim'' = None" by blast
    let ?nms = "arguments_names d @ [return_value_name d]"
    have "res_bind (set_names_checked h ms mm (VECSXP (ys @ [r_string (return_value_filename d)]) b') ?nms)
        (\<lambda>named. Inr (d\<lparr>processed_arguments := named, arguments_names := ?nms\<rparr>)) = Inr r"
      using assms(1,5,6) True p(1) full [of ?nms] by (simp add: fin Let_def)
    then obtain named where
      named: "set_names_checked h ms mm (VECSXP (ys @ [r_string (return_value_filename d)]) b') ?nms = Inr named"
      "r = d\<lparr>processed_arguments := named, arguments_names := ?nms\<rparr>"
      unfolding res_bind_Inr_conv by blast
    from set_names_checked_result [OF assms(2) p(2) _ named(1)] assms(5) named(2) True show ?thesis
      by (simp add: Rf_getAttrib_def alist_get_attr_install)
  next
    case False
    have "res_bind (set_names_checked h ms mm (VECSXP ys b) (arguments_names d))
        (\<lambda>named. Inr (d\<lparr>processed_arguments := named, arguments_names := arguments_names d\<rparr>)) = Inr r"
      using assms(1,5,6) False full [of "arguments_names d"] by (simp add: fin Let_def)
    then obtain named where
      named: "set_names_checked h ms mm (VECSXP ys b) (arguments_names d) = Inr named"
      "r = d\<lparr>processed_arguments := named, arguments_names := arguments_names d\<rparr>"
      unfolding res_bind_Inr_conv by blast
    from set_names_checked_result [OF assms(2,4) _ named(1)] assms(5) named(2) False show ?thesis
      by (simp add: Rf_getAttrib_def alist_get_attr_install)
  qed
qed

text \<open>What a successful submission consists of.\<close>

lemma execute_task_parts:
  assumes run: "rcompss_execute_task e f (VECSXP xs a) n dir file_nm ms rv s = (Inr r, s')" "success r"
    and n: "n = int (length xs)" and dim: "alist_get a ''dim'' = None"
    and api: "r_object_api (c_api (host e))" "rcpp_api (conv (host e))"
  shows "\<exists>d s1 ys b.
      TaskDecorator_executeTask e f (VECSXP xs a) n dir file_nm (method_vector (host e) ms) rv s = (Inr d, s1)
    \<and> result_ok e n rv dir (method_vector (host e) ms) d
    \<and> ship_arguments e (VECSXP xs a) dir (method_vector (host e) ms ! 0) d 0 (length xs) (VECSXP xs b) s1
        = (Inr (VECSXP ys b), s') \<and> length ys = length xs
    \<and> vector_elts (processed_arguments r) = ys @ (if rv then [r_string (return_value_filename d)] else [])
    \<and> Rf_getAttrib (processed_arguments r) ''names'' = r_strings (arguments_names r)
    \<and> r = d\<lparr>processed_arguments := processed_arguments r,
            arguments_names := arguments_names d @ (if rv then [return_value_name d] else [])\<rparr>"
proof -
  let ?mv = "method_vector (host e) ms"
  from run(1) obtain d s1 names pa0 pa1 where
    d: "TaskDecorator_executeTask e f (VECSXP xs a) n dir file_nm ?mv rv s = (Inr d, s1)" and
    names: "initial_names d n = Inr names" and
    pa0: "set_names_checked (host e) (\<lambda>_. ''Failed to set names on processed_args'') ''Names size mismatch''
            (VECSXP xs a) names = Inr pa0" and
    ship: "ship_arguments e (VECSXP xs a) dir (?mv ! 0) d 0 (nat n) pa0 s1 = (Inr pa1, s')" and
    r: "finish_arguments (host e) d rv pa1 = Inr r"
    by (auto simp: rcompss_execute_task_def Let_def st_bind_Inr_conv)
  have "success r = success d" using r by (auto simp: finish_arguments_def res_bind_Inr_conv Let_def)
  with run(2) d have ok: "result_ok e n rv dir ?mv d" by (intro executeTask_ok) simp_all
  then have len: "length (arguments_names d) = length xs" "num_returns d = of_bool rv"
    using n by (auto simp: result_ok_def)
  have nm: "names = arguments_names d" using names len n by (simp add: initial_names_def)
  define b where "b = attr_install ''names'' (r_strings names) a"
  have b: "alist_get b ''dim'' = None" using dim by (simp add: b_def alist_get_attr_install)
  have pa0': "pa0 = VECSXP xs b"
    using set_names_checked_result [OF api(1) dim _ pa0] nm len by (simp add: b_def)
  with ship have ship': "ship_arguments e (VECSXP xs a) dir (?mv ! 0) d 0 (length xs) (VECSXP xs b) s1 = (Inr pa1, s')"
    using n by simp
  from ship_arguments_vec [OF this] obtain ys where ys: "pa1 = VECSXP ys b" "length ys = length xs" by blast
  from finish_arguments_result [OF r [unfolded ys(1)] api b] len ys(2) d ok ship' ys show ?thesis
    by (intro exI [of _ d] exI [of _ s1] exI [of _ ys] exI [of _ b]) simp
qed

lemma submitted_argument:
  assumes run: "rcompss_execute_task e f (VECSXP xs a) n dir file_nm ms rv s = (Inr r, s')" "success r"
    and n: "n = int (length xs)" and dim: "alist_get a ''dim'' = None"
    and api: "r_object_api (c_api (host e))" "rcpp_api (conv (host e))"
    and env: "clock_ok e" "\<forall>out. closed (out_env (host e)) out = out"
    and m: "method_vector (host e) ms ! 0 = ''cpp''"
    and nm: "\<forall>nm \<in> set (take (length xs) (arguments_names r)). plain_name nm"
    and i: "i < length xs"
  shows "(ships r (VECSXP xs a) i \<longrightarrow> shipped r (VECSXP xs a) dir (processed_arguments r) i s')
       \<and> (content_types r ! i = [] \<longrightarrow> vector_elts (processed_arguments r) ! i = xs ! i)
       \<and> plain_name (arguments_names r ! i)"
proof -
  from execute_task_parts [OF run n dim api] obtain d s1 ys b where
    ok: "result_ok e n rv dir (method_vector (host e) ms) d" and
    ship: "ship_arguments e (VECSXP xs a) dir ''cpp'' d 0 (length xs) (VECSXP xs b) s1 = (Inr (VECSXP ys b), s')" and
    len: "length ys = length xs" and
    elts: "vector_elts (processed_arguments r) = ys @ (if rv then [r_string (return_value_filename d)] else [])" and
    r: "r = d\<lparr>processed_arguments := processed_arguments r,
            arguments_names := arguments_names d @ (if rv then [return_value_name d] else [])\<rparr>"
    unfolding m by (metis ship_arguments_vec sexp.inject(5))
  have names: "arguments_names r = arguments_names d @ (if rv then [return_value_name d] else [])"
    and same: "arguments_type r = arguments_type d" "content_types r = content_types d"
    by (subst r, simp)+
  have len_names: "length (arguments_names d) = length xs" using ok n by (simp add: result_ok_def)
  then have plain: "plain_name (arguments_names d ! j)" if "j < length xs" for j
    using nm that names by auto
  have "ships d (VECSXP xs a) i \<longrightarrow> shipped d (VECSXP xs a) dir (VECSXP ys b) i s'"
    "content_types d ! i = [] \<longrightarrow> ys ! i = xs ! i"
    using ship_arguments_result [OF env, of 0 "length xs" d "VECSXP xs a" dir "VECSXP xs b" s1 "VECSXP ys b" s']
      plain ship i by auto
  moreover have "vector_elts (processed_arguments r) ! i = ys ! i" "arguments_names r ! i = arguments_names d ! i"
    using elts len i names len_names by (auto simp: nth_append)
  ultimately show ?thesis
    using plain [OF i] by (simp add: ships_def shipped_def argument_path_def same)
qed

section \<open>A concrete submission\<close>

text \<open>A task with one argument, an integer vector of length two, that returns nothing.\<close>

definition example_arg :: sexp where
  "example_arg = INTSXP [5, 7] []"

lemma example_methods: "method_vector example_host [''cpp''] = [''cpp'', ''cpp'']"
  by (simp add: method_vector_def Let_def)

lemma example_named:
  "length ys = 1 \<Longrightarrow> names_of reference_rcpp (VECSXP ys [(''names'', r_strings [''x''])]) = Inr [Some ''x'']"
  "set_names_checked example_host ms mm (VECSXP [y] [(''names'', r_strings [''x''])]) [''x'']
     = Inr (VECSXP [y] [(''names'', r_strings [''x''])])"
proof -
  show names: "names_of reference_rcpp (VECSXP ys [(''names'', r_strings [''x''])]) = Inr [Some ''x'']" if "length ys = 1" for ys
    using refrcpp.names [of "[(''names'', r_strings [''x''])]"] that by (simp add: r_strings_def)
  show "set_names_checked example_host ms mm (VECSXP [y] [(''names'', r_strings [''x''])]) [''x'']
      = Inr (VECSXP [y] [(''names'', r_strings [''x''])])"
    using r_object_api.set_names [OF refapi.r_object_api_axioms, of "VECSXP [y] [(''names'', r_strings [''x''])]" "r_strings [''x'']" 100]
      names [of "[y]"]
    by (simp add: set_names_checked_def Rf_getAttrib_def valid_names_def r_strings_def attr_put_def)
qed

lemma example_submission:
  "\<exists>r s'. rcompss_execute_task example_env ''f'' (VECSXP [example_arg] [(''names'', r_strings [''x''])]) 1 ''/w'' ''t.R''
      [''cpp''] False empty_node = (Inr r, s')
    \<and> success r \<and> arguments_type r = [10] \<and> content_types r = [''object''] \<and> arguments_names r = [''x'']
    \<and> pp_height s' = 0"
proof -
  let ?args = "VECSXP [example_arg] [(''names'', r_strings [''x''])]"
  note names = example_named(1)
  have type: "processSingleArgument example_env [example_arg] 0 ([0], [[]]) s = (Inr ([10], [''object'']), s)" for s
    by (simp add: processSingleArgument_def type_argument_def st_catch_def st_bind_def vec_index_def
        example_arg_def class_attribute_def processArgument_def)
  obtain u s0 where gen: "UIDGenerator_generate (clock example_env) (draw example_env) empty_node = (u, s0)"
    by fastforce
  then have u: "rcompss_generate_uid example_env empty_node = (Inr u, s0)"
    by (simp add: rcompss_generate_uid_def)
  have "uid_random (draw example_env) n s = (fst (uid_random (draw example_env) n s), s)" for n and s :: "unit node"
    by (induction n) (auto simp: example_env_def split: prod.splits)
  then have s0: "s0 = empty_node"
    using gen by (auto simp: UIDGenerator_generate_def example_env_def split: prod.splits) (metis snd_conv)
  let ?p = "buildArgumentFilename ''/w'' ''cpp'' ''x'' 1 u"
  have fits: "cpp_fits example_host example_arg ?p empty_node"
    by (rule example_fits)
       (simp_all add: example_arg_def wf_sexp.simps Rf_getAttrib_def object_depth_def object_nodes_def
         to_wire.simps empty_node_def)
  from native_roundtrip [OF fits] obtain w where
    w: "cpp_write example_host example_arg ?p empty_node
        = (Inr (), empty_node\<lparr>files := (files empty_node)(?p \<mapsto> file_bytes w)\<rparr>)" by blast
  have ser: "rcompss_serialize example_host example_arg ?p ''cpp'' 1 empty_node
      = (Inr (), empty_node\<lparr>files := (files empty_node)(?p \<mapsto> file_bytes w)\<rparr>)"
    by (simp add: rcompss_serialize_def serialize_with_def w st_catch_def)
  note methods = example_methods and set = example_named(2)
  have dec: "\<exists>r. TaskDecorator_executeTask example_env ''f'' ?args 1 ''/w'' ''t.R'' [''cpp'', ''cpp''] False empty_node
        = (Inr r, empty_node)
      \<and> success r \<and> arguments_type r = [10] \<and> content_types r = [''object''] \<and> arguments_names r = [''x'']
      \<and> num_returns r = 0"
    by (simp add: TaskDecorator_executeTask_def execute_body_def names st_bind_def st_catch_def assign_def
        argument_names_def repInteger_def repString_def rep_vector_def st_gets_def on_node_def type
        vec_index_def finish_result_def processTaskMetadata_value fresh_result_def)
  then obtain r where r: "TaskDecorator_executeTask example_env ''f'' ?args 1 ''/w'' ''t.R'' [''cpp'', ''cpp''] False empty_node
        = (Inr r, empty_node)" "success r" "arguments_type r = [10]" "content_types r = [''object'']"
      "arguments_names r = [''x'']" "num_returns r = 0" by blast
  have pp0: "pp_height empty_node = 0" by (simp add: empty_node_def)
  have not_sym: "\<not> is_symbol example_arg" by (simp add: example_arg_def)
  show ?thesis
    using r set ser not_sym
    by (simp add: rcompss_execute_task_def methods st_bind_def initial_names_def ship_argument_def vec_index_def
        u [unfolded s0] finish_arguments_def Let_def fill_names_def pp0)
qed

text \<open>A task without arguments that returns a value.\<close>

lemma example_return:
  "\<exists>r s'. rcompss_execute_task example_env ''f'' (VECSXP [] [(''names'', r_strings [])]) 0 ''/w'' ''t.R''
      [''cpp''] True empty_node = (Inr r, s') \<and> success r"
proof -
  let ?a = "[(''names'', r_strings [])]"
  have names: "names_of reference_rcpp (VECSXP [] ?a) = Inr []"
    using refrcpp.names [of ?a "[]" "[]" "[]"] by (simp add: r_strings_def)
  have methods: "method_vector example_host [''cpp''] = [''cpp'', ''cpp'']"
    by (simp add: method_vector_def Let_def)
  obtain u s0 where u: "UIDGenerator_generate (clock example_env) (draw example_env) empty_node = (u, s0)"
    by fastforce
  have set: "setAttrib (reference_api 100) (VECSXP ys b) ''names'' (r_strings ss)
      = Inr (VECSXP ys (attr_install ''names'' (r_strings ss) b))"
    if "alist_get b ''dim'' = None" "length ss = length ys" for ys b ss
    using r_object_api.set_names [OF refapi.r_object_api_axioms, of "VECSXP ys b" "r_strings ss" 100] that
    by (simp add: Rf_getAttrib_def valid_names_def r_strings_def attr_put_def)
  have names1: "names_of reference_rcpp (VECSXP [y] [(''names'', r_strings [nm])]) = Inr [Some nm]" for y nm
    using refrcpp.names [of "[(''names'', r_strings [nm])]"] by (simp add: r_strings_def)
  have push: "list_push_back reference_rcpp (VECSXP ys b) v = VECSXP (ys @ [v]) []" for ys b v
    by (simp add: reference_rcpp_def)
  show ?thesis
    by (simp add: rcompss_execute_task_def methods TaskDecorator_executeTask_def execute_body_def names st_bind_def
        st_catch_def assign_def argument_names_def repInteger_def repString_def rep_vector_def on_node_def
        vec_index_def finish_result_def processTaskMetadata_value fresh_result_def buildReturnValue_def
        rcompss_generate_uid_def u initial_names_def set_names_checked_def set names1 push finish_arguments_def
        Let_def fill_names_def)
qed

section \<open>Properties\<close>

text \<open>
  C2. When the submission of a task succeeds with the native method, every argument that has
  to travel as a file can be read back: the processed argument is a path whose name carries
  the method, and \<^verbatim>\<open>rcompss_unserialize\<close> returns the argument from that path, in the state
  after all arguments and the return value have been processed, so no later argument has
  overwritten an earlier one's file. Arguments of basic type are passed as they are.
\<close>

theorem submitted_arguments_readable:
  assumes "rcompss_execute_task e f (VECSXP xs a) n dir file_nm ms rv s = (Inr r, s')" "success r"
    and "n = int (length xs)" "alist_get a ''dim'' = None"
    and "r_object_api (c_api (host e))" "rcpp_api (conv (host e))"
    and "clock_ok e" "\<forall>out. closed (out_env (host e)) out = out"
    and "method_vector (host e) ms ! 0 = ''cpp''"
    and "\<forall>nm \<in> set (take (length xs) (arguments_names r)). plain_name nm"
    and "i < length xs"
  shows "(ships r (VECSXP xs a) i \<and> readable (host e) (xs ! i) s' \<longrightarrow>
            (\<exists>p. vector_elts (processed_arguments r) ! i = r_string p \<and> extractSerializationMethod p = ''cpp''
               \<and> rcompss_unserialize (host e) p k s' = (Inr (norm_sexp (xs ! i)), s')))
       \<and> (content_types r ! i = [] \<longrightarrow> vector_elts (processed_arguments r) ! i = xs ! i)"
proof (intro conjI impI)
  note sub = submitted_argument [OF assms]
  assume a: "ships r (VECSXP xs a) i \<and> readable (host e) (xs ! i) s'"
  with sub obtain u w where u: "plain_name u"
    "vector_elts (processed_arguments r) ! i = r_string (argument_path dir ''cpp'' (arguments_names r) i u)"
    "to_wire (xs ! i) = Some w"
    "files s' (argument_path dir ''cpp'' (arguments_names r) i u) = Some (file_bytes w)"
    by (auto simp: shipped_def)
  have "extractSerializationMethod (argument_path dir ''cpp'' (arguments_names r) i u) = ''cpp''"
    using method_of_argument_path [of "''cpp''" "arguments_names r" i u dir] sub u(1) by simp
  with u(2) api_read [OF conjunct2 [OF a] u(3,4) this, of k]
  show "\<exists>p. vector_elts (processed_arguments r) ! i = r_string p \<and> extractSerializationMethod p = ''cpp''
      \<and> rcompss_unserialize (host e) p k s' = (Inr (norm_sexp (xs ! i)), s')" by blast
next
  assume "content_types r ! i = []"
  with submitted_argument [OF assms] show "vector_elts (processed_arguments r) ! i = xs ! i" by simp
qed

lemma example_clock: "clock_ok example_env"
  by (simp add: clock_ok_def example_env_def)

theorem submitted_arguments_readable_witness:
  "\<exists>r s' p. rcompss_execute_task example_env ''f'' (VECSXP [example_arg] [(''names'', r_strings [''x''])]) 1 ''/w'' ''t.R''
      [''cpp''] False empty_node = (Inr r, s')
    \<and> vector_elts (processed_arguments r) ! 0 = r_string p
    \<and> rcompss_unserialize example_host p 1 s' = (Inr (norm_sexp example_arg), s')"
proof -
  let ?xs = "[example_arg]" and ?a = "[(''names'', r_strings [''x''])]"
  from example_submission obtain r s' where
    run: "rcompss_execute_task example_env ''f'' (VECSXP ?xs ?a) 1 ''/w'' ''t.R'' [''cpp''] False empty_node = (Inr r, s')"
    and r: "success r" "arguments_type r = [10]" "content_types r = [''object'']" "arguments_names r = [''x'']"
    and pp: "pp_height s' = 0" by blast
  have m: "method_vector example_host [''cpp''] ! 0 = ''cpp''" by (simp add: method_vector_def Let_def)
  have "ships r (VECSXP ?xs ?a) 0" using r by (simp add: ships_def example_arg_def)
  moreover have "readable example_host (?xs ! 0) s'"
    using pp by (simp add: readable_def refapi.r_object_api_axioms example_arg_def wf_sexp.simps Rf_getAttrib_def
        object_depth_def object_nodes_def to_wire.simps)
  ultimately show ?thesis
    using submitted_arguments_readable [OF run r(1) _ _ _ _ example_clock, of 0 1] run r(4) m
    by (auto simp: refapi.r_object_api_axioms refrcpp.rcpp_api_axioms is_separator_def)
qed

text \<open>
  C18. A successful submission hands COMPSs vectors that fit together: processed arguments,
  names, types, content types, directions, streams, prefixes, weights and rename flags all
  have one entry per argument plus one for the return value, each argument is an input, and the
  return value is the only output, a file that keeps its name. The type of an argument is that of the
  COMPSs numbering: a scalar whose class is integer, numeric or character goes by value with the number
  of its R type, 4 for integer, 7 for double and 8 for character; everything else is a file, number 10,
  with content type \<^verbatim>\<open>future_object\<close> or \<^verbatim>\<open>object\<close>. When R fails to answer, the argument still gets
  one of these types.
\<close>

theorem submission_shape:
  assumes "rcompss_execute_task e f (VECSXP xs a) n dir file_nm ms rv s = (Inr r, s')" "success r"
    and "n = int (length xs)" "alist_get a ''dim'' = None"
    and "r_object_api (c_api (host e))" "rcpp_api (conv (host e))"
  shows "(\<forall>k \<in> {length (vector_elts (processed_arguments r)), length (arguments_names r), length (arguments_type r),
            length (content_types r), length (compss_directions r), length (compss_streams r),
            length (compss_prefixes r), length (weights r), length (keep_renames r)}. k = length xs + of_bool rv)
    \<and> (\<forall>i < length xs. typed (arguments_type r ! i) (content_types r ! i) \<and> compss_directions r ! i = 0
          \<and> keep_renames r ! i = 0
          \<and> (\<forall>cls t len. answers e (xs ! i) cls t len \<longrightarrow>
               (arguments_type r ! i, content_types r ! i) = described_as cls t len))
    \<and> (rv \<longrightarrow> arguments_type r ! length xs = 10 \<and> compss_directions r ! length xs = 1 \<and> keep_renames r ! length xs = 1)
    \<and> num_returns r = of_bool rv
    \<and> Rf_getAttrib (processed_arguments r) ''names'' = r_strings (arguments_names r)"
proof -
  from execute_task_parts [OF assms] obtain d ys s1 where
    ok: "result_ok e n rv dir (method_vector (host e) ms) d" and len: "length ys = length xs" and
    dec: "TaskDecorator_executeTask e f (VECSXP xs a) n dir file_nm (method_vector (host e) ms) rv s = (Inr d, s1)" and
    elts: "vector_elts (processed_arguments r) = ys @ (if rv then [r_string (return_value_filename d)] else [])" and
    nms: "Rf_getAttrib (processed_arguments r) ''names'' = r_strings (arguments_names r)" and
    r: "r = d\<lparr>processed_arguments := processed_arguments r,
            arguments_names := arguments_names d @ (if rv then [return_value_name d] else [])\<rparr>" by blast
  have same: "arguments_names r = arguments_names d @ (if rv then [return_value_name d] else [])"
    "arguments_type r = arguments_type d" "content_types r = content_types d"
    "compss_directions r = compss_directions d" "compss_streams r = compss_streams d"
    "compss_prefixes r = compss_prefixes d" "weights r = weights d" "keep_renames r = keep_renames d"
    "num_returns r = num_returns d"
    by (subst r, simp)+
  have "success d" using assms(2) by (subst (asm) r) simp
  from executeTask_described [OF dec this] assms(3)
  have described: "\<forall>i < length xs. \<forall>cls t len. answers e (xs ! i) cls t len \<longrightarrow>
      (arguments_type r ! i, content_types r ! i) = described_as cls t len"
    by (simp add: same)
  show ?thesis
  proof (intro conjI)
    show "\<forall>i < length xs. typed (arguments_type r ! i) (content_types r ! i) \<and> compss_directions r ! i = 0
          \<and> keep_renames r ! i = 0
          \<and> (\<forall>cls t len. answers e (xs ! i) cls t len \<longrightarrow>
               (arguments_type r ! i, content_types r ! i) = described_as cls t len)"
      using ok len assms(3) described
      by (auto simp: same result_ok_def nth_append list_all2_conv_all_nth)
  qed (use ok len elts nms assms(3) in \<open>auto simp: same result_ok_def nth_append list_all2_conv_all_nth\<close>)
qed

lemma example_integer_submission:
  "\<exists>r s'. rcompss_execute_task example_env ''f'' (VECSXP [r_int 7] [(''names'', r_strings [''x''])]) 1 ''/w'' ''t.R''
      [''cpp''] False empty_node = (Inr r, s') \<and> success r"
proof -
  let ?args = "VECSXP [r_int 7] [(''names'', r_strings [''x''])]"
  note names = example_named(1) and methods = example_methods and set = example_named(2)
  have type: "processSingleArgument example_env [r_int 7] 0 ([0], [[]]) s = (Inr ([4], [[]]), s)" for s
    using processSingleArgument_described [of example_env "[r_int 7]" 0 "[''integer'']" "''integer''" 1 "([0], [[]])" s]
    by (simp add: answers_def described_as_def compss_numbers_def r_int_def class_attribute_def)
  show ?thesis
    by (simp add: rcompss_execute_task_def methods TaskDecorator_executeTask_def execute_body_def names st_bind_def
        st_catch_def assign_def argument_names_def repInteger_def repString_def rep_vector_def on_node_def st_gets_def type
        vec_index_def finish_result_def processTaskMetadata_value fresh_result_def initial_names_def set ship_argument_def
        finish_arguments_def Let_def fill_names_def)
qed

theorem submission_shape_witness:
  "\<exists>r s'. rcompss_execute_task example_env ''f'' (VECSXP [r_int 7] [(''names'', r_strings [''x''])]) 1 ''/w'' ''t.R''
      [''cpp''] False empty_node = (Inr r, s') \<and> arguments_type r = [4] \<and> content_types r = [[]] \<and> compss_directions r ! 0 = 0"
proof -
  from example_integer_submission obtain r s' where
    run: "rcompss_execute_task example_env ''f'' (VECSXP [r_int 7] [(''names'', r_strings [''x''])]) 1 ''/w'' ''t.R''
      [''cpp''] False empty_node = (Inr r, s')" "success r" by blast
  have "answers example_env (r_int 7) [''integer''] ''integer'' 1"
    by (simp add: answers_def r_int_def class_attribute_def)
  with submission_shape [OF run] have
    "length (arguments_type r) = 1" "length (content_types r) = 1" "compss_directions r ! 0 = 0"
    "(arguments_type r ! 0, content_types r ! 0) = described_as [''integer''] ''integer'' 1"
    by (auto simp: refapi.r_object_api_axioms refrcpp.rcpp_api_axioms)
  with run(1) show ?thesis
    by (auto simp: described_as_def compss_numbers_def length_Suc_conv)
qed

text \<open>
  The names the submitting side gives the return value are the ones the executor looks
  for: the argument name is a return value placeholder that carries the output method, and
  the file name is the one \<^verbatim>\<open>PathUtils\<close> would build, from which readers recover the method.
\<close>

theorem return_value_recognised:
  assumes "rcompss_execute_task e f (VECSXP xs a) n dir file_nm ms True s = (Inr r, s')" "success r"
    and "n = int (length xs)" "alist_get a ''dim'' = None"
    and "r_object_api (c_api (host e))" "rcpp_api (conv (host e))" "clock_ok e"
    and "m = method_vector (host e) ms ! 1" "method_name m"
  shows "\<exists>u. vector_elts (processed_arguments r) ! length xs = r_string (buildReturnValueFilename dir m u)
           \<and> extractSerializationMethod (buildReturnValueFilename dir m u) = m
           \<and> rcompssIsReturnValuePlaceholderArgName (arguments_names r ! length xs)
           \<and> before_dash (arguments_names r ! length xs) = m"
proof -
  from execute_task_parts [OF assms(1-6)] obtain d ys where
    ok: "result_ok e n True dir (method_vector (host e) ms) d" and len: "length ys = length xs" and
    elts: "vector_elts (processed_arguments r) = ys @ [r_string (return_value_filename d)]" and
    r: "r = d\<lparr>processed_arguments := processed_arguments r, arguments_names := arguments_names d @ [return_value_name d]\<rparr>"
    by (auto simp only: if_True)
  from ok assms(8) obtain u t t' where u: "rcompss_generate_uid e t = (Inr u, t')"
    "return_value_filename d = with_slash dir @ m @ ''-ReturnValue_'' @ u" "return_value_name d = buildReturnValueName m"
    and names: "length (arguments_names d) = length xs"
    using assms(3) by (auto simp: result_ok_def)
  have path: "return_value_filename d = buildReturnValueFilename dir m u"
    using assms(9) u(2) by (simp add: buildReturnValueFilename_def method_name_def)
  have "arguments_names r = arguments_names d @ [return_value_name d]" by (subst r) simp
  then have "arguments_names r ! length xs = buildReturnValueName m"
    using names u(3) by (simp add: nth_append)
  moreover have "plain_name u" using uid_fresh [OF assms(7) u(1)] by simp
  ultimately show ?thesis
    using elts len path method_of_return_value [OF assms(9), of u dir] placeholder_return_name
      before_dash_return_name [of m] assms(9)
    by (intro exI [of _ u]) (simp add: nth_append method_name_def)
qed

theorem return_value_recognised_witness:
  "\<exists>r s' u. rcompss_execute_task example_env ''f'' (VECSXP [] [(''names'', r_strings [])]) 0 ''/w'' ''t.R''
      [''cpp''] True empty_node = (Inr r, s')
    \<and> vector_elts (processed_arguments r) ! 0 = r_string (buildReturnValueFilename ''/w'' ''cpp'' u)"
proof -
  from example_return obtain r s' where
    run: "rcompss_execute_task example_env ''f'' (VECSXP [] [(''names'', r_strings [])]) 0 ''/w'' ''t.R''
      [''cpp''] True empty_node = (Inr r, s')" "success r" by blast
  have m: "''cpp'' = method_vector (host example_env) [''cpp''] ! 1" by (simp add: method_vector_def Let_def)
  from return_value_recognised [OF run _ _ _ _ example_clock m] run(1) show ?thesis
    by (auto simp: refapi.r_object_api_axioms refrcpp.rcpp_api_axioms)
qed

text \<open>
  With an empty method vector the caller's default fills only the first of the two
  entries the decorator reads: no submission of a task with a return value succeeds, and one
  without arguments reads past the end of the vector.
\<close>

theorem empty_method_vector_undefined:
  assumes "names_of (conv (host e)) (VECSXP [] a) = Inr nms"
  shows "rcompss_execute_task e f (VECSXP [] a) 0 dir file_nm [] True s = (Inl Undefined_behaviour, s)
       \<and> (\<forall>args n. case rcompss_execute_task e f args n dir file_nm [] True s of
             (Inr r, s') \<Rightarrow> \<not> success r | (Inl ex, s') \<Rightarrow> True)"
proof
  have mv: "length (method_vector (host e) []) = 1" by (simp add: method_vector_def Let_def)
  show "rcompss_execute_task e f (VECSXP [] a) 0 dir file_nm [] True s = (Inl Undefined_behaviour, s)"
    using mv assms
    by (simp add: rcompss_execute_task_def Let_def TaskDecorator_executeTask_def execute_body_def st_bind_def
        st_catch_def assign_def repInteger_def repString_def rep_vector_def finish_result_def
        processTaskMetadata_value vec_index_def)
  show "\<forall>args n. case rcompss_execute_task e f args n dir file_nm [] True s of
      (Inr r, s') \<Rightarrow> \<not> success r | (Inl ex, s') \<Rightarrow> True"
  proof (intro allI)
    fix args n
    have "\<not> success r" if "rcompss_execute_task e f args n dir file_nm [] True s = (Inr r, s')" for r s'
    proof
      assume "success r"
      from that obtain d s1 pa s2 where
        d: "TaskDecorator_executeTask e f args n dir file_nm (method_vector (host e) []) True s = (Inr d, s1)"
        and r: "finish_arguments (host e) d True pa = Inr r"
        by (auto simp: rcompss_execute_task_def Let_def st_bind_Inr_conv)
      from r \<open>success r\<close> have "success d" by (auto simp: finish_arguments_def res_bind_Inr_conv Let_def)
      with executeTask_ok [OF d] mv show False by (simp add: result_ok_def)
    qed
    then show "case rcompss_execute_task e f args n dir file_nm [] True s of
        (Inr r, s') \<Rightarrow> \<not> success r | (Inl ex, s') \<Rightarrow> True"
      by (auto split: prod.splits sum.splits)
  qed
qed

theorem empty_method_vector_undefined_witness:
  "fst (rcompss_execute_task example_env ''f'' (VECSXP [] [(''names'', r_strings [])]) 0 ''/w'' ''t.R'' [] True empty_node)
     = Inl Undefined_behaviour"
proof -
  have "names_of (conv (host example_env)) (VECSXP [] [(''names'', r_strings [])]) = Inr []"
    using refrcpp.names [of "[(''names'', r_strings [])]" "[]" "[]" "[]"] by (simp add: r_strings_def)
  from conjunct1 [OF empty_method_vector_undefined [OF this]] show ?thesis by simp
qed

text \<open>
  The failure the decorator reports in \<^verbatim>\<open>success\<close> and \<^verbatim>\<open>error_message\<close> never reaches the
  caller when it happens before the types are filled in: a list of arguments whose names
  cannot be read makes the caller index an empty vector.
\<close>

theorem reported_failure_ignored:
  assumes "names_of (conv (host e)) (VECSXP xs a) = Inl ex" "catchable ex"
    and "xs \<noteq> []" "alist_get a ''dim'' = None" "r_object_api (c_api (host e))" "rcpp_api (conv (host e))"
  shows "rcompss_execute_task e f (VECSXP xs a) (int (length xs)) dir file_nm ms rv s = (Inl Undefined_behaviour, s)"
proof -
  obtain n where n: "length xs = Suc n" using assms(3) by (cases xs) auto
  have fill: "fill_names [] (length xs) = replicate (length xs) []"
    by (rule nth_equalityI) (simp_all add: fill_names_def)
  let ?a = "attr_install ''names'' (r_strings (replicate (length xs) [])) a"
  have "setAttrib (c_api (host e)) (VECSXP xs a) ''names'' (r_strings (replicate (length xs) []))
      = Inr (VECSXP xs ?a)"
    using r_object_api.set_names [OF assms(5), of "VECSXP xs a" "r_strings (replicate (length xs) [])"] assms(4)
    by (simp add: Rf_getAttrib_def valid_names_def r_strings_def attr_put_def)
  moreover have "names_of (conv (host e)) (VECSXP xs ?a) = Inr (replicate (length xs) (Some []))"
    using rcpp_api.names [OF assms(6), of ?a "replicate (length xs) (CHARSXP CE_NATIVE (string_bytes []))" "[]" xs]
    by (simp add: alist_get_attr_install r_strings_def)
  ultimately have set: "set_names_checked (host e) mi mm (VECSXP xs a) (fill_names [] (length xs)) = Inr (VECSXP xs ?a)"
    for mi mm
    by (simp add: set_names_checked_def fill alist_get_attr_install)
  have dec: "TaskDecorator_executeTask e f (VECSXP xs a) (int (length xs)) dir file_nm (method_vector (host e) ms) rv s
      = (Inr (fresh_result\<lparr>error_message := decorator_error ex, success := False\<rparr>), s)"
    using assms(1,2)
    by (simp add: TaskDecorator_executeTask_def execute_body_def st_bind_def st_catch_def assign_def fresh_result_def)
  have names: "initial_names (fresh_result\<lparr>error_message := decorator_error ex, success := False\<rparr>) (int (length xs))
      = Inr (fill_names [] (length xs))"
    using assms(3) by (simp add: initial_names_def fresh_result_def)
  have ship: "ship_arguments e (VECSXP xs a) dir m (fresh_result\<lparr>error_message := decorator_error ex, success := False\<rparr>)
      0 (length xs) pa s = (Inl Undefined_behaviour, s)" for m pa
    by (simp add: n ship_argument_def vec_index_def fresh_result_def st_bind_def)
  show ?thesis
    using set by (simp add: rcompss_execute_task_def Let_def st_bind_def dec names ship)
qed

theorem reported_failure_ignored_witness:
  "fst (rcompss_execute_task example_env ''f'' (VECSXP [example_arg] []) 1 ''/w'' ''t.R'' [''cpp''] False empty_node)
     = Inl Undefined_behaviour"
proof -
  have "names_of (conv (host example_env)) (VECSXP [example_arg] []) = Inl not_compatible" "catchable not_compatible"
    by (simp_all add: reference_rcpp_def reference_names_def not_compatible_def)
  from reported_failure_ignored [OF this, of "''f''" "''/w''" "''t.R''" "[''cpp'']" False empty_node] show ?thesis
    by (simp add: refapi.r_object_api_axioms refrcpp.rcpp_api_axioms)
qed

end
