(* ===== verification/Gpu_Linalg.thy ===== *)
theory Gpu_Linalg
  imports Gpu_Memory
begin

text \<open>
  Dense linear algebra on the GPU: \<^verbatim>\<open>kernels/cuda/CudaLibraryWrappers.cpp\<close> and the exports of
  \<^verbatim>\<open>src/RcppGpuLinalg.cpp\<close>. cuBLAS and cuSOLVER are not part of the sources: \<open>linalg_lib\<close> holds what
  each of their functions computes from the numbers in the buffers it is given, \<open>None\<close> standing for
  a status other than success. Which elements a call reads and writes follows from its dimensions
  and is checked against the buffers here.
\<close>

section \<open>The libraries\<close>

record linalg_lib =
  cublasDgemm :: "bool \<Rightarrow> bool \<Rightarrow> int \<Rightarrow> int \<Rightarrow> int \<Rightarrow> u64 \<Rightarrow> u64 list \<Rightarrow> int \<Rightarrow> u64 list \<Rightarrow> int \<Rightarrow> u64 \<Rightarrow> u64 list \<Rightarrow> int \<Rightarrow> u64 list option"
  cublasDaxpy :: "int \<Rightarrow> u64 \<Rightarrow> u64 list \<Rightarrow> u64 list \<Rightarrow> u64 list option"
  cublasDgemv :: "bool \<Rightarrow> int \<Rightarrow> int \<Rightarrow> u64 \<Rightarrow> u64 list \<Rightarrow> int \<Rightarrow> u64 list \<Rightarrow> u64 \<Rightarrow> u64 list \<Rightarrow> u64 list option"
  cublasDdot :: "int \<Rightarrow> u64 list \<Rightarrow> u64 list \<Rightarrow> u64 option"
  cublasDnrm2 :: "int \<Rightarrow> u64 list \<Rightarrow> u64 option"
  cublasDscal :: "int \<Rightarrow> u64 \<Rightarrow> u64 list \<Rightarrow> u64 list option"
  cublasDtrmm :: "bool \<Rightarrow> bool \<Rightarrow> bool \<Rightarrow> bool \<Rightarrow> int \<Rightarrow> int \<Rightarrow> u64 \<Rightarrow> u64 list \<Rightarrow> int \<Rightarrow> u64 list \<Rightarrow> int \<Rightarrow> u64 list \<Rightarrow> int \<Rightarrow> u64 list option"
  cublasDtrsm :: "bool \<Rightarrow> bool \<Rightarrow> bool \<Rightarrow> bool \<Rightarrow> int \<Rightarrow> int \<Rightarrow> u64 \<Rightarrow> u64 list \<Rightarrow> int \<Rightarrow> u64 list \<Rightarrow> int \<Rightarrow> u64 list option"
  cublasDsyrk :: "bool \<Rightarrow> bool \<Rightarrow> int \<Rightarrow> int \<Rightarrow> u64 \<Rightarrow> u64 list \<Rightarrow> int \<Rightarrow> u64 \<Rightarrow> u64 list \<Rightarrow> int \<Rightarrow> u64 list option"
  potrf_bufferSize :: "bool \<Rightarrow> int \<Rightarrow> int \<Rightarrow> int option"
  cusolverDnDpotrf :: "bool \<Rightarrow> int \<Rightarrow> u64 list \<Rightarrow> int \<Rightarrow> (u64 list \<times> int) option"
  getrf_bufferSize :: "int \<Rightarrow> int \<Rightarrow> int \<Rightarrow> int option"
  cusolverDnDgetrf :: "int \<Rightarrow> int \<Rightarrow> u64 list \<Rightarrow> int \<Rightarrow> (u64 list \<times> int list \<times> int) option"
  cusolverDnDgetrs :: "bool \<Rightarrow> int \<Rightarrow> int \<Rightarrow> u64 list \<Rightarrow> int \<Rightarrow> int list \<Rightarrow> u64 list \<Rightarrow> int \<Rightarrow> (u64 list \<times> int) option"
  cusolverDnDpotrs :: "bool \<Rightarrow> int \<Rightarrow> int \<Rightarrow> u64 list \<Rightarrow> int \<Rightarrow> u64 list \<Rightarrow> int \<Rightarrow> (u64 list \<times> int) option"

record linalg_env =
  mem :: mem_env
  lib :: linalg_lib

section \<open>Numbers in device memory\<close>

text \<open>How many numbers a column-major matrix with leading dimension \<open>ld\<close> spans.\<close>

definition extent :: "int \<Rightarrow> int \<Rightarrow> int \<Rightarrow> int" where
  "extent ld rows cols = (if rows \<le> 0 \<or> cols \<le> 0 then 0 else ld * (cols - 1) + rows)"

definition read_doubles :: "nat option \<Rightarrow> int \<Rightarrow> (memory, u64 list) st" where
  "read_doubles p n =
     (\<lambda>s. if n \<le> 0 then (Inr [], s)
        else
          (case p of
             None \<Rightarrow> (Inl Undefined_behaviour, s)
           | Some r \<Rightarrow>
               (case blocks s r of
                  None \<Rightarrow> (Inl Undefined_behaviour, s)
                | Some bs \<Rightarrow> if 8 * nat n \<le> length bs then (Inr (doubles (nat n) bs), s) else (Inl Undefined_behaviour, s))))"

definition write_bytes :: "nat option \<Rightarrow> byte list \<Rightarrow> (memory, unit) st" where
  "write_bytes p new =
     (\<lambda>s. if new = [] then (Inr (), s)
        else
          (case p of
             None \<Rightarrow> (Inl Undefined_behaviour, s)
           | Some r \<Rightarrow>
               (case blocks s r of
                  None \<Rightarrow> (Inl Undefined_behaviour, s)
                | Some old \<Rightarrow>
                    if length new \<le> length old then (Inr (), s\<lparr>blocks := (blocks s)(r \<mapsto> new @ drop (length new) old)\<rparr>)
                    else (Inl Undefined_behaviour, s))))"

definition write_doubles :: "nat option \<Rightarrow> u64 list \<Rightarrow> (memory, unit) st" where
  "write_doubles p xs = write_bytes p (vector_bytes xs)"

text \<open>Vectors of 32-bit integers: pivots.\<close>

definition ints_bytes :: "int list \<Rightarrow> byte list" where
  "ints_bytes is = concat (map (\<lambda>i. u32_bytes (word_of_int i)) is)"

fun ints_of_bytes :: "nat \<Rightarrow> byte list \<Rightarrow> int list" where
  "ints_of_bytes 0 bs = []"
| "ints_of_bytes (Suc n) bs = sint (u32_of_bytes (take 4 bs)) # ints_of_bytes n (drop 4 bs)"

definition read_ints :: "nat option \<Rightarrow> int \<Rightarrow> (memory, int list) st" where
  "read_ints p n =
     (\<lambda>s. if n \<le> 0 then (Inr [], s)
        else
          (case p of
             None \<Rightarrow> (Inl Undefined_behaviour, s)
           | Some r \<Rightarrow>
               (case blocks s r of
                  None \<Rightarrow> (Inl Undefined_behaviour, s)
                | Some bs \<Rightarrow> if 4 * nat n \<le> length bs then (Inr (ints_of_bytes (nat n) bs), s) else (Inl Undefined_behaviour, s))))"

text \<open>
  The solver's status word lives in device memory that belongs to the context; its bytes appear
  when they are written.
\<close>

definition write_info :: "nat option \<Rightarrow> int \<Rightarrow> (memory, unit) st" where
  "write_info d_info i =
     (\<lambda>s. case d_info of
        None \<Rightarrow> (Inl Undefined_behaviour, s)
      | Some r \<Rightarrow>
          if r \<in> live (device s) then (Inr (), s\<lparr>blocks := (blocks s)(r \<mapsto> ints_bytes [i])\<rparr>)
          else (Inl Undefined_behaviour, s))"

section \<open>The checks around library calls\<close>

text \<open>
  \<^verbatim>\<open>RCOMPSs_GPU_BLAS_CHECK\<close> and \<^verbatim>\<open>RCOMPSs_GPU_SOLVER_CHECK\<close>: the message contains the text of the
  call. \<open>effect\<close> is what the library does; \<open>None\<close> is a status other than success.
\<close>

definition library_check ::
    "linalg_env \<Rightarrow> string \<Rightarrow> string \<Rightarrow> nat \<Rightarrow> (memory, 'a option) st \<Rightarrow> (memory, 'a) st" where
  "library_check e library call handle effect =
     st_bind (on_gpu (use_resource (cuda_of (mem e)) (LibraryCall call) handle)) (\<lambda>reached.
     st_bind (if reached then effect else st_return None) (\<lambda>result.
       case result of
         None \<Rightarrow> st_throw (Std_exception (library @ '' error: '' @ call))
       | Some v \<Rightarrow> st_return v))"

definition BLAS_CHECK :: "linalg_env \<Rightarrow> string \<Rightarrow> nat \<Rightarrow> (memory, 'a option) st \<Rightarrow> (memory, 'a) st" where
  "BLAS_CHECK e = library_check e ''cuBLAS''"

definition SOLVER_CHECK :: "linalg_env \<Rightarrow> string \<Rightarrow> nat \<Rightarrow> (memory, 'a option) st \<Rightarrow> (memory, 'a) st" where
  "SOLVER_CHECK e = library_check e ''cuSOLVER''"

definition CUDA_CHECK :: "linalg_env \<Rightarrow> cuda_call \<Rightarrow> (gpu, bool) st \<Rightarrow> (memory, unit) st" where
  "CUDA_CHECK e c m =
     st_bind (on_gpu m) (\<lambda>success.
       if success then st_return ()
       else st_throw (Std_exception (''CUDA error: '' @ error_string (cuda_of (mem e)) c)))"

text \<open>A result that overwrites a buffer.\<close>

definition deliver :: "nat option \<Rightarrow> u64 list option \<Rightarrow> (memory, unit option) st" where
  "deliver p out =
     (case out of None \<Rightarrow> st_return None | Some xs \<Rightarrow> st_bind (write_doubles p xs) (\<lambda>_. st_return (Some ())))"

text \<open>\<^verbatim>\<open>if (ctx->GetRunMode() == SYNC) RCOMPSs_CUDA_CHECK(cudaStreamSynchronize(ctx->GetStream()))\<close>.\<close>

definition sync_in_mode :: "linalg_env \<Rightarrow> nat \<Rightarrow> (memory, unit) st" where
  "sync_in_mode e ctx =
     st_bind (on_gpu (RunContext_GetRunMode ctx)) (\<lambda>mode.
       if mode = SYNC then
         CUDA_CHECK e StreamSynchronize
           (st_bind (GetStream ctx) (use_resource (cuda_of (mem e)) StreamSynchronize))
       else st_return ())"

section \<open>CudaLibraryWrappers: cuBLAS\<close>

definition GpuBlasDgemm ::
    "linalg_env \<Rightarrow> nat \<Rightarrow> bool \<Rightarrow> bool \<Rightarrow> int \<Rightarrow> int \<Rightarrow> int \<Rightarrow> u64 \<Rightarrow> u64 \<Rightarrow> nat option \<Rightarrow> int \<Rightarrow> nat option \<Rightarrow> int \<Rightarrow>
     nat option \<Rightarrow> int \<Rightarrow> (memory, unit) st" where
  "GpuBlasDgemm e ctx transA transB m n k alpha beta dA lda dB ldb dC ldc =
     st_bind (on_gpu (GetCuBlasDnHandle ctx)) (\<lambda>h.
     st_bind (BLAS_CHECK e ''cublasDgemm(h, ta, tb, m, n, k, &alpha, dA, lda, dB, ldb, &beta, dC, ldc)'' h
       (st_bind (read_doubles dA (if transA then extent lda k m else extent lda m k)) (\<lambda>A.
        st_bind (read_doubles dB (if transB then extent ldb n k else extent ldb k n)) (\<lambda>B.
        st_bind (read_doubles dC (extent ldc m n)) (\<lambda>C.
        deliver dC (cublasDgemm (lib e) transA transB m n k alpha A lda B ldb beta C ldc)))))) (\<lambda>_.
     sync_in_mode e ctx))"

definition GpuBlasDaxpy :: "linalg_env \<Rightarrow> nat \<Rightarrow> int \<Rightarrow> u64 \<Rightarrow> nat option \<Rightarrow> nat option \<Rightarrow> (memory, unit) st" where
  "GpuBlasDaxpy e ctx n alpha d_x d_y =
     st_bind (on_gpu (GetCuBlasDnHandle ctx)) (\<lambda>h.
     st_bind (BLAS_CHECK e ''cublasDaxpy(ctx->GetCuBlasDnHandle(), n, &alpha, d_x, 1, d_y, 1)'' h
       (st_bind (read_doubles d_x n) (\<lambda>x.
        st_bind (read_doubles d_y n) (\<lambda>y.
        deliver d_y (cublasDaxpy (lib e) n alpha x y))))) (\<lambda>_.
     sync_in_mode e ctx))"

definition GpuBlasDgemv ::
    "linalg_env \<Rightarrow> nat \<Rightarrow> bool \<Rightarrow> int \<Rightarrow> int \<Rightarrow> u64 \<Rightarrow> u64 \<Rightarrow> nat option \<Rightarrow> int \<Rightarrow> nat option \<Rightarrow> nat option \<Rightarrow> (memory, unit) st" where
  "GpuBlasDgemv e ctx tr m n alpha beta dA lda d_x d_y =
     st_bind (on_gpu (GetCuBlasDnHandle ctx)) (\<lambda>h.
     st_bind (BLAS_CHECK e ''cublasDgemv(ctx->GetCuBlasDnHandle(), op, m, n, &alpha, dA, lda, d_x, 1, &beta, d_y, 1)'' h
       (st_bind (read_doubles dA (extent lda m n)) (\<lambda>A.
        st_bind (read_doubles d_x (if tr then m else n)) (\<lambda>x.
        st_bind (read_doubles d_y (if tr then n else m)) (\<lambda>y.
        deliver d_y (cublasDgemv (lib e) tr m n alpha A lda x beta y)))))) (\<lambda>_.
     sync_in_mode e ctx))"

text \<open>The two reductions deliver their result in host memory: it is the value returned here.\<close>

definition GpuBlasDdot :: "linalg_env \<Rightarrow> nat \<Rightarrow> int \<Rightarrow> nat option \<Rightarrow> nat option \<Rightarrow> (memory, u64) st" where
  "GpuBlasDdot e ctx n d_x d_y =
     st_bind (on_gpu (GetCuBlasDnHandle ctx)) (\<lambda>h.
     st_bind (BLAS_CHECK e ''cublasDdot(ctx->GetCuBlasDnHandle(), n, d_x, 1, d_y, 1, h_result)'' h
       (st_bind (read_doubles d_x n) (\<lambda>x.
        st_bind (read_doubles d_y n) (\<lambda>y. st_return (cublasDdot (lib e) n x y))))) (\<lambda>h_result.
     st_bind (sync_in_mode e ctx) (\<lambda>_. st_return h_result)))"

definition GpuBlasDnrm2 :: "linalg_env \<Rightarrow> nat \<Rightarrow> int \<Rightarrow> nat option \<Rightarrow> (memory, u64) st" where
  "GpuBlasDnrm2 e ctx n d_x =
     st_bind (on_gpu (GetCuBlasDnHandle ctx)) (\<lambda>h.
     st_bind (BLAS_CHECK e ''cublasDnrm2(ctx->GetCuBlasDnHandle(), n, d_x, 1, h_result)'' h
       (st_bind (read_doubles d_x n) (\<lambda>x. st_return (cublasDnrm2 (lib e) n x)))) (\<lambda>h_result.
     st_bind (sync_in_mode e ctx) (\<lambda>_. st_return h_result)))"

definition GpuBlasDscal :: "linalg_env \<Rightarrow> nat \<Rightarrow> int \<Rightarrow> u64 \<Rightarrow> nat option \<Rightarrow> (memory, unit) st" where
  "GpuBlasDscal e ctx n alpha d_x =
     st_bind (on_gpu (GetCuBlasDnHandle ctx)) (\<lambda>h.
     st_bind (BLAS_CHECK e ''cublasDscal(ctx->GetCuBlasDnHandle(), n, &alpha, d_x, 1)'' h
       (st_bind (read_doubles d_x n) (\<lambda>x. deliver d_x (cublasDscal (lib e) n alpha x)))) (\<lambda>_.
     sync_in_mode e ctx))"

definition GpuBlasDtrmm ::
    "linalg_env \<Rightarrow> nat \<Rightarrow> bool \<Rightarrow> bool \<Rightarrow> bool \<Rightarrow> bool \<Rightarrow> int \<Rightarrow> int \<Rightarrow> u64 \<Rightarrow> nat option \<Rightarrow> int \<Rightarrow> nat option \<Rightarrow> int \<Rightarrow>
     nat option \<Rightarrow> int \<Rightarrow> (memory, unit) st" where
  "GpuBlasDtrmm e ctx sideLeft upper tr unitDiag m n alpha dA lda dB ldb dC ldc =
     st_bind (on_gpu (GetCuBlasDnHandle ctx)) (\<lambda>h.
     st_bind (BLAS_CHECK e ''cublasDtrmm(h, side, uplo, op, diag, m, n, &alpha, dA, lda, dB, ldb, dC, ldc)'' h
       (st_bind (read_doubles dA (if sideLeft then extent lda m m else extent lda n n)) (\<lambda>A.
        st_bind (read_doubles dB (extent ldb m n)) (\<lambda>B.
        st_bind (read_doubles dC (extent ldc m n)) (\<lambda>C.
        deliver dC (cublasDtrmm (lib e) sideLeft upper tr unitDiag m n alpha A lda B ldb C ldc)))))) (\<lambda>_.
     sync_in_mode e ctx))"

definition GpuBlasDtrsm ::
    "linalg_env \<Rightarrow> nat \<Rightarrow> bool \<Rightarrow> bool \<Rightarrow> bool \<Rightarrow> bool \<Rightarrow> int \<Rightarrow> int \<Rightarrow> u64 \<Rightarrow> nat option \<Rightarrow> int \<Rightarrow> nat option \<Rightarrow> int \<Rightarrow>
     (memory, unit) st" where
  "GpuBlasDtrsm e ctx sideLeft upper tr unitDiag m n alpha dA lda dB ldb =
     st_bind (on_gpu (GetCuBlasDnHandle ctx)) (\<lambda>h.
     st_bind (BLAS_CHECK e ''cublasDtrsm(h, side, uplo, op, diag, m, n, &alpha, dA, lda, dB, ldb)'' h
       (st_bind (read_doubles dA (if sideLeft then extent lda m m else extent lda n n)) (\<lambda>A.
        st_bind (read_doubles dB (extent ldb m n)) (\<lambda>B.
        deliver dB (cublasDtrsm (lib e) sideLeft upper tr unitDiag m n alpha A lda B ldb))))) (\<lambda>_.
     sync_in_mode e ctx))"

definition GpuBlasDsyrk ::
    "linalg_env \<Rightarrow> nat \<Rightarrow> bool \<Rightarrow> bool \<Rightarrow> int \<Rightarrow> int \<Rightarrow> u64 \<Rightarrow> nat option \<Rightarrow> int \<Rightarrow> u64 \<Rightarrow> nat option \<Rightarrow> int \<Rightarrow> (memory, unit) st" where
  "GpuBlasDsyrk e ctx upper tr n k alpha dA lda beta dC ldc =
     st_bind (on_gpu (GetCuBlasDnHandle ctx)) (\<lambda>h.
     st_bind (BLAS_CHECK e ''cublasDsyrk(h, uplo, op, n, k, &alpha, dA, lda, &beta, dC, ldc)'' h
       (st_bind (read_doubles dA (if tr then extent lda k n else extent lda n k)) (\<lambda>A.
        st_bind (read_doubles dC (extent ldc n n)) (\<lambda>C.
        deliver dC (cublasDsyrk (lib e) upper tr n k alpha A lda beta C ldc))))) (\<lambda>_.
     sync_in_mode e ctx))"

section \<open>CudaLibraryWrappers: cuSOLVER\<close>

text \<open>The workspace: allocated, and freed again only when everything in between succeeded.\<close>

definition alloc_work :: "linalg_env \<Rightarrow> int \<Rightarrow> (memory, nat option) st" where
  "alloc_work e lwork =
     (if 0 < lwork then
        st_bind (on_gpu (create (cuda_of (mem e)) (Malloc (8 * nat lwork)))) (\<lambda>d_work.
        st_bind (CUDA_CHECK e (Malloc (8 * nat lwork)) (st_return (d_work \<noteq> None))) (\<lambda>_. st_return d_work))
      else st_return None)"

definition free_work :: "linalg_env \<Rightarrow> nat option \<Rightarrow> (memory, unit) st" where
  "free_work e d_work =
     (if d_work \<noteq> None then CUDA_CHECK e Free (cudaFree (cuda_of (mem e)) d_work) else st_return ())"

definition read_info :: "linalg_env \<Rightarrow> nat option \<Rightarrow> (memory, int) st" where
  "read_info e d_info =
     st_bind (CUDA_CHECK e (Memcpy 4)
       (case d_info of None \<Rightarrow> st_return False | Some r \<Rightarrow> use_resource (cuda_of (mem e)) (Memcpy 4) r)) (\<lambda>_.
     st_bind (read_ints d_info 1) (\<lambda>h_info. st_return (h_info ! 0)))"

text \<open>What a solver leaves: its matrix and its status word.\<close>

definition deliver_solved :: "nat option \<Rightarrow> nat option \<Rightarrow> (u64 list \<times> int) option \<Rightarrow> (memory, unit option) st" where
  "deliver_solved p d_info out =
     (case out of
        None \<Rightarrow> st_return None
      | Some (xs, info) \<Rightarrow>
          st_bind (write_doubles p xs) (\<lambda>_. st_bind (write_info d_info info) (\<lambda>_. st_return (Some ()))))"

definition GpuSolverDpotrf :: "linalg_env \<Rightarrow> nat \<Rightarrow> bool \<Rightarrow> int \<Rightarrow> nat option \<Rightarrow> int \<Rightarrow> (memory, int) st" where
  "GpuSolverDpotrf e ctx upper n dA lda =
     st_bind (on_gpu (GetCusolverDnHandle ctx)) (\<lambda>sh.
     st_bind (SOLVER_CHECK e ''cusolverDnDpotrf_bufferSize(sh, uplo, n, dA, lda, &lwork)'' sh (st_return (potrf_bufferSize (lib e) upper n lda))) (\<lambda>lwork.
     st_bind (alloc_work e lwork) (\<lambda>d_work.
     st_bind (on_gpu (GetInfoPointer ctx)) (\<lambda>d_info.
     st_bind (SOLVER_CHECK e ''cusolverDnDpotrf(sh, uplo, n, dA, lda, d_work, lwork, d_info)'' sh
       (st_bind (read_doubles dA (extent lda n n)) (\<lambda>A.
        deliver_solved dA d_info (cusolverDnDpotrf (lib e) upper n A lda)))) (\<lambda>_.
     st_bind (sync_in_mode e ctx) (\<lambda>_.
     st_bind (free_work e d_work) (\<lambda>_.
     read_info e d_info)))))))"

definition GpuSolverDgetrf :: "linalg_env \<Rightarrow> nat \<Rightarrow> int \<Rightarrow> int \<Rightarrow> nat option \<Rightarrow> int \<Rightarrow> nat option \<Rightarrow> (memory, int) st" where
  "GpuSolverDgetrf e ctx m n dA lda dIpiv =
     st_bind (on_gpu (GetCusolverDnHandle ctx)) (\<lambda>sh.
     st_bind (SOLVER_CHECK e ''cusolverDnDgetrf_bufferSize(sh, m, n, dA, lda, &lwork)'' sh (st_return (getrf_bufferSize (lib e) m n lda))) (\<lambda>lwork.
     st_bind (alloc_work e lwork) (\<lambda>d_work.
     st_bind (on_gpu (GetInfoPointer ctx)) (\<lambda>d_info.
     st_bind (SOLVER_CHECK e ''cusolverDnDgetrf(sh, m, n, dA, lda, d_work, dIpiv, d_info)'' sh
       (st_bind (read_doubles dA (extent lda m n)) (\<lambda>A.
          case cusolverDnDgetrf (lib e) m n A lda of
            None \<Rightarrow> st_return None
          | Some (LU, piv, info) \<Rightarrow>
              st_bind (write_bytes dIpiv (ints_bytes piv)) (\<lambda>_. deliver_solved dA d_info (Some (LU, info)))))) (\<lambda>_.
     st_bind (sync_in_mode e ctx) (\<lambda>_.
     st_bind (free_work e d_work) (\<lambda>_.
     read_info e d_info)))))))"

definition GpuSolverDgetrs ::
    "linalg_env \<Rightarrow> nat \<Rightarrow> bool \<Rightarrow> int \<Rightarrow> int \<Rightarrow> nat option \<Rightarrow> int \<Rightarrow> nat option \<Rightarrow> nat option \<Rightarrow> int \<Rightarrow> (memory, int) st" where
  "GpuSolverDgetrs e ctx tr n nrhs dA lda dIpiv dB ldb =
     st_bind (on_gpu (GetCusolverDnHandle ctx)) (\<lambda>sh.
     st_bind (on_gpu (GetInfoPointer ctx)) (\<lambda>d_info.
     st_bind (SOLVER_CHECK e ''cusolverDnDgetrs(sh, op, n, nrhs, dA, lda, dIpiv, dB, ldb, d_info)'' sh
       (st_bind (read_doubles dA (extent lda n n)) (\<lambda>LU.
        st_bind (read_ints dIpiv n) (\<lambda>piv.
        st_bind (read_doubles dB (extent ldb n nrhs)) (\<lambda>B.
        deliver_solved dB d_info (cusolverDnDgetrs (lib e) tr n nrhs LU lda piv B ldb)))))) (\<lambda>_.
     st_bind (sync_in_mode e ctx) (\<lambda>_.
     read_info e d_info))))"

definition GpuSolverDpotrs ::
    "linalg_env \<Rightarrow> nat \<Rightarrow> bool \<Rightarrow> int \<Rightarrow> int \<Rightarrow> nat option \<Rightarrow> int \<Rightarrow> nat option \<Rightarrow> int \<Rightarrow> (memory, int) st" where
  "GpuSolverDpotrs e ctx upper n nrhs dA lda dB ldb =
     st_bind (on_gpu (GetCusolverDnHandle ctx)) (\<lambda>sh.
     st_bind (on_gpu (GetInfoPointer ctx)) (\<lambda>d_info.
     st_bind (SOLVER_CHECK e ''cusolverDnDpotrs(sh, uplo, n, nrhs, dA, lda, dB, ldb, d_info)'' sh
       (st_bind (read_doubles dA (extent lda n n)) (\<lambda>A.
        st_bind (read_doubles dB (extent ldb n nrhs)) (\<lambda>B.
        deliver_solved dB d_info (cusolverDnDpotrs (lib e) upper n nrhs A lda B ldb))))) (\<lambda>_.
     st_bind (sync_in_mode e ctx) (\<lambda>_.
     read_info e d_info))))"

section \<open>Scoped device buffers\<close>

text \<open>
  \<^verbatim>\<open>ScopedGpuArray\<close>: allocated by the constructor, released by the destructor however its scope
  is left. Scopes nest, so buffers are released in the reverse order of their allocation.
\<close>

definition scoped_reset :: "linalg_env \<Rightarrow> nat option \<Rightarrow> (memory, unit) st" where
  "scoped_reset e ptr = (if ptr \<noteq> None then DestroyArray (mem e) ptr GPU else st_return ())"

definition ScopedGpuArray :: "linalg_env \<Rightarrow> nat \<Rightarrow> (nat option \<Rightarrow> (memory, 'a) st) \<Rightarrow> (memory, 'a) st" where
  "ScopedGpuArray e nbytes body =
     st_bind (if 0 < nbytes then AllocateArray (mem e) nbytes GPU else st_return None) (\<lambda>ptr.
     unwinding (scoped_reset e ptr) (body ptr))"

definition scoped_ok :: "nat \<Rightarrow> nat option \<Rightarrow> bool" where
  "scoped_ok nbytes ptr \<longleftrightarrow> nbytes = 0 \<or> ptr \<noteq> None"

section \<open>The helpers of the exports\<close>

definition rcompss_gpu_linalg_require_context :: "linalg_env \<Rightarrow> (memory, nat) st" where
  "rcompss_gpu_linalg_require_context e =
     st_bind (on_gpu (GetOperationContext (cuda_of (mem e)))) (\<lambda>ctx.
     st_bind (on_gpu (RunContext_GetOperationPlacement ctx)) (\<lambda>pl.
     st_bind (stop_if (pl = CPU)
       ''Active operation context is CPU. Set placement to GPU before calling GPU linear algebra routines.'') (\<lambda>_.
     st_return ctx)))"

text \<open>An option given by the first letter of a string, in either case.\<close>

definition parse_letter :: "string \<Rightarrow> char set \<Rightarrow> char set \<Rightarrow> string \<Rightarrow> bool res" where
  "parse_letter msg yes no s =
     (case s of
        [] \<Rightarrow> Inl (Rcpp_exception msg)
      | c # _ \<Rightarrow>
          if to_upper c \<in> yes then Inr True
          else if to_upper c \<in> no then Inr False
          else Inl (Rcpp_exception msg))"

definition quoted :: "char \<Rightarrow> string" where
  "quoted c = [CHR 0x27, c, CHR 0x27]"

definition rcompss_gpu_linalg_parse_side_left :: "string \<Rightarrow> bool res" where
  "rcompss_gpu_linalg_parse_side_left =
     parse_letter (''side must be '' @ quoted (CHR ''L'') @ '' or '' @ quoted (CHR ''R'') @ ''.'') {CHR ''L''} {CHR ''R''}"

definition rcompss_gpu_linalg_parse_upper :: "string \<Rightarrow> bool res" where
  "rcompss_gpu_linalg_parse_upper =
     parse_letter (''uplo must be '' @ quoted (CHR ''U'') @ '' or '' @ quoted (CHR ''L'') @ ''.'') {CHR ''U''} {CHR ''L''}"

definition rcompss_gpu_linalg_parse_trans :: "string \<Rightarrow> bool res" where
  "rcompss_gpu_linalg_parse_trans =
     parse_letter (''trans must be '' @ quoted (CHR ''N'') @ '' or '' @ quoted (CHR ''T'') @ ''.'')
       {CHR ''T'', CHR ''C''} {CHR ''N''}"

definition rcompss_gpu_linalg_parse_unit_diag :: "string \<Rightarrow> bool res" where
  "rcompss_gpu_linalg_parse_unit_diag =
     parse_letter (''diag must be '' @ quoted (CHR ''N'') @ '' (non-unit) or '' @ quoted (CHR ''U'') @ '' (unit).'')
       {CHR ''U''} {CHR ''N''}"

section \<open>R's matrices and vectors\<close>

text \<open>\<^verbatim>\<open>Rcpp::NumericMatrix\<close>: the numbers column by column.\<close>

record num_matrix =
  mat_nrow :: nat
  mat_ncol :: nat
  mat_data :: "u64 list"

text \<open>\<^verbatim>\<open>size_t\<close> arithmetic on sizes, and the \<^verbatim>\<open>int\<close> that \<^verbatim>\<open>static_cast\<close> makes of a vector's length.\<close>

definition matrix_bytes :: "nat \<Rightarrow> nat \<Rightarrow> nat" where
  "matrix_bytes r c = (r * c * 8) mod 2 ^ 64"

definition int_length :: "'a list \<Rightarrow> int" where
  "int_length xs = sint (word_of_int (int (length xs)) :: 32 word)"

definition int_bytes :: "int \<Rightarrow> nat \<Rightarrow> nat" where
  "int_bytes n elem = nat ((n mod 2 ^ 64) * int elem mod 2 ^ 64)"

text \<open>\<^verbatim>\<open>x == 0.0\<close> for a double given by its bits: both zeros.\<close>

definition is_zero :: "u64 \<Rightarrow> bool" where
  "is_zero d \<longleftrightarrow> d = 0 \<or> d = 2 ^ 63"

definition upload :: "linalg_env \<Rightarrow> nat \<Rightarrow> nat option \<Rightarrow> nat \<Rightarrow> nat \<Rightarrow> (memory, unit) st" where
  "upload e ctx ptr host nbytes = MemCpy (mem e) ptr (Some host) nbytes (Some ctx) HOST_TO_DEVICE"

text \<open>A new R vector or matrix of \<open>n\<close> numbers, filled from the device.\<close>

definition download :: "linalg_env \<Rightarrow> nat \<Rightarrow> nat option \<Rightarrow> nat \<Rightarrow> nat \<Rightarrow> (memory, u64 list) st" where
  "download e ctx ptr n nbytes =
     st_bind (r_vector (replicate n 0)) (\<lambda>out.
     st_bind (MemCpy (mem e) (Some out) ptr nbytes (Some ctx) DEVICE_TO_HOST) (\<lambda>_.
     vector_values out))"

definition download_matrix :: "linalg_env \<Rightarrow> nat \<Rightarrow> nat option \<Rightarrow> nat \<Rightarrow> nat \<Rightarrow> nat \<Rightarrow> (memory, num_matrix) st" where
  "download_matrix e ctx ptr r c nbytes =
     st_bind (download e ctx ptr (r * c) nbytes) (\<lambda>xs.
     st_return \<lparr>mat_nrow = r, mat_ncol = c, mat_data = xs\<rparr>)"

text \<open>The guards around every export: the build, and the handler that names the function.\<close>

definition gpu_export :: "linalg_env \<Rightarrow> string \<Rightarrow> (memory, 'a) st \<Rightarrow> (memory, 'a) st" where
  "gpu_export e fname body =
     (if use_cuda (cuda_of (mem e)) then stop_with (fname @ '' failed'') body else st_throw no_cuda_support)"

definition dims :: "nat \<Rightarrow> nat \<Rightarrow> string" where
  "dims r c = nat_to_string r @ [CHR 0xC3, CHR 0x97] @ nat_to_string c"

section \<open>rcompss_gpu_dgemm\<close>

text \<open>The shape of the product and the leading dimensions: \<open>m\<close>, \<open>n\<close>, \<open>k\<close>, \<open>lda\<close>, \<open>ldb\<close>.\<close>

definition gemm_shape :: "bool \<Rightarrow> bool \<Rightarrow> num_matrix \<Rightarrow> num_matrix \<Rightarrow> (nat \<times> nat \<times> nat \<times> nat \<times> nat) res" where
  "gemm_shape transA transB A B =
     (if \<not> transA \<and> \<not> transB then
        (let m = mat_nrow A; k = mat_ncol A in
         if mat_nrow B \<noteq> k
         then Inl (Rcpp_exception (''Incompatible dimensions: A is '' @ dims m k @ '' but B is '' @ dims (mat_nrow B) (mat_ncol B) @
           '' (need B nrow = '' @ nat_to_string k @ '').''))
         else Inr (m, mat_ncol B, k, m, k))
      else if transA \<and> \<not> transB then
        (let k = mat_nrow A; m = mat_ncol A in
         if mat_nrow B \<noteq> k
         then Inl (Rcpp_exception (''Incompatible dimensions for A'' @ [CHR 0x27] @ '' %*% B.''))
         else Inr (m, mat_ncol B, k, k, k))
      else if \<not> transA \<and> transB then
        (let m = mat_nrow A; k = mat_ncol A; n = mat_nrow B in
         if mat_ncol B \<noteq> k
         then Inl (Rcpp_exception (''Incompatible dimensions for A %*% B'' @ [CHR 0x27] @ ''.''))
         else Inr (m, n, k, m, n))
      else
        (let k = mat_nrow A; m = mat_ncol A; n = mat_nrow B in
         if mat_ncol B \<noteq> k
         then Inl (Rcpp_exception (''Incompatible dimensions for A'' @ [CHR 0x27] @ '' %*% B'' @ [CHR 0x27] @ ''.''))
         else Inr (m, n, k, k, n)))"

definition dgemm_body :: "linalg_env \<Rightarrow> num_matrix \<Rightarrow> num_matrix \<Rightarrow> bool \<Rightarrow> bool \<Rightarrow> u64 \<Rightarrow> u64 \<Rightarrow> (memory, num_matrix) st" where
  "dgemm_body e A B transA transB alpha beta =
     st_bind (r_vector (mat_data A)) (\<lambda>a_mem.
     st_bind (r_vector (mat_data B)) (\<lambda>b_mem.
     st_bind (rcompss_gpu_linalg_require_context e) (\<lambda>ctx.
     st_bind (st_lift (gemm_shape transA transB A B)) (\<lambda>(m, n, k, lda, ldb).
     (let bytesA = matrix_bytes (mat_nrow A) (mat_ncol A); bytesB = matrix_bytes (mat_nrow B) (mat_ncol B);
          bytesC = matrix_bytes m n in
      ScopedGpuArray e bytesA (\<lambda>dA.
      ScopedGpuArray e bytesB (\<lambda>dB.
      ScopedGpuArray e bytesC (\<lambda>dC.
      st_bind (stop_if (\<not> scoped_ok bytesA dA \<or> \<not> scoped_ok bytesB dB \<or> \<not> scoped_ok bytesC dC)
        ''GPU allocation failed for dgemm.'') (\<lambda>_.
      st_bind (upload e ctx dA a_mem bytesA) (\<lambda>_.
      st_bind (upload e ctx dB b_mem bytesB) (\<lambda>_.
      st_bind (stop_if (\<not> is_zero beta) ''Non-zero beta for dgemm is not supported in this binding (pass beta=0).'') (\<lambda>_.
      st_bind (GpuBlasDgemm e ctx transA transB (int m) (int n) (int k) alpha beta dA (int lda) dB (int ldb) dC (int m)) (\<lambda>_.
      download_matrix e ctx dC m n bytesC)))))))))))))"

definition rcompss_gpu_dgemm :: "linalg_env \<Rightarrow> num_matrix \<Rightarrow> num_matrix \<Rightarrow> bool \<Rightarrow> bool \<Rightarrow> u64 \<Rightarrow> u64 \<Rightarrow> (memory, num_matrix) st" where
  "rcompss_gpu_dgemm e A B transA transB alpha beta =
     gpu_export e ''rcompss_gpu_dgemm'' (dgemm_body e A B transA transB alpha beta)"

section \<open>Vectors: daxpy, ddot, dnrm2, dscal\<close>

definition daxpy_body :: "linalg_env \<Rightarrow> u64 list \<Rightarrow> u64 list \<Rightarrow> u64 \<Rightarrow> (memory, u64 list) st" where
  "daxpy_body e x y alpha =
     st_bind (r_vector x) (\<lambda>x_mem.
     st_bind (r_vector y) (\<lambda>y_mem.
     st_bind (rcompss_gpu_linalg_require_context e) (\<lambda>ctx.
     (let n = int_length x in
      st_bind (stop_if (int_length y \<noteq> n) ''x and y must have the same length.'') (\<lambda>_.
      (let bytes = int_bytes n 8 in
       ScopedGpuArray e bytes (\<lambda>d_x.
       ScopedGpuArray e bytes (\<lambda>d_y.
       st_bind (stop_if (\<not> scoped_ok bytes d_x \<or> \<not> scoped_ok bytes d_y) ''GPU allocation failed for daxpy.'') (\<lambda>_.
       st_bind (upload e ctx d_x x_mem bytes) (\<lambda>_.
       st_bind (upload e ctx d_y y_mem bytes) (\<lambda>_.
       st_bind (GpuBlasDaxpy e ctx n alpha d_x d_y) (\<lambda>_.
       download e ctx d_y (nat n) bytes)))))))))))) "

definition rcompss_gpu_daxpy :: "linalg_env \<Rightarrow> u64 list \<Rightarrow> u64 list \<Rightarrow> u64 \<Rightarrow> (memory, u64 list) st" where
  "rcompss_gpu_daxpy e x y alpha = gpu_export e ''rcompss_gpu_daxpy'' (daxpy_body e x y alpha)"

definition ddot_body :: "linalg_env \<Rightarrow> u64 list \<Rightarrow> u64 list \<Rightarrow> (memory, u64) st" where
  "ddot_body e x y =
     st_bind (r_vector x) (\<lambda>x_mem.
     st_bind (r_vector y) (\<lambda>y_mem.
     st_bind (rcompss_gpu_linalg_require_context e) (\<lambda>ctx.
     (let n = int_length x in
      st_bind (stop_if (int_length y \<noteq> n) ''x and y must have the same length.'') (\<lambda>_.
      (let bytes = int_bytes n 8 in
       ScopedGpuArray e bytes (\<lambda>d_x.
       ScopedGpuArray e bytes (\<lambda>d_y.
       st_bind (stop_if (\<not> scoped_ok bytes d_x \<or> \<not> scoped_ok bytes d_y) ''GPU allocation failed for ddot.'') (\<lambda>_.
       st_bind (upload e ctx d_x x_mem bytes) (\<lambda>_.
       st_bind (upload e ctx d_y y_mem bytes) (\<lambda>_.
       GpuBlasDdot e ctx n d_x d_y)))))))))))"

definition rcompss_gpu_ddot :: "linalg_env \<Rightarrow> u64 list \<Rightarrow> u64 list \<Rightarrow> (memory, u64) st" where
  "rcompss_gpu_ddot e x y = gpu_export e ''rcompss_gpu_ddot'' (ddot_body e x y)"

definition dnrm2_body :: "linalg_env \<Rightarrow> u64 list \<Rightarrow> (memory, u64) st" where
  "dnrm2_body e x =
     st_bind (r_vector x) (\<lambda>x_mem.
     st_bind (rcompss_gpu_linalg_require_context e) (\<lambda>ctx.
     (let n = int_length x; bytes = int_bytes n 8 in
      ScopedGpuArray e bytes (\<lambda>d_x.
      st_bind (stop_if (\<not> scoped_ok bytes d_x) ''GPU allocation failed for dnrm2.'') (\<lambda>_.
      st_bind (upload e ctx d_x x_mem bytes) (\<lambda>_.
      GpuBlasDnrm2 e ctx n d_x))))))"

definition rcompss_gpu_dnrm2 :: "linalg_env \<Rightarrow> u64 list \<Rightarrow> (memory, u64) st" where
  "rcompss_gpu_dnrm2 e x = gpu_export e ''rcompss_gpu_dnrm2'' (dnrm2_body e x)"

definition dscal_body :: "linalg_env \<Rightarrow> u64 list \<Rightarrow> u64 \<Rightarrow> (memory, u64 list) st" where
  "dscal_body e x alpha =
     st_bind (r_vector x) (\<lambda>x_mem.
     st_bind (rcompss_gpu_linalg_require_context e) (\<lambda>ctx.
     (let n = int_length x; bytes = int_bytes n 8 in
      ScopedGpuArray e bytes (\<lambda>d_x.
      st_bind (stop_if (\<not> scoped_ok bytes d_x) ''GPU allocation failed for dscal.'') (\<lambda>_.
      st_bind (upload e ctx d_x x_mem bytes) (\<lambda>_.
      st_bind (GpuBlasDscal e ctx n alpha d_x) (\<lambda>_.
      download e ctx d_x (nat n) bytes)))))))"

definition rcompss_gpu_dscal :: "linalg_env \<Rightarrow> u64 list \<Rightarrow> u64 \<Rightarrow> (memory, u64 list) st" where
  "rcompss_gpu_dscal e x alpha = gpu_export e ''rcompss_gpu_dscal'' (dscal_body e x alpha)"

section \<open>rcompss_gpu_dgemv\<close>

text \<open>
  A \<^verbatim>\<open>Rcpp::Nullable\<close> argument is \<open>None\<close> for \<^verbatim>\<open>NULL\<close>, else the object with what its conversion
  gives, which happens only when it is used.
\<close>

text \<open>\<^verbatim>\<open>cudaMemset\<close> to zero, on the default stream.\<close>

definition zero_device :: "linalg_env \<Rightarrow> nat option \<Rightarrow> nat \<Rightarrow> (memory, unit) st" where
  "zero_device e ptr nbytes =
     (let c = Memset_call nbytes; cu = cuda_of (mem e) in
      st_bind (on_gpu (case ptr of None \<Rightarrow> cuda cu c | Some r \<Rightarrow> use_resource cu c r)) (\<lambda>success.
      st_bind (stop_if (\<not> success) (''cudaMemset failed: '' @ error_string cu c)) (\<lambda>_.
      if nbytes = 0 then st_return () else set_bytes ptr 0 nbytes)))"

definition dgemv_body :: "linalg_env \<Rightarrow> num_matrix \<Rightarrow> u64 list \<Rightarrow> bool \<Rightarrow> u64 \<Rightarrow> u64 \<Rightarrow> u64 list res option \<Rightarrow> (memory, u64 list) st" where
  "dgemv_body e A x tr alpha beta y0 =
     st_bind (r_vector (mat_data A)) (\<lambda>a_mem.
     st_bind (r_vector x) (\<lambda>x_mem.
     st_bind (rcompss_gpu_linalg_require_context e) (\<lambda>ctx.
     (let m = mat_nrow A; n = mat_ncol A; out_len = (if tr then n else m); x_expect = (if tr then m else n) in
      st_bind (stop_if (int_length x \<noteq> int x_expect)
        (''DGEMV: x has wrong length (expected '' @ nat_to_string x_expect @ '', got '' @ int_to_string (int_length x) @ '').'')) (\<lambda>_.
      (let bytesA = matrix_bytes m n; bytes_x = int_bytes (int x_expect) 8; bytes_y = int_bytes (int out_len) 8 in
       ScopedGpuArray e bytesA (\<lambda>dA.
       ScopedGpuArray e bytes_x (\<lambda>d_x.
       ScopedGpuArray e bytes_y (\<lambda>d_y.
       st_bind (stop_if (\<not> scoped_ok bytesA dA \<or> \<not> scoped_ok bytes_x d_x \<or> \<not> scoped_ok bytes_y d_y)
         ''GPU allocation failed for dgemv.'') (\<lambda>_.
       st_bind (upload e ctx dA a_mem bytesA) (\<lambda>_.
       st_bind (upload e ctx d_x x_mem bytes_x) (\<lambda>_.
       st_bind
         (if \<not> is_zero beta then
            (case y0 of
               None \<Rightarrow> st_throw (Rcpp_exception (''DGEMV: beta is non-zero; provide y0 with length '' @ nat_to_string out_len @ ''.''))
             | Some y0_obj \<Rightarrow>
                 st_bind (st_lift y0_obj) (\<lambda>y0v.
                 st_bind (stop_if (int_length y0v \<noteq> int out_len)
                   (''DGEMV: y0 must have length '' @ nat_to_string out_len @ '' (got '' @ int_to_string (int_length y0v) @ '').'')) (\<lambda>_.
                 st_bind (r_vector y0v) (\<lambda>y0_mem. upload e ctx d_y y0_mem bytes_y))))
          else zero_device e d_y bytes_y) (\<lambda>_.
       st_bind (GpuBlasDgemv e ctx tr (int m) (int n) alpha beta dA (int m) d_x d_y) (\<lambda>_.
       download e ctx d_y out_len bytes_y)))))))))))))) "

definition rcompss_gpu_dgemv :: "linalg_env \<Rightarrow> num_matrix \<Rightarrow> u64 list \<Rightarrow> bool \<Rightarrow> u64 \<Rightarrow> u64 \<Rightarrow> u64 list res option \<Rightarrow> (memory, u64 list) st" where
  "rcompss_gpu_dgemv e A x tr alpha beta y0 = gpu_export e ''rcompss_gpu_dgemv'' (dgemv_body e A x tr alpha beta y0)"

section \<open>Triangular and symmetric matrices: dtrmm, dtrsm, dsyrk\<close>

text \<open>The four options of the triangular routines, read in this order.\<close>

definition triangular_options :: "string \<Rightarrow> string \<Rightarrow> string \<Rightarrow> string \<Rightarrow> (bool \<times> bool \<times> bool \<times> bool) res" where
  "triangular_options side uplo tr diag =
     res_bind (rcompss_gpu_linalg_parse_side_left side) (\<lambda>side_left.
     res_bind (rcompss_gpu_linalg_parse_upper uplo) (\<lambda>upper.
     res_bind (rcompss_gpu_linalg_parse_trans tr) (\<lambda>transA.
     res_bind (rcompss_gpu_linalg_parse_unit_diag diag) (\<lambda>unit_diag.
     Inr (side_left, upper, transA, unit_diag)))))"

definition triangular_size :: "string \<Rightarrow> bool \<Rightarrow> num_matrix \<Rightarrow> num_matrix \<Rightarrow> (memory, unit) st" where
  "triangular_size name side_left A B =
     (let a_size = (if side_left then mat_nrow B else mat_ncol B) in
      stop_if (mat_nrow A \<noteq> a_size \<or> mat_ncol A \<noteq> a_size)
        (name @ '': A must be '' @ dims a_size a_size @ '' (got '' @ dims (mat_nrow A) (mat_ncol A) @ '').''))"

definition dtrmm_body ::
    "linalg_env \<Rightarrow> num_matrix \<Rightarrow> num_matrix \<Rightarrow> string \<Rightarrow> string \<Rightarrow> string \<Rightarrow> string \<Rightarrow> u64 \<Rightarrow> (memory, num_matrix) st" where
  "dtrmm_body e A B side uplo tr diag alpha =
     st_bind (r_vector (mat_data A)) (\<lambda>a_mem.
     st_bind (r_vector (mat_data B)) (\<lambda>b_mem.
     st_bind (rcompss_gpu_linalg_require_context e) (\<lambda>ctx.
     st_bind (st_lift (triangular_options side uplo tr diag)) (\<lambda>(side_left, upper, transA, unit_diag).
     (let m = mat_nrow B; n = mat_ncol B in
      st_bind (triangular_size ''DTRMM'' side_left A B) (\<lambda>_.
      (let bytesA = matrix_bytes (mat_nrow A) (mat_ncol A); bytesB = matrix_bytes m n in
       ScopedGpuArray e bytesA (\<lambda>dA.
       ScopedGpuArray e bytesB (\<lambda>dB.
       ScopedGpuArray e bytesB (\<lambda>dC.
       st_bind (stop_if (\<not> scoped_ok bytesA dA \<or> \<not> scoped_ok bytesB dB \<or> \<not> scoped_ok bytesB dC)
         ''GPU allocation failed for dtrmm.'') (\<lambda>_.
       st_bind (upload e ctx dA a_mem bytesA) (\<lambda>_.
       st_bind (upload e ctx dB b_mem bytesB) (\<lambda>_.
       st_bind (GpuBlasDtrmm e ctx side_left upper transA unit_diag (int m) (int n) alpha dA (int (mat_nrow A)) dB (int m) dC (int m)) (\<lambda>_.
       download_matrix e ctx dC m n bytesB))))))))))))))"

definition rcompss_gpu_dtrmm ::
    "linalg_env \<Rightarrow> num_matrix \<Rightarrow> num_matrix \<Rightarrow> string \<Rightarrow> string \<Rightarrow> string \<Rightarrow> string \<Rightarrow> u64 \<Rightarrow> (memory, num_matrix) st" where
  "rcompss_gpu_dtrmm e A B side uplo tr diag alpha =
     gpu_export e ''rcompss_gpu_dtrmm'' (dtrmm_body e A B side uplo tr diag alpha)"

definition dtrsm_body ::
    "linalg_env \<Rightarrow> num_matrix \<Rightarrow> num_matrix \<Rightarrow> string \<Rightarrow> string \<Rightarrow> string \<Rightarrow> string \<Rightarrow> u64 \<Rightarrow> (memory, num_matrix) st" where
  "dtrsm_body e A B side uplo tr diag alpha =
     st_bind (r_vector (mat_data A)) (\<lambda>a_mem.
     st_bind (r_vector (mat_data B)) (\<lambda>b_mem.
     st_bind (rcompss_gpu_linalg_require_context e) (\<lambda>ctx.
     st_bind (st_lift (triangular_options side uplo tr diag)) (\<lambda>(side_left, upper, transA, unit_diag).
     (let m = mat_nrow B; n = mat_ncol B in
      st_bind (triangular_size ''DTRSM'' side_left A B) (\<lambda>_.
      (let bytesA = matrix_bytes (mat_nrow A) (mat_ncol A); bytesB = matrix_bytes m n in
       ScopedGpuArray e bytesA (\<lambda>dA.
       ScopedGpuArray e bytesB (\<lambda>dB.
       st_bind (stop_if (\<not> scoped_ok bytesA dA \<or> \<not> scoped_ok bytesB dB) ''GPU allocation failed for dtrsm.'') (\<lambda>_.
       st_bind (upload e ctx dA a_mem bytesA) (\<lambda>_.
       st_bind (upload e ctx dB b_mem bytesB) (\<lambda>_.
       st_bind (GpuBlasDtrsm e ctx side_left upper transA unit_diag (int m) (int n) alpha dA (int (mat_nrow A)) dB (int m)) (\<lambda>_.
       download_matrix e ctx dB m n bytesB)))))))))))))"

definition rcompss_gpu_dtrsm ::
    "linalg_env \<Rightarrow> num_matrix \<Rightarrow> num_matrix \<Rightarrow> string \<Rightarrow> string \<Rightarrow> string \<Rightarrow> string \<Rightarrow> u64 \<Rightarrow> (memory, num_matrix) st" where
  "rcompss_gpu_dtrsm e A B side uplo tr diag alpha =
     gpu_export e ''rcompss_gpu_dtrsm'' (dtrsm_body e A B side uplo tr diag alpha)"

definition dsyrk_body :: "linalg_env \<Rightarrow> num_matrix \<Rightarrow> string \<Rightarrow> string \<Rightarrow> u64 \<Rightarrow> u64 \<Rightarrow> num_matrix res option \<Rightarrow> (memory, num_matrix) st" where
  "dsyrk_body e A uplo tr alpha beta C0 =
     st_bind (r_vector (mat_data A)) (\<lambda>a_mem.
     st_bind (rcompss_gpu_linalg_require_context e) (\<lambda>ctx.
     st_bind (st_lift (rcompss_gpu_linalg_parse_upper uplo)) (\<lambda>upper.
     st_bind (st_lift (rcompss_gpu_linalg_parse_trans tr)) (\<lambda>transA.
     (let n = (if transA then mat_ncol A else mat_nrow A); k = (if transA then mat_nrow A else mat_ncol A) in
      st_bind (stop_if (mat_nrow A = 0 \<or> mat_ncol A = 0) ''DSYRK: A must be non-empty.'') (\<lambda>_.
      (let bytesA = matrix_bytes (mat_nrow A) (mat_ncol A); bytesC = matrix_bytes n n in
       ScopedGpuArray e bytesA (\<lambda>dA.
       ScopedGpuArray e bytesC (\<lambda>dC.
       st_bind (stop_if (\<not> scoped_ok bytesA dA \<or> \<not> scoped_ok bytesC dC) ''GPU allocation failed for dsyrk.'') (\<lambda>_.
       st_bind (upload e ctx dA a_mem bytesA) (\<lambda>_.
       st_bind
         (if \<not> is_zero beta then
            (case C0 of
               None \<Rightarrow> st_throw (Rcpp_exception (''DSYRK: beta is non-zero; provide C0 (n'' @ [CHR 0xC3, CHR 0x97] @ ''n).''))
             | Some C0_obj \<Rightarrow>
                 st_bind (st_lift C0_obj) (\<lambda>C0m.
                 st_bind (stop_if (mat_nrow C0m \<noteq> n \<or> mat_ncol C0m \<noteq> n)
                   (''DSYRK: C0 must be '' @ dims n n @ '' (got '' @ dims (mat_nrow C0m) (mat_ncol C0m) @ '').'')) (\<lambda>_.
                 st_bind (r_vector (mat_data C0m)) (\<lambda>c0_mem. upload e ctx dC c0_mem bytesC))))
          else zero_device e dC bytesC) (\<lambda>_.
       st_bind (GpuBlasDsyrk e ctx upper transA (int n) (int k) alpha dA (int (mat_nrow A)) beta dC (int n)) (\<lambda>_.
       download_matrix e ctx dC n n bytesC)))))))))))))"

definition rcompss_gpu_dsyrk :: "linalg_env \<Rightarrow> num_matrix \<Rightarrow> string \<Rightarrow> string \<Rightarrow> u64 \<Rightarrow> u64 \<Rightarrow> num_matrix res option \<Rightarrow> (memory, num_matrix) st" where
  "rcompss_gpu_dsyrk e A uplo tr alpha beta C0 = gpu_export e ''rcompss_gpu_dsyrk'' (dsyrk_body e A uplo tr alpha beta C0)"

section \<open>Factorisations and solvers: dpotrf, dgetrf, dgetrs, dpotrs\<close>

definition dpotrf_body :: "linalg_env \<Rightarrow> num_matrix \<Rightarrow> bool \<Rightarrow> (memory, num_matrix) st" where
  "dpotrf_body e A upper =
     st_bind (r_vector (mat_data A)) (\<lambda>a_mem.
     st_bind (rcompss_gpu_linalg_require_context e) (\<lambda>ctx.
     (let n = mat_nrow A in
      st_bind (stop_if (mat_ncol A \<noteq> n) (''A must be square for Cholesky (got '' @ dims (mat_nrow A) (mat_ncol A) @ '').'')) (\<lambda>_.
      (let bytes = matrix_bytes n n in
       ScopedGpuArray e bytes (\<lambda>dA.
       st_bind (stop_if (\<not> scoped_ok bytes dA) ''GPU allocation failed for dpotrf.'') (\<lambda>_.
       st_bind (upload e ctx dA a_mem bytes) (\<lambda>_.
       st_bind (GpuSolverDpotrf e ctx upper (int n) dA (int n)) (\<lambda>info.
       st_bind (stop_if (info \<noteq> 0)
         (''DPOTRF failed: matrix is not positive definite (info='' @ int_to_string info @ '').'')) (\<lambda>_.
       download_matrix e ctx dA n n bytes))))))))))"

definition rcompss_gpu_dpotrf :: "linalg_env \<Rightarrow> num_matrix \<Rightarrow> bool \<Rightarrow> (memory, num_matrix) st" where
  "rcompss_gpu_dpotrf e A upper = gpu_export e ''rcompss_gpu_dpotrf'' (dpotrf_body e A upper)"

text \<open>The R list that \<^verbatim>\<open>rcompss_gpu_dgetrf\<close> returns.\<close>

record lu_factors =
  lu_matrix :: num_matrix
  lu_pivot :: "int list"
  lu_info :: int

text \<open>A vector of \<^verbatim>\<open>int\<close> in host memory, by its bytes.\<close>

definition host_ints :: "int list \<Rightarrow> (memory, nat) st" where
  "host_ints is =
     (\<lambda>s. (Inr (next_id (device s)),
        s\<lparr>device := (device s)\<lparr>next_id := Suc (next_id (device s))\<rparr>,
          blocks := (blocks s)(next_id (device s) \<mapsto> ints_bytes is)\<rparr>))"

definition dgetrf_body :: "linalg_env \<Rightarrow> num_matrix \<Rightarrow> (memory, lu_factors) st" where
  "dgetrf_body e A =
     st_bind (r_vector (mat_data A)) (\<lambda>a_mem.
     st_bind (rcompss_gpu_linalg_require_context e) (\<lambda>ctx.
     (let m = mat_nrow A; n = mat_ncol A; min_mn = min m n;
          bytesA = matrix_bytes m n; bytesPiv = int_bytes (int min_mn) 4 in
      ScopedGpuArray e bytesA (\<lambda>dA.
      ScopedGpuArray e bytesPiv (\<lambda>dIpiv.
      st_bind (stop_if (\<not> scoped_ok bytesA dA \<or> \<not> scoped_ok bytesPiv dIpiv) ''GPU allocation failed for dgetrf.'') (\<lambda>_.
      st_bind (upload e ctx dA a_mem bytesA) (\<lambda>_.
      st_bind (GpuSolverDgetrf e ctx (int m) (int n) dA (int m) dIpiv) (\<lambda>info.
      st_bind (download_matrix e ctx dA m n bytesA) (\<lambda>LU.
      st_bind (host_ints (replicate min_mn 0)) (\<lambda>piv_host.
      st_bind (MemCpy (mem e) (Some piv_host) dIpiv bytesPiv (Some ctx) DEVICE_TO_HOST) (\<lambda>_.
      st_bind (read_ints (Some piv_host) (int min_mn)) (\<lambda>pivot.
      st_return \<lparr>lu_matrix = LU, lu_pivot = pivot, lu_info = info\<rparr>))))))))))))"

definition rcompss_gpu_dgetrf :: "linalg_env \<Rightarrow> num_matrix \<Rightarrow> (memory, lu_factors) st" where
  "rcompss_gpu_dgetrf e A = gpu_export e ''rcompss_gpu_dgetrf'' (dgetrf_body e A)"

text \<open>
  The right-hand side as R passes it: a matrix, a vector, or an object that Rcpp cannot convert,
  with the message of its exception.
\<close>

datatype right_side = Matrix_side num_matrix | Vector_side "u64 list" | Not_numeric string

definition right_matrix :: "string \<Rightarrow> nat \<Rightarrow> right_side \<Rightarrow> num_matrix res" where
  "right_matrix name n B =
     (case B of
        Matrix_side Bm \<Rightarrow>
          if mat_nrow Bm \<noteq> n then Inl (Rcpp_exception (name @ '': B must have nrow = n ('' @ nat_to_string n @ '').''))
          else Inr Bm
      | Vector_side bv \<Rightarrow>
          if int_length bv \<noteq> int n then Inl (Rcpp_exception (name @ '': B must have length n ('' @ nat_to_string n @ '').''))
          else Inr \<lparr>mat_nrow = n, mat_ncol = 1, mat_data = take n bv\<rparr>
      | Not_numeric msg \<Rightarrow> Inl (Rcpp_exception msg))"

definition dgetrs_body :: "linalg_env \<Rightarrow> num_matrix \<Rightarrow> int list \<Rightarrow> right_side \<Rightarrow> bool \<Rightarrow> (memory, num_matrix) st" where
  "dgetrs_body e LU pivot B tr =
     st_bind (r_vector (mat_data LU)) (\<lambda>lu_mem.
     st_bind (rcompss_gpu_linalg_require_context e) (\<lambda>ctx.
     (let n = mat_nrow LU in
      st_bind (stop_if (mat_ncol LU \<noteq> n) (''dgetrs requires square LU (got '' @ dims (mat_nrow LU) (mat_ncol LU) @ '').'')) (\<lambda>_.
      st_bind (stop_if (int_length pivot \<noteq> int n)
        (''dgetrs: pivot must have length n='' @ nat_to_string n @ '' (got '' @ int_to_string (int_length pivot) @ '').'')) (\<lambda>_.
      st_bind (st_lift (right_matrix ''dgetrs'' n B)) (\<lambda>Bm.
      st_bind (r_vector (mat_data Bm)) (\<lambda>b_mem.
      (let nrhs = mat_ncol Bm; bytesLU = matrix_bytes n n; bytesB = matrix_bytes n nrhs; bytesPiv = int_bytes (int n) 4 in
       ScopedGpuArray e bytesLU (\<lambda>dLU.
       ScopedGpuArray e bytesB (\<lambda>dB.
       ScopedGpuArray e bytesPiv (\<lambda>dIpiv.
       st_bind (stop_if (\<not> scoped_ok bytesLU dLU \<or> \<not> scoped_ok bytesB dB \<or> \<not> scoped_ok bytesPiv dIpiv)
         ''GPU allocation failed for dgetrs.'') (\<lambda>_.
       st_bind (upload e ctx dLU lu_mem bytesLU) (\<lambda>_.
       st_bind (upload e ctx dB b_mem bytesB) (\<lambda>_.
       st_bind (host_ints (take n pivot)) (\<lambda>piv_host.
       st_bind (upload e ctx dIpiv piv_host bytesPiv) (\<lambda>_.
       st_bind (GpuSolverDgetrs e ctx tr (int n) (int nrhs) dLU (int n) dIpiv dB (int n)) (\<lambda>info.
       st_bind (stop_if (info \<noteq> 0) (''DGETRS failed (info='' @ int_to_string info @ '').'')) (\<lambda>_.
       download_matrix e ctx dB n nrhs bytesB))))))))))))))))))"

definition rcompss_gpu_dgetrs :: "linalg_env \<Rightarrow> num_matrix \<Rightarrow> int list \<Rightarrow> right_side \<Rightarrow> bool \<Rightarrow> (memory, num_matrix) st" where
  "rcompss_gpu_dgetrs e LU pivot B tr = gpu_export e ''rcompss_gpu_dgetrs'' (dgetrs_body e LU pivot B tr)"

definition dpotrs_body :: "linalg_env \<Rightarrow> num_matrix \<Rightarrow> right_side \<Rightarrow> bool \<Rightarrow> (memory, num_matrix) st" where
  "dpotrs_body e chol B upper =
     st_bind (r_vector (mat_data chol)) (\<lambda>a_mem.
     st_bind (rcompss_gpu_linalg_require_context e) (\<lambda>ctx.
     (let n = mat_nrow chol in
      st_bind (stop_if (mat_ncol chol \<noteq> n)
        (''dpotrs requires square Cholesky factor (got '' @ dims (mat_nrow chol) (mat_ncol chol) @ '').'')) (\<lambda>_.
      st_bind (st_lift (right_matrix ''dpotrs'' n B)) (\<lambda>Bm.
      st_bind (r_vector (mat_data Bm)) (\<lambda>b_mem.
      (let nrhs = mat_ncol Bm; bytesA = matrix_bytes n n; bytesB = matrix_bytes n nrhs in
       ScopedGpuArray e bytesA (\<lambda>dA.
       ScopedGpuArray e bytesB (\<lambda>dB.
       st_bind (stop_if (\<not> scoped_ok bytesA dA \<or> \<not> scoped_ok bytesB dB) ''GPU allocation failed for dpotrs.'') (\<lambda>_.
       st_bind (upload e ctx dA a_mem bytesA) (\<lambda>_.
       st_bind (upload e ctx dB b_mem bytesB) (\<lambda>_.
       st_bind (GpuSolverDpotrs e ctx upper (int n) (int nrhs) dA (int n) dB (int n)) (\<lambda>info.
       st_bind (stop_if (info \<noteq> 0) (''DPOTRS failed (info='' @ int_to_string info @ '').'')) (\<lambda>_.
       download_matrix e ctx dB n nrhs bytesB))))))))))))))"

definition rcompss_gpu_dpotrs :: "linalg_env \<Rightarrow> num_matrix \<Rightarrow> right_side \<Rightarrow> bool \<Rightarrow> (memory, num_matrix) st" where
  "rcompss_gpu_dpotrs e chol B upper = gpu_export e ''rcompss_gpu_dpotrs'' (dpotrs_body e chol B upper)"

end
