(* ===== verification/Gpu_Linalg_Safety.thy ===== *)
theory Gpu_Linalg_Safety
  imports Gpu_Linalg
begin

text \<open>
  What the linear algebra exports leave allocated: every scoped buffer is released however a call
  ends, whichever CUDA and library calls fail, except that a failing release ends the process.
  Only the workspace of the factorisations escapes this.
\<close>

section \<open>Steps that keep the resources\<close>

text \<open>On the device: no resource appears or disappears, and numbers are not reused.\<close>

definition at_least :: "nat set \<Rightarrow> nat \<Rightarrow> gpu \<Rightarrow> bool" where
  "at_least lv n s \<longleftrightarrow> live s = lv \<and> n \<le> next_id s"

definition steady :: "(gpu, 'a) st \<Rightarrow> bool" where
  "steady m \<longleftrightarrow> (\<forall>lv n. meets (at_least lv n) m (\<lambda>_. at_least lv n) (\<lambda>_. at_least lv n))"

named_theorems steady_rules \<open>computations that keep the resources\<close>

lemma steady_return [steady_rules]: "steady (st_return a)"
  by (simp add: steady_def meets_def)

lemma steady_throw [steady_rules]: "steady (st_throw e)"
  by (simp add: steady_def meets_def)

lemma steady_gets [steady_rules]: "steady (st_gets f)"
  by (simp add: steady_def meets_def st_gets_def)

lemma steady_bind [steady_rules]: "steady m \<Longrightarrow> (\<And>a. steady (k a)) \<Longrightarrow> steady (st_bind m k)"
  unfolding steady_def by (blast intro: meets_bind)

lemma steady_catch [steady_rules]: "steady m \<Longrightarrow> (\<And>e. steady (h e)) \<Longrightarrow> steady (st_catch m h)"
  unfolding steady_def by (blast intro: meets_catch)

lemma steady_step:
  "(\<And>s. live (snd (m s)) = live s \<and> next_id s \<le> next_id (snd (m s))) \<Longrightarrow> steady m"
  unfolding steady_def meets_def at_least_def
  by (auto split: prod.splits sum.splits) (metis le_trans snd_conv)+

lemma steady_if [steady_rules]: "(b \<Longrightarrow> steady m) \<Longrightarrow> (\<not> b \<Longrightarrow> steady m') \<Longrightarrow> steady (if b then m else m')"
  by simp

lemma steady_option [steady_rules]:
  "steady m \<Longrightarrow> (\<And>a. steady (k a)) \<Longrightarrow> steady (case x of None \<Rightarrow> m | Some a \<Rightarrow> k a)"
  by (cases x) auto

lemma steady_cuda [steady_rules]: "steady (cuda e c)"
  by (rule steady_step) (simp add: cuda_def)

lemma steady_use [steady_rules]: "steady (use_resource e c r)"
  unfolding use_resource_def by (intro steady_rules)

lemma steady_context [steady_rules]: "steady (the_context a)"
  by (rule steady_step) (simp add: the_context_def split: option.splits)

lemma steady_context_update [steady_rules]: "steady (update a f)"
  unfolding update_def by (intro steady_rules) (rule steady_step, simp)

lemma steady_message [steady_rules]: "steady (message t)"
  by (rule steady_step) (simp add: message_def)

lemma steady_assigned [steady_rules]: "steady (assigned h)"
  unfolding assigned_def by (intro steady_rules)

lemma steady_manager [steady_rules]: "steady (set_manager m)"
  by (rule steady_step) (simp add: set_manager_def)

lemma steady_check [steady_rules]: "steady m \<Longrightarrow> steady (GPU_ERROR_CHECK e c m)"
  unfolding GPU_ERROR_CHECK_def cuda_failed_def by (intro steady_rules)

lemma steady_new_cpu [steady_rules]: "steady (new_RunContext e CPU mode)"
  unfolding new_RunContext_def
  by (intro steady_rules) (auto intro: steady_step)

lemma steady_instance [steady_rules]: "steady (GetInstance e)"
  unfolding GetInstance_def Let_def by (intro steady_rules)

lemma steady_operation_context [steady_rules]: "steady (GetOperationContext e)"
  unfolding GetOperationContext_def by (intro steady_rules)

lemma steady_device_reads [steady_rules]:
  "steady (RunContext_GetRunMode c)" "steady (RunContext_GetOperationPlacement c)" "steady (GetStream c)"
  "steady (GetCuBlasDnHandle c)" "steady (GetCusolverDnHandle c)" "steady (GetInfoPointer c)"
  unfolding RunContext_GetRunMode_def RunContext_GetOperationPlacement_def GetStream_def GetCuBlasDnHandle_def
    GetCusolverDnHandle_def GetInfoPointer_def device_part_def
  by (intro steady_rules)+

section \<open>Clean computations\<close>

text \<open>Exactly the resources \<open>lv\<close> are live, and their numbers are below the next one.\<close>

definition owns :: "nat set \<Rightarrow> memory \<Rightarrow> bool" where
  "owns lv s \<longleftrightarrow> live (device s) = lv \<and> (\<forall>r \<in> lv. r < next_id (device s))"

definition clean :: "(memory, 'a) st \<Rightarrow> bool" where
  "clean m \<longleftrightarrow> (\<forall>lv. meets (owns lv) m (\<lambda>_. owns lv) (\<lambda>e s. catchable e \<longrightarrow> owns lv s))"

named_theorems clean_rules \<open>computations that release what they allocate\<close>

lemma clean_return [clean_rules]: "clean (st_return a)"
  by (simp add: clean_def meets_def)

lemma clean_throw [clean_rules]: "clean (st_throw e)"
  by (simp add: clean_def meets_def)

lemma clean_lift [clean_rules]: "clean (st_lift r)"
  by (cases r) (simp_all add: clean_def meets_def)

lemma clean_bind [clean_rules]: "clean m \<Longrightarrow> (\<And>a. clean (k a)) \<Longrightarrow> clean (st_bind m k)"
  unfolding clean_def by (blast intro: meets_bind)

lemma clean_catch [clean_rules]:
  assumes "clean m" "\<And>e. clean (h e)"
  shows "clean (st_catch m h)"
  unfolding clean_def
proof
  fix lv
  show "meets (owns lv) (st_catch m h) (\<lambda>_. owns lv) (\<lambda>e s. catchable e \<longrightarrow> owns lv s)"
    using assms
    by (intro meets_catch [where E' = "\<lambda>e s. catchable e \<longrightarrow> owns lv s"])
       (auto simp: clean_def intro: meets_weaken)
qed

lemma clean_if [clean_rules]: "(b \<Longrightarrow> clean m) \<Longrightarrow> (\<not> b \<Longrightarrow> clean m') \<Longrightarrow> clean (if b then m else m')"
  by simp

lemma clean_option [clean_rules]:
  "clean m \<Longrightarrow> (\<And>a. clean (k a)) \<Longrightarrow> clean (case x of None \<Rightarrow> m | Some a \<Rightarrow> k a)"
  by (cases x) auto

lemma clean_prod [clean_rules]: "(\<And>a b. clean (k a b)) \<Longrightarrow> clean (case x of (a, b) \<Rightarrow> k a b)"
  by (cases x) auto

lemma clean_gpu [clean_rules]: "steady m \<Longrightarrow> clean (on_gpu m)"
  unfolding clean_def meets_def
proof (intro allI impI)
  fix lv s
  assume "steady m" "owns lv s"
  obtain r d where run: "m (device s) = (r, d)" by fastforce
  have "at_least (live (device s)) (next_id (device s)) (device s)" by (simp add: at_least_def)
  with \<open>steady m\<close> run have "at_least (live (device s)) (next_id (device s)) d"
    unfolding steady_def by (cases r) (blast dest: meets_Inr meets_Inl)+
  then have "live d = live (device s)" "next_id (device s) \<le> next_id d" by (simp_all add: at_least_def)
  with \<open>owns lv s\<close> run
  show "case on_gpu m s of (Inr a, s') \<Rightarrow> owns lv s' | (Inl e, s') \<Rightarrow> catchable e \<longrightarrow> owns lv s'"
    by (cases r) (auto simp: on_gpu_def owns_def)
qed

text \<open>Computations that do not touch the device.\<close>

lemma clean_device:
  assumes "\<And>s. device (snd (m s)) = device s"
  shows "clean m"
  unfolding clean_def meets_def
proof (intro allI impI)
  fix lv s assume "owns lv s"
  moreover obtain r s' where "m s = (r, s')" by fastforce
  ultimately show "case m s of (Inr a, s') \<Rightarrow> owns lv s' | (Inl e, s') \<Rightarrow> catchable e \<longrightarrow> owns lv s'"
    using assms [of s] by (cases r) (auto simp: owns_def)
qed

lemma clean_memory [clean_rules]:
  "clean (read_doubles p n)" "clean (write_bytes p new)" "clean (write_doubles p xs)" "clean (read_ints p n)"
  "clean (write_info d i)" "clean (vector_values r)" "clean (copy_bytes d q n')" "clean (set_bytes d v n')"
  by (rule clean_device; simp add: read_doubles_def write_bytes_def write_doubles_def read_ints_def write_info_def
      vector_values_def copy_bytes_def set_bytes_def split: option.splits)+

lemma clean_new_block [clean_rules]: "clean (r_vector xs)" "clean (host_ints is)"
  by (auto simp: clean_def meets_def r_vector_def host_ints_def owns_def)

lemma clean_stop [clean_rules]: "clean (stop_if b t)"
  unfolding stop_if_def by (intro clean_rules)

section \<open>Scopes\<close>

lemma allocate_owns:
  "meets (owns lv) (AllocateArray me n GPU)
     (\<lambda>p s. case p of None \<Rightarrow> owns lv s | Some r \<Rightarrow> r \<notin> lv \<and> owns (insert r lv) s) (\<lambda>_. owns lv)"
  by (auto simp: meets_def AllocateArray_def create_or_throw_def create_def cuda_def fresh_resource_def GPU_ERROR_CHECK_def
      cuda_failed_def message_def fill_def set_block_def on_gpu_def st_bind_def owns_def less_Suc_eq split: option.splits)

lemma destroy_owns:
  "r \<notin> lv \<Longrightarrow> meets (owns (insert r lv)) (DestroyArray me (Some r) GPU)
     (\<lambda>_ s. use_cuda (cuda_of me) \<longrightarrow> owns lv s) (\<lambda>_ _. True)"
  by (auto simp: meets_def DestroyArray_def GPU_ERROR_CHECK_def cudaFree_def destroy_def use_resource_def cuda_def st_gets_def
      cuda_failed_def message_def set_block_def on_gpu_def st_bind_def owns_def)

lemma destroy_throws: "throws_only catchable (DestroyArray me (Some r) GPU)"
  by (auto simp: throws_only_def DestroyArray_def GPU_ERROR_CHECK_def cudaFree_def destroy_def use_resource_def cuda_def st_gets_def
      cuda_failed_def message_def set_block_def on_gpu_def st_bind_def split: if_splits)

lemma clean_scoped [clean_rules]:
  assumes "use_cuda (cuda_of (mem e))" "\<And>p. clean (body p)"
  shows "clean (ScopedGpuArray e n body)"
proof -
  have "meets (\<lambda>s. case p of None \<Rightarrow> owns lv s | Some r \<Rightarrow> r \<notin> lv \<and> owns (insert r lv) s)
      (unwinding (scoped_reset e p) (body p)) (\<lambda>_. owns lv) (\<lambda>e s. catchable e \<longrightarrow> owns lv s)" for p lv
  proof (cases p)
    case None
    have reset: "meets (owns lv) (scoped_reset e p) (\<lambda>_. owns lv) (\<lambda>_ _. False)"
      by (simp add: None scoped_reset_def meets_def)
    show ?thesis
      unfolding None option.case
      by (rule meets_unwinding [where Q' = "\<lambda>_. owns lv" and E' = "\<lambda>e s. catchable e \<longrightarrow> owns lv s" and F = "\<lambda>_ _. False"])
         (use assms(2) reset in \<open>auto simp: clean_def None intro: meets_weaken\<close>)
  next
    case (Some r)
    show ?thesis
    proof (cases "r \<in> lv")
      case True
      then show ?thesis by (simp add: Some meets_def)
    next
      case False
      have reset: "meets (owns (insert r lv)) (scoped_reset e p) (\<lambda>_. owns lv) (\<lambda>e _. catchable e)"
        unfolding scoped_reset_def Some meets_def
        using destroy_owns [OF False, of "mem e"] throws_onlyD [OF destroy_throws, of "mem e" r] assms(1)
        by (fastforce simp: meets_def split: prod.splits sum.splits)
      show ?thesis
        unfolding Some option.case
        by (rule meets_weaken [OF meets_unwinding [where P = "owns (insert r lv)" and Q' = "\<lambda>_. owns (insert r lv)"
                and E' = "\<lambda>e s. catchable e \<longrightarrow> owns (insert r lv) s" and F = "\<lambda>e _. catchable e"]])
           (use assms(2) reset in \<open>auto simp: clean_def Some intro: meets_weaken\<close>)
    qed
  qed
  note scope = this
  have "meets (owns lv) (if 0 < n then AllocateArray (mem e) n GPU else st_return None)
      (\<lambda>p s. case p of None \<Rightarrow> owns lv s | Some r \<Rightarrow> r \<notin> lv \<and> owns (insert r lv) s) (\<lambda>e s. catchable e \<longrightarrow> owns lv s)" for lv
    by (auto intro: meets_weaken [OF allocate_owns] meets_return)
  from meets_bind [OF this scope] show ?thesis
    by (simp add: ScopedGpuArray_def clean_def)
qed

section \<open>The wrappers and the exports\<close>

lemma clean_library [clean_rules]:
  "clean effect \<Longrightarrow> clean (BLAS_CHECK e call h effect)"
  "clean effect \<Longrightarrow> clean (SOLVER_CHECK e call h effect)"
  unfolding BLAS_CHECK_def SOLVER_CHECK_def library_check_def
  by (intro clean_rules steady_rules; assumption)+

lemma clean_cuda_check [clean_rules]: "steady m \<Longrightarrow> clean (CUDA_CHECK e c m)"
  unfolding CUDA_CHECK_def by (intro clean_rules)

lemma clean_deliver [clean_rules]: "clean (deliver p out)" "clean (deliver_solved p d out')"
  unfolding deliver_def deliver_solved_def by (intro clean_rules)+

lemma clean_sync [clean_rules]: "clean (sync_in_mode e ctx)"
  unfolding sync_in_mode_def by (intro clean_rules steady_rules)

lemma clean_memcpy [clean_rules]: "clean (MemCpy me d q n c kind)"
  unfolding MemCpy_def on_stream_def device_context_def sync_if_needed_def
  by (intro clean_rules steady_rules)

lemma clean_transfers [clean_rules]:
  "clean (upload e ctx p q n)" "clean (download e ctx p m n)" "clean (download_matrix e ctx p r c n)" "clean (zero_device e p n)"
  unfolding upload_def download_def download_matrix_def zero_device_def Let_def
  by (intro clean_rules steady_rules)+

lemma clean_context [clean_rules]: "clean (rcompss_gpu_linalg_require_context e)"
  unfolding rcompss_gpu_linalg_require_context_def by (intro clean_rules steady_rules)

lemma clean_read_info [clean_rules]: "clean (read_info e d)"
  unfolding read_info_def by (intro clean_rules steady_rules)

lemma clean_wrappers [clean_rules]:
  "clean (GpuBlasDgemm e ctx transA transB m n k alpha beta dA lda dB ldb dC ldc)"
  "clean (GpuBlasDaxpy e ctx n alpha d_x d_y)"
  "clean (GpuBlasDgemv e ctx tr m n alpha beta dA lda d_x d_y)"
  "clean (GpuBlasDdot e ctx n d_x d_y)"
  "clean (GpuBlasDnrm2 e ctx n d_x)"
  "clean (GpuBlasDscal e ctx n alpha d_x)"
  "clean (GpuBlasDtrmm e ctx left upper tr diag m n alpha dA lda dB ldb dC ldc)"
  "clean (GpuBlasDtrsm e ctx left upper tr diag m n alpha dA lda dB ldb)"
  "clean (GpuBlasDsyrk e ctx upper tr n k alpha dA lda beta dC ldc)"
  "clean (GpuSolverDgetrs e ctx tr n k dA lda dIpiv dB ldb)"
  "clean (GpuSolverDpotrs e ctx upper n k dA lda dB ldb)"
  unfolding GpuBlasDgemm_def GpuBlasDaxpy_def GpuBlasDgemv_def GpuBlasDdot_def GpuBlasDnrm2_def GpuBlasDscal_def
    GpuBlasDtrmm_def GpuBlasDtrsm_def GpuBlasDsyrk_def GpuSolverDgetrs_def GpuSolverDpotrs_def
  by (intro clean_rules steady_rules)+

lemma clean_size [clean_rules]: "clean (triangular_size name left A B)"
  unfolding triangular_size_def Let_def by (intro clean_rules)

lemma clean_export: "(use_cuda (cuda_of (mem e)) \<Longrightarrow> clean body) \<Longrightarrow> clean (gpu_export e name body)"
  unfolding gpu_export_def stop_with_def by (intro clean_rules)

lemma clean_exports:
  "clean (rcompss_gpu_dgemm e A B transA transB alpha beta)"
  "clean (rcompss_gpu_daxpy e x y alpha)"
  "clean (rcompss_gpu_ddot e x y)"
  "clean (rcompss_gpu_dnrm2 e x)"
  "clean (rcompss_gpu_dscal e x alpha)"
  "clean (rcompss_gpu_dgemv e A x tr alpha beta y0)"
  "clean (rcompss_gpu_dtrmm e A B side uplo trs diag alpha)"
  "clean (rcompss_gpu_dtrsm e A B side uplo trs diag alpha)"
  "clean (rcompss_gpu_dsyrk e A uplo trs alpha beta C0)"
  "clean (rcompss_gpu_dgetrs e A piv rhs tr)"
  "clean (rcompss_gpu_dpotrs e A rhs upper)"
  unfolding rcompss_gpu_dgemm_def dgemm_body_def rcompss_gpu_daxpy_def daxpy_body_def rcompss_gpu_ddot_def ddot_body_def
    rcompss_gpu_dnrm2_def dnrm2_body_def rcompss_gpu_dscal_def dscal_body_def rcompss_gpu_dgemv_def dgemv_body_def
    rcompss_gpu_dtrmm_def dtrmm_body_def rcompss_gpu_dtrsm_def dtrsm_body_def rcompss_gpu_dsyrk_def dsyrk_body_def
    rcompss_gpu_dgetrs_def dgetrs_body_def rcompss_gpu_dpotrs_def dpotrs_body_def Let_def
  by (rule clean_export, intro clean_rules steady_rules; assumption)+

section \<open>Properties\<close>

definition releases :: "(memory, 'a) st \<Rightarrow> bool" where
  "releases m \<longleftrightarrow>
     (\<forall>s r s'. (\<forall>x \<in> live (device s). x < next_id (device s)) \<and> m s = (r, s') \<longrightarrow>
        live (device s') = live (device s) \<or> (\<exists>ex. r = Inl ex \<and> \<not> catchable ex))"

lemma clean_releases: "clean m \<Longrightarrow> releases m"
  unfolding releases_def
proof (intro allI impI)
  fix s r s'
  assume "clean m" and a: "(\<forall>x \<in> live (device s). x < next_id (device s)) \<and> m s = (r, s')"
  then have "meets (owns (live (device s))) m (\<lambda>_. owns (live (device s))) (\<lambda>e s'. catchable e \<longrightarrow> owns (live (device s)) s')"
    and "owns (live (device s)) s" by (simp_all add: clean_def owns_def)
  with a show "live (device s') = live (device s) \<or> (\<exists>ex. r = Inl ex \<and> \<not> catchable ex)"
    by (cases r) (auto simp: owns_def dest: meets_Inr meets_Inl)
qed

text \<open>
  C31. Whatever CUDA, cuBLAS and cuSOLVER do, and whatever the arguments are, each of these eleven
  exports gives back every device buffer it allocated, whether it returns or throws; the only
  other outcomes are the end of the process and undefined behaviour.
\<close>

theorem linalg_releases_buffers:
  "releases (rcompss_gpu_dgemm e A B transA transB alpha beta)
   \<and> releases (rcompss_gpu_daxpy e x y alpha)
   \<and> releases (rcompss_gpu_ddot e x y)
   \<and> releases (rcompss_gpu_dnrm2 e x)
   \<and> releases (rcompss_gpu_dscal e x alpha)
   \<and> releases (rcompss_gpu_dgemv e A x tr alpha beta y0)
   \<and> releases (rcompss_gpu_dtrmm e A B side uplo trs diag alpha)
   \<and> releases (rcompss_gpu_dtrsm e A B side uplo trs diag alpha)
   \<and> releases (rcompss_gpu_dsyrk e A uplo trs alpha beta C0)
   \<and> releases (rcompss_gpu_dgetrs e A piv rhs tr)
   \<and> releases (rcompss_gpu_dpotrs e A rhs upper)"
  by (intro conjI clean_releases clean_exports)

end
