(* ===== verification/Gpu_Linalg_Correct.thy ===== *)
theory Gpu_Linalg_Correct
  imports Gpu_Linalg_Safety
begin

text \<open>
  What the linear algebra exports compute when the device works: how the numbers of R's matrices
  travel through buffers, leading dimensions and library calls. The locale \<open>linalg_session\<close> fixes a
  working GPU context; \<open>blas_api\<close> states what cuBLAS and cuSOLVER document.
\<close>

lemma length_u64s_of_bytes [simp]: "length (u64s_of_bytes n bs) = n"
  by (induction n arbitrary: bs) simp_all

lemma take_vector_bytes: "m \<le> length xs \<Longrightarrow> take (8 * m) (vector_bytes xs) = vector_bytes (take m xs)"
proof -
  assume "m \<le> length xs"
  then have "take (8 * m) (vector_bytes (take m xs @ drop m xs)) = vector_bytes (take m xs)"
    using length_vector_bytes [of "take m xs"] unfolding vector_bytes_def map_append concat_append by simp
  then show ?thesis by simp
qed

lemma length_ints_bytes [simp]: "length (ints_bytes ps) = 4 * length ps"
  by (induction ps) (simp_all add: ints_bytes_def)

lemma ints_of_ints_bytes:
  "\<forall>i \<in> set ps. in_int_range i \<Longrightarrow> ints_of_bytes (length ps) (ints_bytes ps) = ps"
proof (induction ps)
  case (Cons i ps)
  have "sint (word_of_int i :: 32 word) = i"
    using Cons.prems by (simp add: signed_of_int signed_take_bit_int_eq_self in_int_range_def int_min_def int_max_def)
  then show ?case using Cons by (simp add: ints_bytes_def)
qed (simp add: ints_bytes_def)

lemma int_length_small: "length xs < 2 ^ 31 \<Longrightarrow> int_length xs = int (length xs)"
  by (simp add: int_length_def signed_of_nat signed_of_int signed_take_bit_int_eq_self)

lemma int_bytes_small: "n * z < 2 ^ 64 \<Longrightarrow> 0 < z \<Longrightarrow> int_bytes (int n) z = n * z"
proof -
  assume "n * z < 2 ^ 64" "0 < z"
  then have "int n * int z < 2 ^ 64" "int n \<le> int n * int z" by (simp_all flip: of_nat_mult)
  then have "int n mod 2 ^ 64 = int n" "int n * int z mod 2 ^ 64 = int n * int z" by simp_all
  then show ?thesis by (simp add: int_bytes_def nat_mult_distrib)
qed

lemma square_extent: "0 < r \<Longrightarrow> 0 < q \<Longrightarrow> extent (int r) (int r) (int q) = int (r * q)"
  by (simp add: extent_def algebra_simps of_nat_diff)

text \<open>The message for a triangular matrix of the wrong size.\<close>

definition size_message :: "string \<Rightarrow> nat \<Rightarrow> num_matrix \<Rightarrow> string" where
  "size_message name a A = name @ '': A must be '' @ dims a a @ '' (got '' @ dims (mat_nrow A) (mat_ncol A) @ '').''"

section \<open>A session on a working device\<close>

text \<open>
  Every call but \<^verbatim>\<open>cudaFree\<close> succeeds; whether that one does is said separately. \<open>base\<close> are the
  resources of the context: stream, handles and status word.
\<close>

definition running ::
    "linalg_env \<Rightarrow> nat \<Rightarrow> run_context \<Rightarrow> nat set \<Rightarrow> nat \<Rightarrow> nat set \<Rightarrow> (nat \<Rightarrow> byte list option) \<Rightarrow> memory \<Rightarrow> bool" where
  "running e ctx c base k lv bl s \<longleftrightarrow>
     (\<exists>m. mpInstance (device s) = Some m \<and> mpCurrentContext m = Some ctx) \<and> ctx_heap (device s) ctx = Some c \<and>
     next_id (device s) = k \<and> live (device s) = lv \<and> blocks s = bl \<and> base \<subseteq> lv \<and> (\<forall>r \<in> lv. r < k)"

locale linalg_session =
  fixes e :: linalg_env and ctx :: nat and c :: run_context and st bh sh inf :: nat
  assumes cuda_build: "use_cuda (cuda_of (mem e))"
    and obliging: "\<And>call n. call \<noteq> Free \<Longrightarrow> succeeds (cuda_of (mem e)) call n"
    and on_device: "mOperationPlacement c = GPU" "mCudaStream c = Some st" "mCuBlasHandle c = Some bh"
      "mCuSolverHandle c = Some sh" "mpInfo c = Some inf"
begin

lemma run_vector:
  "meets (running e ctx c {st, bh, sh, inf} k lv bl) (r_vector xs)
     (\<lambda>r s. running e ctx c {st, bh, sh, inf} (Suc k) lv (bl(k \<mapsto> vector_bytes xs)) s \<and> r = k) never"
  by (auto simp: meets_def r_vector_def running_def less_Suc_eq)

lemma run_ints:
  "meets (running e ctx c {st, bh, sh, inf} k lv bl) (host_ints ps)
     (\<lambda>r s. running e ctx c {st, bh, sh, inf} (Suc k) lv (bl(k \<mapsto> ints_bytes ps)) s \<and> r = k) never"
  by (auto simp: meets_def host_ints_def running_def less_Suc_eq)

lemma run_context:
  "meets (running e ctx c {st, bh, sh, inf} k lv bl) (rcompss_gpu_linalg_require_context e)
     (\<lambda>r s. running e ctx c {st, bh, sh, inf} k lv bl s \<and> r = ctx) never"
  by (auto simp: meets_def rcompss_gpu_linalg_require_context_def on_gpu_def GetOperationContext_def GetInstance_again
      RunContext_GetOperationPlacement_def the_context_def st_bind_def stop_if_def running_def on_device)

lemma run_stop:
  "\<not> b \<Longrightarrow> meets (running e ctx c {st, bh, sh, inf} k lv bl) (stop_if b t)
     (\<lambda>u s. running e ctx c {st, bh, sh, inf} k lv bl s \<and> u = ()) never"
  by (simp add: stop_if_def meets_def)

lemma run_lift:
  "r = Inr v \<Longrightarrow> meets (running e ctx c {st, bh, sh, inf} k lv bl) (st_lift r)
     (\<lambda>u s. running e ctx c {st, bh, sh, inf} k lv bl s \<and> u = v) never"
  by (simp add: meets_def)

lemma run_memcpy:
  assumes "kind \<noteq> HOST_TO_HOST" "0 < n" "bl d = Some old" "bl r = Some new" "length old = n" "n \<le> length new"
  shows "meets (running e ctx c {st, bh, sh, inf} k lv bl) (MemCpy (mem e) (Some d) (Some r) n (Some ctx) kind)
     (\<lambda>u s. running e ctx c {st, bh, sh, inf} k lv (bl(d \<mapsto> take n new)) s \<and> u = ()) never"
  using assms
  by (auto simp: meets_def MemCpy_def on_stream_def on_gpu_def device_context_def the_context_def assigned_def GPU_ERROR_CHECK_def
      use_resource_def cuda_def obliging cuda_build st_gets_def copy_bytes_def sync_if_needed_def st_bind_def running_def on_device)

lemma run_upload:
  assumes "0 < n" "bl d = Some old" "bl r = Some new" "length old = n" "n \<le> length new"
  shows "meets (running e ctx c {st, bh, sh, inf} k lv bl) (upload e ctx (Some d) r n)
     (\<lambda>u s. running e ctx c {st, bh, sh, inf} k lv (bl(d \<mapsto> take n new)) s \<and> u = ()) never"
  unfolding upload_def by (rule run_memcpy) (use assms in auto)

lemma run_upload_vector:
  assumes "n = 8 * m" "0 < m" "bl d = Some old" "bl r = Some (vector_bytes xs)" "length old = n" "m \<le> length xs"
  shows "meets (running e ctx c {st, bh, sh, inf} k lv bl) (upload e ctx (Some d) r n)
     (\<lambda>u s. running e ctx c {st, bh, sh, inf} k lv (bl(d \<mapsto> vector_bytes (take m xs))) s \<and> u = ()) never"
  using run_upload [of n bl d old r "vector_bytes xs" k lv] assms by (simp add: take_vector_bytes)

lemma run_upload_all:
  assumes "n = 8 * length xs" "0 < n" "bl d = Some old" "bl r = Some (vector_bytes xs)" "length old = n"
  shows "meets (running e ctx c {st, bh, sh, inf} k lv bl) (upload e ctx (Some d) r n)
     (\<lambda>u s. running e ctx c {st, bh, sh, inf} k lv (bl(d \<mapsto> vector_bytes xs)) s \<and> u = ()) never"
  using run_upload [of n bl d old r "vector_bytes xs" k lv] assms by simp

lemma run_values:
  "bl r = Some (vector_bytes xs) \<Longrightarrow> meets (running e ctx c {st, bh, sh, inf} k lv bl) (vector_values r)
     (\<lambda>ys s. running e ctx c {st, bh, sh, inf} k lv bl s \<and> ys = xs) never"
  by (auto simp: meets_def running_def vector_values_ready)

lemma run_download:
  assumes "bl p = Some (vector_bytes xs)" "length xs = n" "0 < n" "p \<noteq> k" "nb = 8 * n"
  shows "meets (running e ctx c {st, bh, sh, inf} k lv bl) (download e ctx (Some p) n nb)
     (\<lambda>ys s. running e ctx c {st, bh, sh, inf} (Suc k) lv (bl(k \<mapsto> vector_bytes xs)) s \<and> ys = xs) never"
  unfolding download_def
  apply (rule meets_value_bind [OF run_vector])
  apply (rule meets_value_bind [OF run_memcpy [where old = "vector_bytes (replicate n 0)" and new = "vector_bytes xs"]])
        apply (use assms in auto)[6]
  by (rule meets_weaken [OF run_values]) (use assms in auto)

lemma run_download_matrix:
  assumes "bl p = Some (vector_bytes xs)" "length xs = r * q" "0 < r * q" "p \<noteq> k" "nb = 8 * (r * q)"
  shows "meets (running e ctx c {st, bh, sh, inf} k lv bl) (download_matrix e ctx (Some p) r q nb)
     (\<lambda>M s. running e ctx c {st, bh, sh, inf} (Suc k) lv (bl(k \<mapsto> vector_bytes xs)) s \<and>
        M = \<lparr>mat_nrow = r, mat_ncol = q, mat_data = xs\<rparr>) never"
  unfolding download_matrix_def
  apply (rule meets_value_bind [OF run_download])
       apply (use assms in auto)[5]
  by (rule meets_return) simp

lemma run_allocate:
  assumes "0 < n"
  shows "meets (running e ctx c {st, bh, sh, inf} k lv bl) (AllocateArray (mem e) n GPU)
     (\<lambda>p s. running e ctx c {st, bh, sh, inf} (Suc k) (insert k lv) (bl(k \<mapsto> map (junk (mem e)) [0..<n])) s \<and> k \<notin> lv \<and> {st, bh, sh, inf} \<subseteq> lv \<and> inf < k \<and> p = Some k) never"
  using assms
  by (auto simp: meets_def AllocateArray_def on_gpu_def create_or_throw_def create_def cuda_def obliging cuda_build fresh_resource_def
      GPU_ERROR_CHECK_def fill_def set_block_def st_bind_def running_def less_Suc_eq)

lemma run_destroy:
  assumes "\<And>n. succeeds (cuda_of (mem e)) Free n" "k0 \<notin> lv" "{st, bh, sh, inf} \<subseteq> lv"
  shows "meets (running e ctx c {st, bh, sh, inf} k (insert k0 lv) bl) (DestroyArray (mem e) (Some k0) GPU)
     (\<lambda>u s. running e ctx c {st, bh, sh, inf} k lv (bl(k0 := None)) s) never"
  using assms
  by (auto simp: meets_def DestroyArray_def on_gpu_def GPU_ERROR_CHECK_def cudaFree_def destroy_def use_resource_def cuda_def
      cuda_build st_gets_def set_block_def st_bind_def running_def)

text \<open>The results of a scope, whatever the numbers and blocks it leaves.\<close>

definition leaves :: "nat set \<Rightarrow> 'a \<Rightarrow> 'a \<Rightarrow> memory \<Rightarrow> bool" where
  "leaves lv v = (\<lambda>r s. (\<exists>k bl. running e ctx c {st, bh, sh, inf} k lv bl s) \<and> r = v)"

lemma run_leave:
  "meets P m (\<lambda>r s. running e ctx c {st, bh, sh, inf} k lv bl s \<and> r = v) never \<Longrightarrow> meets P m (leaves lv v) never"
  by (erule meets_weaken) (auto simp: leaves_def)

lemma run_scoped:
  assumes "\<And>n. succeeds (cuda_of (mem e)) Free n" "0 < n"
    and "\<And>js. length js = n \<Longrightarrow> inf < k \<Longrightarrow>
      meets (running e ctx c {st, bh, sh, inf} (Suc k) (insert k lv) (bl(k \<mapsto> js))) (body (Some k)) (leaves (insert k lv) v) never"
  shows "meets (running e ctx c {st, bh, sh, inf} k lv bl) (ScopedGpuArray e n body) (leaves lv v) never"
proof -
  have out: "meets (leaves (insert k lv) v a) (scoped_reset e (Some k)) (\<lambda>_. leaves lv v a) never"
    if "k \<notin> lv" "{st, bh, sh, inf} \<subseteq> lv" for a
  proof (rule meetsI)
    fix s u s' assume "leaves (insert k lv) v a s" "scoped_reset e (Some k) s = (Inr u, s')"
    then show "leaves lv v a s'"
      using meets_Inr [OF run_destroy [OF assms(1) that]] by (fastforce simp: leaves_def scoped_reset_def)
  next
    fix s ex s' assume "leaves (insert k lv) v a s" "scoped_reset e (Some k) s = (Inl ex, s')"
    then show False
      using meets_Inl [OF run_destroy [OF assms(1) that]] by (fastforce simp: leaves_def scoped_reset_def)
  qed
  have "meets (\<lambda>s. running e ctx c {st, bh, sh, inf} (Suc k) (insert k lv) (bl(k \<mapsto> map (junk (mem e)) [0..<n])) s \<and> k \<notin> lv \<and> {st, bh, sh, inf} \<subseteq> lv \<and> inf < k \<and> p = Some k)
      (unwinding (scoped_reset e p) (body p)) (leaves lv v) never" for p
  proof (cases "k \<notin> lv \<and> p = Some k \<and> {st, bh, sh, inf} \<subseteq> lv \<and> inf < k")
    case True
    from meets_unwinding [OF assms(3) [of "map (junk (mem e)) [0..<n]"] out [OF _ _], of never] True
    have "meets (running e ctx c {st, bh, sh, inf} (Suc k) (insert k lv) (bl(k \<mapsto> map (junk (mem e)) [0..<n])))
        (unwinding (scoped_reset e (Some k)) (body (Some k))) (leaves lv v) never"
      by (simp add: meets_def)
    with True show ?thesis by (simp add: meets_def)
  next
    case False
    then show ?thesis by (auto simp: meets_def)
  qed
  with assms(2) show ?thesis
    unfolding ScopedGpuArray_def
    by (auto intro: meets_bind [OF run_allocate])
qed

section \<open>Library calls\<close>

lemma run_blas_handle:
  "meets (running e ctx c {st, bh, sh, inf} k lv bl) (on_gpu (GetCuBlasDnHandle ctx))
     (\<lambda>r s. running e ctx c {st, bh, sh, inf} k lv bl s \<and> r = bh) never"
  by (auto simp: meets_def on_gpu_def GetCuBlasDnHandle_def device_part_def the_context_def assigned_def st_bind_def
      running_def on_device)

lemma run_solver_handle:
  "meets (running e ctx c {st, bh, sh, inf} k lv bl) (on_gpu (GetCusolverDnHandle ctx))
     (\<lambda>r s. running e ctx c {st, bh, sh, inf} k lv bl s \<and> r = sh) never"
  by (auto simp: meets_def on_gpu_def GetCusolverDnHandle_def device_part_def the_context_def assigned_def st_bind_def
      running_def on_device)

lemma run_info_pointer:
  "meets (running e ctx c {st, bh, sh, inf} k lv bl) (on_gpu (GetInfoPointer ctx))
     (\<lambda>r s. running e ctx c {st, bh, sh, inf} k lv bl s \<and> r = Some inf) never"
  by (auto simp: meets_def on_gpu_def GetInfoPointer_def device_part_def the_context_def st_bind_def running_def on_device)

lemma run_library:
  assumes "meets (running e ctx c {st, bh, sh, inf} k lv bl) effect
      (\<lambda>r s. running e ctx c {st, bh, sh, inf} k' lv bl' s \<and> r = Some v) never" "h \<in> {bh, sh}"
  shows "meets (running e ctx c {st, bh, sh, inf} k lv bl) (library_check e name call h effect)
      (\<lambda>r s. running e ctx c {st, bh, sh, inf} k' lv bl' s \<and> r = v) never"
proof -
  have reach: "meets (running e ctx c {st, bh, sh, inf} k lv bl) (on_gpu (use_resource (cuda_of (mem e)) (LibraryCall call) h))
      (\<lambda>r s. running e ctx c {st, bh, sh, inf} k lv bl s \<and> r = True) never"
    using assms(2)
    by (auto simp: meets_def on_gpu_def use_resource_def cuda_def obliging st_gets_def st_bind_def running_def)
  have out: "meets (running e ctx c {st, bh, sh, inf} k' lv bl') (st_return v)
      (\<lambda>r s. running e ctx c {st, bh, sh, inf} k' lv bl' s \<and> r = v) never"
    by (rule meets_return) simp
  show ?thesis
    unfolding library_check_def
    by (rule meets_value_bind [OF reach], simp, rule meets_value_bind [OF assms(1)], simp, rule out)
qed

lemmas run_blas = run_library [where name = "''cuBLAS''", folded fun_cong [OF BLAS_CHECK_def]]

lemma run_sync:
  "meets (running e ctx c {st, bh, sh, inf} k lv bl) (sync_in_mode e ctx)
     (\<lambda>u s. running e ctx c {st, bh, sh, inf} k lv bl s \<and> u = ()) never"
  by (auto simp: meets_def sync_in_mode_def on_gpu_def RunContext_GetRunMode_def the_context_def CUDA_CHECK_def GetStream_def
      device_part_def assigned_def use_resource_def cuda_def obliging st_gets_def st_bind_def running_def on_device)

lemma run_read:
  assumes "bl p = Some (vector_bytes xs)" "n = int (length xs)"
  shows "meets (running e ctx c {st, bh, sh, inf} k lv bl) (read_doubles (Some p) n)
     (\<lambda>r s. running e ctx c {st, bh, sh, inf} k lv bl s \<and> r = xs) never"
  using assms length_vector_bytes [of xs] by (auto simp: meets_def read_doubles_def running_def doubles_def)

lemma run_read_junk:
  assumes "bl p = Some js" "length js = 8 * m" "n = int m"
  shows "meets (running e ctx c {st, bh, sh, inf} k lv bl) (read_doubles (Some p) n)
     (\<lambda>r s. running e ctx c {st, bh, sh, inf} k lv bl s \<and> r = doubles m js) never"
  using assms by (auto simp: meets_def read_doubles_def running_def doubles_def)

lemma run_write:
  assumes "xs \<noteq> []" "bl p = Some old" "length old = 8 * length xs"
  shows "meets (running e ctx c {st, bh, sh, inf} k lv bl) (write_doubles (Some p) xs)
     (\<lambda>u s. running e ctx c {st, bh, sh, inf} k lv (bl(p \<mapsto> vector_bytes xs)) s \<and> u = ()) never"
proof -
  have "length (vector_bytes xs) \<noteq> 0" using assms(1) by simp
  then have "vector_bytes xs \<noteq> []" by (metis list.size(3))
  with assms length_vector_bytes [of xs] show ?thesis
    by (auto simp: meets_def write_doubles_def write_bytes_def running_def)
qed

lemma run_deliver:
  assumes "out = Some xs" "xs \<noteq> []" "bl p = Some old" "length old = 8 * length xs"
  shows "meets (running e ctx c {st, bh, sh, inf} k lv bl) (deliver (Some p) out)
     (\<lambda>u s. running e ctx c {st, bh, sh, inf} k lv (bl(p \<mapsto> vector_bytes xs)) s \<and> u = Some ()) never"
  unfolding deliver_def assms(1) option.case
  by (rule meets_value_bind [OF run_write [where bl = bl and p = p and xs = xs, OF assms(2-4)]], rule meets_return) simp

section \<open>dgemm\<close>

lemma run_gemm:
  assumes "bl pa = Some (vector_bytes A)" "bl pb = Some (vector_bytes B)" "bl pc = Some js"
    and "length A = m * k'" "length B = k' * n" "length js = 8 * (m * n)" "0 < m" "0 < n" "0 < k'"
    and "lda = (if ta then k' else m)" "ldb = (if tb then n else k')"
    and "\<And>C0. length C0 = m * n \<Longrightarrow>
      cublasDgemm (lib e) ta tb (int m) (int n) (int k') alpha A (int lda) B (int ldb) beta C0 (int m) = Some out"
    and "length out = m * n"
  shows "meets (running e ctx c {st, bh, sh, inf} k lv bl)
     (GpuBlasDgemm e ctx ta tb (int m) (int n) (int k') alpha beta (Some pa) (int lda) (Some pb) (int ldb) (Some pc) (int m))
     (\<lambda>u s. running e ctx c {st, bh, sh, inf} k lv (bl(pc \<mapsto> vector_bytes out)) s \<and> u = ()) never"
proof -
  have ext: "extent (int r) (int r) (int q) = int (r * q)" if "0 < r" "0 < q" for r q
    using that by (simp add: extent_def algebra_simps of_nat_diff)
  have sizes: "(if ta then extent (int lda) (int k') (int m) else extent (int lda) (int m) (int k')) = int (length A)"
    "(if tb then extent (int ldb) (int n) (int k') else extent (int ldb) (int k') (int n)) = int (length B)"
    "extent (int m) (int m) (int n) = int (m * n)"
    using ext assms(4,5,7-11) by (simp_all add: mult.commute)
  have out: "out \<noteq> []" using assms(7,8,13) by auto
  have len: "length (doubles (m * n) js) = m * n" by (simp add: doubles_def length_u64s_of_bytes)
  show ?thesis
    unfolding GpuBlasDgemm_def sizes
    apply (rule meets_value_bind [OF run_blas_handle])
    apply (rule meets_value_bind [OF run_blas])
      apply (rule meets_value_bind [OF run_read [where xs = A]], rule assms(1), rule refl)
      apply (rule meets_value_bind [OF run_read [where xs = B]], rule assms(2), rule refl)
      apply (rule meets_value_bind [OF run_read_junk], rule assms(3), rule assms(6), rule refl)
      apply (rule run_deliver [where old = js], rule assms(12), rule len, rule out, rule assms(3))
      apply (simp add: assms(6,13))
     apply simp
    by (rule run_sync)
qed

lemma dgemm_meets:
  assumes "\<And>n. succeeds (cuda_of (mem e)) Free n"
    and "gemm_shape ta tb A B = Inr (m, n, k', lda, ldb)"
    and "length (mat_data A) = mat_nrow A * mat_ncol A" "length (mat_data B) = mat_nrow B * mat_ncol B"
    and "0 < m" "0 < n" "0 < k'" "8 * (m * k') < 2 ^ 64" "8 * (k' * n) < 2 ^ 64" "8 * (m * n) < 2 ^ 64" "is_zero beta"
    and "\<And>C0. length C0 = m * n \<Longrightarrow> cublasDgemm (lib e) ta tb (int m) (int n) (int k') alpha (mat_data A) (int (mat_nrow A))
          (mat_data B) (int (mat_nrow B)) beta C0 (int m) = Some out"
    and "length out = m * n"
  shows "meets (running e ctx c {st, bh, sh, inf} k lv bl) (dgemm_body e A B ta tb alpha beta)
     (leaves lv \<lparr>mat_nrow = m, mat_ncol = n, mat_data = out\<rparr>) never"
proof -
  have shape: "mat_nrow A = (if ta then k' else m)" "mat_ncol A = (if ta then m else k')"
    "mat_nrow B = (if tb then n else k')" "mat_ncol B = (if tb then k' else n)" "lda = mat_nrow A" "ldb = mat_nrow B"
    using assms(2) by (auto simp: gemm_shape_def Let_def split: if_splits)
  have len: "length (mat_data A) = m * k'" "length (mat_data B) = k' * n"
    using assms(3,4) shape by (auto simp: mult.commute)
  have bytes: "matrix_bytes (mat_nrow A) (mat_ncol A) = 8 * (m * k')" "matrix_bytes (mat_nrow B) (mat_ncol B) = 8 * (k' * n)"
    "matrix_bytes m n = 8 * (m * n)"
    using shape assms(8-10) by (simp_all add: matrix_bytes_def mult.commute mult.left_commute)
  have pos: "0 < 8 * (m * k')" "0 < 8 * (k' * n)" "0 < 8 * (m * n)" "0 < m * n" using assms(5-7) by simp_all
  show ?thesis
    unfolding dgemm_body_def bytes Let_def
    apply (rule meets_value_bind [OF run_vector])
    apply (rule meets_value_bind [OF run_vector])
    apply (rule meets_value_bind [OF run_context])
    apply (rule meets_value_bind [OF run_lift [OF assms(2)]])
    apply (simp only: prod.case bytes)
    apply (rule run_scoped [OF assms(1) pos(1)])
    apply (rule run_scoped [OF assms(1) pos(2)])
    apply (rule run_scoped [OF assms(1) pos(3)])
    apply (rule meets_value_bind [OF run_stop], simp add: scoped_ok_def)
    apply (rule meets_value_bind [OF run_upload_all [where xs = "mat_data A"]], simp only: len, rule pos(1), simp, simp, simp)
    apply (rule meets_value_bind [OF run_upload_all [where xs = "mat_data B"]], simp only: len, rule pos(2), simp, simp, simp)
    apply (rule meets_value_bind [OF run_stop], simp add: assms(11))
    apply (rule meets_value_bind [OF run_gemm [where A = "mat_data A" and B = "mat_data B" and out = out]])
                 apply (simp, simp, simp, rule len(1), rule len(2), assumption, rule assms(5), rule assms(6), rule assms(7))
        apply (simp add: shape, simp add: shape, simp add: assms(12) shape(5,6), rule assms(13))
    apply (rule run_leave)
    by (rule run_download_matrix [where xs = out]) (use assms(13) pos(4) in simp_all)
qed

section \<open>Factorisations and solvers\<close>

lemma meets_pure: "(b \<Longrightarrow> meets P m Q E) \<Longrightarrow> meets (\<lambda>s. P s \<and> b) m Q E"
  by (cases b) (simp_all add: meets_def)

lemma run_info_write:
  "meets (running e ctx c {st, bh, sh, inf} k lv bl) (write_info (Some inf) i)
     (\<lambda>u s. running e ctx c {st, bh, sh, inf} k lv (bl(inf \<mapsto> ints_bytes [i])) s \<and> u = ()) never"
  by (auto simp: meets_def write_info_def running_def)

lemma run_solved:
  assumes "out = Some (xs, i)" "xs \<noteq> []" "bl p = Some old" "length old = 8 * length xs"
  shows "meets (running e ctx c {st, bh, sh, inf} k lv bl) (deliver_solved (Some p) (Some inf) out)
     (\<lambda>u s. running e ctx c {st, bh, sh, inf} k lv (bl(p \<mapsto> vector_bytes xs, inf \<mapsto> ints_bytes [i])) s \<and> u = Some ()) never"
  unfolding deliver_solved_def assms(1) option.case prod.case
  by (rule meets_value_bind [OF run_write [where bl = bl and p = p and xs = xs, OF assms(2-4)]],
      rule meets_value_bind [OF run_info_write], rule meets_return) simp

lemma run_read_ints:
  assumes "bl p = Some (ints_bytes ps)" "n = int (length ps)" "\<forall>i \<in> set ps. in_int_range i"
  shows "meets (running e ctx c {st, bh, sh, inf} k lv bl) (read_ints (Some p) n)
     (\<lambda>r s. running e ctx c {st, bh, sh, inf} k lv bl s \<and> r = ps) never"
  using assms ints_of_ints_bytes [of ps] by (auto simp: meets_def read_ints_def running_def)

lemma run_info_read:
  assumes "bl inf = Some (ints_bytes [i])" "in_int_range i"
  shows "meets (running e ctx c {st, bh, sh, inf} k lv bl) (read_info e (Some inf))
     (\<lambda>r s. running e ctx c {st, bh, sh, inf} k lv bl s \<and> r = i) never"
proof -
  have reach: "meets (running e ctx c {st, bh, sh, inf} k lv bl)
      (CUDA_CHECK e (Memcpy 4) (use_resource (cuda_of (mem e)) (Memcpy 4) inf))
      (\<lambda>u s. running e ctx c {st, bh, sh, inf} k lv bl s \<and> u = ()) never"
    by (auto simp: meets_def CUDA_CHECK_def on_gpu_def use_resource_def cuda_def obliging st_gets_def st_bind_def running_def)
  show ?thesis
    unfolding read_info_def option.case
    by (rule meets_value_bind [OF reach], rule meets_value_bind [OF run_read_ints],
        rule assms(1), simp, simp add: assms(2), rule meets_return) simp
qed

text \<open>The workspace comes and goes around the factorisation.\<close>

lemma run_alloc_work:
  "meets (running e ctx c {st, bh, sh, inf} k lv bl) (alloc_work e lwork)
     (\<lambda>w s. (running e ctx c {st, bh, sh, inf} (if 0 < lwork then Suc k else k) (if 0 < lwork then insert k lv else lv) bl s \<and>
        w = (if 0 < lwork then Some k else None)) \<and> k \<notin> lv \<and> {st, bh, sh, inf} \<subseteq> lv) never"
  by (auto simp: meets_def alloc_work_def create_def cuda_def obliging fresh_resource_def CUDA_CHECK_def on_gpu_def
      st_bind_def running_def less_Suc_eq)

lemma run_free_work:
  assumes "\<And>n. succeeds (cuda_of (mem e)) Free n" "k0 \<notin> lv" "{st, bh, sh, inf} \<subseteq> lv"
  shows "meets (running e ctx c {st, bh, sh, inf} k (if b then insert k0 lv else lv) bl) (free_work e (if b then Some k0 else None))
     (\<lambda>u s. running e ctx c {st, bh, sh, inf} k lv bl s \<and> u = ()) never"
  using assms
  by (auto simp: meets_def free_work_def CUDA_CHECK_def cudaFree_def destroy_def use_resource_def cuda_def on_gpu_def
      st_gets_def st_bind_def running_def)

lemmas run_solver = run_library [where name = "''cuSOLVER''", folded fun_cong [OF SOLVER_CHECK_def]]

lemma run_size:
  "out = Some lw \<Longrightarrow> meets (running e ctx c {st, bh, sh, inf} k lv bl) (SOLVER_CHECK e call sh (st_return out))
     (\<lambda>r s. running e ctx c {st, bh, sh, inf} k lv bl s \<and> r = lw) never"
  by (rule run_solver) (simp_all add: meets_def)

lemma run_potrf:
  assumes "\<And>n. succeeds (cuda_of (mem e)) Free n"
    and "bl pa = Some (vector_bytes A)" "length A = n * n" "0 < n" "pa \<noteq> inf"
    and "potrf_bufferSize (lib e) upper (int n) (int n) = Some lw"
    and "cusolverDnDpotrf (lib e) upper (int n) A (int n) = Some (F, i)" "length F = n * n" "in_int_range i"
  shows "meets (running e ctx c {st, bh, sh, inf} k lv bl) (GpuSolverDpotrf e ctx upper (int n) (Some pa) (int n))
     (\<lambda>r s. running e ctx c {st, bh, sh, inf} (if 0 < lw then Suc k else k) lv
        (bl(pa \<mapsto> vector_bytes F, inf \<mapsto> ints_bytes [i])) s \<and> r = i) never"
proof -
  have F: "F \<noteq> []" using assms(4,8) by auto
  show ?thesis
    unfolding GpuSolverDpotrf_def square_extent [OF assms(4,4)]
    apply (rule meets_value_bind [OF run_solver_handle])
    apply (rule meets_value_bind [OF run_size [OF assms(6)]])
    apply (rule meets_bind [OF run_alloc_work], rule meets_pure, erule conjE, rule meets_pure, hypsubst)
    apply (rule meets_value_bind [OF run_info_pointer])
    apply (rule meets_value_bind [OF run_solver])
      apply (rule meets_value_bind [OF run_read [where xs = A]], rule assms(2), simp add: assms(3))
      apply (rule run_solved [OF assms(7) F], rule assms(2), simp add: assms(3,8))
     apply simp
    apply (rule meets_value_bind [OF run_sync])
    apply (rule meets_value_bind [OF run_free_work [OF assms(1)]], assumption, assumption)
    by (rule run_info_read) (simp_all add: assms(9))
qed

lemma run_write_ints:
  assumes "ps \<noteq> []" "bl p = Some old" "length old = 4 * length ps"
  shows "meets (running e ctx c {st, bh, sh, inf} k lv bl) (write_bytes (Some p) (ints_bytes ps))
     (\<lambda>u s. running e ctx c {st, bh, sh, inf} k lv (bl(p \<mapsto> ints_bytes ps)) s \<and> u = ()) never"
proof -
  have "length (ints_bytes ps) \<noteq> 0" using assms(1) by simp
  then have "ints_bytes ps \<noteq> []" by (metis list.size(3))
  with assms show ?thesis
    by (auto simp: meets_def write_bytes_def running_def)
qed

lemma run_getrf:
  assumes "\<And>n. succeeds (cuda_of (mem e)) Free n"
    and "bl pa = Some (vector_bytes A)" "length A = n * n" "0 < n" "pa \<noteq> inf"
    and "bl pp = Some js" "length js = 4 * n" "pp \<noteq> pa"
    and "getrf_bufferSize (lib e) (int n) (int n) (int n) = Some lw"
    and "cusolverDnDgetrf (lib e) (int n) (int n) A (int n) = Some (LU, piv, i)"
    and "length LU = n * n" "length piv = n" "in_int_range i"
  shows "meets (running e ctx c {st, bh, sh, inf} k lv bl) (GpuSolverDgetrf e ctx (int n) (int n) (Some pa) (int n) (Some pp))
     (\<lambda>r s. running e ctx c {st, bh, sh, inf} (if 0 < lw then Suc k else k) lv
        (bl(pp \<mapsto> ints_bytes piv, pa \<mapsto> vector_bytes LU, inf \<mapsto> ints_bytes [i])) s \<and> r = i) never"
proof -
  have ne: "LU \<noteq> []" "piv \<noteq> []" using assms(4,11,12) by auto
  show ?thesis
    unfolding GpuSolverDgetrf_def square_extent [OF assms(4,4)]
    apply (rule meets_value_bind [OF run_solver_handle])
    apply (rule meets_value_bind [OF run_size [OF assms(9)]])
    apply (rule meets_bind [OF run_alloc_work], rule meets_pure, erule conjE, rule meets_pure, hypsubst)
    apply (rule meets_value_bind [OF run_info_pointer])
    apply (rule meets_value_bind [OF run_solver])
      apply (rule meets_value_bind [OF run_read [where xs = A]], rule assms(2), simp add: assms(3))
      apply (simp only: assms(10) option.case prod.case)
      apply (rule meets_value_bind [OF run_write_ints [where ps = piv]], rule ne(2), rule assms(6), simp add: assms(7,12))
      apply (rule run_solved [OF refl ne(1), where old = "vector_bytes A"])
       apply (use assms(2,8) in simp)
      apply (simp add: assms(3,11))
     apply simp
    apply (rule meets_value_bind [OF run_sync])
    apply (rule meets_value_bind [OF run_free_work [OF assms(1)]], assumption, assumption)
    by (rule run_info_read) (simp_all add: assms(13))
qed

lemma run_getrs:
  assumes "bl pa = Some (vector_bytes LU)" "length LU = n * n" "0 < n" "0 < q"
    and "bl pp = Some (ints_bytes piv)" "length piv = n" "\<forall>i \<in> set piv. in_int_range i"
    and "bl pb = Some (vector_bytes B)" "length B = n * q" "pb \<noteq> inf"
    and "cusolverDnDgetrs (lib e) tr (int n) (int q) LU (int n) piv B (int n) = Some (X, i)"
    and "length X = n * q" "in_int_range i"
  shows "meets (running e ctx c {st, bh, sh, inf} k lv bl)
     (GpuSolverDgetrs e ctx tr (int n) (int q) (Some pa) (int n) (Some pp) (Some pb) (int n))
     (\<lambda>r s. running e ctx c {st, bh, sh, inf} k lv (bl(pb \<mapsto> vector_bytes X, inf \<mapsto> ints_bytes [i])) s \<and> r = i) never"
proof -
  have ne: "X \<noteq> []" using assms(3,4,12) by auto
  show ?thesis
    unfolding GpuSolverDgetrs_def square_extent [OF assms(3,3)] square_extent [OF assms(3,4)]
    apply (rule meets_value_bind [OF run_solver_handle])
    apply (rule meets_value_bind [OF run_info_pointer])
    apply (rule meets_value_bind [OF run_solver])
      apply (rule meets_value_bind [OF run_read [where xs = LU]], rule assms(1), simp add: assms(2))
      apply (rule meets_value_bind [OF run_read_ints [where ps = piv]], rule assms(5), simp add: assms(6), rule assms(7))
      apply (rule meets_value_bind [OF run_read [where xs = B]], rule assms(8), simp add: assms(9))
      apply (rule run_solved [OF assms(11) ne], rule assms(8), simp add: assms(9,12))
     apply simp
    apply (rule meets_value_bind [OF run_sync])
    by (rule run_info_read) (simp_all add: assms(13))
qed

lemma run_potrs:
  assumes "bl pa = Some (vector_bytes F)" "length F = n * n" "0 < n" "0 < q"
    and "bl pb = Some (vector_bytes B)" "length B = n * q" "pb \<noteq> inf"
    and "cusolverDnDpotrs (lib e) upper (int n) (int q) F (int n) B (int n) = Some (X, i)"
    and "length X = n * q" "in_int_range i"
  shows "meets (running e ctx c {st, bh, sh, inf} k lv bl)
     (GpuSolverDpotrs e ctx upper (int n) (int q) (Some pa) (int n) (Some pb) (int n))
     (\<lambda>r s. running e ctx c {st, bh, sh, inf} k lv (bl(pb \<mapsto> vector_bytes X, inf \<mapsto> ints_bytes [i])) s \<and> r = i) never"
proof -
  have ne: "X \<noteq> []" using assms(3,4,9) by auto
  show ?thesis
    unfolding GpuSolverDpotrs_def square_extent [OF assms(3,3)] square_extent [OF assms(3,4)]
    apply (rule meets_value_bind [OF run_solver_handle])
    apply (rule meets_value_bind [OF run_info_pointer])
    apply (rule meets_value_bind [OF run_solver])
      apply (rule meets_value_bind [OF run_read [where xs = F]], rule assms(1), simp add: assms(2))
      apply (rule meets_value_bind [OF run_read [where xs = B]], rule assms(5), simp add: assms(6))
      apply (rule run_solved [OF assms(8) ne], rule assms(5), simp add: assms(6,9))
     apply simp
    apply (rule meets_value_bind [OF run_sync])
    by (rule run_info_read) (simp_all add: assms(10))
qed

section \<open>The exports on a working device\<close>

lemma dpotrf_meets:
  assumes "\<And>n. succeeds (cuda_of (mem e)) Free n"
    and "mat_nrow A = n" "mat_ncol A = n" "length (mat_data A) = n * n" "0 < n" "8 * (n * n) < 2 ^ 64"
    and "potrf_bufferSize (lib e) upper (int n) (int n) = Some lw"
    and "cusolverDnDpotrf (lib e) upper (int n) (mat_data A) (int n) = Some (F, 0)" "length F = n * n"
  shows "meets (running e ctx c {st, bh, sh, inf} k lv bl) (dpotrf_body e A upper)
     (leaves lv \<lparr>mat_nrow = n, mat_ncol = n, mat_data = F\<rparr>) never"
proof -
  have bytes: "matrix_bytes n n = 8 * (n * n)" using assms(6) by (simp add: matrix_bytes_def mult.commute)
  have pos: "0 < 8 * (n * n)" "0 < n * n" using assms(5) by simp_all
  show ?thesis
    unfolding dpotrf_body_def Let_def assms(2,3) bytes
    apply (rule meets_value_bind [OF run_vector])
    apply (rule meets_value_bind [OF run_context])
    apply (rule meets_value_bind [OF run_stop], simp)
    apply (rule run_scoped [OF assms(1) pos(1)])
    apply (rule meets_value_bind [OF run_stop], simp add: scoped_ok_def)
    apply (rule meets_value_bind [OF run_upload_all [where xs = "mat_data A"]], simp only: assms(4), rule pos(1), simp, simp, simp)
    apply (rule meets_value_bind [OF run_potrf [OF assms(1) _ assms(4,5) _ assms(7-9)]], simp, simp, simp add: in_int_range_def int_min_def int_max_def)
    apply (rule meets_value_bind [OF run_stop], simp)
    apply (rule run_leave)
    by (rule run_download_matrix [where xs = F]) (use assms(9) pos(2) in auto)
qed

lemma dgetrf_meets:
  assumes "\<And>n. succeeds (cuda_of (mem e)) Free n"
    and "mat_nrow A = n" "mat_ncol A = n" "length (mat_data A) = n * n" "0 < n" "8 * (n * n) < 2 ^ 64"
    and "getrf_bufferSize (lib e) (int n) (int n) (int n) = Some lw"
    and "cusolverDnDgetrf (lib e) (int n) (int n) (mat_data A) (int n) = Some (LU, piv, i)"
    and "length LU = n * n" "length piv = n" "\<forall>p \<in> set piv. in_int_range p" "in_int_range i"
  shows "meets (running e ctx c {st, bh, sh, inf} k lv bl) (dgetrf_body e A)
     (leaves lv \<lparr>lu_matrix = \<lparr>mat_nrow = n, mat_ncol = n, mat_data = LU\<rparr>, lu_pivot = piv, lu_info = i\<rparr>) never"
proof -
  have "n \<le> n * n" using assms(5) by simp
  then have "4 * n < 2 ^ 64" using assms(6) by linarith
  then have bytes: "matrix_bytes n n = 8 * (n * n)" "int_bytes (int n) 4 = 4 * n" "min n n = n"
    using assms(6) int_bytes_small [of n 4] by (simp_all add: matrix_bytes_def mult.commute)
  have pos: "0 < 8 * (n * n)" "0 < n * n" "0 < 4 * n" using assms(5) by simp_all
  show ?thesis
    unfolding dgetrf_body_def Let_def assms(2,3) bytes
    apply (rule meets_value_bind [OF run_vector])
    apply (rule meets_value_bind [OF run_context])
    apply (rule run_scoped [OF assms(1) pos(1)])
    apply (rule run_scoped [OF assms(1) pos(3)])
    apply (rule meets_value_bind [OF run_stop], simp add: scoped_ok_def)
    apply (rule meets_value_bind [OF run_upload_all [where xs = "mat_data A"]], simp only: assms(4), rule pos(1), simp, simp, simp)
    apply (rule meets_value_bind [OF run_getrf [OF assms(1) _ assms(4,5) _ _ _ _ assms(7-10,12)]], simp, simp, simp, simp, simp)
    apply (rule meets_value_bind [OF run_download_matrix [where xs = LU]], simp, rule assms(9), rule pos(2))
      apply (simp, simp)
    apply (rule meets_value_bind [OF run_ints])
    apply (rule meets_value_bind [OF run_memcpy [where old = "ints_bytes (replicate n 0)" and new = "ints_bytes piv"]])
          apply (simp, rule pos(3), simp, simp, simp, simp add: assms(10))
    apply (rule meets_value_bind [OF run_read_ints [where ps = piv]], simp add: assms(10), simp add: assms(10), rule assms(11))
    apply (rule run_leave)
    by (rule meets_return) simp
qed

lemma dgetrs_meets:
  assumes "\<And>n. succeeds (cuda_of (mem e)) Free n"
    and "mat_nrow LU = n" "mat_ncol LU = n" "length (mat_data LU) = n * n" "0 < n" "n < 2 ^ 31" "8 * (n * n) < 2 ^ 64"
    and "length piv = n" "\<forall>p \<in> set piv. in_int_range p"
    and "right_matrix ''dgetrs'' n B = Inr \<lparr>mat_nrow = n, mat_ncol = q, mat_data = bs\<rparr>" "length bs = n * q" "0 < q" "8 * (n * q) < 2 ^ 64"
    and "cusolverDnDgetrs (lib e) tr (int n) (int q) (mat_data LU) (int n) piv bs (int n) = Some (X, 0)" "length X = n * q"
  shows "meets (running e ctx c {st, bh, sh, inf} k lv bl) (dgetrs_body e LU piv B tr)
     (leaves lv \<lparr>mat_nrow = n, mat_ncol = q, mat_data = X\<rparr>) never"
proof -
  have "n \<le> n * n" using assms(5) by simp
  then have "4 * n < 2 ^ 64" using assms(7) by linarith
  then have bytes: "matrix_bytes n n = 8 * (n * n)" "int_bytes (int n) 4 = 4 * n" "matrix_bytes n q = 8 * (n * q)"
    using assms(7,13) int_bytes_small [of n 4] by (simp_all add: matrix_bytes_def mult.commute mult.left_commute)
  have pos: "0 < 8 * (n * n)" "0 < 8 * (n * q)" "0 < 4 * n" "0 < n * q" using assms(5,12) by simp_all
  have piv: "int_length piv = int n" "take n piv = piv" using assms(6,8) int_length_small [of piv] by simp_all
  show ?thesis
    unfolding dgetrs_body_def Let_def assms(2,3) bytes piv
    apply (rule meets_value_bind [OF run_vector])
    apply (rule meets_value_bind [OF run_context])
    apply (rule meets_value_bind [OF run_stop], simp)
    apply (rule meets_value_bind [OF run_stop], simp)
    apply (rule meets_value_bind [OF run_lift [OF assms(10)]])
    apply (simp only: num_matrix.simps bytes)
    apply (rule meets_value_bind [OF run_vector])
    apply (rule run_scoped [OF assms(1) pos(1)])
    apply (rule run_scoped [OF assms(1) pos(2)])
    apply (rule run_scoped [OF assms(1) pos(3)])
    apply (rule meets_value_bind [OF run_stop], simp add: scoped_ok_def)
    apply (rule meets_value_bind [OF run_upload_all [where xs = "mat_data LU"]], simp only: assms(4), rule pos(1), simp, simp, simp)
    apply (rule meets_value_bind [OF run_upload_all [where xs = bs]], simp only: assms(11), rule pos(2), simp, simp, simp)
    apply (rule meets_value_bind [OF run_ints])
    apply (rule meets_value_bind [OF run_upload [where new = "ints_bytes piv"]], rule pos(3), simp, simp, simp, simp add: assms(8))
    apply (rule meets_value_bind [OF run_getrs [where LU = "mat_data LU" and piv = piv and B = bs]])
                 apply (simp, rule assms(4), rule assms(5), rule assms(12), simp add: assms(8), rule assms(8), rule assms(9))
          apply (simp, rule assms(11), simp, rule assms(14), rule assms(15), simp add: in_int_range_def int_min_def int_max_def)
    apply (rule meets_value_bind [OF run_stop], simp)
    apply (rule run_leave)
    by (rule run_download_matrix [where xs = X]) (use assms(15) pos(4) in auto)
qed

lemma dpotrs_meets:
  assumes "\<And>n. succeeds (cuda_of (mem e)) Free n"
    and "mat_nrow F = n" "mat_ncol F = n" "length (mat_data F) = n * n" "0 < n" "8 * (n * n) < 2 ^ 64"
    and "right_matrix ''dpotrs'' n B = Inr \<lparr>mat_nrow = n, mat_ncol = q, mat_data = bs\<rparr>" "length bs = n * q" "0 < q" "8 * (n * q) < 2 ^ 64"
    and "cusolverDnDpotrs (lib e) upper (int n) (int q) (mat_data F) (int n) bs (int n) = Some (X, 0)" "length X = n * q"
  shows "meets (running e ctx c {st, bh, sh, inf} k lv bl) (dpotrs_body e F B upper)
     (leaves lv \<lparr>mat_nrow = n, mat_ncol = q, mat_data = X\<rparr>) never"
proof -
  have bytes: "matrix_bytes n n = 8 * (n * n)" "matrix_bytes n q = 8 * (n * q)"
    using assms(6,10) by (simp_all add: matrix_bytes_def mult.commute mult.left_commute)
  have pos: "0 < 8 * (n * n)" "0 < 8 * (n * q)" "0 < n * q" using assms(5,9) by simp_all
  show ?thesis
    unfolding dpotrs_body_def Let_def assms(2,3) bytes
    apply (rule meets_value_bind [OF run_vector])
    apply (rule meets_value_bind [OF run_context])
    apply (rule meets_value_bind [OF run_stop], simp)
    apply (rule meets_value_bind [OF run_lift [OF assms(7)]])
    apply (simp only: num_matrix.simps bytes)
    apply (rule meets_value_bind [OF run_vector])
    apply (rule run_scoped [OF assms(1) pos(1)])
    apply (rule run_scoped [OF assms(1) pos(2)])
    apply (rule meets_value_bind [OF run_stop], simp add: scoped_ok_def)
    apply (rule meets_value_bind [OF run_upload_all [where xs = "mat_data F"]], simp only: assms(4), rule pos(1), simp, simp, simp)
    apply (rule meets_value_bind [OF run_upload_all [where xs = bs]], simp only: assms(8), rule pos(2), simp, simp, simp)
    apply (rule meets_value_bind [OF run_potrs [where F = "mat_data F" and B = bs]])
              apply (simp, rule assms(4), rule assms(5), rule assms(9), simp, rule assms(8), simp)
       apply (rule assms(11), rule assms(12), simp add: in_int_range_def int_min_def int_max_def)
    apply (rule meets_value_bind [OF run_stop], simp)
    apply (rule run_leave)
    by (rule run_download_matrix [where xs = X]) (use assms(12) pos(3) in auto)
qed

section \<open>Refusals\<close>

text \<open>The exception that ends a scope, with exactly the resources \<open>lv\<close>.\<close>

definition aborts :: "nat set \<Rightarrow> exn \<Rightarrow> exn \<Rightarrow> memory \<Rightarrow> bool" where
  "aborts lv x = (\<lambda>ex s. (\<exists>k bl. running e ctx c {st, bh, sh, inf} k lv bl s) \<and> ex = x)"

lemma meets_any: "meets P m Q never \<Longrightarrow> meets P m Q E"
  by (erule meets_weaken) auto

lemmas run_then = meets_value_bind [OF meets_any]

lemma abort_throw: "meets (running e ctx c {st, bh, sh, inf} k lv bl) (st_throw x) Q (aborts lv x)"
  by (auto simp: meets_def aborts_def)

lemma abort_bind: "meets P m (\<lambda>_ _. False) E \<Longrightarrow> meets P (st_bind m f) Q E"
  by (rule meets_bind) (auto simp: meets_def)

lemma abort_stop:
  "b \<Longrightarrow> meets (running e ctx c {st, bh, sh, inf} k lv bl) (stop_if b t) Q (aborts lv (Rcpp_exception t))"
  by (simp add: stop_if_def abort_throw)

lemma abort_lift: "r = Inl x \<Longrightarrow> meets (running e ctx c {st, bh, sh, inf} k lv bl) (st_lift r) Q (aborts lv x)"
  by (auto simp: meets_def aborts_def)

lemma abort_scoped:
  assumes "\<And>n. succeeds (cuda_of (mem e)) Free n" "0 < n" "catchable x"
    and "\<And>js. length js = n \<Longrightarrow> inf < k \<Longrightarrow> k \<notin> lv \<Longrightarrow>
      meets (running e ctx c {st, bh, sh, inf} (Suc k) (insert k lv) (bl(k \<mapsto> js))) (body (Some k)) (\<lambda>_ _. False) (aborts (ex \<union> insert k lv) x)"
    and "\<forall>r \<in> ex. k < r"
  shows "meets (running e ctx c {st, bh, sh, inf} k lv bl) (ScopedGpuArray e n body) (\<lambda>_ _. False) (aborts (ex \<union> lv) x)"
proof -
  have out: "meets (aborts (ex \<union> insert k lv) x a) (scoped_reset e (Some k)) (\<lambda>_. aborts (ex \<union> lv) x a) never"
    if "k \<notin> lv" "{st, bh, sh, inf} \<subseteq> lv" for a
  proof -
    have "k \<notin> ex \<union> lv" "{st, bh, sh, inf} \<subseteq> ex \<union> lv" "ex \<union> insert k lv = insert k (ex \<union> lv)" using that assms(5) by auto
    note destroy = run_destroy [OF assms(1) this(1,2)] and this(3) [simp]
    show ?thesis
    proof (rule meetsI)
      fix s u s' assume "aborts (ex \<union> insert k lv) x a s" "scoped_reset e (Some k) s = (Inr u, s')"
      then show "aborts (ex \<union> lv) x a s'"
        using meets_Inr [OF destroy] by (fastforce simp: aborts_def scoped_reset_def)
    next
      fix s ex' s' assume "aborts (ex \<union> insert k lv) x a s" "scoped_reset e (Some k) s = (Inl ex', s')"
      then show False
        using meets_Inl [OF destroy] by (fastforce simp: aborts_def scoped_reset_def)
    qed
  qed
  have "meets (\<lambda>s. running e ctx c {st, bh, sh, inf} (Suc k) (insert k lv) (bl(k \<mapsto> map (junk (mem e)) [0..<n])) s \<and> k \<notin> lv \<and> {st, bh, sh, inf} \<subseteq> lv \<and> inf < k \<and> p = Some k)
      (unwinding (scoped_reset e p) (body p)) (\<lambda>_ _. False) (aborts (ex \<union> lv) x)" for p
  proof (cases "k \<notin> lv \<and> p = Some k \<and> {st, bh, sh, inf} \<subseteq> lv \<and> inf < k")
    case True
    have "meets (running e ctx c {st, bh, sh, inf} (Suc k) (insert k lv) (bl(k \<mapsto> map (junk (mem e)) [0..<n])))
        (unwinding (scoped_reset e (Some k)) (body (Some k))) (\<lambda>_ _. False) (aborts (ex \<union> lv) x)"
      by (rule meets_unwinding [OF assms(4) _ out]) (use True assms(3) in \<open>auto simp: aborts_def meets_def\<close>)
    with True show ?thesis by (simp add: meets_def)
  next
    case False
    then show ?thesis by (auto simp: meets_def)
  qed
  with assms(2) show ?thesis
    unfolding ScopedGpuArray_def
    by (auto intro: meets_bind [OF meets_any [OF run_allocate]])
qed

lemma abort_library:
  assumes "meets (running e ctx c {st, bh, sh, inf} k lv bl) effect
      (\<lambda>r s. running e ctx c {st, bh, sh, inf} k' lv bl' s \<and> r = None) never" "h \<in> {bh, sh}"
  shows "meets (running e ctx c {st, bh, sh, inf} k lv bl) (library_check e name call h effect) Q
      (aborts lv (Std_exception (name @ '' error: '' @ call)))"
proof -
  have reach: "meets (running e ctx c {st, bh, sh, inf} k lv bl) (on_gpu (use_resource (cuda_of (mem e)) (LibraryCall call) h))
      (\<lambda>r s. running e ctx c {st, bh, sh, inf} k lv bl s \<and> r = True) never"
    using assms(2)
    by (auto simp: meets_def on_gpu_def use_resource_def cuda_def obliging st_gets_def st_bind_def running_def)
  show ?thesis
    unfolding library_check_def
    by (rule run_then [OF reach], simp, rule run_then [OF assms(1)]) (simp add: abort_throw)
qed

text \<open>A factorisation whose library call fails leaves its workspace behind.\<close>

lemma potrf_leaks:
  assumes "bl pa = Some (vector_bytes A)" "length A = n * n" "0 < n"
    and "potrf_bufferSize (lib e) upper (int n) (int n) = Some lw" "0 < lw" "cusolverDnDpotrf (lib e) upper (int n) A (int n) = None"
  shows "meets (running e ctx c {st, bh, sh, inf} k lv bl) (GpuSolverDpotrf e ctx upper (int n) (Some pa) (int n)) (\<lambda>_ _. False)
     (aborts (insert k lv) (Std_exception ''cuSOLVER error: cusolverDnDpotrf(sh, uplo, n, dA, lda, d_work, lwork, d_info)''))"
proof -
  have fail: "meets (running e ctx c {st, bh, sh, inf} (Suc k) (insert k lv) bl)
      (SOLVER_CHECK e ''cusolverDnDpotrf(sh, uplo, n, dA, lda, d_work, lwork, d_info)'' sh
        (st_bind (read_doubles (Some pa) (int (n * n))) (\<lambda>A.
           deliver_solved (Some pa) (Some inf) (cusolverDnDpotrf (lib e) upper (int n) A (int n)))))
      (\<lambda>_ _. False) (aborts (insert k lv) (Std_exception (''cuSOLVER'' @ '' error: '' @ ''cusolverDnDpotrf(sh, uplo, n, dA, lda, d_work, lwork, d_info)'')))"
    unfolding SOLVER_CHECK_def
    apply (rule abort_library)
     apply (rule meets_value_bind [OF run_read [where xs = A]], rule assms(1), simp add: assms(2))
     apply (simp add: deliver_solved_def assms(6), rule meets_return, simp)
    by simp
  show ?thesis
    unfolding GpuSolverDpotrf_def square_extent [OF assms(3,3)]
    apply (rule run_then [OF run_solver_handle])
    apply (rule run_then [OF run_size [OF assms(4)]])
    apply (rule meets_bind [OF meets_any [OF run_alloc_work]], rule meets_pure, erule conjE, rule meets_pure, hypsubst)
    apply (rule run_then [OF run_info_pointer])
    apply (simp only: assms(5) if_True, rule abort_bind)
    using fail by simp
qed

lemma dpotrf_leaks:
  assumes "\<And>n. succeeds (cuda_of (mem e)) Free n"
    and "mat_nrow A = n" "mat_ncol A = n" "length (mat_data A) = n * n" "0 < n" "8 * (n * n) < 2 ^ 64"
    and "potrf_bufferSize (lib e) upper (int n) (int n) = Some lw" "0 < lw"
    and "cusolverDnDpotrf (lib e) upper (int n) (mat_data A) (int n) = None"
  shows "meets (running e ctx c {st, bh, sh, inf} k lv bl) (dpotrf_body e A upper) (\<lambda>_ _. False)
     (aborts ({Suc (Suc k)} \<union> lv) (Std_exception ''cuSOLVER error: cusolverDnDpotrf(sh, uplo, n, dA, lda, d_work, lwork, d_info)''))"
proof -
  have bytes: "matrix_bytes n n = 8 * (n * n)" using assms(6) by (simp add: matrix_bytes_def mult.commute)
  have pos: "0 < 8 * (n * n)" using assms(5) by simp
  show ?thesis
    unfolding dpotrf_body_def Let_def assms(2,3) bytes
    apply (rule run_then [OF run_vector])
    apply (rule run_then [OF run_context])
    apply (rule run_then [OF run_stop], simp)
    apply (rule abort_scoped [OF assms(1) pos], simp)
     apply (rule run_then [OF run_stop], simp add: scoped_ok_def)
     apply (rule run_then [OF run_upload_all [where xs = "mat_data A"]], simp only: assms(4), rule pos, simp, simp, simp)
     apply (rule abort_bind, simp only: Un_insert_left Un_empty_left)
    by (rule potrf_leaks [where A = "mat_data A", OF _ assms(4,5,7,8,9)]) simp_all
qed

lemma dpotrf_refuses:
  assumes "\<And>n. succeeds (cuda_of (mem e)) Free n"
    and "mat_nrow A = n" "mat_ncol A = n" "length (mat_data A) = n * n" "0 < n" "8 * (n * n) < 2 ^ 64"
    and "potrf_bufferSize (lib e) upper (int n) (int n) = Some lw"
    and "cusolverDnDpotrf (lib e) upper (int n) (mat_data A) (int n) = Some (F, i)" "length F = n * n" "in_int_range i" "i \<noteq> 0"
  shows "meets (running e ctx c {st, bh, sh, inf} k lv bl) (dpotrf_body e A upper) (\<lambda>_ _. False)
     (aborts lv (Rcpp_exception (''DPOTRF failed: matrix is not positive definite (info='' @ int_to_string i @ '').'')))"
proof -
  have bytes: "matrix_bytes n n = 8 * (n * n)" using assms(6) by (simp add: matrix_bytes_def mult.commute)
  have pos: "0 < 8 * (n * n)" using assms(5) by simp
  show ?thesis
    unfolding dpotrf_body_def Let_def assms(2,3) bytes
    apply (rule run_then [OF run_vector])
    apply (rule run_then [OF run_context])
    apply (rule run_then [OF run_stop], simp)
    apply (rule abort_scoped [where ex = "{}", OF assms(1) pos, unfolded Un_empty_left], simp)
     apply (rule run_then [OF run_stop], simp add: scoped_ok_def)
     apply (rule run_then [OF run_upload_all [where xs = "mat_data A"]], simp only: assms(4), rule pos, simp, simp, simp)
     apply (rule run_then [OF run_potrf [OF assms(1) _ assms(4,5) _ assms(7-10)]], simp, simp)
     apply (rule abort_bind, rule abort_stop, rule assms(11))
    by simp
qed

lemma dnrm2_scope:
  assumes "bl h = Some (vector_bytes x)" "bl d = Some js" "length js = 8 * n" "0 < n" "n \<le> length x"
    and "cublasDnrm2 (lib e) (int n) (take n x) = Some v"
  shows "meets (running e ctx c {st, bh, sh, inf} k lv bl)
     (st_bind (stop_if (\<not> scoped_ok (8 * n) (Some d)) t) (\<lambda>_. st_bind (upload e ctx (Some d) h (8 * n)) (\<lambda>_. GpuBlasDnrm2 e ctx (int n) (Some d))))
     (leaves lv v) never"
  apply (rule meets_value_bind [OF run_stop], simp add: scoped_ok_def)
  apply (rule meets_value_bind [OF run_upload_vector [where xs = x and m = n]])
        apply (rule refl, rule assms(4), rule assms(2), rule assms(1), rule assms(3), rule assms(5))
  apply (rule run_leave)
  unfolding GpuBlasDnrm2_def
  apply (rule meets_value_bind [OF run_blas_handle])
  apply (rule meets_value_bind [OF run_blas])
    apply (rule meets_value_bind [OF run_read [where xs = "take n x"]], simp, simp add: assms(5))
    apply (rule meets_return, simp add: assms(6))
   apply simp
  apply (rule meets_value_bind [OF run_sync])
  by (rule meets_return) simp

lemma int_length_bytes: "int_length x = int n \<Longrightarrow> int_bytes (int n) 8 = 8 * n"
proof -
  assume "int_length x = int n"
  then have "int n < 2 ^ 31" using sint_less [of "word_of_int (int (length x)) :: 32 word"] by (simp add: int_length_def)
  then have "n * 8 < 2 ^ 64" by simp
  then show ?thesis using int_bytes_small [of n 8] by simp
qed

lemma dnrm2_meets:
  assumes "\<And>n. succeeds (cuda_of (mem e)) Free n"
    and "int_length x = int n" "0 < n" "n \<le> length x" "cublasDnrm2 (lib e) (int n) (take n x) = Some v"
  shows "meets (running e ctx c {st, bh, sh, inf} k lv bl) (dnrm2_body e x) (leaves lv v) never"
  unfolding dnrm2_body_def Let_def assms(2) int_length_bytes [OF assms(2)]
  apply (rule meets_value_bind [OF run_vector])
  apply (rule meets_value_bind [OF run_context])
  apply (rule run_scoped [OF assms(1)], simp add: assms(3))
  by (rule dnrm2_scope [OF _ _ _ assms(3-5)]) simp_all

text \<open>When \<^verbatim>\<open>cudaFree\<close> fails, the destructor of the buffer ends the process.\<close>

lemma scoped_terminates:
  assumes "\<And>n. \<not> succeeds (cuda_of (mem e)) Free n" "0 < n"
    and "\<And>js. length js = n \<Longrightarrow> inf < k \<Longrightarrow>
      meets (running e ctx c {st, bh, sh, inf} (Suc k) (insert k lv) (bl(k \<mapsto> js))) (body (Some k)) (leaves (insert k lv) v) never"
  shows "meets (running e ctx c {st, bh, sh, inf} k lv bl) (ScopedGpuArray e n body) (\<lambda>_ _. False) (\<lambda>x _. x = Terminated)"
proof -
  have out: "meets (leaves (insert k lv) v a) (scoped_reset e (Some k)) (\<lambda>_ _. False) (\<lambda>x _. catchable x)" for a
    using assms(1) cuda_build
    by (auto simp: meets_def leaves_def scoped_reset_def DestroyArray_def on_gpu_def GPU_ERROR_CHECK_def cudaFree_def destroy_def
        use_resource_def cuda_def cuda_failed_def message_def st_gets_def st_bind_def running_def)
  have "meets (\<lambda>s. running e ctx c {st, bh, sh, inf} (Suc k) (insert k lv) (bl(k \<mapsto> map (junk (mem e)) [0..<n])) s \<and> k \<notin> lv \<and> {st, bh, sh, inf} \<subseteq> lv \<and> inf < k \<and> p = Some k)
      (unwinding (scoped_reset e p) (body p)) (\<lambda>_ _. False) (\<lambda>x _. x = Terminated)" for p
  proof (cases "p = Some k \<and> inf < k")
    case True
    have "meets (running e ctx c {st, bh, sh, inf} (Suc k) (insert k lv) (bl(k \<mapsto> map (junk (mem e)) [0..<n])))
        (unwinding (scoped_reset e (Some k)) (body (Some k))) (\<lambda>_ _. False) (\<lambda>x _. x = Terminated)"
      by (rule meets_unwinding [OF assms(3) out]) (use True in \<open>auto simp: meets_def\<close>)
    with True show ?thesis by (simp add: meets_def)
  next
    case False
    then show ?thesis by (auto simp: meets_def)
  qed
  with assms(2) show ?thesis
    unfolding ScopedGpuArray_def
    by (auto intro: meets_bind [OF meets_any [OF run_allocate]])
qed

lemma dnrm2_terminates:
  assumes "\<And>n. \<not> succeeds (cuda_of (mem e)) Free n"
    and "int_length x = int n" "0 < n" "n \<le> length x" "cublasDnrm2 (lib e) (int n) (take n x) = Some v"
  shows "meets (running e ctx c {st, bh, sh, inf} k lv bl) (dnrm2_body e x) (\<lambda>_ _. False) (\<lambda>x _. x = Terminated)"
  unfolding dnrm2_body_def Let_def assms(2) int_length_bytes [OF assms(2)]
  apply (rule run_then [OF run_vector])
  apply (rule run_then [OF run_context])
  apply (rule scoped_terminates [OF assms(1)], simp add: assms(3))
  by (rule dnrm2_scope [OF _ _ _ assms(3-5)]) simp_all


section \<open>Vector routines\<close>

lemma run_upload_prefix:
  assumes "0 < m" "bl d = Some old" "bl r = Some (vector_bytes xs)" "length old = 8 * m" "m \<le> length xs"
  shows "meets (running e ctx c {st, bh, sh, inf} k lv bl) (upload e ctx (Some d) r (8 * m))
     (\<lambda>u s. running e ctx c {st, bh, sh, inf} k lv (bl(d \<mapsto> vector_bytes (take m xs))) s \<and> u = ()) never"
  by (rule run_upload_vector [where xs = xs and m = m]) (use assms in simp_all)

lemma run_daxpy:
  assumes "bl px = Some (vector_bytes x)" "bl py = Some (vector_bytes y)" "length x = n" "length y = n" "0 < n"
    and "cublasDaxpy (lib e) (int n) alpha x y = Some z" "length z = n"
  shows "meets (running e ctx c {st, bh, sh, inf} k lv bl) (GpuBlasDaxpy e ctx (int n) alpha (Some px) (Some py))
     (\<lambda>u s. running e ctx c {st, bh, sh, inf} k lv (bl(py \<mapsto> vector_bytes z)) s \<and> u = ()) never"
proof -
  have z: "z \<noteq> []" using assms(5,7) by auto
  show ?thesis
    unfolding GpuBlasDaxpy_def
    apply (rule meets_value_bind [OF run_blas_handle])
    apply (rule meets_value_bind [OF run_blas])
      apply (rule meets_value_bind [OF run_read [where xs = x]], rule assms(1), simp add: assms(3))
      apply (rule meets_value_bind [OF run_read [where xs = y]], rule assms(2), simp add: assms(4))
      apply (rule run_deliver [OF assms(6) z], rule assms(2), simp add: assms(4,7))
     apply simp
    by (rule run_sync)
qed

lemma daxpy_meets:
  assumes "\<And>n. succeeds (cuda_of (mem e)) Free n"
    and "int_length x = int n" "int_length y = int n" "0 < n" "n \<le> length x" "n \<le> length y"
    and "cublasDaxpy (lib e) (int n) alpha (take n x) (take n y) = Some z" "length z = n"
  shows "meets (running e ctx c {st, bh, sh, inf} k lv bl) (daxpy_body e x y alpha) (leaves lv z) never"
proof -
  have pos: "0 < 8 * n" using assms(4) by simp
  show ?thesis
    unfolding daxpy_body_def Let_def assms(2,3) int_length_bytes [OF assms(2)]
    apply (rule meets_value_bind [OF run_vector])
    apply (rule meets_value_bind [OF run_vector])
    apply (rule meets_value_bind [OF run_context])
    apply (rule meets_value_bind [OF run_stop], simp)
    apply (rule run_scoped [OF assms(1) pos])
    apply (rule run_scoped [OF assms(1) pos])
    apply (rule meets_value_bind [OF run_stop], simp add: scoped_ok_def)
    apply (rule meets_value_bind [OF run_upload_prefix [where xs = x]], rule assms(4), simp, simp, simp, rule assms(5))
    apply (rule meets_value_bind [OF run_upload_prefix [where xs = y]], rule assms(4), simp, simp, simp, rule assms(6))
    apply (rule meets_value_bind [OF run_daxpy [where x = "take n x" and y = "take n y" and z = z]])
           apply (simp, simp, simp add: assms(5), simp add: assms(6), rule assms(4), rule assms(7), rule assms(8))
    apply (rule run_leave)
    unfolding nat_int
    by (rule run_download [where xs = z]) (use assms(4,8) in simp_all)
qed

lemma run_dscal:
  assumes "bl px = Some (vector_bytes x)" "length x = n" "0 < n"
    and "cublasDscal (lib e) (int n) alpha x = Some z" "length z = n"
  shows "meets (running e ctx c {st, bh, sh, inf} k lv bl) (GpuBlasDscal e ctx (int n) alpha (Some px))
     (\<lambda>u s. running e ctx c {st, bh, sh, inf} k lv (bl(px \<mapsto> vector_bytes z)) s \<and> u = ()) never"
proof -
  have z: "z \<noteq> []" using assms(3,5) by auto
  show ?thesis
    unfolding GpuBlasDscal_def
    apply (rule meets_value_bind [OF run_blas_handle])
    apply (rule meets_value_bind [OF run_blas])
      apply (rule meets_value_bind [OF run_read [where xs = x]], rule assms(1), simp add: assms(2))
      apply (rule run_deliver [OF assms(4) z], rule assms(1), simp add: assms(2,5))
     apply simp
    by (rule run_sync)
qed

lemma dscal_meets:
  assumes "\<And>n. succeeds (cuda_of (mem e)) Free n"
    and "int_length x = int n" "0 < n" "n \<le> length x"
    and "cublasDscal (lib e) (int n) alpha (take n x) = Some z" "length z = n"
  shows "meets (running e ctx c {st, bh, sh, inf} k lv bl) (dscal_body e x alpha) (leaves lv z) never"
proof -
  have pos: "0 < 8 * n" using assms(3) by simp
  show ?thesis
    unfolding dscal_body_def Let_def assms(2) int_length_bytes [OF assms(2)]
    apply (rule meets_value_bind [OF run_vector])
    apply (rule meets_value_bind [OF run_context])
    apply (rule run_scoped [OF assms(1) pos])
    apply (rule meets_value_bind [OF run_stop], simp add: scoped_ok_def)
    apply (rule meets_value_bind [OF run_upload_prefix [where xs = x]], rule assms(3), simp, simp, simp, rule assms(4))
    apply (rule meets_value_bind [OF run_dscal [where x = "take n x" and z = z]])
         apply (simp, simp add: assms(4), rule assms(3), rule assms(5), rule assms(6))
    apply (rule run_leave)
    unfolding nat_int
    by (rule run_download [where xs = z]) (use assms(3,6) in simp_all)
qed

lemma run_ddot:
  assumes "bl px = Some (vector_bytes x)" "bl py = Some (vector_bytes y)" "length x = n" "length y = n"
    and "cublasDdot (lib e) (int n) x y = Some v"
  shows "meets (running e ctx c {st, bh, sh, inf} k lv bl) (GpuBlasDdot e ctx (int n) (Some px) (Some py))
     (\<lambda>r s. running e ctx c {st, bh, sh, inf} k lv bl s \<and> r = v) never"
  unfolding GpuBlasDdot_def
  apply (rule meets_value_bind [OF run_blas_handle])
  apply (rule meets_value_bind [OF run_blas])
    apply (rule meets_value_bind [OF run_read [where xs = x]], rule assms(1), simp add: assms(3))
    apply (rule meets_value_bind [OF run_read [where xs = y]], rule assms(2), simp add: assms(4))
    apply (rule meets_return, simp add: assms(5))
   apply simp
  apply (rule meets_value_bind [OF run_sync])
  by (rule meets_return) simp

lemma ddot_meets:
  assumes "\<And>n. succeeds (cuda_of (mem e)) Free n"
    and "int_length x = int n" "int_length y = int n" "0 < n" "n \<le> length x" "n \<le> length y"
    and "cublasDdot (lib e) (int n) (take n x) (take n y) = Some v"
  shows "meets (running e ctx c {st, bh, sh, inf} k lv bl) (ddot_body e x y) (leaves lv v) never"
proof -
  have pos: "0 < 8 * n" using assms(4) by simp
  show ?thesis
    unfolding ddot_body_def Let_def assms(2,3) int_length_bytes [OF assms(2)]
    apply (rule meets_value_bind [OF run_vector])
    apply (rule meets_value_bind [OF run_vector])
    apply (rule meets_value_bind [OF run_context])
    apply (rule meets_value_bind [OF run_stop], simp)
    apply (rule run_scoped [OF assms(1) pos])
    apply (rule run_scoped [OF assms(1) pos])
    apply (rule meets_value_bind [OF run_stop], simp add: scoped_ok_def)
    apply (rule meets_value_bind [OF run_upload_prefix [where xs = x]], rule assms(4), simp, simp, simp, rule assms(5))
    apply (rule meets_value_bind [OF run_upload_prefix [where xs = y]], rule assms(4), simp, simp, simp, rule assms(6))
    apply (rule run_leave)
    by (rule run_ddot [where x = "take n x" and y = "take n y"]) (use assms(5-7) in simp_all)
qed

end

end
