(* ===== verification/Gpu_Linalg_Results.thy ===== *)
theory Gpu_Linalg_Results
  imports Gpu_Linalg_Correct
begin

text \<open>
  The properties of the linear algebra exports: what they return on a device that works, over the
  contract \<open>blas_api\<close> of cuBLAS and cuSOLVER, and what happens when a release or a solver fails.
\<close>

section \<open>A working device\<close>

definition gpu_context :: "memory \<Rightarrow> nat \<Rightarrow> run_context \<Rightarrow> bool" where
  "gpu_context s ctx c \<longleftrightarrow>
     (\<exists>m. mpInstance (device s) = Some m \<and> mpCurrentContext m = Some ctx) \<and> ctx_heap (device s) ctx = Some c \<and>
     mOperationPlacement c = GPU \<and> mCudaStream c \<noteq> None \<and> mCuBlasHandle c \<noteq> None \<and> mCuSolverHandle c \<noteq> None \<and> mpInfo c \<noteq> None \<and>
     {the (mCudaStream c), the (mCuBlasHandle c), the (mCuSolverHandle c), the (mpInfo c)} \<subseteq> live (device s)"

text \<open>
  The current context is on the GPU with all its parts live, and numbers are not reused; \<open>ok\<close> says
  which CUDA calls succeed.
\<close>

definition gpu_works :: "(cuda_call \<Rightarrow> bool) \<Rightarrow> linalg_env \<Rightarrow> memory \<Rightarrow> bool" where
  "gpu_works ok e s \<longleftrightarrow>
     use_cuda (cuda_of (mem e)) \<and> (\<forall>call n. ok call \<longrightarrow> succeeds (cuda_of (mem e)) call n) \<and>
     (\<exists>ctx c. gpu_context s ctx c) \<and> (\<forall>r \<in> live (device s). r < next_id (device s))"

abbreviation working :: "linalg_env \<Rightarrow> memory \<Rightarrow> bool" where
  "working \<equiv> gpu_works (\<lambda>_. True)"

lemma gpu_works_session:
  assumes "gpu_works ok e s" "\<And>call. call \<noteq> Free \<Longrightarrow> ok call"
  obtains ctx c st bh sh si where "linalg_session e c st bh sh si"
    "running e ctx c {st, bh, sh, si} (next_id (device s)) (live (device s)) (blocks s) s"
proof -
  obtain ctx c where c: "gpu_context s ctx c" using assms(1) by (auto simp: gpu_works_def)
  then obtain st bh sh si where parts: "mCudaStream c = Some st" "mCuBlasHandle c = Some bh" "mCuSolverHandle c = Some sh" "mpInfo c = Some si"
    by (auto simp: gpu_context_def)
  have "linalg_session e c st bh sh si"
    using assms c parts by unfold_locales (auto simp: gpu_works_def gpu_context_def)
  moreover have "running e ctx c {st, bh, sh, si} (next_id (device s)) (live (device s)) (blocks s) s"
    using assms(1) c parts by (auto simp: gpu_works_def gpu_context_def running_def)
  ultimately show thesis by (rule that)
qed

lemma running_works:
  assumes "linalg_session e c st bh sh si" "running e ctx c {st, bh, sh, si} k lv bl s" "\<And>n. succeeds (cuda_of (mem e)) Free n"
  shows "working e s \<and> live (device s) = lv"
proof -
  have "succeeds (cuda_of (mem e)) call n" for call n
    using linalg_session.obliging [OF assms(1)] assms(3) by (cases "call = Free") auto
  moreover have "gpu_context s ctx c"
    using assms(2) linalg_session.on_device [OF assms(1)] by (auto simp: gpu_context_def running_def)
  ultimately show ?thesis
    using assms(2) linalg_session.cuda_build [OF assms(1)] by (auto simp: gpu_works_def running_def)
qed

lemma export_total:
  assumes "working e s"
    and "\<And>ctx c st bh sh si. linalg_session e c st bh sh si \<Longrightarrow>
      meets (running e ctx c {st, bh, sh, si} (next_id (device s)) (live (device s)) (blocks s)) body
        (linalg_session.leaves e ctx c st bh sh si (live (device s)) v) never"
  shows "\<exists>s'. gpu_export e name body s = (Inr v, s') \<and> working e s' \<and> live (device s') = live (device s)"
proof -
  obtain ctx c st bh sh si where ses: "linalg_session e c st bh sh si"
    and run: "running e ctx c {st, bh, sh, si} (next_id (device s)) (live (device s)) (blocks s) s"
    by (rule gpu_works_session [OF assms(1) TrueI])
  have free: "succeeds (cuda_of (mem e)) Free n" for n using assms(1) by (simp add: gpu_works_def)
  obtain r s' where out: "body s = (r, s')" by fastforce
  have "\<exists>k bl. r = Inr v \<and> running e ctx c {st, bh, sh, si} k (live (device s)) bl s'"
  proof (cases r)
    case (Inl ex)
    then show ?thesis using meets_Inl [OF assms(2) [OF ses] run, of ex s'] out by simp
  next
    case (Inr a)
    then show ?thesis
      using meets_Inr [OF assms(2) [OF ses] run, of a s'] out by (simp add: linalg_session.leaves_def [OF ses])
  qed
  then obtain k bl where r: "r = Inr v" and run': "running e ctx c {st, bh, sh, si} k (live (device s)) bl s'" by blast
  from running_works [OF ses run' free] r out
  have "gpu_export e name body s = (Inr v, s')" "working e s'" "live (device s') = live (device s)"
    using linalg_session.cuda_build [OF ses] by (simp_all add: gpu_export_def stop_with_def st_catch_def)
  then show ?thesis by blast
qed

section \<open>What the libraries document\<close>

text \<open>
  Matrices are column-major with a leading dimension. \<open>rounds alpha ps v\<close>: \<open>v\<close> is an acceptable
  result for \<open>alpha\<close> times the sum of the products \<open>ps\<close>; \<open>solves n q A B X\<close>: \<open>X\<close> is an acceptable
  solution of the system \<open>A X = B\<close> of order \<open>n\<close> with \<open>q\<close> right-hand sides. With a zero \<open>beta\<close> the
  product does not depend on what the result's buffer holds; the factorisations report success by
  a zero status word, a Cholesky factorisation reads and writes one triangle only.
\<close>

definition operand :: "bool \<Rightarrow> u64 list \<Rightarrow> nat \<Rightarrow> nat \<Rightarrow> nat \<Rightarrow> u64" where
  "operand t xs ld i j = (if t then xs ! (i * ld + j) else xs ! (j * ld + i))"

definition stored :: "bool \<Rightarrow> nat \<Rightarrow> nat \<Rightarrow> bool" where
  "stored upper r c \<longleftrightarrow> (if upper then r \<le> c else c \<le> r)"

definition completed :: "bool \<Rightarrow> nat \<Rightarrow> u64 list \<Rightarrow> u64 list" where
  "completed upper n A =
     map (\<lambda>x. if stored upper (x mod n) (x div n) then A ! x else A ! (x mod n * n + x div n)) [0..<n * n]"

locale blas_api =
  fixes lib :: linalg_lib
    and rounds :: "u64 \<Rightarrow> (u64 \<times> u64) list \<Rightarrow> u64 \<Rightarrow> bool"
    and solves :: "nat \<Rightarrow> nat \<Rightarrow> u64 list \<Rightarrow> u64 list \<Rightarrow> u64 list \<Rightarrow> bool"
  assumes gemm: "0 < m \<Longrightarrow> 0 < n \<Longrightarrow> 0 < k \<Longrightarrow> (if ta then k else m) \<le> lda \<Longrightarrow> (if tb then n else k) \<le> ldb \<Longrightarrow> is_zero beta \<Longrightarrow>
      \<exists>out. length out = m * n \<and>
        (\<forall>C. length C = length out \<longrightarrow>
          cublasDgemm lib ta tb (int m) (int n) (int k) alpha A (int lda) B (int ldb) beta C (int m) = Some out) \<and>
        (\<forall>i < m. \<forall>j < n. rounds alpha (map (\<lambda>l. (operand ta A lda i l, operand tb B ldb l j)) [0..<k]) (out ! (j * m + i)))"
    and getrf: "0 < n \<Longrightarrow> n < 2 ^ 31 \<Longrightarrow> length A = n * n \<Longrightarrow>
      (\<exists>lw. getrf_bufferSize lib (int n) (int n) (int n) = Some lw) \<and>
      (\<exists>LU piv i. cusolverDnDgetrf lib (int n) (int n) A (int n) = Some (LU, piv, i) \<and> length LU = n * n \<and> length piv = n \<and>
        (\<forall>p \<in> set piv. in_int_range p) \<and> in_int_range i)"
    and getrs: "0 < n \<Longrightarrow> 0 < q \<Longrightarrow> length A = n * n \<Longrightarrow> length B = n * q \<Longrightarrow>
      cusolverDnDgetrf lib (int n) (int n) A (int n) = Some (LU, piv, 0) \<Longrightarrow>
      \<exists>X. cusolverDnDgetrs lib False (int n) (int q) LU (int n) piv B (int n) = Some (X, 0) \<and> length X = n * q \<and> solves n q A B X"
    and potrf: "0 < n \<Longrightarrow> length A = n * n \<Longrightarrow>
      (\<exists>lw. potrf_bufferSize lib upper (int n) (int n) = Some lw) \<and>
      (\<exists>F i. cusolverDnDpotrf lib upper (int n) A (int n) = Some (F, i) \<and> length F = n * n \<and> in_int_range i \<and>
        (\<forall>r < n. \<forall>c < n. \<not> stored upper r c \<longrightarrow> F ! (c * n + r) = A ! (c * n + r)))"
    and potrs: "0 < n \<Longrightarrow> 0 < q \<Longrightarrow> length A = n * n \<Longrightarrow> length B = n * q \<Longrightarrow>
      cusolverDnDpotrf lib upper (int n) A (int n) = Some (F, 0) \<Longrightarrow>
      \<exists>X. cusolverDnDpotrs lib upper (int n) (int q) F (int n) B (int n) = Some (X, 0) \<and> length X = n * q \<and>
        solves n q (completed upper n A) B X"

section \<open>Matrices\<close>

definition is_matrix :: "num_matrix \<Rightarrow> bool" where
  "is_matrix M \<longleftrightarrow> length (mat_data M) = mat_nrow M * mat_ncol M"

definition entry :: "num_matrix \<Rightarrow> nat \<Rightarrow> nat \<Rightarrow> u64" where
  "entry M i j = mat_data M ! (j * mat_nrow M + i)"

text \<open>The matrix itself or its transpose.\<close>

definition op_nrow :: "bool \<Rightarrow> num_matrix \<Rightarrow> nat" where
  "op_nrow t M = (if t then mat_ncol M else mat_nrow M)"

definition op_ncol :: "bool \<Rightarrow> num_matrix \<Rightarrow> nat" where
  "op_ncol t M = (if t then mat_nrow M else mat_ncol M)"

definition op_entry :: "bool \<Rightarrow> num_matrix \<Rightarrow> nat \<Rightarrow> nat \<Rightarrow> u64" where
  "op_entry t M i j = (if t then entry M j i else entry M i j)"

lemma operand_op_entry: "operand t (mat_data M) (mat_nrow M) i j = op_entry t M i j"
  by (simp add: operand_def op_entry_def entry_def)

lemma gemm_shape_conforming:
  "op_ncol ta A = op_nrow tb B \<Longrightarrow>
     gemm_shape ta tb A B = Inr (op_nrow ta A, op_ncol tb B, op_ncol ta A, mat_nrow A, mat_nrow B)"
  by (cases ta; cases tb) (simp_all add: gemm_shape_def op_ncol_def op_nrow_def Let_def)

section \<open>A library that meets the contract\<close>

text \<open>
  Arithmetic modulo \<open>2 ^ 64\<close> in place of floating point; the solvers factorise diagonal matrices of
  units, which are their own inverses, and report any other matrix as singular.
\<close>

definition ring_dot :: "u64 \<Rightarrow> (u64 \<times> u64) list \<Rightarrow> u64" where
  "ring_dot alpha ps = alpha * sum_list (map (\<lambda>(x, y). x * y) ps)"

definition ring_gemm :: "bool \<Rightarrow> bool \<Rightarrow> nat \<Rightarrow> nat \<Rightarrow> nat \<Rightarrow> u64 \<Rightarrow> u64 list \<Rightarrow> nat \<Rightarrow> u64 list \<Rightarrow> nat \<Rightarrow> u64 list" where
  "ring_gemm ta tb m n k alpha A lda B ldb =
     map (\<lambda>x. ring_dot alpha (map (\<lambda>l. (operand ta A lda (x mod m) l, operand tb B ldb l (x div m))) [0..<k])) [0..<m * n]"

definition unit_diagonal :: "nat \<Rightarrow> u64 list \<Rightarrow> bool" where
  "unit_diagonal n A \<longleftrightarrow> (\<forall>r < n. \<forall>c < n. if r = c then A ! (c * n + r) \<in> {1, - 1} else A ! (c * n + r) = 0)"

definition diagonal_solve :: "nat \<Rightarrow> nat \<Rightarrow> u64 list \<Rightarrow> u64 list \<Rightarrow> u64 list" where
  "diagonal_solve n q A B = map (\<lambda>x. A ! (x mod n * n + x mod n) * B ! x) [0..<n * q]"

definition ring_solves :: "nat \<Rightarrow> nat \<Rightarrow> u64 list \<Rightarrow> u64 list \<Rightarrow> u64 list \<Rightarrow> bool" where
  "ring_solves n q A B X \<longleftrightarrow> (\<forall>i < n. \<forall>j < q. sum_list (map (\<lambda>l. A ! (l * n + i) * X ! (j * n + l)) [0..<n]) = B ! (j * n + i))"

definition reference_lib :: linalg_lib where
  "reference_lib =
     \<lparr>cublasDgemm = (\<lambda>ta tb m n k alpha A lda B ldb beta C ldc. Some (ring_gemm ta tb (nat m) (nat n) (nat k) alpha A (nat lda) B (nat ldb))),
      cublasDaxpy = (\<lambda>n alpha x y. Some (map2 (\<lambda>a b. alpha * a + b) x y)),
      cublasDgemv = (\<lambda>tr m n alpha A lda x beta y. None),
      cublasDdot = (\<lambda>n x y. Some (ring_dot 1 (zip x y))),
      cublasDnrm2 = (\<lambda>n x. Some (ring_dot 1 (zip x x))),
      cublasDscal = (\<lambda>n alpha x. Some (map ((*) alpha) x)),
      cublasDtrmm = (\<lambda>sd up tr un m n alpha A lda B ldb C ldc. None),
      cublasDtrsm = (\<lambda>sd up tr un m n alpha A lda B ldb. None),
      cublasDsyrk = (\<lambda>up tr n k alpha A lda beta C ldc. None),
      potrf_bufferSize = (\<lambda>up n lda. Some 1),
      cusolverDnDpotrf = (\<lambda>up n A lda. Some (A, if unit_diagonal (nat n) (completed up (nat n) A) then 0 else 1)),
      getrf_bufferSize = (\<lambda>m n lda. Some 1),
      cusolverDnDgetrf = (\<lambda>m n A lda. Some (A, map int [1..<Suc (nat n)], if unit_diagonal (nat n) A then 0 else 1)),
      cusolverDnDgetrs = (\<lambda>tr n q LU lda piv B ldb. Some (diagonal_solve (nat n) (nat q) LU B, 0)),
      cusolverDnDpotrs = (\<lambda>up n q F lda B ldb. Some (diagonal_solve (nat n) (nat q) F B, 0))\<rparr>"

lemma length_diagonal_solve [simp]: "length (diagonal_solve n q A B) = n * q"
  by (simp add: diagonal_solve_def)

lemma sum_list_single:
  assumes "distinct xs" "i \<in> set xs" "\<And>l. l \<in> set xs \<Longrightarrow> l \<noteq> i \<Longrightarrow> f l = (0 :: u64)"
  shows "sum_list (map f xs) = f i"
proof -
  have "sum f (set xs) = sum f {i}"
    using assms(2,3) by (intro sum.mono_neutral_right) auto
  then show ?thesis using assms(1) by (simp add: sum_list_distinct_conv_sum_set)
qed

lemma index_bound: "i < n \<Longrightarrow> j < q \<Longrightarrow> j * n + i < n * (q :: nat)"
proof -
  assume "i < n" "j < q"
  then have "Suc j * n \<le> q * n" by (intro mult_le_mono1) simp
  then show ?thesis using \<open>i < n\<close> by (simp add: mult.commute)
qed

lemma diagonal_solves:
  assumes "unit_diagonal n A"
  shows "ring_solves n q A B (diagonal_solve n q A B)"
  unfolding ring_solves_def
proof (intro allI impI)
  fix i j assume ij: "i < n" "j < q"
  have unit: "A ! (i * n + i) \<in> {1, - 1}" using assms ij(1) unfolding unit_diagonal_def by metis
  have X: "diagonal_solve n q A B ! (j * n + l) = A ! (l * n + l) * B ! (j * n + l)" if "l < n" for l
    using that index_bound [OF that ij(2)] by (simp add: diagonal_solve_def)
  have "sum_list (map (\<lambda>l. A ! (l * n + i) * diagonal_solve n q A B ! (j * n + l)) [0..<n])
      = A ! (i * n + i) * diagonal_solve n q A B ! (j * n + i)"
    by (rule sum_list_single) (use assms ij in \<open>auto simp: unit_diagonal_def split: if_splits\<close>)
  also have "\<dots> = B ! (j * n + i)"
    using unit X [OF ij(1)] by auto
  finally show "sum_list (map (\<lambda>l. A ! (l * n + i) * diagonal_solve n q A B ! (j * n + l)) [0..<n]) = B ! (j * n + i)" .
qed

lemma completed_diagonal:
  assumes "0 < n"
  shows "completed upper n A ! (x mod n * n + x mod n) = A ! (x mod n * n + x mod n)"
proof -
  have "x mod n < n" using assms by simp
  then show ?thesis using index_bound [of "x mod n" n "x mod n" n] by (simp add: completed_def stored_def)
qed


interpretation reference: blas_api reference_lib "\<lambda>alpha ps v. v = ring_dot alpha ps" ring_solves
proof unfold_locales
  fix m n k :: nat and ta lda tb ldb beta alpha A B
  assume "0 < m"
  then show "\<exists>out. length out = m * n \<and>
      (\<forall>C. length C = length out \<longrightarrow>
        cublasDgemm reference_lib ta tb (int m) (int n) (int k) alpha A (int lda) B (int ldb) beta C (int m) = Some out) \<and>
      (\<forall>i < m. \<forall>j < n. out ! (j * m + i) = ring_dot alpha (map (\<lambda>l. (operand ta A lda i l, operand tb B ldb l j)) [0..<k]))"
    by (intro exI [of _ "ring_gemm ta tb m n k alpha A lda B ldb"])
       (auto simp: reference_lib_def ring_gemm_def index_bound)
next
  fix n :: nat and A :: "u64 list" assume "n < 2 ^ 31" "length A = n * n"
  then show "(\<exists>lw. getrf_bufferSize reference_lib (int n) (int n) (int n) = Some lw) \<and>
      (\<exists>LU piv i. cusolverDnDgetrf reference_lib (int n) (int n) A (int n) = Some (LU, piv, i) \<and> length LU = n * n \<and> length piv = n \<and>
        (\<forall>p \<in> set piv. in_int_range p) \<and> in_int_range i)"
    by (auto simp: reference_lib_def in_int_range_def int_min_def int_max_def)
next
  fix n q :: nat and A B LU :: "u64 list" and piv
  assume "cusolverDnDgetrf reference_lib (int n) (int n) A (int n) = Some (LU, piv, 0)"
  then show "\<exists>X. cusolverDnDgetrs reference_lib False (int n) (int q) LU (int n) piv B (int n) = Some (X, 0) \<and> length X = n * q \<and> ring_solves n q A B X"
    using diagonal_solves [of n A q B] by (auto simp: reference_lib_def split: if_splits)
next
  fix n upper and A :: "u64 list" assume "length A = n * n"
  then show "(\<exists>lw. potrf_bufferSize reference_lib upper (int n) (int n) = Some lw) \<and>
      (\<exists>F i. cusolverDnDpotrf reference_lib upper (int n) A (int n) = Some (F, i) \<and> length F = n * n \<and> in_int_range i \<and>
        (\<forall>r < n. \<forall>c < n. \<not> stored upper r c \<longrightarrow> F ! (c * n + r) = A ! (c * n + r)))"
    by (auto simp: reference_lib_def in_int_range_def int_min_def int_max_def)
next
  fix n q upper and A B F :: "u64 list"
  assume "0 < n" "cusolverDnDpotrf reference_lib upper (int n) A (int n) = Some (F, 0)"
  then have F: "F = A" "unit_diagonal n (completed upper n A)" and n: "0 < n" by (auto simp: reference_lib_def split: if_splits)
  have "diagonal_solve n q A B = diagonal_solve n q (completed upper n A) B"
    by (simp add: diagonal_solve_def completed_diagonal [OF n])
  with diagonal_solves [OF F(2), of q B]
  show "\<exists>X. cusolverDnDpotrs reference_lib upper (int n) (int q) F (int n) B (int n) = Some (X, 0) \<and> length X = n * q \<and>
      ring_solves n q (completed upper n A) B X"
    by (simp add: reference_lib_def F(1))
qed

section \<open>A device whose calls all succeed\<close>

definition flawless :: "linalg_lib \<Rightarrow> linalg_env" where
  "flawless l = \<lparr>mem = gpu_env, lib = l\<rparr>"

definition full_context :: "nat \<Rightarrow> nat \<Rightarrow> nat \<Rightarrow> nat \<Rightarrow> run_context" where
  "full_context st bh sh si =
     blank_context\<lparr>mOperationPlacement := GPU, mRunMode := SYNC, mCudaStream := Some st, mCuBlasHandle := Some bh,
       mCuSolverHandle := Some sh, mpInfo := Some si\<rparr>"

interpretation flawless: linalg_session "flawless l" ctx "full_context st bh sh si" st bh sh si for l ctx st bh sh si
  by unfold_locales (simp_all add: flawless_def gpu_env_def full_context_def)

definition linalg_state :: memory where
  "linalg_state =
     \<lparr>device = \<lparr>ctx_heap = [0 \<mapsto> full_context 1 2 3 4], live = {1, 2, 3, 4}, next_id = 5, calls_made = 0,
        mpInstance = Some \<lparr>mContexts = [(''default'', 0)], mpCurrentContext = Some 0, mpGPUContext = None\<rparr>, messages = []\<rparr>,
      blocks = Map.empty, externals = Map.empty, next_external = 0\<rparr>"

lemma linalg_state_works: "working (flawless l) linalg_state"
  using flawless.cuda_build [of l] flawless.on_device [of 1 2 3 4]
  by (auto simp: gpu_works_def gpu_context_def linalg_state_def flawless_def gpu_env_def)

lemma reference_api: "blas_api (lib (flawless reference_lib)) (\<lambda>alpha ps v. v = ring_dot alpha ps) ring_solves"
  using reference.blas_api_axioms by (simp add: flawless_def)

section \<open>The product\<close>

text \<open>
  On a working device \<^verbatim>\<open>rcompss_gpu_dgemm\<close> returns the product of its arguments, transposed as
  asked: the element in row \<open>i\<close> and column \<open>j\<close> of the R matrix it returns is what the library
  makes of row \<open>i\<close> of the first and column \<open>j\<close> of the second, in all four cases; every buffer is
  released and the device stays usable.
\<close>

theorem gpu_gemm_correct:
  assumes "blas_api (lib e) rounds solves" "working e s" "is_matrix A" "is_matrix B"
    and "op_ncol ta A = op_nrow tb B" "0 < op_nrow ta A" "0 < op_ncol ta A" "0 < op_ncol tb B"
    and "op_nrow ta A < 2 ^ 30" "op_ncol ta A < 2 ^ 30" "op_ncol tb B < 2 ^ 30" "is_zero beta"
  shows "\<exists>M s'. rcompss_gpu_dgemm e A B ta tb alpha beta s = (Inr M, s') \<and>
     is_matrix M \<and> mat_nrow M = op_nrow ta A \<and> mat_ncol M = op_ncol tb B \<and>
     (\<forall>i < mat_nrow M. \<forall>j < mat_ncol M.
        rounds alpha (map (\<lambda>l. (op_entry ta A i l, op_entry tb B l j)) [0..<op_ncol ta A]) (entry M i j)) \<and>
     working e s' \<and> live (device s') = live (device s)"
proof -
  let ?m = "op_nrow ta A" and ?n = "op_ncol tb B" and ?k = "op_ncol ta A"
  have small: "8 * (a * b) < 2 ^ 64" if "a < 2 ^ 30" "b < 2 ^ 30" for a b :: nat
  proof -
    have "a * b < 2 ^ 30 * 2 ^ 30" using that by (intro mult_strict_mono) auto
    then show ?thesis by simp
  qed
  have lds: "(if ta then ?k else ?m) = mat_nrow A" "(if tb then ?n else ?k) = mat_nrow B"
    using assms(5) by (simp_all add: op_nrow_def op_ncol_def)
  obtain out where len: "length out = ?m * ?n"
    and call: "\<And>C. length C = ?m * ?n \<Longrightarrow> cublasDgemm (lib e) ta tb (int ?m) (int ?n) (int ?k) alpha (mat_data A) (int (mat_nrow A))
        (mat_data B) (int (mat_nrow B)) beta C (int ?m) = Some out"
    and val: "\<And>i j. i < ?m \<Longrightarrow> j < ?n \<Longrightarrow>
        rounds alpha (map (\<lambda>l. (op_entry ta A i l, op_entry tb B l j)) [0..<?k]) (out ! (j * ?m + i))"
    using blas_api.gemm [OF assms(1,6,8,7), of ta "mat_nrow A" tb "mat_nrow B" beta alpha "mat_data A" "mat_data B"] lds assms(12)
    unfolding operand_op_entry by auto
  have "\<exists>s'. rcompss_gpu_dgemm e A B ta tb alpha beta s = (Inr \<lparr>mat_nrow = ?m, mat_ncol = ?n, mat_data = out\<rparr>, s') \<and>
      working e s' \<and> live (device s') = live (device s)"
    unfolding rcompss_gpu_dgemm_def
  proof (rule export_total [OF assms(2)], rule linalg_session.dgemm_meets [OF _ _ gemm_shape_conforming [OF assms(5)] _ _ assms(6,8,7) _ _ _ assms(12)])
    show "linalg_session e c st bh sh si \<Longrightarrow> linalg_session e c st bh sh si" for c st bh sh si .
  qed (use assms(2-4,9-11) small len call in \<open>simp_all add: is_matrix_def gpu_works_def\<close>)
  with len val show ?thesis
    by (fastforce simp: is_matrix_def entry_def)
qed

theorem gpu_gemm_correct_witness:
  "\<exists>M s'. rcompss_gpu_dgemm (flawless reference_lib) \<lparr>mat_nrow = 2, mat_ncol = 1, mat_data = [3, 4]\<rparr>
      \<lparr>mat_nrow = 3, mat_ncol = 2, mat_data = [1, 2, 5, 10, 20, 50]\<rparr> True True 1 0 linalg_state = (Inr M, s') \<and>
     mat_nrow M = 1 \<and> mat_ncol M = 3 \<and> entry M 0 2 = 3 * 5 + 4 * 50"
proof -
  show ?thesis
    using gpu_gemm_correct [OF reference_api linalg_state_works, of "\<lparr>mat_nrow = 2, mat_ncol = 1, mat_data = [3, 4]\<rparr>"
        "\<lparr>mat_nrow = 3, mat_ncol = 2, mat_data = [1, 2, 5, 10, 20, 50]\<rparr>" True True 0 1]
    by (fastforce simp: is_matrix_def op_nrow_def op_ncol_def op_entry_def entry_def is_zero_def ring_dot_def upt_rec)
qed

section \<open>Linear systems\<close>

text \<open>A right-hand side as R passes it: a matrix, or a vector for one column.\<close>

definition passes :: "right_side \<Rightarrow> num_matrix \<Rightarrow> bool" where
  "passes rhs B \<longleftrightarrow> rhs = Matrix_side B \<or> mat_ncol B = 1 \<and> rhs = Vector_side (mat_data B)"

lemma passes_matrix:
  assumes "passes rhs B" "is_matrix B" "mat_nrow B = n" "n < 2 ^ 31"
  shows "right_matrix name n rhs = Inr \<lparr>mat_nrow = n, mat_ncol = mat_ncol B, mat_data = mat_data B\<rparr>"
  using assms int_length_small [of "mat_data B"] by (auto simp: passes_def right_matrix_def is_matrix_def)

lemma eight_times_small: "a < 2 ^ 30 \<Longrightarrow> b < 2 ^ 30 \<Longrightarrow> 8 * (a * b) < (2 :: nat) ^ 64"
proof -
  assume "a < 2 ^ 30" "b < 2 ^ 30"
  then have "a * b < 2 ^ 30 * 2 ^ 30" by (intro mult_strict_mono) auto
  then show ?thesis by simp
qed

text \<open>Solving with the factorisation: what the exports return, and that one may be passed to the other.\<close>

lemma lu_solves:
  assumes "blas_api (lib e) rounds solves" "working e s" "is_matrix A" "mat_nrow A = n" "mat_ncol A = n" "0 < n" "n < 2 ^ 30"
    and "passes rhs B" "is_matrix B" "mat_nrow B = n" "0 < mat_ncol B" "mat_ncol B < 2 ^ 30"
  shows "\<exists>f s1. rcompss_gpu_dgetrf e A s = (Inr f, s1) \<and> working e s1 \<and> live (device s1) = live (device s) \<and>
     is_matrix (lu_matrix f) \<and> mat_nrow (lu_matrix f) = n \<and> mat_ncol (lu_matrix f) = n \<and> (\<forall>p \<in> set (lu_pivot f). in_int_range p) \<and>
     cusolverDnDgetrf (lib e) (int n) (int n) (mat_data A) (int n) = Some (mat_data (lu_matrix f), lu_pivot f, lu_info f) \<and>
     (lu_info f = 0 \<longrightarrow>
       (\<exists>X s2. rcompss_gpu_dgetrs e (lu_matrix f) (lu_pivot f) rhs False s1 = (Inr X, s2) \<and>
          is_matrix X \<and> mat_nrow X = n \<and> mat_ncol X = mat_ncol B \<and>
          solves n (mat_ncol B) (mat_data A) (mat_data B) (mat_data X) \<and>
          working e s2 \<and> live (device s2) = live (device s)))"
proof -
  let ?q = "mat_ncol B"
  have len: "length (mat_data A) = n * n" "length (mat_data B) = n * ?q" using assms(3-5,9,10) by (simp_all add: is_matrix_def)
  have small: "8 * (n * n) < 2 ^ 64" "8 * (n * ?q) < 2 ^ 64" using eight_times_small assms(7,12) by blast+
  have n31: "n < 2 ^ 31" using assms(7) by simp
  have free: "succeeds (cuda_of (mem e)) Free i" for i using assms(2) by (simp add: gpu_works_def)
  from blas_api.getrf [OF assms(1,6) n31 len(1)] obtain lw LU piv i where
    lw: "getrf_bufferSize (lib e) (int n) (int n) (int n) = Some lw" and
    LU: "cusolverDnDgetrf (lib e) (int n) (int n) (mat_data A) (int n) = Some (LU, piv, i)"
      "length LU = n * n" "length piv = n" "\<forall>p \<in> set piv. in_int_range p" "in_int_range i" by blast
  let ?LU = "\<lparr>mat_nrow = n, mat_ncol = n, mat_data = LU\<rparr>"
  have "\<exists>s1. rcompss_gpu_dgetrf e A s = (Inr \<lparr>lu_matrix = ?LU, lu_pivot = piv, lu_info = i\<rparr>, s1) \<and>
      working e s1 \<and> live (device s1) = live (device s)"
    unfolding rcompss_gpu_dgetrf_def
    by (rule export_total [OF assms(2)]) (rule linalg_session.dgetrf_meets [OF _ free assms(4,5) len(1) assms(6) small(1) lw LU])
  then obtain s1 where s1: "rcompss_gpu_dgetrf e A s = (Inr \<lparr>lu_matrix = ?LU, lu_pivot = piv, lu_info = i\<rparr>, s1)"
    "working e s1" "live (device s1) = live (device s)" by blast
  have "\<exists>X s2. rcompss_gpu_dgetrs e ?LU piv rhs False s1 = (Inr X, s2) \<and> is_matrix X \<and> mat_nrow X = n \<and> mat_ncol X = ?q \<and>
      solves n ?q (mat_data A) (mat_data B) (mat_data X) \<and> working e s2 \<and> live (device s2) = live (device s)" if "i = 0"
  proof -
    from blas_api.getrs [OF assms(1,6,11) len LU(1) [unfolded that]] obtain X where
      X: "cusolverDnDgetrs (lib e) False (int n) (int ?q) (mat_data ?LU) (int n) piv (mat_data B) (int n) = Some (X, 0)" "length X = n * ?q"
        "solves n ?q (mat_data A) (mat_data B) X" by auto
    have "\<exists>s2. rcompss_gpu_dgetrs e ?LU piv rhs False s1 = (Inr \<lparr>mat_nrow = n, mat_ncol = ?q, mat_data = X\<rparr>, s2) \<and>
        working e s2 \<and> live (device s2) = live (device s1)"
      unfolding rcompss_gpu_dgetrs_def
      by (rule export_total [OF s1(2)],
          rule linalg_session.dgetrs_meets [OF _ free _ _ _ assms(6) n31 small(1) LU(3,4)
            passes_matrix [OF assms(8-10) n31] len(2) assms(11) small(2) X(1,2)])
         (simp_all add: LU(2))
    with X s1(3) show ?thesis by (fastforce simp: is_matrix_def)
  qed
  with s1 LU(1,2,4) show ?thesis
    by (intro exI [of _ "\<lparr>lu_matrix = ?LU, lu_pivot = piv, lu_info = i\<rparr>"] exI [of _ s1]) (simp add: is_matrix_def)
qed

text \<open>
  C30. On a working device \<^verbatim>\<open>rcompss_gpu_dgetrf\<close> returns a factorisation with its pivots, and when
  its status is zero, \<^verbatim>\<open>rcompss_gpu_dgetrs\<close> makes of it and of a right-hand side, a matrix or a
  vector, the solution of the system that cuSOLVER computes; nothing is leaked on the way.
\<close>

theorem gpu_lu_solves:
  assumes "blas_api (lib e) rounds solves" "working e s" "is_matrix A" "mat_nrow A = n" "mat_ncol A = n" "0 < n" "n < 2 ^ 30"
    and "passes rhs B" "is_matrix B" "mat_nrow B = n" "0 < mat_ncol B" "mat_ncol B < 2 ^ 30"
  shows "\<exists>f s1. rcompss_gpu_dgetrf e A s = (Inr f, s1) \<and> working e s1 \<and> live (device s1) = live (device s) \<and>
     cusolverDnDgetrf (lib e) (int n) (int n) (mat_data A) (int n) = Some (mat_data (lu_matrix f), lu_pivot f, lu_info f) \<and>
     (lu_info f = 0 \<longrightarrow>
       (\<exists>X s2. rcompss_gpu_dgetrs e (lu_matrix f) (lu_pivot f) rhs False s1 = (Inr X, s2) \<and>
          is_matrix X \<and> mat_nrow X = n \<and> mat_ncol X = mat_ncol B \<and>
          solves n (mat_ncol B) (mat_data A) (mat_data B) (mat_data X) \<and>
          working e s2 \<and> live (device s2) = live (device s)))"
  using lu_solves [OF assms] by blast

theorem gpu_lu_solves_witness:
  "\<exists>f s1 X s2. rcompss_gpu_dgetrf (flawless reference_lib) \<lparr>mat_nrow = 2, mat_ncol = 2, mat_data = [1, 0, 0, - 1]\<rparr> linalg_state = (Inr f, s1) \<and>
     rcompss_gpu_dgetrs (flawless reference_lib) (lu_matrix f) (lu_pivot f) (Vector_side [5, 7]) False s1 = (Inr X, s2) \<and>
     ring_solves 2 1 [1, 0, 0, - 1] [5, 7] (mat_data X) \<and> live (device s2) = {1, 2, 3, 4}"
proof -
  have diag: "unit_diagonal 2 [1, 0, 0, - 1]" by (simp add: unit_diagonal_def less_Suc_eq numeral_2_eq_2)
  show ?thesis
    using gpu_lu_solves [OF reference_api linalg_state_works, of "\<lparr>mat_nrow = 2, mat_ncol = 2, mat_data = [1, 0, 0, - 1]\<rparr>" 2 "Vector_side [5, 7]"
        "\<lparr>mat_nrow = 2, mat_ncol = 1, mat_data = [5, 7]\<rparr>"] diag
    by (auto simp: is_matrix_def passes_def linalg_state_def flawless_def reference_lib_def)
qed

text \<open>
  C32. When cuSOLVER can factorise a symmetric matrix given by one of its triangles,
  \<^verbatim>\<open>rcompss_gpu_dpotrf\<close> returns the factor in that triangle and leaves the elements of the argument
  in the other one, so its result is not triangular; \<^verbatim>\<open>rcompss_gpu_dpotrs\<close> solves systems with it.
\<close>

theorem gpu_cholesky_solves:
  assumes "blas_api (lib e) rounds solves" "working e s" "is_matrix A" "mat_nrow A = n" "mat_ncol A = n" "0 < n" "n < 2 ^ 30"
    and "cusolverDnDpotrf (lib e) upper (int n) (mat_data A) (int n) = Some (F, 0)"
    and "passes rhs B" "is_matrix B" "mat_nrow B = n" "0 < mat_ncol B" "mat_ncol B < 2 ^ 30"
  shows "\<exists>R s1 X s2. rcompss_gpu_dpotrf e A upper s = (Inr R, s1) \<and> mat_nrow R = n \<and> mat_ncol R = n \<and> mat_data R = F \<and>
     (\<forall>i < n. \<forall>j < n. \<not> stored upper i j \<longrightarrow> entry R i j = entry A i j) \<and>
     working e s1 \<and> live (device s1) = live (device s) \<and>
     rcompss_gpu_dpotrs e R rhs upper s1 = (Inr X, s2) \<and> is_matrix X \<and> mat_nrow X = n \<and> mat_ncol X = mat_ncol B \<and>
     solves n (mat_ncol B) (completed upper n (mat_data A)) (mat_data B) (mat_data X) \<and>
     working e s2 \<and> live (device s2) = live (device s)"
proof -
  let ?q = "mat_ncol B" and ?R = "\<lparr>mat_nrow = n, mat_ncol = n, mat_data = F\<rparr>"
  have len: "length (mat_data A) = n * n" "length (mat_data B) = n * ?q" using assms(3-5,10,11) by (simp_all add: is_matrix_def)
  have small: "8 * (n * n) < 2 ^ 64" "8 * (n * ?q) < 2 ^ 64" using eight_times_small assms(7,13) by blast+
  have n31: "n < 2 ^ 31" using assms(7) by simp
  have free: "succeeds (cuda_of (mem e)) Free i" for i using assms(2) by (simp add: gpu_works_def)
  from blas_api.potrf [OF assms(1,6) len(1), of upper] assms(8) obtain lw where
    F: "potrf_bufferSize (lib e) upper (int n) (int n) = Some lw" "length F = n * n"
      "\<forall>r < n. \<forall>c < n. \<not> stored upper r c \<longrightarrow> F ! (c * n + r) = mat_data A ! (c * n + r)" by auto
  have "\<exists>s1. rcompss_gpu_dpotrf e A upper s = (Inr ?R, s1) \<and> working e s1 \<and> live (device s1) = live (device s)"
    unfolding rcompss_gpu_dpotrf_def
    by (rule export_total [OF assms(2)]) (rule linalg_session.dpotrf_meets [OF _ free assms(4,5) len(1) assms(6) small(1) F(1) assms(8) F(2)])
  then obtain s1 where s1: "rcompss_gpu_dpotrf e A upper s = (Inr ?R, s1)" "working e s1" "live (device s1) = live (device s)" by blast
  from blas_api.potrs [OF assms(1,6,12) len assms(8)] obtain X where
    X: "cusolverDnDpotrs (lib e) upper (int n) (int ?q) (mat_data ?R) (int n) (mat_data B) (int n) = Some (X, 0)" "length X = n * ?q"
      "solves n ?q (completed upper n (mat_data A)) (mat_data B) X" by auto
  let ?X = "\<lparr>mat_nrow = n, mat_ncol = ?q, mat_data = X\<rparr>"
  have "\<exists>s2. rcompss_gpu_dpotrs e ?R rhs upper s1 = (Inr ?X, s2) \<and> working e s2 \<and> live (device s2) = live (device s1)"
    unfolding rcompss_gpu_dpotrs_def
    by (rule export_total [OF s1(2)],
        rule linalg_session.dpotrs_meets [OF _ free _ _ _ assms(6) small(1)
          passes_matrix [OF assms(9-11) n31] len(2) assms(12) small(2) X(1,2)])
       (simp_all add: F(2))
  then obtain s2 where s2: "rcompss_gpu_dpotrs e ?R rhs upper s1 = (Inr ?X, s2)" "working e s2" "live (device s2) = live (device s1)" by blast
  show ?thesis
    by (intro exI [of _ ?R] exI [of _ s1] exI [of _ ?X] exI [of _ s2])
       (use s1 s2 X F assms(4) in \<open>simp add: is_matrix_def entry_def\<close>)
qed

theorem gpu_cholesky_solves_witness:
  "\<exists>R s1. rcompss_gpu_dpotrf (flawless reference_lib) \<lparr>mat_nrow = 2, mat_ncol = 2, mat_data = [1, 9, 0, 1]\<rparr> True linalg_state = (Inr R, s1) \<and>
     entry R 1 0 = 9"
proof -
  have "completed True 2 [1, 9, 0, 1] = [1, 0, 0, 1]" by (simp add: completed_def stored_def upt_rec)
  then have diag: "unit_diagonal 2 (completed True 2 [1, 9, 0, 1])"
    by (simp only:) (simp add: unit_diagonal_def less_Suc_eq numeral_2_eq_2)
  show ?thesis
    using gpu_cholesky_solves [OF reference_api linalg_state_works, of "\<lparr>mat_nrow = 2, mat_ncol = 2, mat_data = [1, 9, 0, 1]\<rparr>" 2 True
        "[1, 9, 0, 1]" "Vector_side [5, 7]" "\<lparr>mat_nrow = 2, mat_ncol = 1, mat_data = [5, 7]\<rparr>"] diag
    by (fastforce simp: is_matrix_def passes_def flawless_def reference_lib_def stored_def entry_def)
qed

section \<open>Refusals and failures\<close>

lemma export_aborts:
  assumes "working e s" "is_std_exception x"
    and "\<And>ctx c st bh sh si. linalg_session e c st bh sh si \<Longrightarrow>
      meets (running e ctx c {st, bh, sh, si} (next_id (device s)) (live (device s)) (blocks s)) body (\<lambda>_ _. False)
        (linalg_session.aborts e ctx c st bh sh si lv x)"
  shows "\<exists>s'. gpu_export e name body s = (Inl (Rcpp_exception (name @ '' failed: '' @ what x)), s') \<and> working e s' \<and> live (device s') = lv"
proof -
  obtain ctx c st bh sh si where ses: "linalg_session e c st bh sh si"
    and run: "running e ctx c {st, bh, sh, si} (next_id (device s)) (live (device s)) (blocks s) s"
    by (rule gpu_works_session [OF assms(1) TrueI])
  have free: "succeeds (cuda_of (mem e)) Free n" for n using assms(1) by (simp add: gpu_works_def)
  obtain r s' where out: "body s = (r, s')" by fastforce
  have "\<exists>k bl. r = Inl x \<and> running e ctx c {st, bh, sh, si} k lv bl s'"
  proof (cases r)
    case (Inl ex)
    then show ?thesis
      using meets_Inl [OF assms(3) [OF ses] run, of ex s'] out by (simp add: linalg_session.aborts_def [OF ses])
  next
    case (Inr a)
    then show ?thesis using meets_Inr [OF assms(3) [OF ses] run, of a s'] out by simp
  qed
  then obtain k bl where r: "r = Inl x" and run': "running e ctx c {st, bh, sh, si} k lv bl s'" by blast
  have "catchable x" using assms(2) by (cases x) simp_all
  with running_works [OF ses run' free] r out assms(2)
  have "gpu_export e name body s = (Inl (Rcpp_exception (name @ '' failed: '' @ what x)), s')" "working e s'" "live (device s') = lv"
    using linalg_session.cuda_build [OF ses] by (simp_all add: gpu_export_def stop_with_def st_catch_def)
  then show ?thesis by blast
qed

text \<open>
  C34. A Cholesky factorisation that cuSOLVER gives up because the matrix is not positive definite
  is refused with the status in the message, and all buffers are released. But when the call itself
  fails, the workspace that \<^verbatim>\<open>GpuSolverDpotrf\<close> allocated stays allocated.
\<close>

theorem cholesky_failures:
  assumes "working e s" "mat_nrow A = n" "mat_ncol A = n" "is_matrix A" "0 < n" "n < 2 ^ 30"
    and "potrf_bufferSize (lib e) upper (int n) (int n) = Some lw" "0 < lw"
  shows "(case cusolverDnDpotrf (lib e) upper (int n) (mat_data A) (int n) of
      Some (F, i) \<Rightarrow>
        length F = n * n \<and> in_int_range i \<and> i \<noteq> 0 \<longrightarrow>
        (\<exists>s'. rcompss_gpu_dpotrf e A upper s = (Inl (Rcpp_exception (''rcompss_gpu_dpotrf failed: '' @
             ''DPOTRF failed: matrix is not positive definite (info='' @ int_to_string i @ '').'')), s') \<and>
           working e s' \<and> live (device s') = live (device s))
    | None \<Rightarrow>
        \<exists>s' w. rcompss_gpu_dpotrf e A upper s = (Inl (Rcpp_exception (''rcompss_gpu_dpotrf failed: '' @
             ''cuSOLVER error: cusolverDnDpotrf(sh, uplo, n, dA, lda, d_work, lwork, d_info)'')), s') \<and>
           working e s' \<and> live (device s') = insert w (live (device s)) \<and> w \<notin> live (device s))"
proof -
  have len: "length (mat_data A) = n * n" using assms(2-4) by (simp add: is_matrix_def)
  have small: "8 * (n * n) < 2 ^ 64" using eight_times_small assms(6) by blast
  have free: "succeeds (cuda_of (mem e)) Free i" for i using assms(1) by (simp add: gpu_works_def)
  have fresh: "Suc (Suc (next_id (device s))) \<notin> live (device s)" using assms(1) by (auto simp: gpu_works_def)
  show ?thesis
  proof (cases "cusolverDnDpotrf (lib e) upper (int n) (mat_data A) (int n)")
    case None
    from export_aborts [where name = "''rcompss_gpu_dpotrf''", OF assms(1) _ linalg_session.dpotrf_leaks [OF _ free assms(2,3) len assms(5) small assms(7,8) None]]
    show ?thesis unfolding None rcompss_gpu_dpotrf_def using fresh by auto
  next
    case (Some R)
    obtain F i where R: "R = (F, i)" by (cases R)
    show ?thesis
      unfolding Some R option.case prod.case rcompss_gpu_dpotrf_def
    proof (intro impI, elim conjE)
      assume "length F = n * n" "in_int_range i" "i \<noteq> 0"
      from export_aborts [where name = "''rcompss_gpu_dpotrf''", OF assms(1) _ linalg_session.dpotrf_refuses [OF _ free assms(2,3) len assms(5) small assms(7) Some [unfolded R] this]]
      show "\<exists>s'. gpu_export e ''rcompss_gpu_dpotrf'' (dpotrf_body e A upper) s = (Inl (Rcpp_exception (''rcompss_gpu_dpotrf failed: '' @
             ''DPOTRF failed: matrix is not positive definite (info='' @ int_to_string i @ '').'')), s') \<and>
           working e s' \<and> live (device s') = live (device s)" by simp
    qed
  qed
qed

text \<open>A library whose Cholesky factorisation fails.\<close>

definition failing_lib :: linalg_lib where
  "failing_lib = reference_lib\<lparr>cusolverDnDpotrf := (\<lambda>up n A lda. None)\<rparr>"

theorem cholesky_failures_witness:
  "\<exists>s' w. live (device (snd (rcompss_gpu_dpotrf (flawless failing_lib) \<lparr>mat_nrow = 1, mat_ncol = 1, mat_data = [1]\<rparr> True linalg_state))) = {1, 2, 3, 4, w} \<and>
     w \<notin> {1, 2, 3, 4 :: nat} \<and>
     rcompss_gpu_dpotrf (flawless reference_lib) \<lparr>mat_nrow = 1, mat_ncol = 1, mat_data = [2]\<rparr> True linalg_state =
       (Inl (Rcpp_exception (''rcompss_gpu_dpotrf failed: '' @
          ''DPOTRF failed: matrix is not positive definite (info='' @ int_to_string 1 @ '').'')), s') \<and>
     live (device s') = {1, 2, 3, 4}"
proof -
  have live: "live (device linalg_state) = {1, 2, 3, 4}" by (simp add: linalg_state_def)
  have lib: "lib (flawless l) = l" for l by (simp add: flawless_def)
  from cholesky_failures [OF linalg_state_works, of "\<lparr>mat_nrow = 1, mat_ncol = 1, mat_data = [1]\<rparr>" 1 failing_lib True 1]
  obtain s1 w where leak: "rcompss_gpu_dpotrf (flawless failing_lib) \<lparr>mat_nrow = 1, mat_ncol = 1, mat_data = [1]\<rparr> True linalg_state =
      (Inl (Rcpp_exception (''rcompss_gpu_dpotrf failed: '' @
             ''cuSOLVER error: cusolverDnDpotrf(sh, uplo, n, dA, lda, d_work, lwork, d_info)'')), s1)"
    "live (device s1) = insert w {1, 2, 3, 4}" "w \<notin> {1, 2, 3, 4}"
    unfolding live lib by (auto simp: failing_lib_def reference_lib_def is_matrix_def)
  have "\<not> unit_diagonal 1 (completed True 1 [2])" by (simp add: unit_diagonal_def completed_def stored_def)
  with cholesky_failures [OF linalg_state_works, of "\<lparr>mat_nrow = 1, mat_ncol = 1, mat_data = [2]\<rparr>" 1 reference_lib True 1]
  obtain s2 where "rcompss_gpu_dpotrf (flawless reference_lib) \<lparr>mat_nrow = 1, mat_ncol = 1, mat_data = [2]\<rparr> True linalg_state =
       (Inl (Rcpp_exception (''rcompss_gpu_dpotrf failed: '' @
          ''DPOTRF failed: matrix is not positive definite (info='' @ int_to_string 1 @ '').'')), s2)" "live (device s2) = {1, 2, 3, 4}"
    unfolding live lib by (auto simp: reference_lib_def is_matrix_def in_int_range_def int_min_def int_max_def)
  with leak show ?thesis by (intro exI [of _ s2] exI [of _ w]) (simp add: insert_commute)
qed


lemma to_upper_code: "(of_char (to_upper c) :: nat) = (let n = of_char c in if 97 \<le> n \<and> n \<le> 122 then n - 32 else n)"
proof -
  have "(of_char c :: nat) < 256" using of_char_mod_256 [of c, where 'a = nat] by (metis mod_less_divisor zero_less_numeral)
  then have "(of_char c - 32) mod 256 = of_char c - (32 :: nat)" by (intro mod_less) linarith
  then show ?thesis by (simp add: to_upper_def Let_def)
qed

lemma to_upper_iff:
  assumes "65 \<le> (of_char d :: nat)" "(of_char d :: nat) \<le> 90" "(of_char l :: nat) = of_char d + 32"
  shows "to_upper c = d \<longleftrightarrow> c = d \<or> c = l"
proof -
  have code: "a = b \<longleftrightarrow> (of_char a :: nat) = of_char b" for a b by simp
  show ?thesis
    unfolding code [of "to_upper c"] code [of c] to_upper_code Let_def using assms by auto
qed

lemma to_upper_letters [simp]:
  "to_upper c = CHR ''L'' \<longleftrightarrow> c = CHR ''L'' \<or> c = CHR ''l''"
  "to_upper c = CHR ''R'' \<longleftrightarrow> c = CHR ''R'' \<or> c = CHR ''r''"
  "to_upper c = CHR ''U'' \<longleftrightarrow> c = CHR ''U'' \<or> c = CHR ''u''"
  "to_upper c = CHR ''N'' \<longleftrightarrow> c = CHR ''N'' \<or> c = CHR ''n''"
  "to_upper c = CHR ''T'' \<longleftrightarrow> c = CHR ''T'' \<or> c = CHR ''t''"
  "to_upper c = CHR ''C'' \<longleftrightarrow> c = CHR ''C'' \<or> c = CHR ''c''"
  by (rule to_upper_iff; simp)+























section \<open>Vectors\<close>

lemma int_length_prefix:
  assumes "length x mod 2 ^ 32 = n" "n < 2 ^ 31"
  shows "int_length x = int n" "n \<le> length x"
proof -
  have "(2 :: 32 word) ^ 32 = 0" by simp
  moreover have "length x = n + 2 ^ 32 * (length x div 2 ^ 32)"
    using mod_mult_div_eq [of "length x" "2 ^ 32"] assms(1) by linarith
  then have "word_of_int (int (length x)) = (of_nat n + 2 ^ 32 * of_nat (length x div 2 ^ 32) :: 32 word)"
    by (metis of_int_of_nat_eq of_nat_add of_nat_mult of_nat_numeral of_nat_power)
  ultimately have "word_of_int (int (length x)) = (word_of_int (int n) :: 32 word)"
    by (simp only: mult_zero_left add_0_right of_int_of_nat_eq)
  then show "int_length x = int n"
    using int_length_small [of "replicate n x"] assms(2) by (simp add: int_length_def)
  show "n \<le> length x" using assms(1) by auto
qed

text \<open>
  C40. The length of an R vector is cast to \<^verbatim>\<open>int\<close>. When the length modulo \<open>2 ^ 32\<close> is an \<open>n\<close> with
  \<open>0 < n < 2 ^ 31\<close>, the cast gives \<open>n\<close> and the four vector routines return, without an error, what
  cuBLAS makes of the first \<open>n\<close> elements: of all elements when there are fewer than \<open>2 ^ 31\<close>, else
  of a prefix. The vectors that \<^verbatim>\<open>daxpy\<close> and \<^verbatim>\<open>dscal\<close> return have \<open>n\<close> elements too, and the two
  arguments of \<^verbatim>\<open>daxpy\<close> and \<^verbatim>\<open>ddot\<close> need only agree modulo \<open>2 ^ 32\<close>. Nothing is claimed for a
  remainder of 0 or of at least \<open>2 ^ 31\<close>, for which the \<^verbatim>\<open>int\<close> is zero or negative.
\<close>

theorem long_vector_truncated:
  assumes "working e s" "length x mod 2 ^ 32 = n" "length y mod 2 ^ 32 = n" "0 < n" "n < 2 ^ 31"
    and "cublasDnrm2 (lib e) (int n) (take n x) = Some norm"
    and "cublasDdot (lib e) (int n) (take n x) (take n y) = Some product"
    and "cublasDscal (lib e) (int n) alpha (take n x) = Some scaled" "length scaled = n"
    and "cublasDaxpy (lib e) (int n) alpha (take n x) (take n y) = Some combined" "length combined = n"
  shows "(\<exists>s'. rcompss_gpu_dnrm2 e x s = (Inr norm, s') \<and> working e s' \<and> live (device s') = live (device s)) \<and>
     (\<exists>s'. rcompss_gpu_ddot e x y s = (Inr product, s') \<and> working e s' \<and> live (device s') = live (device s)) \<and>
     (\<exists>s'. rcompss_gpu_dscal e x alpha s = (Inr scaled, s') \<and> working e s' \<and> live (device s') = live (device s)) \<and>
     (\<exists>s'. rcompss_gpu_daxpy e x y alpha s = (Inr combined, s') \<and> working e s' \<and> live (device s') = live (device s))"
proof -
  note x = int_length_prefix [OF assms(2,5)] and y = int_length_prefix [OF assms(3,5)]
  have free: "succeeds (cuda_of (mem e)) Free i" for i using assms(1) by (simp add: gpu_works_def)
  show ?thesis
    unfolding rcompss_gpu_dnrm2_def rcompss_gpu_ddot_def rcompss_gpu_dscal_def rcompss_gpu_daxpy_def
    by (intro conjI export_total [OF assms(1)] linalg_session.dnrm2_meets [OF _ free x(1) assms(4) x(2) assms(6)]
        linalg_session.ddot_meets [OF _ free x(1) y(1) assms(4) x(2) y(2) assms(7)]
        linalg_session.dscal_meets [OF _ free x(1) assms(4) x(2) assms(8,9)]
        linalg_session.daxpy_meets [OF _ free x(1) y(1) assms(4) x(2) y(2) assms(10,11)])
qed

theorem long_vector_truncated_witness:
  "\<exists>xs s' s''. length xs = 2 ^ 32 \<and> rcompss_gpu_dnrm2 (flawless reference_lib) (3 # xs) linalg_state = (Inr 9, s') \<and>
     rcompss_gpu_daxpy (flawless reference_lib) (3 # xs) [5] 2 linalg_state = (Inr [11], s'')"
proof -
  obtain xs :: "u64 list" where xs: "length xs = 2 ^ 32" by (rule that [OF length_replicate])
  then have l: "length (3 # xs) mod 2 ^ 32 = 1" by simp
  have "length [5 :: u64] mod 2 ^ 32 = 1" by simp
  note * = long_vector_truncated [OF linalg_state_works l this, of reference_lib 9 15 2 "[6]" "[11]"]
  have "(\<exists>s'. rcompss_gpu_dnrm2 (flawless reference_lib) (3 # xs) linalg_state = (Inr 9, s')) \<and>
     (\<exists>s'. rcompss_gpu_daxpy (flawless reference_lib) (3 # xs) [5] 2 linalg_state = (Inr [11], s'))"
    using * by (simp add: flawless_def reference_lib_def ring_dot_def) blast
  with xs show ?thesis by blast
qed

text \<open>
  When \<^verbatim>\<open>cudaFree\<close> reports an error, the exception leaves the destructor of a scoped buffer and
  ends the process, although the result has been computed: no handler of the export sees it.
\<close>

theorem failing_release_terminates:
  assumes "gpu_works (\<lambda>call. call \<noteq> Free) e s" "\<And>i. \<not> succeeds (cuda_of (mem e)) Free i"
    and "x \<noteq> []" "length x < 2 ^ 31" "cublasDnrm2 (lib e) (int (length x)) x = Some v"
  shows "fst (rcompss_gpu_dnrm2 e x s) = Inl Terminated"
proof -
  obtain ctx c st bh sh si where ses: "linalg_session e c st bh sh si"
    and run: "running e ctx c {st, bh, sh, si} (next_id (device s)) (live (device s)) (blocks s) s"
    by (rule gpu_works_session [OF assms(1)])
  obtain r s' where out: "dnrm2_body e x s = (r, s')" by fastforce
  note ends = linalg_session.dnrm2_terminates [OF ses assms(2) int_length_small [OF assms(4)], of v]
  have "r = Inl Terminated"
    using meets_Inr [OF ends run] meets_Inl [OF ends run] out assms(3,5) by (cases r) auto
  then show ?thesis
    using out linalg_session.cuda_build [OF ses] by (simp add: rcompss_gpu_dnrm2_def gpu_export_def stop_with_def st_catch_def)
qed

text \<open>An environment whose releases fail.\<close>

definition stuck_env :: linalg_env where
  "stuck_env = \<lparr>mem = gpu_env\<lparr>cuda_of := (cuda_of gpu_env)\<lparr>succeeds := (\<lambda>call n. call \<noteq> Free)\<rparr>\<rparr>, lib = reference_lib\<rparr>"

theorem failing_release_terminates_witness:
  "fst (rcompss_gpu_dnrm2 stuck_env [3] linalg_state) = Inl Terminated"
proof -
  have "gpu_works (\<lambda>call. call \<noteq> Free) stuck_env linalg_state"
    using linalg_state_works [of reference_lib] by (simp add: gpu_works_def stuck_env_def gpu_env_def)
  then show ?thesis
    by (rule failing_release_terminates [where v = 9]) (simp_all add: stuck_env_def reference_lib_def ring_dot_def)
qed

end
