(* ===== verification/Gpu_Linalg_Products.thy ===== *)
theory Gpu_Linalg_Products
  imports Gpu_Linalg_Results
begin

text \<open>
  The matrix-vector product, the triangular product and solve and the symmetric update: what
  \<^verbatim>\<open>rcompss_gpu_dgemv\<close>, \<^verbatim>\<open>rcompss_gpu_dtrmm\<close>, \<^verbatim>\<open>rcompss_gpu_dtrsm\<close> and \<^verbatim>\<open>rcompss_gpu_dsyrk\<close> return on a
  device that works, over the contract \<open>blas_products\<close>, which extends \<open>blas_api\<close>.
\<close>

lemma vector_bytes_zero: "vector_bytes (replicate n 0) = replicate (8 * n) 0"
proof -
  have "u64_bytes 0 = replicate 8 0" by (simp add: u64_bytes_def numeral_eq_Suc)
  then show ?thesis by (induction n) (simp_all add: vector_bytes_def replicate_add)
qed

section \<open>Steps of the exports\<close>

context linalg_session
begin

lemma run_some:
  assumes "\<And>k bl. G k bl \<Longrightarrow> meets (running e ctx c {st, bh, sh, inf} k lv bl) m Q E"
  shows "meets (\<lambda>s. \<exists>k bl. running e ctx c {st, bh, sh, inf} k lv bl s \<and> G k bl) m Q E"
  unfolding meets_def
proof (intro allI impI)
  fix s assume "\<exists>k bl. running e ctx c {st, bh, sh, inf} k lv bl s \<and> G k bl"
  then obtain k bl where "running e ctx c {st, bh, sh, inf} k lv bl s" "G k bl" by blast
  with assms [of k bl] show "case m s of (Inr a, s') \<Rightarrow> Q a s' | (Inl x, s') \<Rightarrow> E x s'" by (simp add: meets_def)
qed

lemma run_zero:
  assumes "bl d = Some old" "length old = 8 * n" "0 < n" "d \<in> lv"
  shows "meets (running e ctx c {st, bh, sh, inf} k lv bl) (zero_device e (Some d) (8 * n))
     (\<lambda>u s. running e ctx c {st, bh, sh, inf} k lv (bl(d \<mapsto> vector_bytes (replicate n 0))) s \<and> u = ()) never"
  using assms
  by (auto simp: meets_def zero_device_def on_gpu_def use_resource_def cuda_def obliging stop_if_def set_bytes_def st_gets_def
      st_bind_def running_def vector_bytes_zero)

text \<open>What the buffer of a result holds before the call: the argument for a non-zero \<open>beta\<close>, else zeros.\<close>

definition prepared :: "nat set \<Rightarrow> nat \<Rightarrow> (nat \<Rightarrow> byte list option) \<Rightarrow> nat \<Rightarrow> u64 list \<Rightarrow> memory \<Rightarrow> bool" where
  "prepared lv k bl d y =
     (\<lambda>s. \<exists>k' bl'. running e ctx c {st, bh, sh, inf} k' lv bl' s \<and>
        (k \<le> k' \<and> bl' d = Some (vector_bytes y) \<and> (\<forall>p. p < k \<longrightarrow> p \<noteq> d \<longrightarrow> bl' p = bl p)))"

lemma run_prepare:
  assumes "bl d = Some old" "length old = 8 * n" "0 < n" "d \<in> lv" "d < k" "length y = n" "is_zero beta \<Longrightarrow> y = replicate n 0"
    and "\<not> is_zero beta \<Longrightarrow> take_initial = st_bind (r_vector y) (\<lambda>r. upload e ctx (Some d) r (8 * n))"
  shows "meets (running e ctx c {st, bh, sh, inf} k lv bl)
     (if \<not> is_zero beta then take_initial else zero_device e (Some d) (8 * n)) (\<lambda>u s. prepared lv k bl d y s \<and> u = ()) never"
proof (cases "is_zero beta")
  case True
  then have y: "y = replicate n 0" by (rule assms(7))
  have "meets (running e ctx c {st, bh, sh, inf} k lv bl) (zero_device e (Some d) (8 * n)) (\<lambda>u s. prepared lv k bl d y s \<and> u = ()) never"
    by (rule meets_weaken [OF run_zero [where bl = bl and d = d and n = n, OF assms(1-4)]]) (auto simp: prepared_def y intro!: exI)
  with True show ?thesis by simp
next
  case False
  have "meets (running e ctx c {st, bh, sh, inf} k lv bl) (st_bind (r_vector y) (\<lambda>r. upload e ctx (Some d) r (8 * n)))
      (\<lambda>u s. running e ctx c {st, bh, sh, inf} (Suc k) lv (bl(k \<mapsto> vector_bytes y, d \<mapsto> vector_bytes y)) s \<and> u = ()) never"
    apply (rule meets_value_bind [OF run_vector])
    by (rule run_upload_all [where xs = y]) (use assms in auto)
  then have "meets (running e ctx c {st, bh, sh, inf} k lv bl) (st_bind (r_vector y) (\<lambda>r. upload e ctx (Some d) r (8 * n)))
      (\<lambda>u s. prepared lv k bl d y s \<and> u = ()) never"
    by (rule meets_weaken) (use assms(5) in \<open>auto simp: prepared_def intro!: exI\<close>)
  with False assms(8) show ?thesis by simp
qed

section \<open>dgemv\<close>

lemma run_gemv:
  assumes "bl pa = Some (vector_bytes A)" "bl px = Some (vector_bytes x)" "bl py = Some (vector_bytes y)"
    and "length A = m * n" "length x = (if tr then m else n)" "length y = (if tr then n else m)" "0 < m" "0 < n"
    and "cublasDgemv (lib e) tr (int m) (int n) alpha A (int m) x beta y = Some out" "length out = length y"
  shows "meets (running e ctx c {st, bh, sh, inf} k lv bl)
     (GpuBlasDgemv e ctx tr (int m) (int n) alpha beta (Some pa) (int m) (Some px) (Some py))
     (\<lambda>u s. running e ctx c {st, bh, sh, inf} k lv (bl(py \<mapsto> vector_bytes out)) s \<and> u = ()) never"
proof -
  have sizes: "extent (int m) (int m) (int n) = int (length A)" "(if tr then int m else int n) = int (length x)"
    "(if tr then int n else int m) = int (length y)"
    using square_extent assms(4-8) by simp_all
  have out: "out \<noteq> []" using assms(6-8,10) by (auto split: if_splits)
  show ?thesis
    unfolding GpuBlasDgemv_def sizes
    apply (rule meets_value_bind [OF run_blas_handle])
    apply (rule meets_value_bind [OF run_blas])
      apply (rule meets_value_bind [OF run_read [where xs = A]], rule assms(1), rule refl)
      apply (rule meets_value_bind [OF run_read [where xs = x]], rule assms(2), rule refl)
      apply (rule meets_value_bind [OF run_read [where xs = y]], rule assms(3), rule refl)
      apply (rule run_deliver, rule assms(9), rule out, rule assms(3), simp add: assms(10))
     apply simp
    by (rule run_sync)
qed

lemma dgemv_meets:
  assumes "\<And>n. succeeds (cuda_of (mem e)) Free n"
    and "mat_nrow A = m" "mat_ncol A = n" "length (mat_data A) = m * n" "length x = (if tr then m else n)"
    and "0 < m" "0 < n" "m < 2 ^ 30" "n < 2 ^ 30" "8 * (m * n) < 2 ^ 64" "length y = (if tr then n else m)"
    and "if is_zero beta then y = replicate (length y) 0 else y0 = Some (Inr y)"
    and "cublasDgemv (lib e) tr (int m) (int n) alpha (mat_data A) (int m) x beta y = Some out" "length out = length y"
  shows "meets (running e ctx c {st, bh, sh, inf} k lv bl) (dgemv_body e A x tr alpha beta y0) (leaves lv out) never"
proof -
  have bytes: "matrix_bytes m n = 8 * (m * n)" using assms(10) by (simp add: matrix_bytes_def mult.commute mult.left_commute)
  have lens: "int_length x = int (if tr then m else n)" "int_length y = int (if tr then n else m)"
    using int_length_small [of x] int_length_small [of y] assms(5,8,9,11) by simp_all
  have ints: "int_bytes (int (if tr then m else n)) 8 = 8 * length x" "int_bytes (int (if tr then n else m)) 8 = 8 * length y"
    using int_bytes_small [of "length x" 8] int_bytes_small [of "length y" 8] assms(5,8,9,11) by (simp_all split: if_splits)
  have pos: "0 < 8 * (m * n)" "0 < 8 * length x" "0 < 8 * length y" "0 < length y" using assms(5-7,11) by (simp_all split: if_splits)
  show ?thesis
    unfolding dgemv_body_def Let_def assms(2,3) bytes lens(1) ints
    apply (rule meets_value_bind [OF run_vector])
    apply (rule meets_value_bind [OF run_vector])
    apply (rule meets_value_bind [OF run_context])
    apply (rule meets_value_bind [OF run_stop], simp)
    apply (rule run_scoped [OF assms(1) pos(1)])
    apply (rule run_scoped [OF assms(1) pos(2)])
    apply (rule run_scoped [OF assms(1) pos(3)])
    apply (rule meets_value_bind [OF run_stop], simp add: scoped_ok_def)
    apply (rule meets_value_bind [OF run_upload_all [where xs = "mat_data A"]], simp only: assms(4), rule pos(1), simp, simp, simp)
    apply (rule meets_value_bind [OF run_upload_all [where xs = x]], rule refl, rule pos(2), simp, simp, simp)
    apply (rule meets_value_bind [OF run_prepare [where y = y and n = "length y"]])
            apply (simp, assumption, rule pos(4), simp, simp, rule refl)
      apply (use assms(12) in simp)
     apply (use assms(11,12) lens(2) in \<open>simp add: stop_if_def\<close>)
    unfolding prepared_def
    apply (rule run_some)
    apply (rule meets_value_bind [OF run_gemv [where A = "mat_data A" and x = x and y = y and out = out]])
              apply (simp, simp, simp, rule assms(4), rule assms(5), rule assms(11), rule assms(6), rule assms(7), rule assms(13), rule assms(14))
    apply (rule run_leave)
    by (rule run_download [where xs = out]) (use assms(11,14) pos(4) in simp_all)
qed

section \<open>dtrmm and dtrsm\<close>

lemma triangle_extent:
  "0 < q \<Longrightarrow> q = (if left then m else n) \<Longrightarrow>
     (if left then extent (int q) (int m) (int m) else extent (int q) (int n) (int n)) = int (q * q)"
  using square_extent [of q q] by (cases left) simp_all

lemma run_triangular_size:
  assumes "mat_nrow A = q" "mat_ncol A = q" "q = (if left then mat_nrow B else mat_ncol B)"
  shows "meets (running e ctx c {st, bh, sh, inf} k lv bl) (triangular_size name left A B)
     (\<lambda>u s. running e ctx c {st, bh, sh, inf} k lv bl s \<and> u = ()) never"
  unfolding triangular_size_def Let_def by (rule run_stop) (use assms in simp)

lemma run_trmm:
  assumes "bl pa = Some (vector_bytes A)" "bl pb = Some (vector_bytes B)" "bl pc = Some js"
    and "length A = q * q" "q = (if left then m else n)" "length B = m * n" "length js = 8 * (m * n)" "0 < m" "0 < n"
    and "\<And>C. length C = m * n \<Longrightarrow>
      cublasDtrmm (lib e) left upper tr un (int m) (int n) alpha A (int q) B (int m) C (int m) = Some out"
    and "length out = m * n"
  shows "meets (running e ctx c {st, bh, sh, inf} k lv bl)
     (GpuBlasDtrmm e ctx left upper tr un (int m) (int n) alpha (Some pa) (int q) (Some pb) (int m) (Some pc) (int m))
     (\<lambda>u s. running e ctx c {st, bh, sh, inf} k lv (bl(pc \<mapsto> vector_bytes out)) s \<and> u = ()) never"
proof -
  have "0 < q" using assms(5,8,9) by simp
  then have sizes: "(if left then extent (int q) (int m) (int m) else extent (int q) (int n) (int n)) = int (length A)"
    "extent (int m) (int m) (int n) = int (length B)"
    using square_extent [of m n] triangle_extent [OF \<open>0 < q\<close> assms(5)] assms(4,6,8,9) by (simp_all del: of_nat_mult)
  have out: "out \<noteq> []" and len: "length (doubles (m * n) js) = m * n" using assms(8,9,11) by (auto simp: doubles_def)
  show ?thesis
    unfolding GpuBlasDtrmm_def sizes
    apply (rule meets_value_bind [OF run_blas_handle])
    apply (rule meets_value_bind [OF run_blas])
      apply (rule meets_value_bind [OF run_read [where xs = A]], rule assms(1), rule refl)
      apply (rule meets_value_bind [OF run_read [where xs = B]], rule assms(2), rule refl)
      apply (rule meets_value_bind [OF run_read_junk], rule assms(3), rule assms(7), simp add: assms(6))
      apply (rule run_deliver, rule assms(10), rule len, rule out, rule assms(3), simp add: assms(7,11))
     apply simp
    by (rule run_sync)
qed

lemma run_trsm:
  assumes "bl pa = Some (vector_bytes A)" "bl pb = Some (vector_bytes B)"
    and "length A = q * q" "q = (if left then m else n)" "length B = m * n" "0 < m" "0 < n"
    and "cublasDtrsm (lib e) left upper tr un (int m) (int n) alpha A (int q) B (int m) = Some out" "length out = m * n"
  shows "meets (running e ctx c {st, bh, sh, inf} k lv bl)
     (GpuBlasDtrsm e ctx left upper tr un (int m) (int n) alpha (Some pa) (int q) (Some pb) (int m))
     (\<lambda>u s. running e ctx c {st, bh, sh, inf} k lv (bl(pb \<mapsto> vector_bytes out)) s \<and> u = ()) never"
proof -
  have "0 < q" using assms(4,6,7) by simp
  then have sizes: "(if left then extent (int q) (int m) (int m) else extent (int q) (int n) (int n)) = int (length A)"
    "extent (int m) (int m) (int n) = int (length B)"
    using square_extent [of m n] triangle_extent [OF \<open>0 < q\<close> assms(4)] assms(3,5-7) by (simp_all del: of_nat_mult)
  have out: "out \<noteq> []" using assms(6,7,9) by auto
  show ?thesis
    unfolding GpuBlasDtrsm_def sizes
    apply (rule meets_value_bind [OF run_blas_handle])
    apply (rule meets_value_bind [OF run_blas])
      apply (rule meets_value_bind [OF run_read [where xs = A]], rule assms(1), rule refl)
      apply (rule meets_value_bind [OF run_read [where xs = B]], rule assms(2), rule refl)
      apply (rule run_deliver, rule assms(8), rule out, rule assms(2), simp add: assms(5,9))
     apply simp
    by (rule run_sync)
qed

lemma dtrmm_meets:
  assumes "\<And>n. succeeds (cuda_of (mem e)) Free n"
    and "triangular_options side uplo tro diag = Inr (left, upper, tr, un)"
    and "mat_nrow B = m" "mat_ncol B = n" "length (mat_data B) = m * n" "0 < m" "0 < n" "8 * (m * n) < 2 ^ 64"
    and "mat_nrow A = q" "mat_ncol A = q" "length (mat_data A) = q * q" "q = (if left then m else n)" "8 * (q * q) < 2 ^ 64"
    and "\<And>C. length C = m * n \<Longrightarrow>
      cublasDtrmm (lib e) left upper tr un (int m) (int n) alpha (mat_data A) (int q) (mat_data B) (int m) C (int m) = Some out"
    and "length out = m * n"
  shows "meets (running e ctx c {st, bh, sh, inf} k lv bl) (dtrmm_body e A B side uplo tro diag alpha)
     (leaves lv \<lparr>mat_nrow = m, mat_ncol = n, mat_data = out\<rparr>) never"
proof -
  have bytes: "matrix_bytes m n = 8 * (m * n)" "matrix_bytes q q = 8 * (q * q)"
    using assms(8,13) by (simp_all add: matrix_bytes_def mult.commute mult.left_commute)
  have pos: "0 < 8 * (q * q)" "0 < 8 * (m * n)" "0 < m * n" using assms(6,7,12) by simp_all
  show ?thesis
    unfolding dtrmm_body_def Let_def assms(3,4,9,10) bytes
    apply (rule meets_value_bind [OF run_vector])
    apply (rule meets_value_bind [OF run_vector])
    apply (rule meets_value_bind [OF run_context])
    apply (rule meets_value_bind [OF run_lift [OF assms(2)]])
    apply (simp only: prod.case)
    apply (rule meets_value_bind [OF run_triangular_size], rule assms(9), rule assms(10), simp only: assms(3,4,12))
    apply (rule run_scoped [OF assms(1) pos(1)])
    apply (rule run_scoped [OF assms(1) pos(2)])
    apply (rule run_scoped [OF assms(1) pos(2)])
    apply (rule meets_value_bind [OF run_stop], simp add: scoped_ok_def)
    apply (rule meets_value_bind [OF run_upload_all [where xs = "mat_data A"]], simp only: assms(11), rule pos(1), simp, simp, simp)
    apply (rule meets_value_bind [OF run_upload_all [where xs = "mat_data B"]], simp only: assms(5), rule pos(2), simp, simp, simp)
    apply (rule meets_value_bind [OF run_trmm [where A = "mat_data A" and B = "mat_data B" and out = out]])
               apply (simp, simp, simp, rule assms(11), rule assms(12), rule assms(5), assumption, rule assms(6), rule assms(7), rule assms(14), assumption, rule assms(15))
    apply (rule run_leave)
    by (rule run_download_matrix [where xs = out]) (use assms(15) pos(3) in simp_all)
qed

lemma dtrsm_meets:
  assumes "\<And>n. succeeds (cuda_of (mem e)) Free n"
    and "triangular_options side uplo tro diag = Inr (left, upper, tr, un)"
    and "mat_nrow B = m" "mat_ncol B = n" "length (mat_data B) = m * n" "0 < m" "0 < n" "8 * (m * n) < 2 ^ 64"
    and "mat_nrow A = q" "mat_ncol A = q" "length (mat_data A) = q * q" "q = (if left then m else n)" "8 * (q * q) < 2 ^ 64"
    and "cublasDtrsm (lib e) left upper tr un (int m) (int n) alpha (mat_data A) (int q) (mat_data B) (int m) = Some out"
    and "length out = m * n"
  shows "meets (running e ctx c {st, bh, sh, inf} k lv bl) (dtrsm_body e A B side uplo tro diag alpha)
     (leaves lv \<lparr>mat_nrow = m, mat_ncol = n, mat_data = out\<rparr>) never"
proof -
  have bytes: "matrix_bytes m n = 8 * (m * n)" "matrix_bytes q q = 8 * (q * q)"
    using assms(8,13) by (simp_all add: matrix_bytes_def mult.commute mult.left_commute)
  have pos: "0 < 8 * (q * q)" "0 < 8 * (m * n)" "0 < m * n" using assms(6,7,12) by simp_all
  show ?thesis
    unfolding dtrsm_body_def Let_def assms(3,4,9,10) bytes
    apply (rule meets_value_bind [OF run_vector])
    apply (rule meets_value_bind [OF run_vector])
    apply (rule meets_value_bind [OF run_context])
    apply (rule meets_value_bind [OF run_lift [OF assms(2)]])
    apply (simp only: prod.case)
    apply (rule meets_value_bind [OF run_triangular_size], rule assms(9), rule assms(10), simp only: assms(3,4,12))
    apply (rule run_scoped [OF assms(1) pos(1)])
    apply (rule run_scoped [OF assms(1) pos(2)])
    apply (rule meets_value_bind [OF run_stop], simp add: scoped_ok_def)
    apply (rule meets_value_bind [OF run_upload_all [where xs = "mat_data A"]], simp only: assms(11), rule pos(1), simp, simp, simp)
    apply (rule meets_value_bind [OF run_upload_all [where xs = "mat_data B"]], simp only: assms(5), rule pos(2), simp, simp, simp)
    apply (rule meets_value_bind [OF run_trsm [where A = "mat_data A" and B = "mat_data B" and out = out]])
             apply (simp, simp, rule assms(11), rule assms(12), rule assms(5), rule assms(6), rule assms(7), rule assms(14), rule assms(15))
    apply (rule run_leave)
    by (rule run_download_matrix [where xs = out]) (use assms(15) pos(3) in simp_all)
qed

section \<open>dsyrk\<close>

lemma run_syrk:
  assumes "bl pa = Some (vector_bytes A)" "bl pc = Some (vector_bytes C)"
    and "length A = n * q" "length C = n * n" "0 < n" "0 < q" "lda = (if tr then q else n)"
    and "cublasDsyrk (lib e) upper tr (int n) (int q) alpha A (int lda) beta C (int n) = Some out" "length out = n * n"
  shows "meets (running e ctx c {st, bh, sh, inf} k lv bl)
     (GpuBlasDsyrk e ctx upper tr (int n) (int q) alpha (Some pa) (int lda) beta (Some pc) (int n))
     (\<lambda>u s. running e ctx c {st, bh, sh, inf} k lv (bl(pc \<mapsto> vector_bytes out)) s \<and> u = ()) never"
proof -
  have sizes: "(if tr then extent (int lda) (int q) (int n) else extent (int lda) (int n) (int q)) = int (length A)"
    "extent (int n) (int n) (int n) = int (length C)"
    using square_extent [of n n] square_extent [of n q] square_extent [of q n] assms(3-7) by (simp_all add: mult.commute)
  have out: "out \<noteq> []" using assms(5,9) by auto
  show ?thesis
    unfolding GpuBlasDsyrk_def sizes
    apply (rule meets_value_bind [OF run_blas_handle])
    apply (rule meets_value_bind [OF run_blas])
      apply (rule meets_value_bind [OF run_read [where xs = A]], rule assms(1), rule refl)
      apply (rule meets_value_bind [OF run_read [where xs = C]], rule assms(2), rule refl)
      apply (rule run_deliver, rule assms(8), rule out, rule assms(2), simp add: assms(4,9))
     apply simp
    by (rule run_sync)
qed

lemma dsyrk_meets:
  assumes "\<And>n. succeeds (cuda_of (mem e)) Free n"
    and "rcompss_gpu_linalg_parse_upper uplo = Inr upper" "rcompss_gpu_linalg_parse_trans tro = Inr tr"
    and "mat_nrow A = r" "mat_ncol A = s" "n = (if tr then s else r)" "q = (if tr then r else s)"
    and "length (mat_data A) = n * q" "0 < n" "0 < q" "8 * (n * q) < 2 ^ 64" "8 * (n * n) < 2 ^ 64" "length C = n * n"
    and "if is_zero beta then C = replicate (n * n) 0 else C0 = Some (Inr \<lparr>mat_nrow = n, mat_ncol = n, mat_data = C\<rparr>)"
    and "cublasDsyrk (lib e) upper tr (int n) (int q) alpha (mat_data A) (int r) beta C (int n) = Some out" "length out = n * n"
  shows "meets (running e ctx c {st, bh, sh, inf} k lv bl) (dsyrk_body e A uplo tro alpha beta C0)
     (leaves lv \<lparr>mat_nrow = n, mat_ncol = n, mat_data = out\<rparr>) never"
proof -
  have bytes: "matrix_bytes r s = 8 * (n * q)" "matrix_bytes n n = 8 * (n * n)"
    using assms(6,7,11,12) by (simp_all add: matrix_bytes_def mult.commute mult.left_commute split: if_splits)
  have pos: "0 < 8 * (n * q)" "0 < 8 * (n * n)" "0 < n * n" using assms(9,10) by simp_all
  have ne: "\<not> (r = 0 \<or> s = 0)" and ld: "r = (if tr then q else n)" using assms(6,7,9,10) by (auto split: if_splits)
  show ?thesis
    unfolding dsyrk_body_def Let_def assms(4,5) assms(6,7) [symmetric] bytes
    apply (rule meets_value_bind [OF run_vector])
    apply (rule meets_value_bind [OF run_context])
    apply (rule meets_value_bind [OF run_lift [OF assms(2)]])
    apply (rule meets_value_bind [OF run_lift [OF assms(3)]])
    unfolding assms(6,7) [symmetric] bytes
    apply (rule meets_value_bind [OF run_stop], rule ne)
    apply (rule run_scoped [OF assms(1) pos(1)])
    apply (rule run_scoped [OF assms(1) pos(2)])
    apply (rule meets_value_bind [OF run_stop], simp add: scoped_ok_def)
    apply (rule meets_value_bind [OF run_upload_all [where xs = "mat_data A"]], simp only: assms(8), rule pos(1), simp, simp, simp)
    apply (rule meets_value_bind [OF run_prepare [where y = C and n = "n * n"]])
            apply (simp, assumption, rule pos(3), simp, simp, rule assms(13))
      apply (use assms(14) in simp)
     apply (use assms(14) in \<open>simp add: stop_if_def\<close>)
    unfolding prepared_def
    apply (rule run_some)
    apply (rule meets_value_bind [OF run_syrk [where A = "mat_data A" and C = C and out = out]])
             apply (simp, simp, rule assms(8), rule assms(13), rule assms(9), rule assms(10), rule ld, rule assms(15), rule assms(16))
    apply (rule run_leave)
    by (rule run_download_matrix [where xs = out]) (use assms(16) pos(3) in simp_all)
qed

end

section \<open>What cuBLAS documents for these routines\<close>

text \<open>
  An element of a triangular matrix or of its transpose: the library reads the stored triangle only
  and takes the number \<open>one\<close> for the diagonal when that is said to be unit.
\<close>

definition in_triangle :: "bool \<Rightarrow> bool \<Rightarrow> nat \<Rightarrow> nat \<Rightarrow> bool" where
  "in_triangle upper tr i l = (if tr then stored upper l i else stored upper i l)"

definition tri_value :: "u64 \<Rightarrow> bool \<Rightarrow> bool \<Rightarrow> u64 list \<Rightarrow> nat \<Rightarrow> nat \<Rightarrow> nat \<Rightarrow> u64" where
  "tri_value one un tr A ld i l = (if un \<and> i = l then one else operand tr A ld i l)"

definition triangle :: "u64 \<Rightarrow> bool \<Rightarrow> bool \<Rightarrow> bool \<Rightarrow> u64 list \<Rightarrow> nat \<Rightarrow> u64 list" where
  "triangle one upper un tr A q =
     map (\<lambda>x. if in_triangle upper tr (x mod q) (x div q) then tri_value one un tr A q (x mod q) (x div q) else 0) [0..<q * q]"

text \<open>The products that are summed for one element of the product of a triangular matrix with another.\<close>

definition tri_products :: "u64 \<Rightarrow> bool \<Rightarrow> bool \<Rightarrow> bool \<Rightarrow> bool \<Rightarrow> u64 list \<Rightarrow> nat \<Rightarrow> u64 list \<Rightarrow> nat \<Rightarrow> nat \<Rightarrow> nat \<Rightarrow> (u64 \<times> u64) list" where
  "tri_products one left upper un tr A q B ldb i j =
     (if left then map (\<lambda>l. (tri_value one un tr A q i l, B ! (j * ldb + l))) (filter (in_triangle upper tr i) [0..<q])
      else map (\<lambda>l. (B ! (l * ldb + i), tri_value one un tr A q l j)) (filter (\<lambda>l. in_triangle upper tr l j) [0..<q]))"

text \<open>
  \<open>combines alpha ps beta y v\<close>: \<open>v\<close> is an acceptable result for \<open>alpha\<close> times the sum of the
  products \<open>ps\<close> plus \<open>beta\<close> times \<open>y\<close>, where a zero \<open>beta\<close> means that \<open>y\<close> is not read;
  \<open>tri_solves left m n T alpha B X\<close>: \<open>X\<close> is an acceptable solution of \<open>T X = alpha B\<close>, or of
  \<open>X T = alpha B\<close>, with \<open>m\<close> rows and \<open>n\<close> columns.
\<close>

locale blas_products = blas_api +
  fixes one :: u64
    and combines :: "u64 \<Rightarrow> (u64 \<times> u64) list \<Rightarrow> u64 \<Rightarrow> u64 \<Rightarrow> u64 \<Rightarrow> bool"
    and tri_solves :: "bool \<Rightarrow> nat \<Rightarrow> nat \<Rightarrow> u64 list \<Rightarrow> u64 \<Rightarrow> u64 list \<Rightarrow> u64 list \<Rightarrow> bool"
  assumes combines_zero: "is_zero beta \<Longrightarrow> combines alpha ps beta z v \<Longrightarrow> rounds alpha ps v"
    and gemv: "0 < m \<Longrightarrow> 0 < n \<Longrightarrow> length A = m * n \<Longrightarrow> length x = (if tr then m else n) \<Longrightarrow> length y = (if tr then n else m) \<Longrightarrow>
      \<exists>out. cublasDgemv lib tr (int m) (int n) alpha A (int m) x beta y = Some out \<and> length out = length y \<and>
        (\<forall>i < length y. combines alpha (map (\<lambda>l. (operand tr A m i l, x ! l)) [0..<length x]) beta (y ! i) (out ! i))"
    and trmm: "0 < m \<Longrightarrow> 0 < n \<Longrightarrow> q = (if left then m else n) \<Longrightarrow> length A = q * q \<Longrightarrow> length B = m * n \<Longrightarrow>
      \<exists>out. length out = m * n \<and>
        (\<forall>C. length C = m * n \<longrightarrow>
          cublasDtrmm lib left upper tr un (int m) (int n) alpha A (int q) B (int m) C (int m) = Some out) \<and>
        (\<forall>i < m. \<forall>j < n. rounds alpha (tri_products one left upper un tr A q B m i j) (out ! (j * m + i)))"
    and trsm: "0 < m \<Longrightarrow> 0 < n \<Longrightarrow> q = (if left then m else n) \<Longrightarrow> length A = q * q \<Longrightarrow> length B = m * n \<Longrightarrow>
      \<exists>X. cublasDtrsm lib left upper tr un (int m) (int n) alpha A (int q) B (int m) = Some X \<and> length X = m * n \<and>
        tri_solves left m n (triangle one upper un tr A q) alpha B X"
    and syrk: "0 < n \<Longrightarrow> 0 < k \<Longrightarrow> length A = n * k \<Longrightarrow> lda = (if tr then k else n) \<Longrightarrow> length C = n * n \<Longrightarrow>
      \<exists>out. cublasDsyrk lib upper tr (int n) (int k) alpha A (int lda) beta C (int n) = Some out \<and> length out = n * n \<and>
        (\<forall>i < n. \<forall>j < n.
           if stored upper i j
           then combines alpha (map (\<lambda>l. (operand tr A lda i l, operand tr A lda j l)) [0..<k]) beta (C ! (j * n + i)) (out ! (j * n + i))
           else out ! (j * n + i) = C ! (j * n + i))"

section \<open>A library that meets it\<close>

definition ring_combines :: "u64 \<Rightarrow> (u64 \<times> u64) list \<Rightarrow> u64 \<Rightarrow> u64 \<Rightarrow> u64 \<Rightarrow> bool" where
  "ring_combines alpha ps beta y v \<longleftrightarrow> v = ring_dot alpha ps + (if is_zero beta then 0 else beta * y)"

definition ring_tri_solves :: "bool \<Rightarrow> nat \<Rightarrow> nat \<Rightarrow> u64 list \<Rightarrow> u64 \<Rightarrow> u64 list \<Rightarrow> u64 list \<Rightarrow> bool" where
  "ring_tri_solves left m n T alpha B X \<longleftrightarrow>
     (unit_diagonal (if left then m else n) T \<longrightarrow>
       (\<forall>i < m. \<forall>j < n.
          sum_list (if left then map (\<lambda>l. T ! (l * m + i) * X ! (j * m + l)) [0..<m]
                    else map (\<lambda>l. X ! (l * m + i) * T ! (j * n + l)) [0..<n]) = alpha * B ! (j * m + i)))"

definition ring_trsm :: "bool \<Rightarrow> nat \<Rightarrow> nat \<Rightarrow> u64 list \<Rightarrow> u64 \<Rightarrow> u64 list \<Rightarrow> u64 list" where
  "ring_trsm left m n T alpha B =
     map (\<lambda>x. (if left then T ! (x mod m * m + x mod m) else T ! (x div m * n + x div m)) * (alpha * B ! x)) [0..<m * n]"

lemma length_ring_trsm [simp]: "length (ring_trsm left m n T alpha B) = m * n"
  by (simp add: ring_trsm_def)

definition products_lib :: linalg_lib where
  "products_lib = reference_lib
     \<lparr>cublasDgemv := (\<lambda>tr m n alpha A lda x beta y.
        Some (map (\<lambda>i. ring_dot alpha (map (\<lambda>l. (operand tr A (nat lda) i l, x ! l)) [0..<length x]) +
          (if is_zero beta then 0 else beta * y ! i)) [0..<length y])),
      cublasDtrmm := (\<lambda>left upper tr un m n alpha A lda B ldb C ldc.
        Some (map (\<lambda>x. ring_dot alpha (tri_products 1 left upper un tr A (nat lda) B (nat ldb) (x mod nat m) (x div nat m)))
          [0..<nat m * nat n])),
      cublasDtrsm := (\<lambda>left upper tr un m n alpha A lda B ldb.
        Some (ring_trsm left (nat m) (nat n) (triangle 1 upper un tr A (nat lda)) alpha B)),
      cublasDsyrk := (\<lambda>upper tr n k alpha A lda beta C ldc.
        Some (map (\<lambda>x. if stored upper (x mod nat n) (x div nat n)
          then ring_dot alpha (map (\<lambda>l. (operand tr A (nat lda) (x mod nat n) l, operand tr A (nat lda) (x div nat n) l)) [0..<nat k]) +
            (if is_zero beta then 0 else beta * C ! x)
          else C ! x) [0..<nat n * nat n]))\<rparr>"

lemma products_blas_api: "blas_api products_lib (\<lambda>alpha ps v. v = ring_dot alpha ps) ring_solves"
  using reference.blas_api_axioms by (simp add: blas_api_def products_lib_def)

lemma ring_trsm_solves: "ring_tri_solves left m n T alpha B (ring_trsm left m n T alpha B)"
  unfolding ring_tri_solves_def
proof (intro impI allI)
  fix i j assume unit: "unit_diagonal (if left then m else n) T" and ij: "i < m" "j < n"
  have X: "ring_trsm left m n T alpha B ! (c * m + r) = (if left then T ! (r * m + r) else T ! (c * n + c)) * (alpha * B ! (c * m + r))"
    if "r < m" "c < n" for r c
    using that index_bound [OF that] by (simp add: ring_trsm_def)
  have sq: "T ! (d * q + d) * (T ! (d * q + d) * z) = z" if "unit_diagonal q T" "d < q" for d q z
  proof -
    have "T ! (d * q + d) \<in> {1, - 1}" using that unfolding unit_diagonal_def by metis
    then show ?thesis by auto
  qed
  show "sum_list (if left then map (\<lambda>l. T ! (l * m + i) * ring_trsm left m n T alpha B ! (j * m + l)) [0..<m]
      else map (\<lambda>l. ring_trsm left m n T alpha B ! (l * m + i) * T ! (j * n + l)) [0..<n]) = alpha * B ! (j * m + i)"
  proof (cases left)
    case True
    have "sum_list (map (\<lambda>l. T ! (l * m + i) * ring_trsm left m n T alpha B ! (j * m + l)) [0..<m])
        = T ! (i * m + i) * ring_trsm left m n T alpha B ! (j * m + i)"
      by (rule sum_list_single) (use unit True ij in \<open>auto simp: unit_diagonal_def split: if_splits\<close>)
    with True X [OF ij] sq [of m i] unit ij show ?thesis by simp
  next
    case False
    have "sum_list (map (\<lambda>l. ring_trsm left m n T alpha B ! (l * m + i) * T ! (j * n + l)) [0..<n])
        = ring_trsm left m n T alpha B ! (j * m + i) * T ! (j * n + j)"
      by (rule sum_list_single) (use unit False ij in \<open>auto simp: unit_diagonal_def split: if_splits\<close>)
    with False X [OF ij] sq [of n j] unit ij show ?thesis by (simp add: mult.commute mult.left_commute)
  qed
qed

interpretation products: blas_products products_lib "\<lambda>alpha ps v. v = ring_dot alpha ps" ring_solves 1 ring_combines ring_tri_solves
proof (intro blas_products.intro products_blas_api, unfold_locales)
  fix beta alpha ps z v assume "is_zero beta" "ring_combines alpha ps beta z v"
  then show "v = ring_dot alpha ps" by (simp add: ring_combines_def)
next
  fix m n :: nat and A x y :: "u64 list" and tr alpha beta
  assume "length y = (if tr then n else m)"
  show "\<exists>out. cublasDgemv products_lib tr (int m) (int n) alpha A (int m) x beta y = Some out \<and> length out = length y \<and>
      (\<forall>i < length y. ring_combines alpha (map (\<lambda>l. (operand tr A m i l, x ! l)) [0..<length x]) beta (y ! i) (out ! i))"
    by (simp add: products_lib_def ring_combines_def)
next
  fix m n q :: nat and left upper tr un alpha and A B :: "u64 list"
  assume "0 < m"
  then show "\<exists>out. length out = m * n \<and>
      (\<forall>C. length C = m * n \<longrightarrow>
        cublasDtrmm products_lib left upper tr un (int m) (int n) alpha A (int q) B (int m) C (int m) = Some out) \<and>
      (\<forall>i < m. \<forall>j < n. out ! (j * m + i) = ring_dot alpha (tri_products 1 left upper un tr A q B m i j))"
    by (intro exI [of _ "map (\<lambda>x. ring_dot alpha (tri_products 1 left upper un tr A q B m (x mod m) (x div m))) [0..<m * n]"])
       (simp add: products_lib_def index_bound)
next
  fix m n q :: nat and left upper tr un alpha and A B :: "u64 list"
  show "\<exists>X. cublasDtrsm products_lib left upper tr un (int m) (int n) alpha A (int q) B (int m) = Some X \<and> length X = m * n \<and>
      ring_tri_solves left m n (triangle 1 upper un tr A q) alpha B X"
    using ring_trsm_solves by (simp add: products_lib_def)
next
  fix n k lda :: nat and A C :: "u64 list" and upper tr alpha beta
  assume "0 < n"
  then show "\<exists>out. cublasDsyrk products_lib upper tr (int n) (int k) alpha A (int lda) beta C (int n) = Some out \<and> length out = n * n \<and>
      (\<forall>i < n. \<forall>j < n.
         if stored upper i j
         then ring_combines alpha (map (\<lambda>l. (operand tr A lda i l, operand tr A lda j l)) [0..<k]) beta (C ! (j * n + i)) (out ! (j * n + i))
         else out ! (j * n + i) = C ! (j * n + i))"
    by (simp add: products_lib_def ring_combines_def index_bound)
qed

lemma products_api:
  "blas_products (lib (flawless products_lib)) (\<lambda>alpha ps v. v = ring_dot alpha ps) ring_solves 1 ring_combines ring_tri_solves"
  using products.blas_products_axioms by (simp add: flawless_def)

section \<open>The matrix-vector product\<close>

text \<open>
  C37. On a working device \<^verbatim>\<open>rcompss_gpu_dgemv\<close> returns \<open>alpha\<close> times the matrix, transposed if asked,
  times the vector plus \<open>beta\<close> times the third argument, element by element; with a zero \<open>beta\<close> the
  third argument plays no role. Every buffer is released and the device stays usable.
\<close>

theorem gpu_gemv_correct:
  assumes "blas_products (lib e) rounds solves one combines tri_solves" "working e s" "is_matrix A"
    and "0 < mat_nrow A" "0 < mat_ncol A" "mat_nrow A < 2 ^ 30" "mat_ncol A < 2 ^ 30"
    and "length x = op_ncol tr A" "length y = op_nrow tr A"
    and "if is_zero beta then y = replicate (length y) 0 else y0 = Some (Inr y)"
  shows "\<exists>r s'. rcompss_gpu_dgemv e A x tr alpha beta y0 s = (Inr r, s') \<and> length r = op_nrow tr A \<and>
     (\<forall>i < length r.
        combines alpha (map (\<lambda>l. (op_entry tr A i l, x ! l)) [0..<length x]) beta (y ! i) (r ! i) \<and>
        (is_zero beta \<longrightarrow> rounds alpha (map (\<lambda>l. (op_entry tr A i l, x ! l)) [0..<length x]) (r ! i))) \<and>
     working e s' \<and> live (device s') = live (device s)"
proof -
  let ?m = "mat_nrow A" and ?n = "mat_ncol A"
  have data: "length (mat_data A) = ?m * ?n" using assms(3) by (simp add: is_matrix_def)
  have lens: "length x = (if tr then ?m else ?n)" "length y = (if tr then ?n else ?m)"
    using assms(8,9) by (simp_all add: op_nrow_def op_ncol_def)
  obtain out where call: "cublasDgemv (lib e) tr (int ?m) (int ?n) alpha (mat_data A) (int ?m) x beta y = Some out" "length out = length y"
    and val: "\<forall>i < length y. combines alpha (map (\<lambda>l. (op_entry tr A i l, x ! l)) [0..<length x]) beta (y ! i) (out ! i)"
    using blas_products.gemv [OF assms(1,4,5) data lens, of alpha beta] unfolding operand_op_entry by blast
  have free: "succeeds (cuda_of (mem e)) Free i" for i using assms(2) by (simp add: gpu_works_def)
  have "\<exists>s'. rcompss_gpu_dgemv e A x tr alpha beta y0 s = (Inr out, s') \<and> working e s' \<and> live (device s') = live (device s)"
    unfolding rcompss_gpu_dgemv_def
    by (intro export_total [OF assms(2)] linalg_session.dgemv_meets [OF _ free refl refl data lens(1) assms(4-7)
        eight_times_small [OF assms(6,7)] lens(2) assms(10) call])
  then obtain s' where run: "rcompss_gpu_dgemv e A x tr alpha beta y0 s = (Inr out, s')" "working e s'" "live (device s') = live (device s)"
    by blast
  have "rounds alpha (map (\<lambda>l. (op_entry tr A i l, x ! l)) [0..<length x]) (out ! i)" if "i < length y" "is_zero beta" for i
    using blas_products.combines_zero [OF assms(1) that(2)] val that(1) by blast
  with run val call(2) assms(9) show ?thesis by (intro exI [of _ out] exI [of _ s'] conjI allI impI) auto
qed

theorem gpu_gemv_correct_witness:
  "\<exists>r s'. rcompss_gpu_dgemv (flawless products_lib) \<lparr>mat_nrow = 2, mat_ncol = 1, mat_data = [3, 4]\<rparr> [10, 20] True 2 5 (Some (Inr [7]))
      linalg_state = (Inr r, s') \<and> length r = 1 \<and> r ! 0 = 2 * (3 * 10 + 4 * 20) + 5 * 7"
proof -
  show ?thesis
    using gpu_gemv_correct [OF products_api linalg_state_works, of "\<lparr>mat_nrow = 2, mat_ncol = 1, mat_data = [3, 4]\<rparr>" "[10, 20]" True
        "[7]" 5 "Some (Inr [7])" 2]
    by (fastforce simp: is_matrix_def op_nrow_def op_ncol_def op_entry_def entry_def is_zero_def ring_combines_def ring_dot_def upt_rec)
qed

section \<open>Triangular matrices\<close>

definition tri_entry :: "u64 \<Rightarrow> bool \<Rightarrow> bool \<Rightarrow> num_matrix \<Rightarrow> nat \<Rightarrow> nat \<Rightarrow> u64" where
  "tri_entry one un tr A i l = (if un \<and> i = l then one else op_entry tr A i l)"

definition element_products :: "u64 \<Rightarrow> bool \<Rightarrow> bool \<Rightarrow> bool \<Rightarrow> bool \<Rightarrow> num_matrix \<Rightarrow> num_matrix \<Rightarrow> nat \<Rightarrow> nat \<Rightarrow> (u64 \<times> u64) list" where
  "element_products one left upper un tr A B i j =
     (if left then map (\<lambda>l. (tri_entry one un tr A i l, entry B l j)) (filter (in_triangle upper tr i) [0..<mat_nrow B])
      else map (\<lambda>l. (entry B i l, tri_entry one un tr A l j)) (filter (\<lambda>l. in_triangle upper tr l j) [0..<mat_ncol B]))"

lemma tri_products_matrix:
  "q = mat_nrow A \<Longrightarrow> q = (if left then mat_nrow B else mat_ncol B) \<Longrightarrow>
     tri_products one left upper un tr (mat_data A) q (mat_data B) (mat_nrow B) i j = element_products one left upper un tr A B i j"
  by (cases left) (auto simp: tri_products_def element_products_def tri_value_def tri_entry_def operand_op_entry entry_def)

text \<open>
  C38. For every spelling of the options that the exports accept, \<^verbatim>\<open>rcompss_gpu_dtrmm\<close> returns
  \<open>alpha\<close> times the product of the triangular matrix, or its transpose, with the other one, on the
  side asked for, reading only the stored triangle; \<^verbatim>\<open>rcompss_gpu_dtrsm\<close> returns the solution of the
  triangular system with the same options. Both release every buffer.
\<close>

theorem gpu_triangular_correct:
  assumes "blas_products (lib e) rounds solves one combines tri_solves" "working e s" "is_matrix A" "is_matrix B"
    and "triangular_options side uplo tro diag = Inr (left, upper, tr, un)"
    and "mat_nrow A = q" "mat_ncol A = q" "q = (if left then mat_nrow B else mat_ncol B)"
    and "0 < mat_nrow B" "0 < mat_ncol B" "mat_nrow B < 2 ^ 30" "mat_ncol B < 2 ^ 30"
  shows "(\<exists>M s'. rcompss_gpu_dtrmm e A B side uplo tro diag alpha s = (Inr M, s') \<and>
       is_matrix M \<and> mat_nrow M = mat_nrow B \<and> mat_ncol M = mat_ncol B \<and>
       (\<forall>i < mat_nrow M. \<forall>j < mat_ncol M. rounds alpha (element_products one left upper un tr A B i j) (entry M i j)) \<and>
       working e s' \<and> live (device s') = live (device s)) \<and>
     (\<exists>X s'. rcompss_gpu_dtrsm e A B side uplo tro diag alpha s = (Inr X, s') \<and>
       is_matrix X \<and> mat_nrow X = mat_nrow B \<and> mat_ncol X = mat_ncol B \<and>
       tri_solves left (mat_nrow B) (mat_ncol B) (triangle one upper un tr (mat_data A) q) alpha (mat_data B) (mat_data X) \<and>
       working e s' \<and> live (device s') = live (device s))"
proof -
  let ?m = "mat_nrow B" and ?n = "mat_ncol B"
  have data: "length (mat_data A) = q * q" "length (mat_data B) = ?m * ?n" using assms(3,4,6,7) by (simp_all add: is_matrix_def)
  have q: "q < 2 ^ 30" using assms(8,11,12) by simp
  obtain out where len: "length out = ?m * ?n"
    and call: "\<And>C. length C = ?m * ?n \<Longrightarrow> cublasDtrmm (lib e) left upper tr un (int ?m) (int ?n) alpha (mat_data A) (int q)
        (mat_data B) (int ?m) C (int ?m) = Some out"
    and val: "\<And>i j. i < ?m \<Longrightarrow> j < ?n \<Longrightarrow> rounds alpha (element_products one left upper un tr A B i j) (out ! (j * ?m + i))"
    using blas_products.trmm [OF assms(1,9,10,8) data, of upper tr un alpha] unfolding tri_products_matrix [OF assms(6) [symmetric] assms(8)] by blast
  obtain X where sol: "cublasDtrsm (lib e) left upper tr un (int ?m) (int ?n) alpha (mat_data A) (int q) (mat_data B) (int ?m) = Some X"
      "length X = ?m * ?n" "tri_solves left ?m ?n (triangle one upper un tr (mat_data A) q) alpha (mat_data B) X"
    using blas_products.trsm [OF assms(1,9,10,8) data, of upper tr un alpha] by blast
  have free: "succeeds (cuda_of (mem e)) Free i" for i using assms(2) by (simp add: gpu_works_def)
  note small = eight_times_small [OF assms(11,12)] and sq = eight_times_small [OF q q]
  have "\<exists>s'. rcompss_gpu_dtrmm e A B side uplo tro diag alpha s = (Inr \<lparr>mat_nrow = ?m, mat_ncol = ?n, mat_data = out\<rparr>, s') \<and>
      working e s' \<and> live (device s') = live (device s)"
    unfolding rcompss_gpu_dtrmm_def
    by (intro export_total [OF assms(2)] linalg_session.dtrmm_meets [OF _ free assms(5) refl refl data(2) assms(9,10) small
        assms(6,7) data(1) assms(8) sq call len])
  moreover have "\<exists>s'. rcompss_gpu_dtrsm e A B side uplo tro diag alpha s = (Inr \<lparr>mat_nrow = ?m, mat_ncol = ?n, mat_data = X\<rparr>, s') \<and>
      working e s' \<and> live (device s') = live (device s)"
    unfolding rcompss_gpu_dtrsm_def
    by (intro export_total [OF assms(2)] linalg_session.dtrsm_meets [OF _ free assms(5) refl refl data(2) assms(9,10) small
        assms(6,7) data(1) assms(8) sq sol(1,2)])
  ultimately show ?thesis using len val sol(2,3) by (fastforce simp: is_matrix_def entry_def)
qed

theorem gpu_triangular_correct_witness:
  "(\<exists>M s'. rcompss_gpu_dtrmm (flawless products_lib) \<lparr>mat_nrow = 2, mat_ncol = 2, mat_data = [3, 77, 4, 5]\<rparr>
      \<lparr>mat_nrow = 2, mat_ncol = 1, mat_data = [10, 20]\<rparr> ''Left'' ''upper'' ''n'' ''non'' 2 linalg_state = (Inr M, s') \<and>
      entry M 0 0 = 2 * (3 * 10 + 4 * 20) \<and> entry M 1 0 = 2 * (5 * 20)) \<and>
   (\<exists>X s'. rcompss_gpu_dtrsm (flawless products_lib) \<lparr>mat_nrow = 2, mat_ncol = 2, mat_data = [3, 77, 4, 5]\<rparr>
      \<lparr>mat_nrow = 2, mat_ncol = 1, mat_data = [10, 20]\<rparr> ''Left'' ''upper'' ''n'' ''non'' 2 linalg_state = (Inr X, s') \<and> mat_nrow X = 2)"
proof -
  have "triangular_options ''Left'' ''upper'' ''n'' ''non'' = Inr (True, True, False, False)" by code_simp
  note * = gpu_triangular_correct [OF products_api linalg_state_works _ _ this, of "\<lparr>mat_nrow = 2, mat_ncol = 2, mat_data = [3, 77, 4, 5]\<rparr>"
      "\<lparr>mat_nrow = 2, mat_ncol = 1, mat_data = [10, 20]\<rparr>" 2 2]
  show ?thesis
    using * by (fastforce simp: is_matrix_def op_entry_def entry_def tri_entry_def element_products_def in_triangle_def stored_def ring_dot_def upt_rec)
qed

section \<open>The symmetric update\<close>

text \<open>
  C39. \<^verbatim>\<open>rcompss_gpu_dsyrk\<close> returns a square matrix whose triangle asked for holds \<open>alpha\<close> times the
  product of the matrix, or its transpose, with its own transpose plus \<open>beta\<close> times the last
  argument. The elements outside this triangle are those of the last argument, and zeros when
  \<open>beta\<close> is zero: the result is not the symmetric matrix itself.
\<close>

theorem gpu_syrk_correct:
  assumes "blas_products (lib e) rounds solves one combines tri_solves" "working e s" "is_matrix A"
    and "rcompss_gpu_linalg_parse_upper uplo = Inr upper" "rcompss_gpu_linalg_parse_trans tro = Inr tr"
    and "0 < mat_nrow A" "0 < mat_ncol A" "mat_nrow A < 2 ^ 30" "mat_ncol A < 2 ^ 30"
    and "n = op_nrow tr A" "length C = n * n"
    and "if is_zero beta then C = replicate (n * n) 0 else C0 = Some (Inr \<lparr>mat_nrow = n, mat_ncol = n, mat_data = C\<rparr>)"
  shows "\<exists>M s'. rcompss_gpu_dsyrk e A uplo tro alpha beta C0 s = (Inr M, s') \<and> is_matrix M \<and> mat_nrow M = n \<and> mat_ncol M = n \<and>
     (\<forall>i < n. \<forall>j < n.
        if stored upper i j
        then combines alpha (map (\<lambda>l. (op_entry tr A i l, op_entry tr A j l)) [0..<op_ncol tr A]) beta (C ! (j * n + i)) (entry M i j)
        else entry M i j = (if is_zero beta then 0 else C ! (j * n + i))) \<and>
     working e s' \<and> live (device s') = live (device s)"
proof -
  let ?q = "op_ncol tr A"
  have shape: "n = (if tr then mat_ncol A else mat_nrow A)" "?q = (if tr then mat_nrow A else mat_ncol A)" "mat_nrow A = (if tr then ?q else n)"
    using assms(10) by (simp_all add: op_nrow_def op_ncol_def)
  have data: "length (mat_data A) = n * ?q"
    using assms(3,10) by (cases tr) (simp_all add: is_matrix_def op_nrow_def op_ncol_def mult.commute)
  have pos: "0 < n" "0 < ?q" "n < 2 ^ 30" "?q < 2 ^ 30"
    using assms(6-10) by (cases tr; simp add: op_nrow_def op_ncol_def)+
  obtain out where call: "cublasDsyrk (lib e) upper tr (int n) (int ?q) alpha (mat_data A) (int (mat_nrow A)) beta C (int n) = Some out"
      "length out = n * n"
    and val: "\<And>i j. i < n \<Longrightarrow> j < n \<Longrightarrow>
        if stored upper i j
        then combines alpha (map (\<lambda>l. (op_entry tr A i l, op_entry tr A j l)) [0..<?q]) beta (C ! (j * n + i)) (out ! (j * n + i))
        else out ! (j * n + i) = C ! (j * n + i)"
    using blas_products.syrk [OF assms(1) pos(1,2) data shape(3) assms(11), of upper alpha beta] unfolding operand_op_entry by blast
  have free: "succeeds (cuda_of (mem e)) Free i" for i using assms(2) by (simp add: gpu_works_def)
  have "\<exists>s'. rcompss_gpu_dsyrk e A uplo tro alpha beta C0 s = (Inr \<lparr>mat_nrow = n, mat_ncol = n, mat_data = out\<rparr>, s') \<and>
      working e s' \<and> live (device s') = live (device s)"
    unfolding rcompss_gpu_dsyrk_def
    by (intro export_total [OF assms(2)] linalg_session.dsyrk_meets [OF _ free assms(4,5) refl refl shape(1,2) data pos(1,2)
        eight_times_small [OF pos(3,4)] eight_times_small [OF pos(3,3)] assms(11,12) call])
  then obtain s' where run: "rcompss_gpu_dsyrk e A uplo tro alpha beta C0 s = (Inr \<lparr>mat_nrow = n, mat_ncol = n, mat_data = out\<rparr>, s')"
      "working e s'" "live (device s') = live (device s)" by blast
  have "C ! (j * n + i) = 0" if "is_zero beta" "i < n" "j < n" for i j
    using assms(12) that index_bound [OF that(2,3)] by simp
  with val have "if stored upper i j
        then combines alpha (map (\<lambda>l. (op_entry tr A i l, op_entry tr A j l)) [0..<?q]) beta (C ! (j * n + i)) (out ! (j * n + i))
        else out ! (j * n + i) = (if is_zero beta then 0 else C ! (j * n + i))" if "i < n" "j < n" for i j
    using that by (auto split: if_splits)
  with run call(2) show ?thesis
    by (intro exI [of _ "\<lparr>mat_nrow = n, mat_ncol = n, mat_data = out\<rparr>"] exI [of _ s'])
       (simp add: is_matrix_def entry_def)
qed

theorem gpu_syrk_correct_witness:
  "\<exists>M s'. rcompss_gpu_dsyrk (flawless products_lib) \<lparr>mat_nrow = 2, mat_ncol = 1, mat_data = [3, 4]\<rparr> ''U'' ''N'' 1 0 None linalg_state =
      (Inr M, s') \<and> entry M 0 1 = 3 * 4 \<and> entry M 1 0 = 0"
proof -
  have opts: "rcompss_gpu_linalg_parse_upper ''U'' = Inr True" "rcompss_gpu_linalg_parse_trans ''N'' = Inr False" by code_simp+
  let ?A = "\<lparr>mat_nrow = 2, mat_ncol = 1, mat_data = [3, 4]\<rparr>"
  have shape: "is_matrix ?A" "0 < mat_nrow ?A" "0 < mat_ncol ?A" "mat_nrow ?A < 2 ^ 30" "mat_ncol ?A < 2 ^ 30" "2 = op_nrow False ?A"
    by (simp_all add: is_matrix_def op_nrow_def)
  have C: "length (replicate (2 * 2) 0 :: u64 list) = 2 * 2"
    "if is_zero 0 then replicate (2 * 2) 0 = replicate (2 * 2) (0 :: u64)
     else None = Some (Inr \<lparr>mat_nrow = 2, mat_ncol = 2, mat_data = replicate (2 * 2) 0\<rparr>)"
    by (simp_all add: is_zero_def)
  obtain M s' where run: "rcompss_gpu_dsyrk (flawless products_lib) ?A ''U'' ''N'' 1 0 None linalg_state = (Inr M, s')"
    and val: "\<forall>i < 2. \<forall>j < 2.
         if stored True i j
         then ring_combines 1 (map (\<lambda>l. (op_entry False ?A i l, op_entry False ?A j l)) [0..<op_ncol False ?A]) 0
           (replicate (2 * 2) 0 ! (j * 2 + i)) (entry M i j)
         else entry M i j = (if is_zero 0 then 0 else replicate (2 * 2) 0 ! (j * 2 + i))"
    using gpu_syrk_correct [OF products_api linalg_state_works shape(1) opts shape(2-6) C, of 1] by (elim exE conjE)
  have "entry M 0 1 = 3 * 4" "entry M 1 0 = 0"
    using val [rule_format, of 0 1] val [rule_format, of 1 0]
    by (simp_all add: stored_def ring_combines_def ring_dot_def op_entry_def op_ncol_def entry_def is_zero_def)
  with run show ?thesis by (intro exI conjI)
qed

end
