(* ===== verification/Rcpp_Args.thy ===== *)
theory Rcpp_Args
  imports Rcpp_Api Task_Shipping Gpu_Linalg_Products
begin

text \<open>
  The boundary between R and the exports, as \<^verbatim>\<open>src/src/RcppExports.cpp\<close> uses it: the conversion of
  each argument from an R object, of the result to one, and \<^verbatim>\<open>END_RCPP\<close>, which turns C++ exceptions
  into R errors. Rcpp is not part of the sources: its conversions are the fields of \<open>rcpp_args\<close>, the
  locale \<open>rcpp_values\<close> states the documented ones, \<open>reference_args\<close> meets them.
\<close>

section \<open>Arguments\<close>

text \<open>
  \<open>as_numeric\<close>, \<open>as_matrix\<close>, \<open>as_integers\<close> and \<open>as_list\<close> are \<^verbatim>\<open>Rcpp::as\<close> at \<^verbatim>\<open>NumericVector\<close>,
  \<^verbatim>\<open>NumericMatrix\<close>, \<^verbatim>\<open>IntegerVector\<close> and \<^verbatim>\<open>List\<close>. External pointers are R objects of their own:
  \<open>as_handle\<close> says which buffer one stands for, \<open>handle_object\<close> makes one.
\<close>

record rcpp_args = rcpp +
  as_long :: "sexp \<Rightarrow> int res"
  as_unsigned :: "sexp \<Rightarrow> u32 res"
  as_numeric :: "sexp \<Rightarrow> u64 list res"
  as_matrix :: "sexp \<Rightarrow> num_matrix res"
  as_integers :: "sexp \<Rightarrow> int list res"
  as_list :: "sexp \<Rightarrow> sexp res"
  as_handle :: "sexp \<Rightarrow> gpu_handle"
  handle_object :: "gpu_handle \<Rightarrow> sexp"

text \<open>\<^verbatim>\<open>Rcpp::Nullable\<close>: the conversion of an object that is not \<^verbatim>\<open>NULL\<close> is left to the function.\<close>

definition nullable :: "(sexp \<Rightarrow> 'a res) \<Rightarrow> sexp \<Rightarrow> 'a res option" where
  "nullable convert x = (if x = NILSXP then None else Some (convert x))"

text \<open>
  A right-hand side is an \<^verbatim>\<open>Rcpp::RObject\<close>; the solvers look at its dimensions with \<^verbatim>\<open>Rf_isMatrix\<close>
  and convert it to a matrix or to a vector.
\<close>

definition Rf_isMatrix :: "sexp \<Rightarrow> bool" where
  "Rf_isMatrix x = (case Rf_getAttrib x ''dim'' of INTSXP ds _ \<Rightarrow> length ds = 2 | _ \<Rightarrow> False)"

definition right_side_of :: "rcpp_args \<Rightarrow> sexp \<Rightarrow> right_side" where
  "right_side_of r B =
     (if Rf_isMatrix B
      then (case as_matrix r B of Inl x \<Rightarrow> Not_numeric (what x) | Inr M \<Rightarrow> Matrix_side M)
      else (case as_numeric r B of Inl x \<Rightarrow> Not_numeric (what x) | Inr v \<Rightarrow> Vector_side v))"

section \<open>Results\<close>

definition wrap_numeric :: "u64 list \<Rightarrow> sexp" where
  "wrap_numeric xs = REALSXP xs []"

definition wrap_double :: "u64 \<Rightarrow> sexp" where
  "wrap_double d = REALSXP [d] []"

definition wrap_bool :: "bool \<Rightarrow> sexp" where
  "wrap_bool b = r_bool (if b then 1 else 0)"

definition wrap_integers :: "int list \<Rightarrow> sexp" where
  "wrap_integers is = INTSXP (map word_of_int is) []"

definition wrap_matrix :: "num_matrix \<Rightarrow> sexp" where
  "wrap_matrix M = REALSXP (mat_data M) [(''dim'', INTSXP [of_nat (mat_nrow M), of_nat (mat_ncol M)] [])]"

text \<open>The elements of a list with their names, and R's \<^verbatim>\<open>x$name\<close> for a name that is spelled in full.\<close>

definition list_fields :: "sexp \<Rightarrow> (string \<times> sexp) list" where
  "list_fields x =
     (case (x, Rf_getAttrib x ''names'') of
        (VECSXP xs _, STRSXP ns _) \<Rightarrow> zip (map c_string ns) xs
      | _ \<Rightarrow> [])"

definition dollar_name :: "sexp \<Rightarrow> string \<Rightarrow> sexp" where
  "dollar_name x k = (case alist_get (list_fields x) k of None \<Rightarrow> NILSXP | Some v \<Rightarrow> v)"

lemma list_fields_named: "list_fields (named_list kvs) = kvs"
proof -
  have names: "map (c_string \<circ> (\<lambda>kv. CHARSXP CE_NATIVE (string_bytes (fst kv)))) kvs = map fst kvs" by simp
  show ?thesis
    using zip_map_fst_snd [of kvs] by (simp add: list_fields_def named_list_def Rf_getAttrib_def names del: c_string.simps)
qed

text \<open>The lists the exports return, with their names.\<close>

definition lu_list :: "lu_factors \<Rightarrow> sexp" where
  "lu_list f = named_list [(''LU'', wrap_matrix (lu_matrix f)), (''pivot'', wrap_integers (lu_pivot f)), (''info'', r_int (lu_info f))]"

definition metadata_list :: "int list \<times> int list \<times> string list \<times> string list \<times> int list \<times> int \<Rightarrow> sexp" where
  "metadata_list md =
     (case md of (directions, streams, prefixes, ws, renames, n) \<Rightarrow>
        named_list
          [(''compss_directions'', wrap_integers directions), (''compss_streams'', wrap_integers streams),
           (''compss_prefixes'', r_strings prefixes), (''weights'', r_strings ws), (''keep_renames'', wrap_integers renames),
           (''num_returns'', r_int n)])"

definition task_result_list :: "TaskExecutionResult \<Rightarrow> sexp" where
  "task_result_list result =
     named_list
       [(''processed_arguments'', processed_arguments result),
        (''arguments_names'', r_strings (arguments_names result)),
        (''arguments_type'', wrap_integers (arguments_type result)),
        (''content_types'', r_strings (content_types result)),
        (''compss_directions'', wrap_integers (compss_directions result)),
        (''compss_streams'', wrap_integers (compss_streams result)),
        (''compss_prefixes'', r_strings (compss_prefixes result)),
        (''weights'', r_strings (weights result)),
        (''keep_renames'', wrap_integers (keep_renames result)),
        (''num_returns'', r_int (num_returns result)),
        (''return_value_filename'', r_string (return_value_filename result)),
        (''return_value_name'', r_string (return_value_name result)),
        (''register_marker'', r_string (register_marker result)),
        (''type_args_path'', r_string (type_args_path result)),
        (''success'', wrap_bool (success result)),
        (''error_message'', r_string (error_message result))]"

section \<open>BEGIN_RCPP and END_RCPP\<close>

fun condition_message :: "exn \<Rightarrow> string" where
  "condition_message Foreign_exception = ''c++ exception (unknown reason)''"
| "condition_message x = what x"

definition END_RCPP :: "('s, sexp) st \<Rightarrow> ('s, sexp) st" where
  "END_RCPP m =
     (\<lambda>s. case m s of
        (Inl x, s') \<Rightarrow> (Inl (if catchable x then R_error (condition_message x) else x), s')
      | (Inr v, s') \<Rightarrow> (Inr v, s'))"

definition contained :: "('s, sexp) st \<Rightarrow> bool" where
  "contained m \<longleftrightarrow> (\<forall>s x s'. m s = (Inl x, s') \<longrightarrow> \<not> catchable x)"

lemma contained_END_RCPP: "contained (END_RCPP m)"
  by (auto simp: contained_def END_RCPP_def split: prod.splits sum.splits if_splits)

lemma END_RCPP_Inr: "m s = (Inr v, s') \<Longrightarrow> END_RCPP m s = (Inr v, s')"
  by (simp add: END_RCPP_def)

lemma END_RCPP_Inl: "m s = (Inl x, s') \<Longrightarrow> catchable x \<Longrightarrow> END_RCPP m s = (Inl (R_error (condition_message x)), s')"
  by (simp add: END_RCPP_def)

section \<open>What Rcpp documents\<close>

locale rcpp_values =
  fixes r :: rcpp_args
  assumes string_scalar: "as_string r (r_string t) = Inr t"
    and bool_scalar: "as_bool r (wrap_bool b) = Inr b"
    and double_scalar: "as_double r (wrap_double d) = Inr d"
    and int_scalar: "in_int_range i \<Longrightarrow> as_int r (r_int i) = Inr i"
    and numeric: "as_numeric r (REALSXP xs a) = Inr xs"
    and matrix: "is_matrix M \<Longrightarrow> mat_nrow M < 2 ^ 31 \<Longrightarrow> mat_ncol M < 2 ^ 31 \<Longrightarrow> as_matrix r (wrap_matrix M) = Inr M"
    and integers: "\<forall>i \<in> set is. in_int_range i \<Longrightarrow> as_integers r (wrap_integers is) = Inr is"
    and long_scalar: "in_int_range i \<Longrightarrow> as_long r (r_int i) = Inr i"
    and character: "strings_of r (r_strings ss) = Inr (map Some ss)"
    and elements: "list_elements r (VECSXP ys a) = Inr ys"
    and listed: "as_list r (VECSXP ys a) = Inr (VECSXP ys a)"
begin

text \<open>A matrix that an export returned is an argument for the next.\<close>

lemma matrix_right_side:
  "is_matrix M \<Longrightarrow> mat_nrow M < 2 ^ 31 \<Longrightarrow> mat_ncol M < 2 ^ 31 \<Longrightarrow> right_side_of r (wrap_matrix M) = Matrix_side M"
  using matrix [of M] by (simp add: right_side_of_def Rf_isMatrix_def Rf_getAttrib_def wrap_matrix_def)

lemma vector_right_side: "right_side_of r (wrap_numeric xs) = Vector_side xs"
  using numeric [of xs] by (simp add: right_side_of_def Rf_isMatrix_def Rf_getAttrib_def wrap_numeric_def)

end

definition reference_matrix :: "sexp \<Rightarrow> num_matrix res" where
  "reference_matrix x =
     (case (x, Rf_getAttrib x ''dim'') of
        (REALSXP xs _, INTSXP [m, n] _) \<Rightarrow> Inr \<lparr>mat_nrow = unat m, mat_ncol = unat n, mat_data = xs\<rparr>
      | _ \<Rightarrow> Inl not_compatible)"

definition reference_args :: rcpp_args where
  "reference_args =
     rcpp.extend reference_rcpp
       \<lparr>as_long = (\<lambda>x. case x of INTSXP [w] _ \<Rightarrow> Inr (sint w) | _ \<Rightarrow> Inl not_compatible),
        as_unsigned = (\<lambda>x. case x of INTSXP [w] _ \<Rightarrow> Inr w | _ \<Rightarrow> Inl not_compatible),
        as_numeric = (\<lambda>x. case x of REALSXP xs _ \<Rightarrow> Inr xs | _ \<Rightarrow> Inl not_compatible),
        as_matrix = reference_matrix,
        as_integers = (\<lambda>x. case x of INTSXP ws _ \<Rightarrow> Inr (map sint ws) | _ \<Rightarrow> Inl not_compatible),
        as_list = (\<lambda>x. case x of VECSXP xs a \<Rightarrow> Inr x | _ \<Rightarrow> Inl not_compatible),
        as_handle = (\<lambda>x. case x of OTHERSXP n a \<Rightarrow> External n | _ \<Rightarrow> Other_object),
        handle_object = (\<lambda>h. case h of External n \<Rightarrow> OTHERSXP n [] | Other_object \<Rightarrow> NILSXP)\<rparr>"

interpretation reference_args: rcpp_values reference_args
proof unfold_locales
  fix M assume "is_matrix M" "mat_nrow M < 2 ^ 31" "mat_ncol M < 2 ^ 31"
  then show "as_matrix reference_args (wrap_matrix M) = Inr M"
    by (simp add: reference_args_def rcpp.defs reference_matrix_def wrap_matrix_def Rf_getAttrib_def unat_of_nat)
next
  fix i assume "in_int_range i"
  then show "as_int reference_args (r_int i) = Inr i"
    by (simp add: reference_args_def rcpp.defs reference_rcpp_def r_int_def in_int_range_def int_min_def int_max_def
        signed_of_int signed_take_bit_int_eq_self)
next
  fix i assume "in_int_range i"
  then show "as_long reference_args (r_int i) = Inr i"
    by (simp add: reference_args_def rcpp.defs r_int_def in_int_range_def int_min_def int_max_def
        signed_of_int signed_take_bit_int_eq_self)
next
  fix "is" :: "int list" assume "\<forall>i \<in> set is. in_int_range i"
  then show "as_integers reference_args (wrap_integers is) = Inr is"
    by (induction "is")
       (auto simp: reference_args_def rcpp.defs wrap_integers_def in_int_range_def int_min_def int_max_def
          signed_of_int signed_take_bit_int_eq_self)
qed (simp_all add: reference_args_def rcpp.defs reference_rcpp_def r_string_def wrap_bool_def r_bool_def wrap_double_def r_strings_def
      c_string.simps refrcpp.as_string_r_string)

end
