(* ===== verification/Runtime_Binding.thy ===== *)
theory Runtime_Binding
  imports Serialize_Api
begin

text \<open>
  The functions of \<^verbatim>\<open>src/compssmodule.cpp\<close> that drive the COMPSs runtime: starting it (with the
  configuration file of an interactive session) and stopping it, registering core elements,
  submitting tasks, barriers and tracing. The runtime and Extrae are not part of the sources:
  a call of theirs is an entry of the list \<open>calls\<close>, in order and with what the callee can read
  through the pointers it gets. R strings hold no NUL, so a C string shows the whole string.
  Log output is switched off by \<^verbatim>\<open>DEBUG_MODE\<close> and left out.
\<close>

section \<open>State and surroundings\<close>

text \<open>
  What the runtime reads through one pointer of a parameter, and the submission it gets. A runtime
  that is started reads its configuration: \<open>GS_On\<close> carries the environment and the files of that moment.
\<close>

datatype gs_arg = GS_null | GS_int int | GS_double u64 | GS_string string

record task_request =
  rq_app_id :: int
  rq_time_out :: int
  rq_priority :: int
  rq_num_nodes :: int
  rq_reduce :: int
  rq_chunk_size :: int
  rq_replicated :: int
  rq_distributed :: int
  rq_has_target :: int
  rq_num_returns :: int

record core_element =
  ce_signature :: string
  ce_impl_signature :: string
  ce_constraints :: "string option"
  ce_type :: string
  ce_local :: string
  ce_io :: string
  ce_prolog :: "string list"
  ce_epilog :: "string list"
  ce_container :: "string list"
  ce_type_args :: "string list"

datatype gs_call =
    GS_set_JNI_runtime
  | GS_On "string \<Rightarrow> string option" file_system
  | GS_Off int
  | GS_RegisterCE core_element
  | GS_ExecuteTaskNew task_request string string nat "gs_arg list"
  | GS_BarrierNew int bool
  | GS_Get_MasterWorkingDir
  | Extrae_eventandcounters u32 u64
  | Extrae_init
  | Extrae_flush
  | Extrae_fini_call

text \<open>
  The process: its files, its environment, what it printed, the calls made, and the sizes of
  the buffers it has allocated for parameters and not freed.
\<close>

record process =
  disk :: file_system
  environ :: "string \<Rightarrow> string option"
  console :: "string list"
  calls :: "gs_call list"
  live_buffers :: "nat list"

record binding =
  getcwd :: "string option"
  rand :: int
  setenv_ok :: bool
  stream_env :: ostream_env
  master_path :: string
  symbol_name :: "sexp \<Rightarrow> string"
  as_char_ptr :: "sexp \<Rightarrow> string res"
  rcpp_conv :: rcpp

definition gs :: "gs_call \<Rightarrow> (process, unit) st" where
  "gs c = (\<lambda>p. (Inr (), p\<lparr>calls := calls p @ [c]\<rparr>))"

definition say :: "string \<Rightarrow> (process, unit) st" where
  "say t = (\<lambda>p. (Inr (), p\<lparr>console := console p @ [t]\<rparr>))"

definition gs_on :: "(process, unit) st" where
  "gs_on = (\<lambda>p. gs (GS_On (environ p) (disk p)) p)"

section \<open>The configuration of an interactive session\<close>

definition boolToString :: "bool \<Rightarrow> string" where
  "boolToString value = (if value then ''true'' else ''false'')"

record config =
  cwd_path :: string
  compss_home :: string
  java_home :: string
  uuid :: string
  master_dir :: string
  log_dir :: string
  library_extra :: "string option"
  debug_on :: bool
  graph_on :: bool
  trace_on :: bool

text \<open>A literal that ends its line.\<close>

definition nl :: "string \<Rightarrow> string" where
  "nl s = s @ [CHR 0x0A]"

text \<open>What is sent to the stream, one list per statement, one string per \<^verbatim>\<open><<\<close>.\<close>

definition config_head :: "config \<Rightarrow> string list list" where
  "config_head c =
     [[nl ''-Djdk.lang.Process.launchMechanism=fork''],
      [nl ''-XX:+PerfDisableSharedMem''],
      [nl ''-XX:-UsePerfData''],
      [nl ''-XX:+UseG1GC''],
      [nl ''-XX:+UseThreadPriorities''],
      [nl ''-XX:ThreadPriorityPolicy=0''],
      [''-javaagent:'', compss_home c, nl ''/Runtime/compss-engine.jar''],
      [nl ''-Dcompss.to.file=false''],
      [nl ''-Dcompss.appName=Interactive''],
      [nl ''-Dcompss.data_provenance=false''],
      [''-Dcompss.uuid='', uuid c, nl ''''],
      [nl ''-Dcompss.shutdown_in_node_failure=false''],
      [''-Dcompss.master.workingDir='', master_dir c, nl ''''],
      [''-Dcompss.log.dir='', log_dir c, nl ''''],
      [''-Dlog4j.configurationFile='', compss_home c, nl ''/Runtime/configuration/log/COMPSsMaster-log4j.info''],
      [''-Dcompss.graph='', boolToString (graph_on c), nl ''''],
      [nl ''-Dcompss.monitor=0''],
      [nl ''-Dcompss.summary=false''],
      [''-Dcompss.worker.cp='', cwd_path c, '':'', compss_home c, nl ''/Runtime/compss-engine.jar''],
      [''-Dcompss.worker.appdir='', cwd_path c, nl ''''],
      [nl ''-Dcompss.worker.jvm_opts=-Xms1024m,-Xmx1024m,-Xmn400m''],
      [nl ''-Dcompss.worker.cpu_affinity=automatic''],
      [nl ''-Dcompss.worker.gpu_affinity=automatic''],
      [nl ''-Dcompss.worker.fpga_affinity=automatic''],
      [nl ''-Dcompss.worker.fpga_reprogram=''],
      [nl ''-Dcompss.worker.io_executors=0''],
      [nl ''-Dcompss.worker.env_script=''],
      [nl ''-Dcompss.comm=es.bsc.compss.nio.master.NIOAdaptor''],
      [nl ''-Dcompss.masterName=''],
      [nl ''-Dcompss.masterPort=''],
      [''-Dgat.adaptor.path='', compss_home c, nl ''/Dependencies/JAVA_GAT/lib/adaptors''],
      [''-Dgat.debug='', boolToString (debug_on c), nl ''''],
      [nl ''-Dgat.broker.adaptor=sshtrilead''],
      [nl ''-Dgat.file.adaptor=sshtrilead''],
      [nl ''-Dcompss.execution.reuseOnBlock=true''],
      [nl ''-Dcompss.execution.nested.enabled=false''],
      [nl ''-Dcompss.scheduler=es.bsc.compss.scheduler.lookahead.locality.LocalityTS''],
      [nl ''-Dcompss.scheduler.config=''],
      [nl ''-Dcompss.profile.input=''],
      [nl ''-Dcompss.profile.output=''],
      [''-Dcompss.project.file='', compss_home c, nl ''/Runtime/configuration/xml/projects/default_project.xml''],
      [''-Dcompss.resources.file='', compss_home c, nl ''/Runtime/configuration/xml/resources/default_resources.xml''],
      [''-Dcompss.project.schema='', compss_home c, nl ''/Runtime/configuration/xml/projects/project_schema.xsd''],
      [''-Dcompss.resources.schema='', compss_home c, nl ''/Runtime/configuration/xml/resources/resources_schema.xsd''],
      [nl ''-Dcompss.conn=es.bsc.compss.connectors.DefaultSSHConnector''],
      [nl ''-Dcompss.external.adaptation=false''],
      [nl ''-Dcompss.checkpoint.policy=es.bsc.compss.checkpoint.policies.NoCheckpoint''],
      [nl ''-Dcompss.checkpoint.params=''],
      [nl ''-Dcompss.checkpoint.folder=''],
      [nl ''-Dcompss.lang=R''],
      [nl ''-Dcompss.core.count=50''],
      [''-Djava.class.path='', compss_home c, nl ''/Runtime/compss-engine.jar'']]"

definition library_path :: "config \<Rightarrow> string list" where
  "library_path c =
     [''-Djava.library.path='', compss_home c, ''/Bindings/bindings-common/lib/:'', java_home c, ''/lib/server'']
     @ (case library_extra c of None \<Rightarrow> [] | Some extra \<Rightarrow> [CHR '':'' # [], extra])
     @ [nl []]"

definition config_tail :: "config \<Rightarrow> string list list" where
  "config_tail c =
     [[nl ''-Dcompss.worker.pythonpath=''],
      [nl ''-Dcompss.python.interpreter=R''],
      [nl ''-Dcompss.python.version=3''],
      [nl ''-Dcompss.python.virtualenvironment=null''],
      [nl ''-Dcompss.python.propagate_virtualenvironment=true''],
      [nl ''-Dcompss.python.mpi_worker=false''],
      [nl ''-Dcompss.python.worker_cache=false''],
      [nl ''-Dcompss.python.cache_profiler=false''],
      [nl ''-Dcompss.streaming=NONE''],
      [nl ''-Dcompss.streaming.masterName=null''],
      [nl ''-Dcompss.streaming.masterPort=null''],
      [nl ''-Dcompss.task.execution=compss''],
      [nl ''-Dcompss.storage.conf=null''],
      [''-Dcompss.tracing='', boolToString (trace_on c), nl ''''],
      [''-Dcompss.tracing.extrae='', boolToString (trace_on c), nl ''''],
      [nl ''-Dcompss.tracing.monitor=false''],
      [nl ''-Dcompss.tracing.task.dependencies=false''],
      [nl ''-Dcompss.extrae.working_dir=null''],
      [nl ''-Dcompss.extrae.file=null''],
      [nl ''-Dcompss.extrae.file.python=null''],
      [nl ''-Dcompss.trace.label=None''],
      [nl ''-Dcompss.wcl=0''],
      [nl ''-Dcompss.ear=false'']]"

definition config_lines :: "config \<Rightarrow> string list list" where
  "config_lines c = config_head c @ [library_path c] @ config_tail c"

text \<open>\<^verbatim>\<open><<\<close> on an output stream: after a failure nothing more is written.\<close>

definition stream_put :: "ostream_env \<Rightarrow> bool \<times> byte list \<Rightarrow> string \<Rightarrow> bool \<times> byte list" where
  "stream_put env st t =
     (if fst st \<and> accepts env (snd st) (string_bytes t) then (True, snd st @ string_bytes t) else (False, snd st))"

definition write_config :: "ostream_env \<Rightarrow> string \<Rightarrow> config \<Rightarrow> (process, unit) st" where
  "write_config env fileName c =
     (\<lambda>p. (Inr (),
        if can_open env fileName
        then p\<lparr>disk := (disk p)(fileName \<mapsto>
               closed env (snd (foldl (stream_put env) (True, []) (concat (config_lines c)))))\<rparr>
        else p))"

text \<open>A set, non-empty environment variable.\<close>

definition non_empty :: "string option \<Rightarrow> string option" where
  "non_empty v = (case v of None \<Rightarrow> None | Some t \<Rightarrow> if t = [] then None else Some t)"

definition master_working_dir :: "(string \<Rightarrow> string option) \<Rightarrow> string \<Rightarrow> string" where
  "master_working_dir en cwd =
     (case non_empty (en ''COMPSS_MASTER_WORKING_DIR'') of
        Some d \<Rightarrow> d
      | None \<Rightarrow>
          (case non_empty (en ''HOME'') of
             Some homeDir \<Rightarrow> homeDir @ ''/.COMPSs/Interactive_01/tmpFiles''
           | None \<Rightarrow> cwd @ ''/.COMPSs_tmp''))"

definition master_log_dir :: "(string \<Rightarrow> string option) \<Rightarrow> string \<Rightarrow> string" where
  "master_log_dir en cwd =
     (case non_empty (en ''COMPSS_LOG_DIR'') of Some d \<Rightarrow> d | None \<Rightarrow> master_working_dir en cwd)"

text \<open>
  \<^verbatim>\<open>std::string v = std::getenv(name)\<close>: constructing a string from a null pointer is undefined
  (libstdc++ throws \<^verbatim>\<open>std::logic_error\<close>), so the test for an empty value that follows only
  sees variables that are set.
\<close>

definition required_variable :: "string \<Rightarrow> (process, string) st" where
  "required_variable nm =
     st_bind (st_gets (\<lambda>p. environ p nm)) (\<lambda>v.
       case v of
         None \<Rightarrow> st_throw Undefined_behaviour
       | Some t \<Rightarrow>
           st_bind (if t = [] then say (''ERROR: '' @ [CHR 0x27] @ nm @ [CHR 0x27] @ '' environment variable is not defined.'') else st_return ())
             (\<lambda>_. st_return t))"

definition start_runtime_interactive :: "binding \<Rightarrow> bool \<Rightarrow> bool \<Rightarrow> bool \<Rightarrow> (process, unit) st" where
  "start_runtime_interactive b debug graph trace =
     (case getcwd b of
        None \<Rightarrow> say ''Failed to get the current directory''
      | Some cwd \<Rightarrow>
          st_bind (required_variable ''COMPSS_HOME'') (\<lambda>home.
          st_bind (required_variable ''JAVA_HOME'') (\<lambda>java.
          st_bind (st_gets environ) (\<lambda>en.
          st_bind (write_config (stream_env b) ''compss_jvm.cfg''
             \<lparr>cwd_path = cwd, compss_home = home, java_home = java, uuid = ''123456-'' @ int_to_string (rand b),
              master_dir = master_working_dir en cwd, log_dir = master_log_dir en cwd,
              library_extra = non_empty (en ''RCOMPSs_JAVA_LIBRARY_PATH_EXTRA''),
              debug_on = debug, graph_on = graph, trace_on = trace\<rparr>) (\<lambda>_.
          st_bind
            (if setenv_ok b
             then st_bind (\<lambda>p. (Inr (), p\<lparr>environ := (environ p)(''JVM_OPTIONS_FILE'' \<mapsto> ''compss_jvm.cfg'')\<rparr>))
                    (\<lambda>_. say ('' - Successfully exported JVM_OPTIONS_FILE: '' @ ''compss_jvm.cfg''))
             else say ''Error exporting JVM_OPTIONS_FILE'') (\<lambda>_.
          st_bind (gs GS_set_JNI_runtime) (\<lambda>_. gs_on)))))))"

definition start_runtime :: "(process, unit) st" where
  "start_runtime = st_bind (gs GS_set_JNI_runtime) (\<lambda>_. gs_on)"

definition stop_runtime :: "int \<Rightarrow> (process, unit) st" where
  "stop_runtime code = gs (GS_Off code)"

section \<open>Core elements\<close>

text \<open>
  \<^verbatim>\<open>Rcpp::as<std::string>\<close> of an element of a character vector: NA reads as the text NA. Reading
  past the end of a vector is undefined.
\<close>

definition element_text :: "string option list \<Rightarrow> int \<Rightarrow> string res" where
  "element_text v i = res_bind (vec_index v i) (\<lambda>x. Inr (case x of None \<Rightarrow> ''NA'' | Some t \<Rightarrow> t))"

definition three_texts :: "string option list \<Rightarrow> string list res" where
  "three_texts v = res_map (element_text v) [0, 1, 2]"

text \<open>
  The arrays are freed after the call; \<^verbatim>\<open>ImplTypeArgs\<close> is only ever given a value when there are
  type arguments, so freeing it without them frees an uninitialised pointer.
\<close>

definition register_core_element ::
    "string \<Rightarrow> string \<Rightarrow> string \<Rightarrow> string \<Rightarrow> string \<Rightarrow> string \<Rightarrow> string option list \<Rightarrow> string option list
      \<Rightarrow> string option list \<Rightarrow> string option list \<Rightarrow> (process, unit) st" where
  "register_core_element CESignature ImplSignature ImplConstraints ImplType ImplLocal ImplIO prolog epilog container typeArgs =
     st_bind (st_lift (three_texts prolog)) (\<lambda>pro.
     st_bind (st_lift (three_texts epilog)) (\<lambda>epi.
     st_bind (st_lift (three_texts container)) (\<lambda>cont.
     st_bind (st_lift (res_map (element_text typeArgs) [0..int (length typeArgs) - 1])) (\<lambda>type_args.
     st_bind (gs (GS_RegisterCE
        \<lparr>ce_signature = CESignature, ce_impl_signature = ImplSignature,
         ce_constraints = (if ImplConstraints = [] then None else Some ImplConstraints),
         ce_type = ImplType, ce_local = ImplLocal, ce_io = ImplIO,
         ce_prolog = pro, ce_epilog = epi, ce_container = cont, ce_type_args = type_args\<rparr>)) (\<lambda>_.
     if 0 < length typeArgs then st_return () else st_throw Undefined_behaviour)))))"

section \<open>Submitting a task\<close>

text \<open>\<^verbatim>\<open>None\<close>: the process exits with status 3.\<close>

definition get_type_size :: "int \<Rightarrow> nat option" where
  "get_type_size type =
     (if type = 0 then Some 4 else if type = 4 then Some 4 else if type = 7 then Some 8 else None)"

text \<open>
  A \<^verbatim>\<open>vector<string>\<close> and the pointers \<^verbatim>\<open>c_str\<close> gives to its elements. A vector that grows beyond its
  capacity moves to new storage, by how much it grows is up to the implementation (it doubles here);
  a pointer is only good while the vector is in the storage it was taken from.
\<close>

record string_vector =
  elems :: "string list"
  capacity :: nat
  storage :: nat

definition empty_vector :: string_vector where
  "empty_vector = \<lparr>elems = [], capacity = 0, storage = 0\<rparr>"

definition reserve :: "nat \<Rightarrow> string_vector \<Rightarrow> string_vector" where
  "reserve n v = (if n \<le> capacity v then v else v\<lparr>capacity := n, storage := storage v + 1\<rparr>)"

definition push_back :: "string_vector \<Rightarrow> string \<Rightarrow> string_vector" where
  "push_back v t =
     (if length (elems v) < capacity v then v\<lparr>elems := elems v @ [t]\<rparr>
      else \<lparr>elems = elems v @ [t], capacity = max 1 (2 * capacity v), storage = storage v + 1\<rparr>)"

text \<open>\<^verbatim>\<open>None\<close> is the null pointer; otherwise the storage and the index of the element.\<close>

type_synonym char_pointer = "(nat \<times> nat) option"

definition c_str :: "string_vector \<Rightarrow> nat \<Rightarrow> char_pointer" where
  "c_str v i = Some (storage v, i)"

definition text_at :: "string_vector \<Rightarrow> char_pointer \<Rightarrow> string res" where
  "text_at v ptr =
     (case ptr of
        None \<Rightarrow> Inl Undefined_behaviour
      | Some (st, i) \<Rightarrow> if st = storage v \<and> i < length (elems v) then Inr (elems v ! i) else Inl Undefined_behaviour)"

text \<open>
  The cells of \<^verbatim>\<open>unrolled_parameters\<close>: pointers into the buffers, the vectors given by R (\<open>At_*\<close>)
  and the vectors of C strings (\<open>In_*\<close>), with the index pointed to. The vectors of C strings have
  their full length from the start, the strings they point to are added on the way.
\<close>

datatype cell =
    NULL_cell
  | Int_buffer int
  | Double_buffer u64
  | In_values nat
  | At_type nat
  | At_direction nat
  | At_stream nat
  | In_prefixes nat
  | In_names nat
  | In_contents nat
  | In_weights nat
  | At_rename nat

record marshal =
  unrolled :: "cell list"
  prefix_str_vec :: string_vector
  prefix_charp :: "char_pointer list"
  name_str_vec :: string_vector
  name_charp :: "char_pointer list"
  content_str_vec :: string_vector
  content_charp :: "char_pointer list"
  weight_str_vec :: string_vector
  weight_charp :: "char_pointer list"
  values_str_vec :: string_vector
  values_charp :: "char_pointer list"
  num_of_string_args :: nat

definition no_marshal :: "nat \<Rightarrow> marshal" where
  "no_marshal num_pars =
     \<lparr>unrolled = replicate (9 * num_pars) NULL_cell,
      prefix_str_vec = reserve num_pars empty_vector, prefix_charp = replicate num_pars None,
      name_str_vec = reserve num_pars empty_vector, name_charp = replicate num_pars None,
      content_str_vec = reserve num_pars empty_vector, content_charp = replicate num_pars None,
      weight_str_vec = reserve num_pars empty_vector, weight_charp = replicate num_pars None,
      values_str_vec = reserve num_pars empty_vector, values_charp = replicate num_pars None,
      num_of_string_args = 0\<rparr>"

text \<open>The vectors R passes, indexed in parallel.\<close>

record task_vectors =
  tv_values :: "sexp list"
  tv_names :: "string option list"
  tv_types :: "int list"
  tv_directions :: "int list"
  tv_streams :: "int list"
  tv_prefixes :: "string option list"
  tv_contents :: "string option list"
  tv_weights :: "string option list"
  tv_renames :: "int list"

text \<open>
  The buffer of a parameter. For the types that are neither numbers nor strings (1, 2, 3 and
  any other) \<^verbatim>\<open>size_i\<close> is read uninitialised.
\<close>

definition parameter_size :: "binding \<Rightarrow> int \<Rightarrow> sexp \<Rightarrow> nat res" where
  "parameter_size b ty v =
     (if ty = 0 \<or> ty = 4 \<or> ty = 7 then (case get_type_size ty of Some n \<Rightarrow> Inr n | None \<Rightarrow> Inl Undefined_behaviour)
      else if ty = 8 \<or> ty = 10 then res_bind (as_char_ptr b v) (\<lambda>t. Inr (length t + 1))
      else Inl Undefined_behaviour)"

definition new_buffer :: "nat \<Rightarrow> (process, unit) st" where
  "new_buffer n = (\<lambda>p. (Inr (), p\<lparr>live_buffers := live_buffers p @ [n]\<rparr>))"

text \<open>
  The value of parameter \<open>i\<close>: the cell for it, and the string kept for the call with the pointer to
  it. A string replaces the pointer to the buffer just allocated.
\<close>

definition parameter_value :: "binding \<Rightarrow> nat \<Rightarrow> int \<Rightarrow> sexp \<Rightarrow> marshal \<Rightarrow> (cell \<times> marshal) res" where
  "parameter_value b i ty v m =
     (if ty = 0 \<or> ty = 4 then res_bind (as_int (rcpp_conv b) v) (\<lambda>x. Inr (Int_buffer x, m))
      else if ty = 7 then res_bind (as_double (rcpp_conv b) v) (\<lambda>d. Inr (Double_buffer d, m))
      else
        res_bind (as_string (rcpp_conv b) v) (\<lambda>t.
        (let values = push_back (values_str_vec m) t in
         Inr (In_values i,
              m\<lparr>values_str_vec := values, values_charp := (values_charp m)[i := c_str values (num_of_string_args m)],
                num_of_string_args := num_of_string_args m + 1\<rparr>))))"

text \<open>The nine cells of parameter \<open>i\<close>.\<close>

definition store_cells :: "nat \<Rightarrow> cell list \<Rightarrow> cell list \<Rightarrow> cell list" where
  "store_cells i cells xs = foldl (\<lambda>ys (k, c). ys[9 * i + k := c]) xs (enumerate 0 cells)"

definition parameter_cells :: "task_vectors \<Rightarrow> nat \<Rightarrow> cell \<Rightarrow> marshal \<Rightarrow> marshal res" where
  "parameter_cells tv i c m =
     res_bind (vec_index (tv_directions tv) (int i)) (\<lambda>_.
     res_bind (vec_index (tv_streams tv) (int i)) (\<lambda>_.
     res_bind (element_text (tv_prefixes tv) (int i)) (\<lambda>prefix.
     res_bind (element_text (tv_names tv) (int i)) (\<lambda>nm.
     res_bind (element_text (tv_contents tv) (int i)) (\<lambda>content.
     res_bind (element_text (tv_weights tv) (int i)) (\<lambda>weight.
     res_bind (vec_index (tv_renames tv) (int i)) (\<lambda>_.
     (let prefixes = push_back (prefix_str_vec m) prefix;
          names = push_back (name_str_vec m) nm;
          contents = push_back (content_str_vec m) content;
          ws = push_back (weight_str_vec m) weight
      in Inr (m\<lparr>unrolled := store_cells i
              [c, At_type i, At_direction i, At_stream i, In_prefixes i, In_names i, In_contents i, In_weights i,
               At_rename i] (unrolled m),
            prefix_str_vec := prefixes, prefix_charp := (prefix_charp m)[i := c_str prefixes i],
            name_str_vec := names, name_charp := (name_charp m)[i := c_str names i],
            content_str_vec := contents, content_charp := (content_charp m)[i := c_str contents i],
            weight_str_vec := ws, weight_charp := (weight_charp m)[i := c_str ws i]\<rparr>)))))))))"

definition marshal_parameter :: "binding \<Rightarrow> task_vectors \<Rightarrow> nat \<Rightarrow> marshal \<Rightarrow> (process, marshal) st" where
  "marshal_parameter b tv i m =
     st_bind (st_lift (vec_index (tv_types tv) (int i))) (\<lambda>ty.
     st_bind (st_lift (vec_index (tv_values tv) (int i))) (\<lambda>v.
     st_bind (st_lift (parameter_size b ty v)) (\<lambda>size_i.
     st_bind (new_buffer size_i) (\<lambda>_.
     st_bind (st_lift (parameter_value b i ty v m)) (\<lambda>(c, m').
     st_lift (parameter_cells tv i c m'))))))"

fun marshal_parameters :: "binding \<Rightarrow> task_vectors \<Rightarrow> nat \<Rightarrow> nat \<Rightarrow> marshal \<Rightarrow> (process, marshal) st" where
  "marshal_parameters b tv i 0 m = st_return m"
| "marshal_parameters b tv i (Suc n) m =
     st_bind (marshal_parameter b tv i m) (\<lambda>m'. marshal_parameters b tv (Suc i) n m')"

text \<open>What the runtime reads through a cell. The strings are behind a pointer that may have become bad.\<close>

fun read_cell :: "task_vectors \<Rightarrow> marshal \<Rightarrow> cell \<Rightarrow> gs_arg res" where
  "read_cell tv m NULL_cell = Inr GS_null"
| "read_cell tv m (Int_buffer i) = Inr (GS_int i)"
| "read_cell tv m (Double_buffer d) = Inr (GS_double d)"
| "read_cell tv m (In_values i) = res_bind (text_at (values_str_vec m) (values_charp m ! i)) (\<lambda>t. Inr (GS_string t))"
| "read_cell tv m (At_type i) = Inr (GS_int (tv_types tv ! i))"
| "read_cell tv m (At_direction i) = Inr (GS_int (tv_directions tv ! i))"
| "read_cell tv m (At_stream i) = Inr (GS_int (tv_streams tv ! i))"
| "read_cell tv m (In_prefixes i) = res_bind (text_at (prefix_str_vec m) (prefix_charp m ! i)) (\<lambda>t. Inr (GS_string t))"
| "read_cell tv m (In_names i) = res_bind (text_at (name_str_vec m) (name_charp m ! i)) (\<lambda>t. Inr (GS_string t))"
| "read_cell tv m (In_contents i) = res_bind (text_at (content_str_vec m) (content_charp m ! i)) (\<lambda>t. Inr (GS_string t))"
| "read_cell tv m (In_weights i) = res_bind (text_at (weight_str_vec m) (weight_charp m ! i)) (\<lambda>t. Inr (GS_string t))"
| "read_cell tv m (At_rename i) = Inr (GS_int (tv_renames tv ! i))"

text \<open>A signature comes as a symbol or as a character vector.\<close>

definition text_argument :: "binding \<Rightarrow> sexp \<Rightarrow> string res" where
  "text_argument b x =
     (case x of
        OTHERSXP (Suc 0) _ \<Rightarrow> Inr (symbol_name b x)
      | _ \<Rightarrow>
          res_bind (strings_of (rcpp_conv b) x) (\<lambda>ss.
            if 0 < length ss then element_text ss 0 else Inr []))"

text \<open>The address of the first cell is undefined when there is none.\<close>

definition process_task :: "binding \<Rightarrow> task_request \<Rightarrow> sexp \<Rightarrow> sexp \<Rightarrow> task_vectors \<Rightarrow> (process, unit) st" where
  "process_task b rq signatureSEXP on_failureSEXP tv =
     st_bind (st_lift (text_argument b signatureSEXP)) (\<lambda>signature_str.
     st_bind (st_lift (text_argument b on_failureSEXP)) (\<lambda>on_failure_str.
     (let num_pars = length (tv_values tv) in
     st_bind (marshal_parameters b tv 0 num_pars (no_marshal num_pars)) (\<lambda>m.
     if unrolled m = [] then st_throw Undefined_behaviour
     else
       st_bind (st_lift (res_map (read_cell tv m) (unrolled m))) (\<lambda>args.
       gs (GS_ExecuteTaskNew rq signature_str on_failure_str num_pars args))))))"

section \<open>Synchronisation and tracing\<close>

definition barrier :: "int \<Rightarrow> bool \<Rightarrow> (process, unit) st" where
  "barrier app_id no_more_tasks = gs (GS_BarrierNew app_id no_more_tasks)"

definition Get_MasterWorkingDir :: "binding \<Rightarrow> (process, string list) st" where
  "Get_MasterWorkingDir b = st_bind (gs GS_Get_MasterWorkingDir) (\<lambda>_. st_return [master_path b])"

definition Extrae_event_and_counters :: "u32 \<Rightarrow> u32 \<Rightarrow> (process, unit) st" where
  "Extrae_event_and_counters grp ident = gs (Extrae_eventandcounters grp (ucast ident))"

definition Extrae_ini :: "(process, unit) st" where "Extrae_ini = gs Extrae_init"
definition Extrae_flu :: "(process, unit) st" where "Extrae_flu = gs Extrae_flush"
definition Extrae_fin :: "(process, unit) st" where "Extrae_fin = gs Extrae_fini_call"

section \<open>Marshalling\<close>

lemma store_cells_fold:
  "length pre = 9 * i \<Longrightarrow> k + length cells \<le> length zs \<Longrightarrow>
     foldl (\<lambda>ys (j, c). ys[9 * i + j := c]) (pre @ zs) (enumerate k cells)
       = pre @ take k zs @ cells @ drop (k + length cells) zs"
proof (induction cells arbitrary: k zs)
  case Nil
  then show ?case by simp
next
  case (Cons c cells)
  have upd: "(pre @ zs)[9 * i + k := c] = pre @ zs[k := c]"
    using Cons.prems by (simp add: list_update_append)
  have "take (Suc k) (zs[k := c]) = take k zs @ [c]"
    using Cons.prems by (simp add: take_Suc_conv_app_nth)
  then show ?case
    using Cons.IH [of "Suc k" "zs[k := c]"] Cons.prems by (simp add: upd)
qed

lemma store_cells_next:
  "length pre = 9 * i \<Longrightarrow> length cells = 9 \<Longrightarrow>
     store_cells i cells (pre @ replicate (9 * Suc n) NULL_cell) = pre @ cells @ replicate (9 * n) NULL_cell"
  using store_cells_fold [of pre i 0 cells "replicate (9 * Suc n) NULL_cell"] by (simp add: store_cells_def)

definition text_of :: "string option \<Rightarrow> string" where
  "text_of x = (case x of None \<Rightarrow> ''NA'' | Some t \<Rightarrow> t)"

lemma element_text_in_range:
  "i < length v \<Longrightarrow> element_text v (int i) = Inr (text_of (v ! i))"
  by (simp add: element_text_def vec_index_def text_of_def)

text \<open>What the runtime should read for parameter \<open>i\<close>.\<close>

definition value_view :: "binding \<Rightarrow> task_vectors \<Rightarrow> nat \<Rightarrow> gs_arg res" where
  "value_view b tv i =
     (if tv_types tv ! i = 0 \<or> tv_types tv ! i = 4
      then res_bind (as_int (rcpp_conv b) (tv_values tv ! i)) (\<lambda>x. Inr (GS_int x))
      else if tv_types tv ! i = 7 then res_bind (as_double (rcpp_conv b) (tv_values tv ! i)) (\<lambda>x. Inr (GS_double x))
      else res_bind (as_string (rcpp_conv b) (tv_values tv ! i)) (\<lambda>x. Inr (GS_string x)))"

definition parameter_view :: "task_vectors \<Rightarrow> nat \<Rightarrow> gs_arg \<Rightarrow> gs_arg list" where
  "parameter_view tv i value =
     [value, GS_int (tv_types tv ! i), GS_int (tv_directions tv ! i), GS_int (tv_streams tv ! i),
      GS_string (text_of (tv_prefixes tv ! i)), GS_string (text_of (tv_names tv ! i)),
      GS_string (text_of (tv_contents tv ! i)), GS_string (text_of (tv_weights tv ! i)),
      GS_int (tv_renames tv ! i)]"

text \<open>Vectors of one length, supported types and values that can be converted.\<close>

definition same_lengths :: "task_vectors \<Rightarrow> bool" where
  "same_lengths tv \<longleftrightarrow>
     (\<forall>k \<in> {length (tv_names tv), length (tv_types tv), length (tv_directions tv), length (tv_streams tv),
            length (tv_prefixes tv), length (tv_contents tv), length (tv_weights tv), length (tv_renames tv)}.
        k = length (tv_values tv))"

definition convertible :: "binding \<Rightarrow> task_vectors \<Rightarrow> nat \<Rightarrow> gs_arg \<Rightarrow> nat \<Rightarrow> bool" where
  "convertible b tv i value n \<longleftrightarrow>
     value_view b tv i = Inr value \<and> parameter_size b (tv_types tv ! i) (tv_values tv ! i) = Inr n"

definition own_cells :: "nat \<Rightarrow> cell \<Rightarrow> cell list" where
  "own_cells i c =
     [c, At_type i, At_direction i, At_stream i, In_prefixes i, In_names i, In_contents i, In_weights i, At_rename i]"

lemma own_cells_length: "length (own_cells i c) = 9"
  by (simp add: own_cells_def)

text \<open>
  A vector with room for \<open>n\<close> strings, which holds \<open>ts\<close>, and the pointers to them: adding a string
  that fits leaves the pointers good.
\<close>

definition kept :: "nat \<Rightarrow> string list \<Rightarrow> string_vector \<Rightarrow> char_pointer list \<Rightarrow> bool" where
  "kept n ts v ps \<longleftrightarrow> elems v = ts \<and> n \<le> capacity v \<and> length ps = n \<and> (\<forall>j < length ts. ps ! j = c_str v j)"

lemma reserve_empty: "elems (reserve n empty_vector) = []" "n \<le> capacity (reserve n empty_vector)"
  by (simp_all add: reserve_def empty_vector_def)

lemma kept_empty: "kept n [] (reserve n empty_vector) (replicate n None)"
  by (simp add: kept_def reserve_empty)

lemma push_back_fits:
  "length (elems v) < capacity v \<Longrightarrow> elems (push_back v t) = elems v @ [t] \<and> capacity (push_back v t) = capacity v \<and>
     storage (push_back v t) = storage v"
  by (simp add: push_back_def)

lemma kept_push:
  assumes "kept n ts v ps" "length ts < n"
  shows "kept n (ts @ [t]) (push_back v t) (ps[length ts := c_str (push_back v t) (length ts)])"
  using assms push_back_fits [of v t] by (auto simp: kept_def c_str_def nth_list_update less_Suc_eq)

lemma kept_read: "kept n ts v ps \<Longrightarrow> j < length ts \<Longrightarrow> text_at v (ps ! j) = Inr (ts ! j)"
  by (simp add: kept_def text_at_def c_str_def)

lemma text_at_push: "text_at v q = Inr t \<Longrightarrow> length (elems v) < capacity v \<Longrightarrow> text_at (push_back v t') q = Inr t"
  using push_back_fits [of v t'] by (auto simp: text_at_def nth_append split: option.splits if_splits)

text \<open>The value cell of parameter \<open>j\<close> reads as \<open>g\<close>.\<close>

definition value_cell :: "nat \<Rightarrow> string_vector \<Rightarrow> char_pointer list \<Rightarrow> cell \<Rightarrow> gs_arg \<Rightarrow> bool" where
  "value_cell j v ps c g \<longleftrightarrow>
     (case c of
        Int_buffer x \<Rightarrow> g = GS_int x
      | Double_buffer x \<Rightarrow> g = GS_double x
      | In_values k \<Rightarrow> k = j \<and> (\<exists>t. text_at v (ps ! j) = Inr t \<and> g = GS_string t)
      | _ \<Rightarrow> False)"

lemma value_cell_push:
  "value_cell j v ps c g \<Longrightarrow> length (elems v) < capacity v \<Longrightarrow> i \<noteq> j \<Longrightarrow> value_cell j (push_back v t) (ps[i := q]) c g"
  by (cases c) (auto simp: value_cell_def intro: text_at_push)

lemma value_cell_read: "value_cell j (values_str_vec m) (values_charp m) c g \<Longrightarrow> read_cell tv m c = Inr g"
  by (cases c) (auto simp: value_cell_def)

text \<open>The invariant of the loop: \<open>i\<close> parameters are in place, \<open>n\<close> are left.\<close>

definition values_kept :: "nat \<Rightarrow> nat \<Rightarrow> marshal \<Rightarrow> bool" where
  "values_kept k i m \<longleftrightarrow>
     num_of_string_args m = length (elems (values_str_vec m)) \<and> num_of_string_args m \<le> i \<and> k \<le> capacity (values_str_vec m)
     \<and> length (values_charp m) = k"

definition marshalled :: "task_vectors \<Rightarrow> gs_arg list \<Rightarrow> nat \<Rightarrow> nat \<Rightarrow> marshal \<Rightarrow> bool" where
  "marshalled tv gv i n m \<longleftrightarrow>
     kept (i + n) (map text_of (take i (tv_prefixes tv))) (prefix_str_vec m) (prefix_charp m) \<and>
     kept (i + n) (map text_of (take i (tv_names tv))) (name_str_vec m) (name_charp m) \<and>
     kept (i + n) (map text_of (take i (tv_contents tv))) (content_str_vec m) (content_charp m) \<and>
     kept (i + n) (map text_of (take i (tv_weights tv))) (weight_str_vec m) (weight_charp m) \<and>
     values_kept (i + n) i m \<and>
     (\<exists>cs. length cs = i \<and> (\<forall>j < i. value_cell j (values_str_vec m) (values_charp m) (cs ! j) (gv ! j)) \<and>
        unrolled m = concat (map (\<lambda>j. own_cells j (cs ! j)) [0..<i]) @ replicate (9 * n) NULL_cell)"

lemma res_map_reads: "map f xs = map Inr ys \<Longrightarrow> res_map f xs = Inr ys"
  by (induction xs arbitrary: ys) auto

lemma concat_own_cells_length: "length (concat (map (\<lambda>j. own_cells j (f j)) [0..<i])) = 9 * i"
  by (induction i) (simp_all add: own_cells_length)

text \<open>The vectors of strings other than the values.\<close>

abbreviation other_vectors :: "marshal \<Rightarrow> (string_vector \<times> char_pointer list) list" where
  "other_vectors m \<equiv>
     [(prefix_str_vec m, prefix_charp m), (name_str_vec m, name_charp m), (content_str_vec m, content_charp m),
      (weight_str_vec m, weight_charp m)]"

lemma parameter_value_ok:
  assumes "convertible b tv i g n" "values_kept k i m" "i < k"
    and "\<forall>j < i. value_cell j (values_str_vec m) (values_charp m) (cs ! j) (gv ! j)"
  shows "\<exists>c m'. parameter_value b i (tv_types tv ! i) (tv_values tv ! i) m = Inr (c, m')
     \<and> value_cell i (values_str_vec m') (values_charp m') c g
     \<and> (\<forall>j < i. value_cell j (values_str_vec m') (values_charp m') (cs ! j) (gv ! j))
     \<and> values_kept k (Suc i) m' \<and> unrolled m' = unrolled m \<and> other_vectors m' = other_vectors m"
proof (cases "tv_types tv ! i = 0 \<or> tv_types tv ! i = 4 \<or> tv_types tv ! i = 7")
  case True
  with assms show ?thesis
    by (auto simp: convertible_def value_view_def parameter_value_def value_cell_def values_kept_def res_bind_Inr_conv)
next
  case False
  with assms(1) obtain t where t: "as_string (rcpp_conv b) (tv_values tv ! i) = Inr t" "g = GS_string t"
    by (auto simp: convertible_def value_view_def res_bind_Inr_conv)
  let ?v = "values_str_vec m" and ?i = "num_of_string_args m"
  have fits: "length (elems ?v) < capacity ?v" "?i = length (elems ?v)" using assms(2,3) by (simp_all add: values_kept_def)
  have "text_at (push_back ?v t) (c_str (push_back ?v t) ?i) = Inr t"
    using push_back_fits [OF fits(1), of t] fits(2) by (simp add: text_at_def c_str_def)
  then show ?thesis
    using False t assms(2-4) fits push_back_fits [OF fits(1), of t]
    by (auto simp: parameter_value_def value_cell_def [of i] values_kept_def Let_def intro!: value_cell_push)
qed

lemma marshal_parameter_step:
  assumes "same_lengths tv" "i < length (tv_values tv)" "convertible b tv i (gv ! i) sz" "marshalled tv gv i (Suc n) m"
  shows "\<exists>m'. marshal_parameter b tv i m p = (Inr m', p\<lparr>live_buffers := live_buffers p @ [sz]\<rparr>) \<and> marshalled tv gv (Suc i) n m'"
proof -
  from assms(4) obtain cs where cs: "length cs = i"
      "\<forall>j < i. value_cell j (values_str_vec m) (values_charp m) (cs ! j) (gv ! j)"
      "unrolled m = concat (map (\<lambda>j. own_cells j (cs ! j)) [0..<i]) @ replicate (9 * Suc n) NULL_cell"
    unfolding marshalled_def by blast
  have "values_kept (i + Suc n) i m" using assms(4) by (simp add: marshalled_def)
  from parameter_value_ok [OF assms(3) this _ cs(2)] obtain c m1 where
    pv: "parameter_value b i (tv_types tv ! i) (tv_values tv ! i) m = Inr (c, m1)" and
    c: "value_cell i (values_str_vec m1) (values_charp m1) c (gv ! i)"
       "\<forall>j < i. value_cell j (values_str_vec m1) (values_charp m1) (cs ! j) (gv ! j)" and
    m1: "values_kept (i + Suc n) (Suc i) m1" "unrolled m1 = unrolled m" "other_vectors m1 = other_vectors m"
    by auto
  have len: "i < length (tv_names tv)" "i < length (tv_types tv)" "i < length (tv_directions tv)" "i < length (tv_streams tv)"
     "i < length (tv_prefixes tv)" "i < length (tv_contents tv)" "i < length (tv_weights tv)" "i < length (tv_renames tv)"
    using assms(1,2) by (simp_all add: same_lengths_def)
  have grown: "kept (Suc (i + n)) (map text_of (take (Suc i) ts)) (push_back v (text_of (ts ! i))) (ps[i := c_str (push_back v (text_of (ts ! i))) i])"
    if "kept (Suc (i + n)) (map text_of (take i ts)) v ps" "i < length ts" for ts v ps
    using kept_push [OF that(1), of "text_of (ts ! i)"] that(2) by (simp add: take_Suc_conv_app_nth)
  define m2 where "m2 = m1\<lparr>unrolled := store_cells i (own_cells i c) (unrolled m1),
     prefix_str_vec := push_back (prefix_str_vec m1) (text_of (tv_prefixes tv ! i)),
     prefix_charp := (prefix_charp m1)[i := c_str (push_back (prefix_str_vec m1) (text_of (tv_prefixes tv ! i))) i],
     name_str_vec := push_back (name_str_vec m1) (text_of (tv_names tv ! i)),
     name_charp := (name_charp m1)[i := c_str (push_back (name_str_vec m1) (text_of (tv_names tv ! i))) i],
     content_str_vec := push_back (content_str_vec m1) (text_of (tv_contents tv ! i)),
     content_charp := (content_charp m1)[i := c_str (push_back (content_str_vec m1) (text_of (tv_contents tv ! i))) i],
     weight_str_vec := push_back (weight_str_vec m1) (text_of (tv_weights tv ! i)),
     weight_charp := (weight_charp m1)[i := c_str (push_back (weight_str_vec m1) (text_of (tv_weights tv ! i))) i]\<rparr>"
  have "marshal_parameter b tv i m p = (Inr m2, p\<lparr>live_buffers := live_buffers p @ [sz]\<rparr>)"
    using assms(2,3) len pv
    by (simp add: marshal_parameter_def convertible_def vec_index_def new_buffer_def parameter_cells_def element_text_in_range
        st_bind_def m2_def own_cells_def Let_def)
  moreover have "marshalled tv gv (Suc i) n m2"
    unfolding marshalled_def
  proof (intro conjI exI [of _ "cs @ [c]"] allI impI)
    fix j assume "j < Suc i"
    then show "value_cell j (values_str_vec m2) (values_charp m2) ((cs @ [c]) ! j) (gv ! j)"
      using cs(1) c by (cases "j = i") (auto simp: m2_def nth_append)
  next
    show "unrolled m2 = concat (map (\<lambda>j. own_cells j ((cs @ [c]) ! j)) [0..<Suc i]) @ replicate (9 * n) NULL_cell"
    proof -
      have "concat (map (\<lambda>j. own_cells j ((cs @ [c]) ! j)) [0..<Suc i])
          = concat (map (\<lambda>j. own_cells j (cs ! j)) [0..<i]) @ own_cells i c"
      proof -
        have "map (\<lambda>j. own_cells j ((cs @ [c]) ! j)) [0..<i] = map (\<lambda>j. own_cells j (cs ! j)) [0..<i]"
          by (rule map_cong) (simp_all add: nth_append cs(1))
        moreover have "(cs @ [c]) ! i = c" by (simp add: nth_append cs(1))
        ultimately show ?thesis by (simp only: upt_Suc map_append concat_append list.map concat.simps append_Nil2 zero_le if_True)
      qed
      then show ?thesis
        by (simp add: m2_def m1(2) cs(3) store_cells_next [OF concat_own_cells_length own_cells_length] del: replicate.simps mult_Suc_right upt_Suc)
    qed
  next
    show "values_kept (Suc i + n) (Suc i) m2" using m1(1) by (simp add: m2_def values_kept_def)
  next
    show "length (cs @ [c]) = Suc i" using cs(1) by simp
  qed (use assms(4) len m1(3) in \<open>simp_all add: m2_def marshalled_def grown del: take_Suc_conv_app_nth\<close>)
  ultimately show ?thesis by blast
qed

lemma marshal_parameters_ok:
  assumes "same_lengths tv" "\<forall>i < length (tv_values tv). convertible b tv i (gv ! i) (sz ! i)"
  shows "marshalled tv gv i n m \<Longrightarrow> i + n = length (tv_values tv) \<Longrightarrow> length sz = length (tv_values tv) \<Longrightarrow>
     \<exists>m'. marshal_parameters b tv i n m p = (Inr m', p\<lparr>live_buffers := live_buffers p @ drop i sz\<rparr>)
        \<and> marshalled tv gv (length (tv_values tv)) 0 m'"
proof (induction n arbitrary: i m p)
  case 0
  then show ?case by simp
next
  case (Suc n)
  then have i: "i < length (tv_values tv)" by simp
  from marshal_parameter_step [OF assms(1) i _ Suc.prems(1)] assms(2) i obtain m' where
    m': "marshal_parameter b tv i m p = (Inr m', p\<lparr>live_buffers := live_buffers p @ [sz ! i]\<rparr>)" "marshalled tv gv (Suc i) n m'"
    by blast
  from Suc.IH [OF m'(2), of "p\<lparr>live_buffers := live_buffers p @ [sz ! i]\<rparr>"] Suc.prems(2,3) i m'(1) show ?case
    by (auto simp: st_bind_def Cons_nth_drop_Suc [symmetric])
qed

lemma marshalled_view:
  assumes "marshalled tv gv n 0 m" "same_lengths tv" "n = length (tv_values tv)"
  shows "res_map (read_cell tv m) (unrolled m) = Inr (concat (map (\<lambda>i. parameter_view tv i (gv ! i)) [0..<n]))"
proof -
  from assms(1) obtain cs where cs: "\<forall>j < n. value_cell j (values_str_vec m) (values_charp m) (cs ! j) (gv ! j)"
    "unrolled m = concat (map (\<lambda>j. own_cells j (cs ! j)) [0..<n])"
    unfolding marshalled_def by auto
  have own: "map (read_cell tv m) (own_cells j (cs ! j)) = map Inr (parameter_view tv j (gv ! j))" if "j < n" for j
  proof -
    have read: "text_at v (ps ! j) = Inr (text_of (ts ! j))"
      if "kept (n + 0) (map text_of (take n ts)) v ps" "length ts = n" for ts v ps
      using kept_read [OF that(1), of j] that(2) \<open>j < n\<close> by simp
    have texts: "text_at (prefix_str_vec m) (prefix_charp m ! j) = Inr (text_of (tv_prefixes tv ! j))"
      "text_at (name_str_vec m) (name_charp m ! j) = Inr (text_of (tv_names tv ! j))"
      "text_at (content_str_vec m) (content_charp m ! j) = Inr (text_of (tv_contents tv ! j))"
      "text_at (weight_str_vec m) (weight_charp m ! j) = Inr (text_of (tv_weights tv ! j))"
      using assms by (auto simp: marshalled_def same_lengths_def intro!: read)
    have "read_cell tv m (cs ! j) = Inr (gv ! j)" using value_cell_read cs(1) that by blast
    with texts show ?thesis by (simp add: own_cells_def parameter_view_def)
  qed
  have "map (read_cell tv m) (unrolled m) = map Inr (concat (map (\<lambda>i. parameter_view tv i (gv ! i)) [0..<n]))"
    using own by (auto simp: cs(2) map_concat o_def intro!: arg_cong [where f = concat])
  then show ?thesis by (rule res_map_reads)
qed

section \<open>Properties of the calls\<close>

lemma process_task_calls:
  assumes "same_lengths tv" "tv_values tv \<noteq> []" "length gv = length (tv_values tv)" "length sz = length (tv_values tv)"
    and "\<forall>i < length (tv_values tv). convertible b tv i (gv ! i) (sz ! i)"
    and "text_argument b signature = Inr sg" "text_argument b on_failure = Inr onf"
  shows "process_task b rq signature on_failure tv p =
     (Inr (), p\<lparr>calls := calls p @
          [GS_ExecuteTaskNew rq sg onf (length (tv_values tv))
             (concat (map (\<lambda>i. parameter_view tv i (gv ! i)) [0..<length (tv_values tv)]))],
        live_buffers := live_buffers p @ sz\<rparr>)"
proof -
  have "marshalled tv gv 0 (length (tv_values tv)) (no_marshal (length (tv_values tv)))"
    by (simp add: marshalled_def no_marshal_def kept_empty values_kept_def reserve_empty)
  from marshal_parameters_ok [OF assms(1,5) this _ assms(4), of p] obtain m where
    run: "marshal_parameters b tv 0 (length (tv_values tv)) (no_marshal (length (tv_values tv))) p
       = (Inr m, p\<lparr>live_buffers := live_buffers p @ sz\<rparr>)" and m: "marshalled tv gv (length (tv_values tv)) 0 m" by auto
  note view = marshalled_view [OF m assms(1) refl]
  have "unrolled m \<noteq> []"
  proof
    assume "unrolled m = []"
    with view have "\<forall>i < length (tv_values tv). parameter_view tv i (gv ! i) = []" by simp
    with assms(2) show False by (cases "tv_values tv") (auto simp: parameter_view_def)
  qed
  with run view assms(6,7) show ?thesis
    by (simp add: process_task_def st_bind_def gs_def Let_def)
qed

text \<open>
  C22. A submission reaches the runtime exactly as R described it: for parallel vectors of one
  length with supported types and values that can be converted, the runtime is called once,
  with nine readable entries per parameter in the order value, type, direction, stream, prefix,
  name, content type, weight, keep-rename. The pointers to the strings among them were taken while
  the vectors of strings were growing and are all still good, since \<^verbatim>\<open>reserve\<close> made room for all
  strings beforehand. One buffer per parameter stays allocated afterwards.
\<close>

theorem task_marshalled:
  assumes "same_lengths tv" "tv_values tv \<noteq> []" "length gv = length (tv_values tv)" "length sz = length (tv_values tv)"
    and "\<forall>i < length (tv_values tv). convertible b tv i (gv ! i) (sz ! i)"
    and "text_argument b signature = Inr sg" "text_argument b on_failure = Inr onf"
  shows "process_task b rq signature on_failure tv p =
     (Inr (), p\<lparr>calls := calls p @
          [GS_ExecuteTaskNew rq sg onf (length (tv_values tv))
             (concat (map (\<lambda>i. parameter_view tv i (gv ! i)) [0..<length (tv_values tv)]))],
        live_buffers := live_buffers p @ sz\<rparr>)"
  by (rule process_task_calls [OF assms])

definition plain_binding :: binding where
  "plain_binding =
     \<lparr>getcwd = Some ''/work'', rand = 42, setenv_ok = True,
      stream_env = \<lparr>can_open = (\<lambda>_. True), accepts = (\<lambda>_ _. True), closed = (\<lambda>out. out)\<rparr>,
      master_path = ''/work'', symbol_name = (\<lambda>_. ''sym''), as_char_ptr = as_string reference_rcpp,
      rcpp_conv = reference_rcpp\<rparr>"

definition plain_process :: process where
  "plain_process = \<lparr>disk = Map.empty, environ = [''COMPSS_HOME'' \<mapsto> ''/opt'', ''JAVA_HOME'' \<mapsto> ''/j''], console = [], calls = [],
     live_buffers = []\<rparr>"

definition plain_request :: task_request where
  "plain_request = \<lparr>rq_app_id = 0, rq_time_out = 0, rq_priority = 0, rq_num_nodes = 1, rq_reduce = 0, rq_chunk_size = 0,
     rq_replicated = 0, rq_distributed = 0, rq_has_target = 0, rq_num_returns = 0\<rparr>"

definition one_integer :: task_vectors where
  "one_integer = \<lparr>tv_values = [INTSXP [7] []], tv_names = [Some ''x''], tv_types = [4], tv_directions = [0],
     tv_streams = [3], tv_prefixes = [Some ''null''], tv_contents = [None], tv_weights = [Some ''1''], tv_renames = [0]\<rparr>"

lemma plain_binding_simps [simp]:
  "rcpp_conv plain_binding = reference_rcpp" "symbol_name plain_binding x = ''sym''"
  by (simp_all add: plain_binding_def)

theorem task_marshalled_witness:
  "calls (snd (process_task plain_binding plain_request (OTHERSXP 1 []) (r_string ''RETRY'') one_integer plain_process)) =
     [GS_ExecuteTaskNew plain_request ''sym'' ''RETRY'' 1
        [GS_int 7, GS_int 4, GS_int 0, GS_int 3, GS_string ''null'', GS_string ''x'', GS_string ''NA'', GS_string ''1'', GS_int 0]]"
proof -
  have "strings_of reference_rcpp (r_string ''RETRY'') = Inr [Some ''RETRY'']"
    by (simp add: r_string_def reference_rcpp_def)
  then have onf: "text_argument plain_binding (r_string ''RETRY'') = Inr ''RETRY''"
    by (simp add: text_argument_def element_text_def vec_index_def r_string_def)
  have sg: "text_argument plain_binding (OTHERSXP 1 []) = Inr ''sym''" by (simp add: text_argument_def)
  have conv: "\<forall>i < length (tv_values one_integer). convertible plain_binding one_integer i ([GS_int 7] ! i) ([4] ! i)"
    by (simp add: one_integer_def convertible_def value_view_def parameter_size_def get_type_size_def reference_rcpp_def)
  have "same_lengths one_integer" "tv_values one_integer \<noteq> []" "length [GS_int 7] = length (tv_values one_integer)"
    "length [4 :: nat] = length (tv_values one_integer)"
    by (simp_all add: one_integer_def same_lengths_def)
  from task_marshalled [OF this conv sg onf, of plain_request plain_process] show ?thesis
    by (simp add: one_integer_def parameter_view_def text_of_def plain_process_def)
qed

text \<open>
  C23. Registering a core element hands its fields to the runtime, with a null pointer for
  empty constraints; without type arguments the registration reaches the runtime too, but what
  follows frees a pointer that was never set.
\<close>

theorem core_element_registered:
  assumes "length pro = 3" "length epi = 3" "length cont = 3"
  shows "register_core_element ce im cn ty lc io pro epi cont args p =
     (if args = [] then Inl Undefined_behaviour else Inr (),
      p\<lparr>calls := calls p @ [GS_RegisterCE
         \<lparr>ce_signature = ce, ce_impl_signature = im, ce_constraints = (if cn = [] then None else Some cn),
          ce_type = ty, ce_local = lc, ce_io = io, ce_prolog = map text_of pro, ce_epilog = map text_of epi,
          ce_container = map text_of cont, ce_type_args = map text_of args\<rparr>]\<rparr>)"
proof -
  have three: "three_texts v = Inr (map text_of v)" if "length v = 3" for v
  proof -
    from that obtain x y z where "v = [x, y, z]" by (auto simp: length_Suc_conv numeral_3_eq_3)
    then show ?thesis by (simp add: three_texts_def element_text_def vec_index_def text_of_def)
  qed
  have "res_map (element_text args) [0..int (length args) - 1] = Inr (map (\<lambda>i. text_of (args ! nat i)) [0..int (length args) - 1])"
    by (rule res_map_Inr_all) (auto simp: element_text_def vec_index_def text_of_def)
  moreover have "map (\<lambda>i. text_of (args ! nat i)) [0..int (length args) - 1] = map text_of args"
    by (rule nth_equalityI) simp_all
  ultimately show ?thesis
    using assms by (simp add: register_core_element_def three gs_def st_bind_def)
qed

theorem core_element_registered_witness:
  "fst (register_core_element ''m.f'' ''m.f'' [] ''METHOD'' ''False'' ''False'' [None, None, None] [None, None, None]
     [None, None, None] [] plain_process) = Inl Undefined_behaviour"
  using core_element_registered [of "[None, None, None]" "[None, None, None]" "[None, None, None]" "''m.f''" "''m.f''" "[]" "''METHOD''"
     "''False''" "''False''" "[]" plain_process]
  by simp

section \<open>The configuration file\<close>

lemma nl_last [simp]: "last (nl s) = CHR 0x0A" "nl s \<noteq> []" "butlast (nl s) = s"
  by (simp_all add: nl_def)

text \<open>The text of a line, and the key and value of an option line.\<close>

definition line_text :: "string list \<Rightarrow> string" where
  "line_text l = butlast (concat l)"

fun strip_prefix :: "string \<Rightarrow> string \<Rightarrow> string option" where
  "strip_prefix [] s = Some s"
| "strip_prefix (c # cs) [] = None"
| "strip_prefix (c # cs) (d # ds) = (if c = d then strip_prefix cs ds else None)"

fun option_value :: "string \<Rightarrow> string list list \<Rightarrow> string option" where
  "option_value k [] = None"
| "option_value k (l # ls) = (case strip_prefix k (line_text l) of None \<Rightarrow> option_value k ls | Some v \<Rightarrow> Some v)"

lemma line_text_simps [simp]:
  "line_text [nl s] = s" "line_text [a, nl s] = a @ s" "line_text [a, b, nl s] = a @ b @ s"
  "line_text [a, b, c, nl s] = a @ b @ c @ s" "line_text [a, b, c, d, nl s] = a @ b @ c @ d @ s"
  by (simp_all add: line_text_def butlast_append)

lemma line_end: "l \<noteq> [] \<Longrightarrow> last l \<noteq> [] \<Longrightarrow> last (last l) = CHR 0x0A \<Longrightarrow> concat l = nl (line_text l)"
proof -
  assume l: "l \<noteq> []" "last l \<noteq> []" "last (last l) = CHR 0x0A"
  then obtain ys y where "l = ys @ [y]" by (cases l rule: rev_cases) auto
  with l have "concat l = (concat ys @ butlast y) @ [CHR 0x0A]" by simp (metis append_butlast_last_id)
  then show ?thesis by (simp add: nl_def line_text_def butlast_append)
qed

lemma config_lines_end: "\<forall>l \<in> set (config_lines c). concat l = nl (line_text l)"
proof -
  have "\<forall>l \<in> set (config_lines c). l \<noteq> [] \<and> last l \<noteq> [] \<and> last (last l) = CHR 0x0A"
    by (simp add: config_lines_def config_head_def library_path_def config_tail_def)
  then show ?thesis using line_end by blast
qed

lemma option_value_append: "option_value k xs = Some v \<Longrightarrow> option_value k (xs @ ys) = Some v"
  by (induction xs) (auto split: option.splits)

lemma option_value_skip: "option_value k xs = None \<Longrightarrow> option_value k (xs @ ys) = option_value k ys"
  by (induction xs) (auto split: option.splits)

lemma config_options:
  "option_value ''-Dcompss.master.workingDir='' (config_head c) = Some (master_dir c)"
  "option_value ''-Dcompss.log.dir='' (config_head c) = Some (log_dir c)"
  "option_value ''-Dcompss.uuid='' (config_head c) = Some (uuid c)"
  "option_value ''-Dcompss.graph='' (config_head c) = Some (boolToString (graph_on c))"
  "option_value ''-Dgat.debug='' (config_head c) = Some (boolToString (debug_on c))"
  by (simp_all add: config_head_def)

lemma config_lines_head: "option_value k (config_head c) = Some v \<Longrightarrow> option_value k (config_lines c) = Some v"
  by (simp add: config_lines_def option_value_append)

lemma concat_concat_map: "concat (concat xs) = concat (map concat xs)"
  by (induction xs) simp_all

lemma stream_put_all:
  "\<forall>out t. accepts env out t \<Longrightarrow> foldl (stream_put env) (True, out) ts = (True, out @ string_bytes (concat ts))"
  by (induction ts arbitrary: out) (simp_all add: stream_put_def string_bytes_def)

lemma trace_options:
  "option_value ''-Dcompss.tracing='' (config_lines c) = Some (boolToString (trace_on c))"
  "option_value ''-Dcompss.tracing.extrae='' (config_lines c) = Some (boolToString (trace_on c))"
proof -
  have "option_value ''-Dcompss.tracing='' (config_head c) = None" "option_value ''-Dcompss.tracing.extrae='' (config_head c) = None"
    by (simp_all add: config_head_def)
  moreover have "strip_prefix ''-Dcompss.tracing='' (line_text (library_path c)) = None"
    "strip_prefix ''-Dcompss.tracing.extrae='' (line_text (library_path c)) = None"
    by (simp_all add: library_path_def line_text_def butlast_append nl_def)
  moreover have "option_value ''-Dcompss.tracing='' (config_tail c) = Some (boolToString (trace_on c))"
    "option_value ''-Dcompss.tracing.extrae='' (config_tail c) = Some (boolToString (trace_on c))"
    by (simp_all add: config_tail_def)
  ultimately show "option_value ''-Dcompss.tracing='' (config_lines c) = Some (boolToString (trace_on c))"
    "option_value ''-Dcompss.tracing.extrae='' (config_lines c) = Some (boolToString (trace_on c))"
    by (simp_all add: config_lines_def option_value_skip)
qed

text \<open>A variable that is not set ends in undefined behaviour, before anything is done.\<close>

lemma required_variable_set:
  "environ p nm = Some v \<Longrightarrow> \<exists>p'. required_variable nm p = (Inr v, p') \<and> environ p' = environ p \<and> disk p' = disk p \<and> calls p' = calls p"
  by (cases "v = []") (simp_all add: required_variable_def st_bind_gets_apply say_def st_bind_def st_gets_def)

lemma required_variable_unset: "environ p nm = None \<Longrightarrow> required_variable nm p = (Inl Undefined_behaviour, p)"
  by (simp add: required_variable_def st_bind_gets_apply st_bind_def st_gets_def)

text \<open>
  C24. Starting an interactive session, on a disk that can be written and with \<^verbatim>\<open>COMPSS_HOME\<close>
  and \<^verbatim>\<open>JAVA_HOME\<close> set, leaves in \<^verbatim>\<open>compss_jvm.cfg\<close> complete lines that give the working
  directory, the log directory and the flags chosen, selects the runtime and starts it, and the
  runtime finds, at the moment it is started, the finished file and \<^verbatim>\<open>JVM_OPTIONS_FILE\<close> pointing to
  it. When one of the two variables is not set, a string is made from a null pointer, which is
  undefined behaviour; up to there no file is written and the runtime is not called.
\<close>

theorem interactive_start:
  assumes "getcwd b = Some cwd" "setenv_ok b" "can_open (stream_env b) ''compss_jvm.cfg''"
    and "\<forall>out t. accepts (stream_env b) out t" "\<forall>out. closed (stream_env b) out = out"
  shows "if environ p ''COMPSS_HOME'' = None \<or> environ p ''JAVA_HOME'' = None
    then \<exists>p'. start_runtime_interactive b debug graph trace p = (Inl Undefined_behaviour, p')
        \<and> disk p' = disk p \<and> environ p' = environ p \<and> calls p' = calls p
    else \<exists>ls p'. start_runtime_interactive b debug graph trace p = (Inr (), p')
        \<and> disk p' = (disk p)(''compss_jvm.cfg'' \<mapsto> string_bytes (concat (map nl (map line_text ls))))
        \<and> option_value ''-Dcompss.master.workingDir='' ls = Some (master_working_dir (environ p) cwd)
        \<and> option_value ''-Dcompss.log.dir='' ls = Some (master_log_dir (environ p) cwd)
        \<and> option_value ''-Dcompss.uuid='' ls = Some (''123456-'' @ int_to_string (rand b))
        \<and> option_value ''-Dcompss.graph='' ls = Some (boolToString graph)
        \<and> option_value ''-Dgat.debug='' ls = Some (boolToString debug)
        \<and> option_value ''-Dcompss.tracing='' ls = Some (boolToString trace)
        \<and> option_value ''-Dcompss.tracing.extrae='' ls = Some (boolToString trace)
        \<and> environ p' = (environ p)(''JVM_OPTIONS_FILE'' \<mapsto> ''compss_jvm.cfg'')
        \<and> calls p' = calls p @ [GS_set_JNI_runtime, GS_On (environ p') (disk p')]"
proof (cases "environ p ''COMPSS_HOME''")
  case None
  from required_variable_unset [of p, OF None] assms(1) None show ?thesis
    by (simp add: start_runtime_interactive_def st_bind_def)
next
  case (Some h)
  from required_variable_set [of p, OF Some] obtain p1 where
    home: "required_variable ''COMPSS_HOME'' p = (Inr h, p1)" and p1: "environ p1 = environ p" "disk p1 = disk p" "calls p1 = calls p"
    by blast
  show ?thesis
  proof (cases "environ p ''JAVA_HOME''")
    case None
    with required_variable_unset [of p1 "''JAVA_HOME''"] home p1 assms(1) show ?thesis
      by (simp add: start_runtime_interactive_def st_bind_def)
  next
    case (Some j)
    with required_variable_set [of p1 "''JAVA_HOME''" j] p1 obtain p2 where
      java: "required_variable ''JAVA_HOME'' p1 = (Inr j, p2)" and p2: "environ p2 = environ p" "disk p2 = disk p" "calls p2 = calls p"
      by auto
    define c where "c = \<lparr>cwd_path = cwd, compss_home = h, java_home = j, uuid = ''123456-'' @ int_to_string (rand b),
       master_dir = master_working_dir (environ p) cwd, log_dir = master_log_dir (environ p) cwd,
       library_extra = non_empty (environ p ''RCOMPSs_JAVA_LIBRARY_PATH_EXTRA''),
       debug_on = debug, graph_on = graph, trace_on = trace\<rparr>"
    have lines: "map concat (config_lines c) = map nl (map line_text (config_lines c))"
      using config_lines_end [of c] by simp
    have "concat (concat (config_lines c)) = concat (map concat (config_lines c))"
      by (rule concat_concat_map)
    then have written: "string_bytes (concat (concat (config_lines c))) = string_bytes (concat (map nl (map line_text (config_lines c))))"
      by (simp only: lines)
    have "\<exists>p'. start_runtime_interactive b debug graph trace p = (Inr (), p')
        \<and> disk p' = (disk p)(''compss_jvm.cfg'' \<mapsto> string_bytes (concat (concat (config_lines c))))
        \<and> environ p' = (environ p)(''JVM_OPTIONS_FILE'' \<mapsto> ''compss_jvm.cfg'')
        \<and> calls p' = calls p @ [GS_set_JNI_runtime, GS_On (environ p') (disk p')]"
      using assms(1-5) home java p2
      by (simp add: start_runtime_interactive_def st_bind_def st_gets_def write_config_def stream_put_all say_def gs_def gs_on_def c_def)
    with config_options [of c, THEN config_lines_head] trace_options [of c] written Some \<open>environ p ''COMPSS_HOME'' = Some h\<close>
    show ?thesis
      by (auto simp: c_def)
  qed
qed

theorem interactive_start_witness:
  "\<exists>ls p'. start_runtime_interactive plain_binding False True False plain_process = (Inr (), p')
     \<and> option_value ''-Dcompss.master.workingDir='' ls = Some ''/work/.COMPSs_tmp''
     \<and> option_value ''-Dcompss.tracing='' ls = Some ''false''
     \<and> disk p' = [''compss_jvm.cfg'' \<mapsto> string_bytes (concat (map nl (map line_text ls)))]
     \<and> (\<exists>en. calls p' = [GS_set_JNI_runtime, GS_On en (disk p')] \<and> en ''JVM_OPTIONS_FILE'' = Some ''compss_jvm.cfg'')"
  using interactive_start [of plain_binding "''/work''" plain_process False True False]
  by (auto simp: plain_binding_def plain_process_def master_working_dir_def non_empty_def boolToString_def)

end
