(* ===== verification/Constraints.thy ===== *)
theory Constraints
  imports Task_Decorator
begin

text \<open>
  \<^verbatim>\<open>rcompss_build_constraint_string\<close> of \<^verbatim>\<open>src/compssmodule.cpp\<close>: the text COMPSs gets for the
  constraints of a task, \<^verbatim>\<open>key:value;\<close> for each named one, with lists written as processor
  descriptions \<^verbatim>\<open>[{k: v, k: v}, {k: v}]\<close>.
\<close>

section \<open>The text of a value\<close>

fun join_sep :: "string \<Rightarrow> string list \<Rightarrow> string" where
  "join_sep sep [] = []"
| "join_sep sep [x] = x"
| "join_sep sep (x # y # zs) = x @ sep @ join_sep sep (y # zs)"

text \<open>The fallback: the first element of what R's \<^verbatim>\<open>as.character\<close> returns.\<close>

definition as_character_text :: "'x task_env \<Rightarrow> sexp \<Rightarrow> ('x node, string) st" where
  "as_character_text e v =
     st_bind (as_character e v) (\<lambda>cs. st_return (if cs = [] then [] else cs ! 0))"

definition int_text :: "'x task_env \<Rightarrow> sexp \<Rightarrow> string res" where
  "int_text e v = res_bind (as_int (conv (host e)) v) (\<lambda>i. Inr (int_to_string i))"

definition real_text :: "'x task_env \<Rightarrow> sexp \<Rightarrow> string res" where
  "real_text e v = res_bind (as_double (conv (host e)) v) (\<lambda>d. Inr (double_text e d))"

definition field_value :: "'x task_env \<Rightarrow> sexp \<Rightarrow> ('x node, string) st" where
  "field_value e v =
     (case v of
        STRSXP _ _ \<Rightarrow> st_lift (as_string (conv (host e)) v)
      | INTSXP _ _ \<Rightarrow> st_lift (int_text e v)
      | REALSXP _ _ \<Rightarrow> st_lift (real_text e v)
      | LGLSXP _ _ \<Rightarrow>
          st_lift (res_bind (as_bool (conv (host e)) v) (\<lambda>b. Inr (if b then ''true'' else ''false'')))
      | _ \<Rightarrow> as_character_text e v)"

text \<open>The name at an index, empty when there is none or it is NA.\<close>

definition name_or_empty :: "string option list \<Rightarrow> nat \<Rightarrow> string" where
  "name_or_empty names k = (if k < length names then (case names ! k of Some nm \<Rightarrow> nm | None \<Rightarrow> []) else [])"

definition processor_text :: "'x task_env \<Rightarrow> sexp \<Rightarrow> ('x node, string) st" where
  "processor_text e p =
     (case p of
        VECSXP entries _ \<Rightarrow>
          st_bind (st_lift (names_of (conv (host e)) p)) (\<lambda>proc_names.
          st_bind (st_map (\<lambda>(k, v). st_bind (field_value e v) (\<lambda>t. st_return (name_or_empty proc_names k @ '': '' @ t)))
             (enumerate 0 entries)) (\<lambda>parts.
          st_return (join_sep '', '' parts)))
      | _ \<Rightarrow> st_return [])"

definition value_text :: "'x task_env \<Rightarrow> sexp \<Rightarrow> ('x node, string) st" where
  "value_text e v =
     (case v of
        INTSXP _ _ \<Rightarrow> st_lift (int_text e v)
      | REALSXP _ _ \<Rightarrow> st_lift (real_text e v)
      | STRSXP _ _ \<Rightarrow> st_lift (as_string (conv (host e)) v)
      | VECSXP ps _ \<Rightarrow>
          st_bind (st_map (processor_text e) ps) (\<lambda>texts.
          st_return (''[{'' @ join_sep ''}, {'' texts @ ''}]''))
      | _ \<Rightarrow> as_character_text e v)"

section \<open>The constraint string\<close>

text \<open>The loop: unnamed constraints are skipped.\<close>

fun constraint_pairs :: "'x task_env \<Rightarrow> string option list \<Rightarrow> nat \<Rightarrow> sexp list \<Rightarrow> ('x node, (string \<times> string) list) st" where
  "constraint_pairs e names i [] = st_return []"
| "constraint_pairs e names i (v # vs) =
     (case (if i < length names then names ! i else None) of
        None \<Rightarrow> constraint_pairs e names (Suc i) vs
      | Some key \<Rightarrow>
          st_bind (value_text e v) (\<lambda>t.
          st_bind (constraint_pairs e names (Suc i) vs) (\<lambda>ps. st_return ((key, t) # ps))))"

definition rcompss_build_constraint_string :: "'x task_env \<Rightarrow> sexp \<Rightarrow> ('x node, string) st" where
  "rcompss_build_constraint_string e constraints =
     (if vector_elts constraints = [] then st_return []
      else
        st_bind (st_lift (names_of (conv (host e)) constraints)) (\<lambda>names.
        st_bind (constraint_pairs e names 0 (vector_elts constraints)) (\<lambda>pairs.
        st_return (buildConstraintString pairs))))"

section \<open>Laws\<close>

lemma buildConstraintString_concat:
  "buildConstraintString ps = concat (map (\<lambda>(k, v). k @ '':'' @ v @ '';'') ps)"
proof -
  have "foldl (\<lambda>r c. r @ fst c @ '':'' @ snd c @ '';'') acc ps = acc @ concat (map (\<lambda>(k, v). k @ '':'' @ v @ '';'') ps)"
    for acc
    by (induction ps arbitrary: acc) auto
  from this [of "[]"] show ?thesis by (simp add: buildConstraintString_def)
qed

lemma entries_inject:
  "\<forall>(k, v) \<in> set ps. CHR '':'' \<notin> set k \<and> CHR '';'' \<notin> set v \<Longrightarrow>
   \<forall>(k, v) \<in> set qs. CHR '':'' \<notin> set k \<and> CHR '';'' \<notin> set v \<Longrightarrow>
   concat (map (\<lambda>(k, v). k @ '':'' @ v @ '';'') ps) = concat (map (\<lambda>(k, v). k @ '':'' @ v @ '';'') qs) \<Longrightarrow> ps = qs"
proof (induction ps arbitrary: qs)
  case Nil
  then show ?case by (cases qs) auto
next
  case (Cons p ps)
  obtain k v where p: "p = (k, v)" by fastforce
  from Cons.prems(3) obtain k' v' qs' where qs: "qs = (k', v') # qs'"
    by (cases qs) (auto simp: p)
  let ?r = "concat (map (\<lambda>(k, v). k @ '':'' @ v @ '';'') ps)" and ?r' = "concat (map (\<lambda>(k, v). k @ '':'' @ v @ '';'') qs')"
  have whole: "k @ CHR '':'' # (v @ CHR '';'' # ?r) = k' @ CHR '':'' # (v' @ CHR '';'' # ?r')"
    using Cons.prems(3) by (simp add: p qs)
  have "k = k'" and rest: "v @ CHR '';'' # ?r = v' @ CHR '';'' # ?r'"
    using split_at_first_char [OF whole] Cons.prems(1,2) by (auto simp: p qs)
  moreover have "v = v'" "?r = ?r'"
    using split_at_first_char [OF rest] Cons.prems(1,2) by (auto simp: p qs)
  moreover have "ps = qs'"
    using Cons.prems(1,2) \<open>?r = ?r'\<close> by (intro Cons.IH) (auto simp: qs)
  ultimately show ?case by (simp add: p qs)
qed

section \<open>Constraints and their texts\<close>

text \<open>
  The constraints a user writes, the R objects they are and the texts COMPSs gets: integers, strings
  and lists of processors, each described by named integers and strings.
\<close>

datatype field = Number int | Name string

datatype constraint = Count int | Word string | Processors "(string \<times> field) list list"

fun field_object :: "field \<Rightarrow> sexp" where
  "field_object (Number i) = r_int i"
| "field_object (Name s) = r_string s"

fun field_text :: "field \<Rightarrow> string" where
  "field_text (Number i) = int_to_string i"
| "field_text (Name s) = s"

definition processor_object :: "(string \<times> field) list \<Rightarrow> sexp" where
  "processor_object fs = named_list (map (\<lambda>(k, f). (k, field_object f)) fs)"

fun constraint_object :: "constraint \<Rightarrow> sexp" where
  "constraint_object (Count i) = r_int i"
| "constraint_object (Word s) = r_string s"
| "constraint_object (Processors ps) = VECSXP (map processor_object ps) []"

fun constraint_text :: "constraint \<Rightarrow> string" where
  "constraint_text (Count i) = int_to_string i"
| "constraint_text (Word s) = s"
| "constraint_text (Processors ps) =
     ''[{'' @ join_sep ''}, {'' (map (\<lambda>p. join_sep '', '' (map (\<lambda>(k, f). k @ '': '' @ field_text f) p)) ps) @ ''}]''"

text \<open>Integers are R integers, and a processor says something.\<close>

fun field_ok :: "field \<Rightarrow> bool" where
  "field_ok (Number i) = in_int_range i"
| "field_ok (Name s) = True"

fun constraint_ok :: "constraint \<Rightarrow> bool" where
  "constraint_ok (Count i) = in_int_range i"
| "constraint_ok (Word s) = True"
| "constraint_ok (Processors ps) = (\<forall>p \<in> set ps. p \<noteq> [] \<and> (\<forall>(k, f) \<in> set p. field_ok f))"

lemma int_text_r_int: "rcpp_api (conv (host e)) \<Longrightarrow> in_int_range i \<Longrightarrow> int_text e (r_int i) = Inr (int_to_string i)"
  by (simp add: int_text_def r_int_def rcpp_api.as_int_scalar in_int_range_def int_min_def int_max_def signed_of_int
      signed_take_bit_int_eq_self)

lemma field_value_text:
  "rcpp_api (conv (host e)) \<Longrightarrow> field_ok f \<Longrightarrow> field_value e (field_object f) s = (Inr (field_text f), s)"
  using int_text_r_int [of e] rcpp_api.as_string_r_string [of "conv (host e)"]
  by (cases f) (simp_all add: field_value_def r_int_def r_string_def)

lemma st_map_texts:
  assumes "\<And>y s. y \<in> set ys \<Longrightarrow> f y s = (Inr (g y), s)"
  shows "st_map f ys s = (Inr (map g ys), s)"
  using st_map_invariant [of ys "\<lambda>t. t = s" f g s] assms by auto

lemma processor_object_text:
  assumes "rcpp_api (conv (host e))" "p \<noteq> []" "\<forall>(k, f) \<in> set p. field_ok f"
  shows "processor_text e (processor_object p) s = (Inr (join_sep '', '' (map (\<lambda>(k, f). k @ '': '' @ field_text f) p)), s)"
proof -
  let ?kvs = "map (\<lambda>(k, f). (k, field_object f)) p"
  have names: "names_of (conv (host e)) (named_list ?kvs) = Inr (map (\<lambda>kv. Some (fst kv)) ?kvs)"
    using rcpp_api.named_list_names [OF assms(1)] assms(2) by simp
  let ?step = "\<lambda>(k, v). st_bind (field_value e v)
      (\<lambda>t. st_return (name_or_empty (map (\<lambda>kv. Some (fst kv)) ?kvs) k @ '': '' @ t))"
  let ?text = "\<lambda>(k, v :: sexp). fst (p ! k) @ '': '' @ field_text (snd (p ! k))"
  have "?step y s = (Inr (?text y), s)" if "y \<in> set (enumerate 0 (map snd ?kvs))" for y s
  proof -
    obtain k v where y: "y = (k, v)" by fastforce
    with that have k: "k < length p" "v = map snd ?kvs ! k" by (auto simp: in_set_enumerate_eq)
    then have "v = field_object (snd (p ! k))" "field_ok (snd (p ! k))"
      using assms(3) nth_mem [OF k(1)] by (auto simp: case_prod_beta)
    with k(1) show ?thesis
      by (simp add: y st_bind_def field_value_text [OF assms(1)] name_or_empty_def case_prod_beta)
  qed
  from st_map_texts [of "enumerate 0 (map snd ?kvs)" ?step ?text, OF this]
  have "st_map ?step (enumerate 0 (map snd ?kvs)) s = (Inr (map ?text (enumerate 0 (map snd ?kvs))), s)" .
  moreover have "map ?text (enumerate 0 (map snd ?kvs)) = map (\<lambda>(k, f). k @ '': '' @ field_text f) p"
    by (rule nth_equalityI) (simp_all add: nth_enumerate_eq case_prod_beta)
  ultimately show ?thesis
    using names by (simp add: processor_object_def processor_text_def named_list_def st_bind_def)
qed

lemma processors_text:
  assumes "rcpp_api (conv (host e))"
  shows "\<forall>p \<in> set ps. p \<noteq> [] \<and> (\<forall>(k, f) \<in> set p. field_ok f) \<Longrightarrow>
    st_map (processor_text e) (map processor_object ps) s
      = (Inr (map (\<lambda>p. join_sep '', '' (map (\<lambda>(k, f). k @ '': '' @ field_text f) p)) ps), s)"
  by (induction ps) (simp_all add: st_bind_def processor_object_text [OF assms])

lemma constraint_value_text:
  assumes "rcpp_api (conv (host e))" "constraint_ok c"
  shows "value_text e (constraint_object c) s = (Inr (constraint_text c), s)"
proof (cases c)
  case (Processors ps)
  then show ?thesis using processors_text [OF assms(1)] assms(2) by (simp add: value_text_def st_bind_def)
qed (use assms int_text_r_int [of e] rcpp_api.as_string_r_string [of "conv (host e)"] in
    \<open>simp_all add: value_text_def r_int_def r_string_def\<close>)

section \<open>Laws of the constraint string\<close>

abbreviation constraint_list :: "(string \<times> constraint) list \<Rightarrow> sexp" where
  "constraint_list cs \<equiv> named_list (map (\<lambda>(k, c). (k, constraint_object c)) cs)"

lemma constraint_pairs_texts:
  assumes "rcpp_api (conv (host e))"
  shows "\<forall>(k, c) \<in> set cs. constraint_ok c \<Longrightarrow>
    constraint_pairs e (pre @ map (\<lambda>kc. Some (fst kc)) cs) (length pre) (map (\<lambda>kc. constraint_object (snd kc)) cs) s
      = (Inr (map (\<lambda>(k, c). (k, constraint_text c)) cs), s)"
proof (induction cs arbitrary: pre)
  case Nil
  then show ?case by simp
next
  case (Cons kc cs)
  have "constraint_pairs e ((pre @ [Some (fst kc)]) @ map (\<lambda>kc. Some (fst kc)) cs) (length (pre @ [Some (fst kc)]))
      (map (\<lambda>kc. constraint_object (snd kc)) cs) s = (Inr (map (\<lambda>(k, c). (k, constraint_text c)) cs), s)"
    by (rule Cons.IH) (use Cons.prems in auto)
  then show ?case
    using Cons.prems by (cases kc) (simp add: st_bind_def nth_append constraint_value_text [OF assms])
qed

lemma constraint_string_texts:
  assumes "rcpp_api (conv (host e))" "\<forall>(k, c) \<in> set cs. constraint_ok c"
  shows "rcompss_build_constraint_string e (constraint_list cs) s
    = (Inr (concat (map (\<lambda>(k, t). k @ '':'' @ t @ '';'') (map (\<lambda>(k, c). (k, constraint_text c)) cs))), s)"
proof (cases "cs = []")
  case True
  then show ?thesis by (simp add: rcompss_build_constraint_string_def named_list_def)
next
  case False
  let ?kvs = "map (\<lambda>(k, c). (k, constraint_object c)) cs"
  have names: "names_of (conv (host e)) (constraint_list cs) = Inr (map (\<lambda>kc. Some (fst kc)) cs)"
    using rcpp_api.named_list_names [OF assms(1), of ?kvs] False by (simp add: comp_def case_prod_beta)
  have elts: "vector_elts (constraint_list cs) = map (\<lambda>kc. constraint_object (snd kc)) cs"
    by (simp add: named_list_def comp_def case_prod_beta)
  show ?thesis
    using constraint_pairs_texts [OF assms, of "[]" s] False
    by (simp add: rcompss_build_constraint_string_def names elts st_bind_def buildConstraintString_concat)
qed

section \<open>Properties\<close>

text \<open>
  C21. For a named list of constraints that are integers, strings or lists of processors the result
  is \<^verbatim>\<open>key:text;\<close> for each of them in order, with the digits of an integer, the string itself, and
  \<^verbatim>\<open>[{name: text, name: text}, {name: text}]\<close> for processors. When no key holds a colon and no text a
  semicolon, two lists of constraints get the same string exactly when they have the same keys with
  the same texts in the same order; an integer and the string of its digits are not told apart.
\<close>

theorem constraint_string_faithful:
  assumes "rcpp_api (conv (host e))" "\<forall>(k, c) \<in> set (cs @ cs'). constraint_ok c"
    and "\<forall>(k, c) \<in> set (cs @ cs'). CHR '':'' \<notin> set k \<and> CHR '';'' \<notin> set (constraint_text c)"
  shows "rcompss_build_constraint_string e (constraint_list cs) s
           = (Inr (concat (map (\<lambda>(k, c). k @ '':'' @ constraint_text c @ '';'') cs)), s)
       \<and> (fst (rcompss_build_constraint_string e (constraint_list cs) s)
            = fst (rcompss_build_constraint_string e (constraint_list cs') s)
          \<longleftrightarrow> map (\<lambda>(k, c). (k, constraint_text c)) cs = map (\<lambda>(k, c). (k, constraint_text c)) cs')"
proof -
  let ?g = "\<lambda>ps :: (string \<times> string) list. concat (map (\<lambda>(k, t). k @ '':'' @ t @ '';'') ps)"
  let ?texts = "map (\<lambda>(k, c). (k, constraint_text c))"
  have run: "rcompss_build_constraint_string e (constraint_list cs) s = (Inr (?g (?texts cs)), s)"
    "rcompss_build_constraint_string e (constraint_list cs') s = (Inr (?g (?texts cs')), s)"
    by (rule constraint_string_texts [OF assms(1)]; use assms(2) in auto)+
  have inject: "?texts cs = ?texts cs'" if "?g (?texts cs) = ?g (?texts cs')"
    by (rule entries_inject [OF _ _ that]) (use assms(3) in auto)
  have same: "?g (?texts cs) = ?g (?texts cs') \<longleftrightarrow> ?texts cs = ?texts cs'"
    by (rule iffI [OF inject]) (assumption, simp only:)
  have spelled: "?g (?texts cs) = concat (map (\<lambda>(k, c). k @ '':'' @ constraint_text c @ '';'') cs)"
    by (induction cs) auto
  show ?thesis by (simp only: run fst_conv sum.inject same) (simp only: spelled simp_thms)
qed

definition example_constraints :: "(string \<times> constraint) list" where
  "example_constraints =
     [(''ComputingUnits'', Count 2),
      (''processors'', Processors [[(''ProcessorType'', Name ''CPU''), (''ComputingUnits'', Number 1)], [(''ProcessorType'', Name ''GPU'')]])]"

theorem constraint_string_faithful_witness:
  "fst (rcompss_build_constraint_string example_env (constraint_list example_constraints) empty_node)
     = Inr ''ComputingUnits:2;processors:[{ProcessorType: CPU, ComputingUnits: 1}, {ProcessorType: GPU}];''"
proof -
  have num: "int_to_string 2 = ''2''" "int_to_string 1 = ''1''" by code_simp+
  have "\<forall>(k, c) \<in> set (example_constraints @ []). constraint_ok c"
    "\<forall>(k, c) \<in> set (example_constraints @ []). CHR '':'' \<notin> set k \<and> CHR '';'' \<notin> set (constraint_text c)"
    by (simp_all add: example_constraints_def num in_int_range_def int_min_def int_max_def)
  from conjunct1 [OF constraint_string_faithful [OF _ this, of example_env empty_node]]
  show ?thesis
    by (simp add: refrcpp.rcpp_api_axioms) (simp add: example_constraints_def num)
qed

end
