(* ===== verification/Task_Wrapper.thy ===== *)
theory Task_Wrapper
  imports Task_Decorator
begin

text \<open>
  How R code gets a decorated task: \<^verbatim>\<open>task\<close> of \<^verbatim>\<open>src/compssmodule.cpp\<close> and
  \<^verbatim>\<open>TaskDecorator::createTaskDecorator\<close>, and the exports that only pass their arguments to
  the utility classes. The lines these print are left out.
\<close>

section \<open>The R session the decorator talks to\<close>

text \<open>
  \<open>global_vars\<close> is \<^verbatim>\<open>ls(envir = globalenv())\<close>, \<open>is_function\<close> R's \<^verbatim>\<open>is.function\<close>, \<open>create_func\<close> the
  function \<^verbatim>\<open>rcompss_create_task_decorator\<close> of the package namespace. \<open>matched_call\<close> is the
  matched call of the caller as a list and \<open>deparse\<close> R's \<^verbatim>\<open>deparse\<close>.
\<close>

record 'x r_frontend =
  global_vars :: "('x node, string list) st"
  is_function :: "sexp \<Rightarrow> ('x node, bool) st"
  create_func :: "sexp \<Rightarrow> string \<Rightarrow> string \<Rightarrow> bool \<Rightarrow> string \<Rightarrow> string list \<Rightarrow> bool \<Rightarrow> ('x node, sexp) st"
  matched_call :: "('x node, (string \<times> sexp) list) st"
  deparse :: "sexp \<Rightarrow> ('x node, string list) st"

definition CLOSXP :: nat where "CLOSXP = 3"

fun TYPEOF :: "sexp \<Rightarrow> nat" where
  "TYPEOF NILSXP = 0"
| "TYPEOF (LGLSXP _ _) = 10"
| "TYPEOF (INTSXP _ _) = 13"
| "TYPEOF (REALSXP _ _) = 14"
| "TYPEOF (STRSXP _ _) = 16"
| "TYPEOF (VECSXP _ _) = 19"
| "TYPEOF (OTHERSXP n _) = n"

definition red :: "string \<Rightarrow> string" where
  "red s = [CHR 0x1B] @ ''[0;31m'' @ s @ [CHR 0x1B] @ ''[0m''"

definition createTaskDecorator ::
    "'x r_frontend \<Rightarrow> sexp \<Rightarrow> string \<Rightarrow> bool \<Rightarrow> string \<Rightarrow> string list \<Rightarrow> bool \<Rightarrow> string \<Rightarrow> ('x node, sexp) st" where
  "createTaskDecorator fe f filename return_value return_type ser_method info_only f_name =
     st_bind (global_vars fe) (\<lambda>vars.
     if ''MASTER_WORKING_DIR'' \<notin> set vars then st_throw (Rcpp_exception (red ''MASTER_WORKING_DIR NOT FOUND!''))
     else
       st_bind (is_function fe f) (\<lambda>f_is_function.
       if \<not> f_is_function then st_throw (Rcpp_exception ''f must be a function'')
       else
         st_bind (create_func fe f f_name filename return_value return_type ser_method info_only) (\<lambda>result.
         if TYPEOF result \<noteq> CLOSXP
         then st_throw (Std_exception ''create_task_decorator did not return a function'')
         else st_return result)))"

text \<open>The name of the decorated function: the one given, else what the call shows, else empty.\<close>

definition extract_name :: "'x r_frontend \<Rightarrow> string \<Rightarrow> ('x node, string) st" where
  "extract_name fe f_name =
     (if f_name \<noteq> [] then st_return f_name
      else
        st_catch
          (st_bind (matched_call fe) (\<lambda>matched_list.
             case alist_get matched_list ''f'' of
               None \<Rightarrow> st_return []
             | Some f_arg \<Rightarrow>
                 st_bind (deparse fe f_arg) (\<lambda>f_name_vec.
                 st_return (if f_name_vec = [] then [] else f_name_vec ! 0))))
          (\<lambda>_. st_return []))"

definition task ::
    "'x r_frontend \<Rightarrow> sexp \<Rightarrow> string \<Rightarrow> bool \<Rightarrow> string \<Rightarrow> string list \<Rightarrow> bool \<Rightarrow> string \<Rightarrow> ('x node, sexp) st" where
  "task fe f filename return_value return_type ser_method info_only f_name =
     st_bind (extract_name fe f_name) (\<lambda>extracted_f_name.
     createTaskDecorator fe f filename return_value return_type ser_method info_only extracted_f_name)"

section \<open>Exports of the utility classes\<close>

definition rcompss_rep_integer :: "int \<Rightarrow> int \<Rightarrow> int list res" where
  "rcompss_rep_integer value count = repInteger value count"

definition rcompss_rep_string :: "string \<Rightarrow> int \<Rightarrow> string list res" where
  "rcompss_rep_string value count = repString value count"

definition rcompss_concat_integer :: "int list \<Rightarrow> int \<Rightarrow> int list" where
  "rcompss_concat_integer vec value = concatInteger vec value"

definition rcompss_concat_string :: "string list \<Rightarrow> string \<Rightarrow> string list" where
  "rcompss_concat_string vec value = concatString vec value"

definition rcompss_extract_serialization_method :: "string \<Rightarrow> string" where
  "rcompss_extract_serialization_method filepath = extractSerializationMethod filepath"

definition rcompss_build_argument_filename :: "string \<Rightarrow> string \<Rightarrow> string \<Rightarrow> int \<Rightarrow> string \<Rightarrow> string" where
  "rcompss_build_argument_filename master_working_dir ser_method arg_name index uid =
     buildArgumentFilename master_working_dir ser_method arg_name index uid"

definition rcompss_build_return_value_filename :: "string \<Rightarrow> string \<Rightarrow> string \<Rightarrow> string" where
  "rcompss_build_return_value_filename master_working_dir ser_method uid =
     buildReturnValueFilename master_working_dir ser_method uid"

definition rcompss_build_variable_argument_names :: "string \<Rightarrow> int \<Rightarrow> string list res" where
  "rcompss_build_variable_argument_names function_name count = buildVariableArgumentNames function_name count"

definition rcompss_build_return_value_name :: "string \<Rightarrow> string" where
  "rcompss_build_return_value_name ser_method = buildReturnValueName ser_method"

definition rcompss_build_register_marker :: "string \<Rightarrow> string" where
  "rcompss_build_register_marker function_name = buildRegisterMarker function_name"

definition rcompss_build_type_args_path :: "string \<Rightarrow> string \<Rightarrow> string" where
  "rcompss_build_type_args_path working_dir filename = buildTypeArgsPath working_dir filename"

section \<open>Properties\<close>

text \<open>
  A decorated task is only ever a closure, made in a session that has a master working
  directory, for an object that is a function, under the name given or the one found in the
  call; finding the name never fails by an exception.
\<close>

theorem decorator_guards:
  "(case task fe f filename rv rt ms io f_name s of
      (Inr result, s') \<Rightarrow>
         TYPEOF result = CLOSXP \<and>
         (\<exists>nm s1 vars s2 s3. extract_name fe f_name s = (Inr nm, s1) \<and> global_vars fe s1 = (Inr vars, s2) \<and> ''MASTER_WORKING_DIR'' \<in> set vars
            \<and> is_function fe f s2 = (Inr True, s3)
            \<and> create_func fe f nm filename rv rt ms io s3 = (Inr result, s'))
    | (Inl ex, s') \<Rightarrow> True)
   \<and> (case extract_name fe f_name s of (Inl ex, s') \<Rightarrow> \<not> catchable ex | (Inr nm, s') \<Rightarrow> nm = f_name \<or> f_name = [])"
proof
  show "case task fe f filename rv rt ms io f_name s of
      (Inr result, s') \<Rightarrow>
         TYPEOF result = CLOSXP \<and>
         (\<exists>nm s1 vars s2 s3. extract_name fe f_name s = (Inr nm, s1) \<and> global_vars fe s1 = (Inr vars, s2) \<and> ''MASTER_WORKING_DIR'' \<in> set vars
            \<and> is_function fe f s2 = (Inr True, s3)
            \<and> create_func fe f nm filename rv rt ms io s3 = (Inr result, s'))
    | (Inl ex, s') \<Rightarrow> True"
  proof (cases "task fe f filename rv rt ms io f_name s")
    case (Pair r s')
    show ?thesis
    proof (cases r)
      case (Inl ex)
      with Pair show ?thesis by simp
    next
      case (Inr result)
      with Pair obtain nm s1 vars s2 s3 where
        "extract_name fe f_name s = (Inr nm, s1)" "global_vars fe s1 = (Inr vars, s2)" "''MASTER_WORKING_DIR'' \<in> set vars"
        "is_function fe f s2 = (Inr True, s3)"
        "create_func fe f nm filename rv rt ms io s3 = (Inr result, s')" "TYPEOF result = CLOSXP"
        by (auto simp: task_def createTaskDecorator_def st_bind_Inr_conv split: if_splits)
      with Pair Inr show ?thesis by simp
    qed
  qed
  have "throws_only (\<lambda>ex. \<not> catchable ex) (extract_name fe f_name)"
    unfolding extract_name_def
    by (auto intro!: throws_only_return throws_only_catch)
  from throws_onlyD [OF this, of s] show "case extract_name fe f_name s of (Inl ex, s') \<Rightarrow> \<not> catchable ex | (Inr nm, s') \<Rightarrow> nm = f_name \<or> f_name = []"
    by (cases "extract_name fe f_name s") (auto simp: extract_name_def split: sum.splits)
qed

end
