(* ===== verification/Rcpp_Exports.thy ===== *)
theory Rcpp_Exports
  imports Rcpp_Args Runtime_Binding Constraints Task_Wrapper Serialize_Codec
begin

text \<open>
  The entry points of \<^verbatim>\<open>src/src/RcppExports.cpp\<close>: one definition per C function, with its
  conversions in the order of its declarations, the call and the conversion of the result, inside
  \<^verbatim>\<open>BEGIN_RCPP\<close> and \<^verbatim>\<open>END_RCPP\<close>; the tables that register them with R, one per state they act on; and
  R's \<^verbatim>\<open>.Call\<close>. Where several arguments fail to convert, C++ leaves open which failure is reported;
  here it is the first. \<^verbatim>\<open>RNGScope\<close>, which saves R's random seed, is left out.
\<close>

section \<open>Linear algebra\<close>

definition RCOMPSs_rcompss_gpu_dgemm :: "rcpp_args \<Rightarrow> linalg_env \<Rightarrow> sexp \<Rightarrow> sexp \<Rightarrow>
    sexp \<Rightarrow> sexp \<Rightarrow> sexp \<Rightarrow> sexp \<Rightarrow> (memory, sexp) st" where
  "RCOMPSs_rcompss_gpu_dgemm r e ASEXP BSEXP transASEXP transBSEXP alphaSEXP betaSEXP =
     END_RCPP (
     st_bind (st_lift (as_matrix r ASEXP)) (\<lambda>A.
     st_bind (st_lift (as_matrix r BSEXP)) (\<lambda>B.
     st_bind (st_lift (as_bool r transASEXP)) (\<lambda>transA.
     st_bind (st_lift (as_bool r transBSEXP)) (\<lambda>transB.
     st_bind (st_lift (as_double r alphaSEXP)) (\<lambda>alpha.
     st_bind (st_lift (as_double r betaSEXP)) (\<lambda>beta.
     st_bind (rcompss_gpu_dgemm e A B transA transB alpha beta) (\<lambda>result. st_return (wrap_matrix result)))))))))"

definition RCOMPSs_rcompss_gpu_daxpy :: "rcpp_args \<Rightarrow> linalg_env \<Rightarrow> sexp \<Rightarrow> sexp \<Rightarrow>
    sexp \<Rightarrow> (memory, sexp) st" where
  "RCOMPSs_rcompss_gpu_daxpy r e xSEXP ySEXP alphaSEXP =
     END_RCPP (
     st_bind (st_lift (as_numeric r xSEXP)) (\<lambda>x.
     st_bind (st_lift (as_numeric r ySEXP)) (\<lambda>y.
     st_bind (st_lift (as_double r alphaSEXP)) (\<lambda>alpha.
     st_bind (rcompss_gpu_daxpy e x y alpha) (\<lambda>result. st_return (wrap_numeric result))))))"

definition RCOMPSs_rcompss_gpu_dpotrf :: "rcpp_args \<Rightarrow> linalg_env \<Rightarrow> sexp \<Rightarrow> sexp \<Rightarrow>
    (memory, sexp) st" where
  "RCOMPSs_rcompss_gpu_dpotrf r e ASEXP upperSEXP =
     END_RCPP (
     st_bind (st_lift (as_matrix r ASEXP)) (\<lambda>A.
     st_bind (st_lift (as_bool r upperSEXP)) (\<lambda>upper.
     st_bind (rcompss_gpu_dpotrf e A upper) (\<lambda>result. st_return (wrap_matrix result)))))"

definition RCOMPSs_rcompss_gpu_dgemv :: "rcpp_args \<Rightarrow> linalg_env \<Rightarrow> sexp \<Rightarrow> sexp \<Rightarrow>
    sexp \<Rightarrow> sexp \<Rightarrow> sexp \<Rightarrow> sexp \<Rightarrow> (memory, sexp) st" where
  "RCOMPSs_rcompss_gpu_dgemv r e ASEXP xSEXP transSEXP alphaSEXP betaSEXP y0SEXP =
     END_RCPP (
     st_bind (st_lift (as_matrix r ASEXP)) (\<lambda>A.
     st_bind (st_lift (as_numeric r xSEXP)) (\<lambda>x.
     st_bind (st_lift (as_bool r transSEXP)) (\<lambda>trans.
     st_bind (st_lift (as_double r alphaSEXP)) (\<lambda>alpha.
     st_bind (st_lift (as_double r betaSEXP)) (\<lambda>beta.
     st_bind (rcompss_gpu_dgemv e A x trans alpha beta (nullable (as_numeric r) y0SEXP)) (\<lambda>result. st_return (wrap_numeric
         result))))))))"

definition RCOMPSs_rcompss_gpu_ddot :: "rcpp_args \<Rightarrow> linalg_env \<Rightarrow> sexp \<Rightarrow> sexp \<Rightarrow>
    (memory, sexp) st" where
  "RCOMPSs_rcompss_gpu_ddot r e xSEXP ySEXP =
     END_RCPP (
     st_bind (st_lift (as_numeric r xSEXP)) (\<lambda>x.
     st_bind (st_lift (as_numeric r ySEXP)) (\<lambda>y.
     st_bind (rcompss_gpu_ddot e x y) (\<lambda>result. st_return (wrap_double result)))))"

definition RCOMPSs_rcompss_gpu_dnrm2 :: "rcpp_args \<Rightarrow> linalg_env \<Rightarrow> sexp \<Rightarrow> (memory, sexp) st" where
  "RCOMPSs_rcompss_gpu_dnrm2 r e xSEXP =
     END_RCPP (
     st_bind (st_lift (as_numeric r xSEXP)) (\<lambda>x.
     st_bind (rcompss_gpu_dnrm2 e x) (\<lambda>result. st_return (wrap_double result))))"

definition RCOMPSs_rcompss_gpu_dscal :: "rcpp_args \<Rightarrow> linalg_env \<Rightarrow> sexp \<Rightarrow> sexp \<Rightarrow>
    (memory, sexp) st" where
  "RCOMPSs_rcompss_gpu_dscal r e xSEXP alphaSEXP =
     END_RCPP (
     st_bind (st_lift (as_numeric r xSEXP)) (\<lambda>x.
     st_bind (st_lift (as_double r alphaSEXP)) (\<lambda>alpha.
     st_bind (rcompss_gpu_dscal e x alpha) (\<lambda>result. st_return (wrap_numeric result)))))"

definition RCOMPSs_rcompss_gpu_dtrmm :: "rcpp_args \<Rightarrow> linalg_env \<Rightarrow> sexp \<Rightarrow> sexp \<Rightarrow>
    sexp \<Rightarrow> sexp \<Rightarrow> sexp \<Rightarrow> sexp \<Rightarrow> sexp \<Rightarrow> (memory, sexp) st" where
  "RCOMPSs_rcompss_gpu_dtrmm r e ASEXP BSEXP sideSEXP uploSEXP transSEXP diagSEXP alphaSEXP =
     END_RCPP (
     st_bind (st_lift (as_matrix r ASEXP)) (\<lambda>A.
     st_bind (st_lift (as_matrix r BSEXP)) (\<lambda>B.
     st_bind (st_lift (as_string r sideSEXP)) (\<lambda>side.
     st_bind (st_lift (as_string r uploSEXP)) (\<lambda>uplo.
     st_bind (st_lift (as_string r transSEXP)) (\<lambda>trans.
     st_bind (st_lift (as_string r diagSEXP)) (\<lambda>diag.
     st_bind (st_lift (as_double r alphaSEXP)) (\<lambda>alpha.
     st_bind (rcompss_gpu_dtrmm e A B side uplo trans diag alpha) (\<lambda>result. st_return (wrap_matrix result))))))))))"

definition RCOMPSs_rcompss_gpu_dtrsm :: "rcpp_args \<Rightarrow> linalg_env \<Rightarrow> sexp \<Rightarrow> sexp \<Rightarrow>
    sexp \<Rightarrow> sexp \<Rightarrow> sexp \<Rightarrow> sexp \<Rightarrow> sexp \<Rightarrow> (memory, sexp) st" where
  "RCOMPSs_rcompss_gpu_dtrsm r e ASEXP BSEXP sideSEXP uploSEXP transSEXP diagSEXP alphaSEXP =
     END_RCPP (
     st_bind (st_lift (as_matrix r ASEXP)) (\<lambda>A.
     st_bind (st_lift (as_matrix r BSEXP)) (\<lambda>B.
     st_bind (st_lift (as_string r sideSEXP)) (\<lambda>side.
     st_bind (st_lift (as_string r uploSEXP)) (\<lambda>uplo.
     st_bind (st_lift (as_string r transSEXP)) (\<lambda>trans.
     st_bind (st_lift (as_string r diagSEXP)) (\<lambda>diag.
     st_bind (st_lift (as_double r alphaSEXP)) (\<lambda>alpha.
     st_bind (rcompss_gpu_dtrsm e A B side uplo trans diag alpha) (\<lambda>result. st_return (wrap_matrix result))))))))))"

definition RCOMPSs_rcompss_gpu_dsyrk :: "rcpp_args \<Rightarrow> linalg_env \<Rightarrow> sexp \<Rightarrow> sexp \<Rightarrow>
    sexp \<Rightarrow> sexp \<Rightarrow> sexp \<Rightarrow> sexp \<Rightarrow> (memory, sexp) st" where
  "RCOMPSs_rcompss_gpu_dsyrk r e ASEXP uploSEXP transSEXP alphaSEXP betaSEXP C0SEXP =
     END_RCPP (
     st_bind (st_lift (as_matrix r ASEXP)) (\<lambda>A.
     st_bind (st_lift (as_string r uploSEXP)) (\<lambda>uplo.
     st_bind (st_lift (as_string r transSEXP)) (\<lambda>trans.
     st_bind (st_lift (as_double r alphaSEXP)) (\<lambda>alpha.
     st_bind (st_lift (as_double r betaSEXP)) (\<lambda>beta.
     st_bind (rcompss_gpu_dsyrk e A uplo trans alpha beta (nullable (as_matrix r) C0SEXP)) (\<lambda>result. st_return (wrap_matrix
         result))))))))"

definition RCOMPSs_rcompss_gpu_dgetrf :: "rcpp_args \<Rightarrow> linalg_env \<Rightarrow> sexp \<Rightarrow> (memory, sexp) st" where
  "RCOMPSs_rcompss_gpu_dgetrf r e ASEXP =
     END_RCPP (
     st_bind (st_lift (as_matrix r ASEXP)) (\<lambda>A.
     st_bind (rcompss_gpu_dgetrf e A) (\<lambda>result. st_return (lu_list result))))"

definition RCOMPSs_rcompss_gpu_dgetrs :: "rcpp_args \<Rightarrow> linalg_env \<Rightarrow> sexp \<Rightarrow> sexp \<Rightarrow>
    sexp \<Rightarrow> sexp \<Rightarrow> (memory, sexp) st" where
  "RCOMPSs_rcompss_gpu_dgetrs r e LUSEXP pivotSEXP BSEXP transSEXP =
     END_RCPP (
     st_bind (st_lift (as_matrix r LUSEXP)) (\<lambda>LU.
     st_bind (st_lift (as_integers r pivotSEXP)) (\<lambda>pivot.
     st_bind (st_lift (as_bool r transSEXP)) (\<lambda>trans.
     st_bind (rcompss_gpu_dgetrs e LU pivot (right_side_of r BSEXP) trans) (\<lambda>result. st_return (wrap_matrix result))))))"

definition RCOMPSs_rcompss_gpu_dpotrs :: "rcpp_args \<Rightarrow> linalg_env \<Rightarrow> sexp \<Rightarrow> sexp \<Rightarrow>
    sexp \<Rightarrow> (memory, sexp) st" where
  "RCOMPSs_rcompss_gpu_dpotrs r e cholSEXP BSEXP upperSEXP =
     END_RCPP (
     st_bind (st_lift (as_matrix r cholSEXP)) (\<lambda>chol.
     st_bind (st_lift (as_bool r upperSEXP)) (\<lambda>upper.
     st_bind (rcompss_gpu_dpotrs e chol (right_side_of r BSEXP) upper) (\<lambda>result. st_return (wrap_matrix result)))))"

section \<open>The runtime\<close>

definition RCOMPSs_start_runtime_interactive :: "rcpp_args \<Rightarrow> binding \<Rightarrow> sexp \<Rightarrow> sexp
    \<Rightarrow> sexp \<Rightarrow> (process, sexp) st" where
  "RCOMPSs_start_runtime_interactive r b debugSEXP graphSEXP traceSEXP =
     END_RCPP (
     st_bind (st_lift (as_bool r debugSEXP)) (\<lambda>debug.
     st_bind (st_lift (as_bool r graphSEXP)) (\<lambda>graph.
     st_bind (st_lift (as_bool r traceSEXP)) (\<lambda>trace.
     st_bind (start_runtime_interactive b debug graph trace) (\<lambda>_. st_return NILSXP)))))"

definition RCOMPSs_start_runtime :: "rcpp_args \<Rightarrow> (process, sexp) st" where
  "RCOMPSs_start_runtime r =
     END_RCPP (
     st_bind (start_runtime) (\<lambda>_. st_return NILSXP))"

definition RCOMPSs_stop_runtime :: "rcpp_args \<Rightarrow> sexp \<Rightarrow> (process, sexp) st" where
  "RCOMPSs_stop_runtime r codeSEXP =
     END_RCPP (
     st_bind (st_lift (as_int r codeSEXP)) (\<lambda>code.
     st_bind (stop_runtime code) (\<lambda>_. st_return NILSXP)))"

definition RCOMPSs_register_core_element :: "rcpp_args \<Rightarrow> sexp \<Rightarrow> sexp \<Rightarrow> sexp \<Rightarrow> sexp
    \<Rightarrow> sexp \<Rightarrow> sexp \<Rightarrow> sexp \<Rightarrow> sexp \<Rightarrow> sexp \<Rightarrow> sexp \<Rightarrow>
    (process, sexp) st" where
  "RCOMPSs_register_core_element r CESignatureSEXP ImplSignatureSEXP ImplConstraintsSEXP ImplTypeSEXP ImplLocalSEXP ImplIOSEXP
      prologSEXP epilogSEXP containerSEXP typeArgsSEXP =
     END_RCPP (
     st_bind (st_lift (as_string r CESignatureSEXP)) (\<lambda>CESignature.
     st_bind (st_lift (as_string r ImplSignatureSEXP)) (\<lambda>ImplSignature.
     st_bind (st_lift (as_string r ImplConstraintsSEXP)) (\<lambda>ImplConstraints.
     st_bind (st_lift (as_string r ImplTypeSEXP)) (\<lambda>ImplType.
     st_bind (st_lift (as_string r ImplLocalSEXP)) (\<lambda>ImplLocal.
     st_bind (st_lift (as_string r ImplIOSEXP)) (\<lambda>ImplIO.
     st_bind (st_lift (strings_of r prologSEXP)) (\<lambda>prolog.
     st_bind (st_lift (strings_of r epilogSEXP)) (\<lambda>epilog.
     st_bind (st_lift (strings_of r containerSEXP)) (\<lambda>container.
     st_bind (st_lift (strings_of r typeArgsSEXP)) (\<lambda>typeArgs.
     st_bind (register_core_element CESignature ImplSignature ImplConstraints ImplType ImplLocal ImplIO prolog epilog container
         typeArgs) (\<lambda>_. st_return NILSXP))))))))))))"

definition RCOMPSs_process_task :: "rcpp_args \<Rightarrow> binding \<Rightarrow> sexp \<Rightarrow> sexp \<Rightarrow> sexp
    \<Rightarrow> sexp \<Rightarrow> sexp \<Rightarrow> sexp \<Rightarrow> sexp \<Rightarrow> sexp \<Rightarrow> sexp \<Rightarrow>
    sexp \<Rightarrow> sexp \<Rightarrow> sexp \<Rightarrow> sexp \<Rightarrow> sexp \<Rightarrow> sexp \<Rightarrow> sexp
    \<Rightarrow> sexp \<Rightarrow> sexp \<Rightarrow> sexp \<Rightarrow> sexp \<Rightarrow> sexp \<Rightarrow> (process, sexp) st"
    where
  "RCOMPSs_process_task r b app_idSEXP signatureSEXPSEXP on_failureSEXPSEXP time_outSEXP prioritySEXP num_nodesSEXP reduceSEXP
      chunk_sizeSEXP replicatedSEXP distributedSEXP has_targetSEXP num_returnsSEXP valuesSEXP namesSEXP compss_typesSEXP
      compss_directionsSEXP compss_streamsSEXP compss_prefixesSEXP content_typesSEXP weightsSEXP keep_renamesSEXP =
     END_RCPP (
     st_bind (st_lift (as_long r app_idSEXP)) (\<lambda>app_id.
     st_bind (st_lift (as_int r time_outSEXP)) (\<lambda>time_out.
     st_bind (st_lift (as_int r prioritySEXP)) (\<lambda>priority.
     st_bind (st_lift (as_int r num_nodesSEXP)) (\<lambda>num_nodes.
     st_bind (st_lift (as_int r reduceSEXP)) (\<lambda>reduce.
     st_bind (st_lift (as_int r chunk_sizeSEXP)) (\<lambda>chunk_size.
     st_bind (st_lift (as_int r replicatedSEXP)) (\<lambda>replicated.
     st_bind (st_lift (as_int r distributedSEXP)) (\<lambda>distributed.
     st_bind (st_lift (as_int r has_targetSEXP)) (\<lambda>has_target.
     st_bind (st_lift (as_int r num_returnsSEXP)) (\<lambda>num_returns.
     st_bind (st_lift (list_elements r valuesSEXP)) (\<lambda>values.
     st_bind (st_lift (strings_of r namesSEXP)) (\<lambda>names.
     st_bind (st_lift (as_integers r compss_typesSEXP)) (\<lambda>compss_types.
     st_bind (st_lift (as_integers r compss_directionsSEXP)) (\<lambda>compss_directions.
     st_bind (st_lift (as_integers r compss_streamsSEXP)) (\<lambda>compss_streams.
     st_bind (st_lift (strings_of r compss_prefixesSEXP)) (\<lambda>compss_prefixes.
     st_bind (st_lift (strings_of r content_typesSEXP)) (\<lambda>content_types.
     st_bind (st_lift (strings_of r weightsSEXP)) (\<lambda>weights.
     st_bind (st_lift (as_integers r keep_renamesSEXP)) (\<lambda>keep_renames.
     st_bind (process_task b \<lparr>rq_app_id = app_id, rq_time_out = time_out, rq_priority = priority, rq_num_nodes = num_nodes,
         rq_reduce = reduce,
        rq_chunk_size = chunk_size, rq_replicated = replicated, rq_distributed = distributed, rq_has_target = has_target, rq_num_returns =
            num_returns\<rparr>
        signatureSEXPSEXP on_failureSEXPSEXP
        \<lparr>tv_values = values, tv_names = names, tv_types = compss_types, tv_directions = compss_directions, tv_streams =
            compss_streams,
         tv_prefixes = compss_prefixes, tv_contents = content_types, tv_weights = weights, tv_renames = keep_renames\<rparr>) (\<lambda>_.
             st_return NILSXP)))))))))))))))))))))"

definition RCOMPSs_barrier :: "rcpp_args \<Rightarrow> sexp \<Rightarrow> sexp \<Rightarrow> (process, sexp) st" where
  "RCOMPSs_barrier r app_idSEXP no_more_tasksSEXP =
     END_RCPP (
     st_bind (st_lift (as_long r app_idSEXP)) (\<lambda>app_id.
     st_bind (st_lift (as_bool r no_more_tasksSEXP)) (\<lambda>no_more_tasks.
     st_bind (barrier app_id no_more_tasks) (\<lambda>_. st_return NILSXP))))"

definition RCOMPSs_Get_MasterWorkingDir :: "rcpp_args \<Rightarrow> binding \<Rightarrow> (process, sexp) st" where
  "RCOMPSs_Get_MasterWorkingDir r b =
     END_RCPP (
     st_bind (Get_MasterWorkingDir b) (\<lambda>result. st_return (r_strings result)))"

definition RCOMPSs_Extrae_event_and_counters :: "rcpp_args \<Rightarrow> sexp \<Rightarrow> sexp \<Rightarrow> (process, sexp) st" where
  "RCOMPSs_Extrae_event_and_counters r groupSEXP idSEXP =
     END_RCPP (
     st_bind (st_lift (as_unsigned r groupSEXP)) (\<lambda>group.
     st_bind (st_lift (as_unsigned r idSEXP)) (\<lambda>id.
     st_bind (Extrae_event_and_counters group id) (\<lambda>_. st_return NILSXP))))"

definition RCOMPSs_Extrae_ini :: "rcpp_args \<Rightarrow> (process, sexp) st" where
  "RCOMPSs_Extrae_ini r =
     END_RCPP (
     st_bind (Extrae_ini) (\<lambda>_. st_return NILSXP))"

definition RCOMPSs_Extrae_flu :: "rcpp_args \<Rightarrow> (process, sexp) st" where
  "RCOMPSs_Extrae_flu r =
     END_RCPP (
     st_bind (Extrae_flu) (\<lambda>_. st_return NILSXP))"

definition RCOMPSs_Extrae_fin :: "rcpp_args \<Rightarrow> (process, sexp) st" where
  "RCOMPSs_Extrae_fin r =
     END_RCPP (
     st_bind (Extrae_fin) (\<lambda>_. st_return NILSXP))"

section \<open>Utilities, submission and serialization\<close>

definition RCOMPSs_Get_File :: "rcpp_args \<Rightarrow> 'x host \<Rightarrow> sexp \<Rightarrow> sexp \<Rightarrow> ('x node,
    sexp) st" where
  "RCOMPSs_Get_File r h app_idSEXP outputfileNameSEXP =
     END_RCPP (
     st_bind (st_lift (as_long r app_idSEXP)) (\<lambda>app_id.
     st_bind (st_lift (as_string r outputfileNameSEXP)) (\<lambda>outputfileName.
     st_bind (Get_File h app_id outputfileName) (\<lambda>_. st_return NILSXP))))"

definition RCOMPSs_rcompss_generate_uid :: "rcpp_args \<Rightarrow> 'x task_env \<Rightarrow> ('x node, sexp) st" where
  "RCOMPSs_rcompss_generate_uid r e =
     END_RCPP (
     st_bind (rcompss_generate_uid e) (\<lambda>result. st_return (r_string result)))"

definition RCOMPSs_rcompss_par_type_mapping :: "rcpp_args \<Rightarrow> 'x task_env \<Rightarrow> sexp \<Rightarrow> ('x node,
    sexp) st" where
  "RCOMPSs_rcompss_par_type_mapping r e argSEXP =
     END_RCPP (
     st_bind (rcompss_par_type_mapping e argSEXP) (\<lambda>result. st_return (r_int result)))"

definition RCOMPSs_rcompss_rep_integer :: "rcpp_args \<Rightarrow> sexp \<Rightarrow> sexp \<Rightarrow> ('s, sexp) st" where
  "RCOMPSs_rcompss_rep_integer r valueSEXP countSEXP =
     END_RCPP (
     st_bind (st_lift (as_int r valueSEXP)) (\<lambda>value.
     st_bind (st_lift (as_int r countSEXP)) (\<lambda>count.
     st_bind (st_lift (rcompss_rep_integer value count)) (\<lambda>result. st_return (wrap_integers result)))))"

definition RCOMPSs_rcompss_rep_string :: "rcpp_args \<Rightarrow> sexp \<Rightarrow> sexp \<Rightarrow> ('s, sexp) st" where
  "RCOMPSs_rcompss_rep_string r valueSEXP countSEXP =
     END_RCPP (
     st_bind (st_lift (as_string r valueSEXP)) (\<lambda>value.
     st_bind (st_lift (as_int r countSEXP)) (\<lambda>count.
     st_bind (st_lift (rcompss_rep_string value count)) (\<lambda>result. st_return (r_strings result)))))"

definition RCOMPSs_rcompss_concat_integer :: "rcpp_args \<Rightarrow> sexp \<Rightarrow> sexp \<Rightarrow> ('s, sexp) st" where
  "RCOMPSs_rcompss_concat_integer r vecSEXP valueSEXP =
     END_RCPP (
     st_bind (st_lift (as_integers r vecSEXP)) (\<lambda>vec.
     st_bind (st_lift (as_int r valueSEXP)) (\<lambda>value.
     st_bind (st_return (rcompss_concat_integer vec value)) (\<lambda>result. st_return (wrap_integers result)))))"

definition RCOMPSs_rcompss_concat_string :: "rcpp_args \<Rightarrow> sexp \<Rightarrow> sexp \<Rightarrow> ('s, sexp) st" where
  "RCOMPSs_rcompss_concat_string r vecSEXP valueSEXP =
     END_RCPP (
     st_bind (st_lift (strings_of r vecSEXP)) (\<lambda>vec.
     st_bind (st_lift (as_string r valueSEXP)) (\<lambda>value.
     st_bind (st_return (rcompss_concat_string (map text_of vec) value)) (\<lambda>result. st_return (r_strings result)))))"

definition RCOMPSs_rcompss_extract_serialization_method :: "rcpp_args \<Rightarrow> sexp \<Rightarrow> ('s, sexp) st" where
  "RCOMPSs_rcompss_extract_serialization_method r filepathSEXP =
     END_RCPP (
     st_bind (st_lift (as_string r filepathSEXP)) (\<lambda>filepath.
     st_bind (st_return (rcompss_extract_serialization_method filepath)) (\<lambda>result. st_return (r_string result))))"

definition RCOMPSs_rcompss_build_argument_filename :: "rcpp_args \<Rightarrow> sexp \<Rightarrow> sexp \<Rightarrow> sexp
    \<Rightarrow> sexp \<Rightarrow> sexp \<Rightarrow> ('s, sexp) st" where
  "RCOMPSs_rcompss_build_argument_filename r master_working_dirSEXP ser_methodSEXP arg_nameSEXP indexSEXP uidSEXP =
     END_RCPP (
     st_bind (st_lift (as_string r master_working_dirSEXP)) (\<lambda>master_working_dir.
     st_bind (st_lift (as_string r ser_methodSEXP)) (\<lambda>ser_method.
     st_bind (st_lift (as_string r arg_nameSEXP)) (\<lambda>arg_name.
     st_bind (st_lift (as_int r indexSEXP)) (\<lambda>index.
     st_bind (st_lift (as_string r uidSEXP)) (\<lambda>uid.
     st_bind (st_return (rcompss_build_argument_filename master_working_dir ser_method arg_name index uid)) (\<lambda>result. st_return
         (r_string result))))))))"

definition RCOMPSs_rcompss_build_return_value_filename :: "rcpp_args \<Rightarrow> sexp \<Rightarrow> sexp \<Rightarrow> sexp
    \<Rightarrow> ('s, sexp) st" where
  "RCOMPSs_rcompss_build_return_value_filename r master_working_dirSEXP ser_methodSEXP uidSEXP =
     END_RCPP (
     st_bind (st_lift (as_string r master_working_dirSEXP)) (\<lambda>master_working_dir.
     st_bind (st_lift (as_string r ser_methodSEXP)) (\<lambda>ser_method.
     st_bind (st_lift (as_string r uidSEXP)) (\<lambda>uid.
     st_bind (st_return (rcompss_build_return_value_filename master_working_dir ser_method uid)) (\<lambda>result. st_return (r_string
         result))))))"

definition RCOMPSs_rcompss_is_basic_type :: "rcpp_args \<Rightarrow> 'x task_env \<Rightarrow> sexp \<Rightarrow> ('x node, sexp) st" where
  "RCOMPSs_rcompss_is_basic_type r e argSEXP =
     END_RCPP (
     st_bind (rcompss_is_basic_type e argSEXP) (\<lambda>result. st_return (wrap_bool result)))"

definition RCOMPSs_rcompss_is_future_object :: "rcpp_args \<Rightarrow> 'x host \<Rightarrow> sexp \<Rightarrow> ('x node, sexp) st" where
  "RCOMPSs_rcompss_is_future_object r h objSEXP =
     END_RCPP (
     st_bind (rcompss_is_future_object h objSEXP) (\<lambda>result. st_return (wrap_bool result)))"

definition RCOMPSs_rcompss_is_future_object_path :: "rcpp_args \<Rightarrow> 'x host \<Rightarrow> sexp \<Rightarrow> ('x node,
    sexp) st" where
  "RCOMPSs_rcompss_is_future_object_path r h objSEXP =
     END_RCPP (
     st_bind (rcompss_is_future_object_path h objSEXP) (\<lambda>result. st_return (wrap_bool result)))"

definition RCOMPSs_rcompss_is_list :: "rcpp_args \<Rightarrow> 'x host \<Rightarrow> sexp \<Rightarrow> ('x node, sexp) st" where
  "RCOMPSs_rcompss_is_list r h objSEXP =
     END_RCPP (
     st_bind (rcompss_is_list h objSEXP) (\<lambda>result. st_return (wrap_bool result)))"

definition RCOMPSs_rcompss_build_variable_argument_names :: "rcpp_args \<Rightarrow> sexp \<Rightarrow> sexp \<Rightarrow> ('s,
    sexp) st" where
  "RCOMPSs_rcompss_build_variable_argument_names r function_nameSEXP countSEXP =
     END_RCPP (
     st_bind (st_lift (as_string r function_nameSEXP)) (\<lambda>function_name.
     st_bind (st_lift (as_int r countSEXP)) (\<lambda>count.
     st_bind (st_lift (rcompss_build_variable_argument_names function_name count)) (\<lambda>result. st_return (r_strings result)))))"

definition RCOMPSs_rcompss_build_return_value_name :: "rcpp_args \<Rightarrow> sexp \<Rightarrow> ('s, sexp) st" where
  "RCOMPSs_rcompss_build_return_value_name r ser_methodSEXP =
     END_RCPP (
     st_bind (st_lift (as_string r ser_methodSEXP)) (\<lambda>ser_method.
     st_bind (st_return (rcompss_build_return_value_name ser_method)) (\<lambda>result. st_return (r_string result))))"

definition RCOMPSs_rcompss_build_register_marker :: "rcpp_args \<Rightarrow> sexp \<Rightarrow> ('s, sexp) st" where
  "RCOMPSs_rcompss_build_register_marker r function_nameSEXP =
     END_RCPP (
     st_bind (st_lift (as_string r function_nameSEXP)) (\<lambda>function_name.
     st_bind (st_return (rcompss_build_register_marker function_name)) (\<lambda>result. st_return (r_string result))))"

definition RCOMPSs_rcompss_build_type_args_path :: "rcpp_args \<Rightarrow> sexp \<Rightarrow> sexp \<Rightarrow> ('s, sexp) st" where
  "RCOMPSs_rcompss_build_type_args_path r working_dirSEXP filenameSEXP =
     END_RCPP (
     st_bind (st_lift (as_string r working_dirSEXP)) (\<lambda>working_dir.
     st_bind (st_lift (as_string r filenameSEXP)) (\<lambda>filename.
     st_bind (st_return (rcompss_build_type_args_path working_dir filename)) (\<lambda>result. st_return (r_string result)))))"

definition RCOMPSs_rcompss_build_constraint_string :: "rcpp_args \<Rightarrow> 'x task_env \<Rightarrow> sexp \<Rightarrow> ('x
    node, sexp) st" where
  "RCOMPSs_rcompss_build_constraint_string r e constraintsSEXP =
     END_RCPP (
     st_bind (st_lift (as_list r constraintsSEXP)) (\<lambda>constraints.
     st_bind (rcompss_build_constraint_string e constraints) (\<lambda>result. st_return (r_string result))))"

definition RCOMPSs_rcompss_process_task_metadata :: "rcpp_args \<Rightarrow> sexp \<Rightarrow> sexp \<Rightarrow> ('s, sexp) st" where
  "RCOMPSs_rcompss_process_task_metadata r arguments_lengthSEXP has_return_valueSEXP =
     END_RCPP (
     st_bind (st_lift (as_int r arguments_lengthSEXP)) (\<lambda>arguments_length.
     st_bind (st_lift (as_bool r has_return_valueSEXP)) (\<lambda>has_return_value.
     st_bind (st_lift (rcompss_process_task_metadata arguments_length has_return_value)) (\<lambda>result. st_return (metadata_list
         result)))))"

definition RCOMPSs_rcompss_execute_task :: "rcpp_args \<Rightarrow> 'x task_env \<Rightarrow> sexp \<Rightarrow> sexp
    \<Rightarrow> sexp \<Rightarrow> sexp \<Rightarrow> sexp \<Rightarrow> sexp \<Rightarrow> sexp \<Rightarrow> sexp \<Rightarrow>
    ('x node, sexp) st" where
  "RCOMPSs_rcompss_execute_task r e function_nameSEXP argumentsSEXP arguments_lengthSEXP master_working_dirSEXP filenameSEXP
      ser_methodSEXP return_valueSEXP return_typeSEXP =
     END_RCPP (
     st_bind (st_lift (as_string r function_nameSEXP)) (\<lambda>function_name.
     st_bind (st_lift (as_list r argumentsSEXP)) (\<lambda>arguments.
     st_bind (st_lift (as_int r arguments_lengthSEXP)) (\<lambda>arguments_length.
     st_bind (st_lift (as_string r master_working_dirSEXP)) (\<lambda>master_working_dir.
     st_bind (st_lift (as_string r filenameSEXP)) (\<lambda>filename.
     st_bind (st_lift (strings_of r ser_methodSEXP)) (\<lambda>ser_method.
     st_bind (st_lift (as_bool r return_valueSEXP)) (\<lambda>return_value.
     st_bind (st_lift (as_string r return_typeSEXP)) (\<lambda>return_type.
     st_bind (rcompss_execute_task e function_name arguments arguments_length master_working_dir filename (map text_of ser_method)
         return_value) (\<lambda>result. st_return (task_result_list result)))))))))))"

definition RCOMPSs_task :: "rcpp_args \<Rightarrow> 'x r_frontend \<Rightarrow> sexp \<Rightarrow> sexp \<Rightarrow> sexp
    \<Rightarrow> sexp \<Rightarrow> sexp \<Rightarrow> sexp \<Rightarrow> sexp \<Rightarrow> sexp \<Rightarrow> ('x node, sexp) st"
    where
  "RCOMPSs_task r f fSEXP filenameSEXP return_valueSEXP return_typeSEXP ser_methodSEXP info_onlySEXP DEBUGSEXP f_nameSEXP =
     END_RCPP (
     st_bind (st_lift (as_string r filenameSEXP)) (\<lambda>filename.
     st_bind (st_lift (as_bool r return_valueSEXP)) (\<lambda>return_value.
     st_bind (st_lift (as_string r return_typeSEXP)) (\<lambda>return_type.
     st_bind (st_lift (strings_of r ser_methodSEXP)) (\<lambda>ser_method.
     st_bind (st_lift (as_bool r info_onlySEXP)) (\<lambda>info_only.
     st_bind (st_lift (as_bool r DEBUGSEXP)) (\<lambda>DEBUG.
     st_bind (st_lift (as_string r f_nameSEXP)) (\<lambda>f_name.
     st_bind (task f fSEXP filename return_value return_type (map text_of ser_method) info_only f_name) (\<lambda>result. st_return
         result)))))))))"

definition RCOMPSs_rcompss_serialize :: "rcpp_args \<Rightarrow> 'x host \<Rightarrow> sexp \<Rightarrow> sexp \<Rightarrow> sexp
    \<Rightarrow> sexp \<Rightarrow> ('x node, sexp) st" where
  "RCOMPSs_rcompss_serialize r h objectSEXP filepathSEXP ser_methodSEXP mthreadsSEXP =
     END_RCPP (
     st_bind (st_lift (as_string r filepathSEXP)) (\<lambda>filepath.
     st_bind (st_lift (as_string r ser_methodSEXP)) (\<lambda>ser_method.
     st_bind (st_lift (as_int r mthreadsSEXP)) (\<lambda>mthreads.
     st_bind (rcompss_serialize h objectSEXP filepath ser_method mthreads) (\<lambda>_. st_return NILSXP)))))"

definition RCOMPSs_rcompss_unserialize :: "rcpp_args \<Rightarrow> 'x host \<Rightarrow> sexp \<Rightarrow> sexp \<Rightarrow> ('x
    node, sexp) st" where
  "RCOMPSs_rcompss_unserialize r h filepathSEXP mthreadsSEXP =
     END_RCPP (
     st_bind (st_lift (as_string r filepathSEXP)) (\<lambda>filepath.
     st_bind (st_lift (as_int r mthreadsSEXP)) (\<lambda>mthreads.
     st_bind (rcompss_unserialize h filepath mthreads) (\<lambda>result. st_return result))))"

definition RCOMPSs_rcompss_wait_on :: "rcpp_args \<Rightarrow> 'x host \<Rightarrow> sexp \<Rightarrow> sexp \<Rightarrow> sexp
    \<Rightarrow> ('x node, sexp) st" where
  "RCOMPSs_rcompss_wait_on r h future_objSEXP mthreadsSEXP nthreadsSEXP =
     END_RCPP (
     st_bind (st_lift (as_int r mthreadsSEXP)) (\<lambda>mthreads.
     st_bind (st_lift (as_int r nthreadsSEXP)) (\<lambda>nthreads.
     st_bind (rcompss_wait_on h future_objSEXP mthreads nthreads) (\<lambda>result. st_return result))))"

section \<open>GPU contexts and memory\<close>

definition RCOMPSs_rcompss_gpu_memory_roundtrip_double :: "rcpp_args \<Rightarrow> mem_env \<Rightarrow> sexp \<Rightarrow>
    (memory, sexp) st" where
  "RCOMPSs_rcompss_gpu_memory_roundtrip_double r e xSEXP =
     END_RCPP (
     st_bind (st_lift (as_numeric r xSEXP)) (\<lambda>x.
     st_bind (rcompss_gpu_memory_roundtrip_double e x) (\<lambda>result. st_return (wrap_numeric result))))"

definition RCOMPSs_rcompss_create_gpu_context :: "rcpp_args \<Rightarrow> cuda_env \<Rightarrow> sexp \<Rightarrow> (gpu, sexp) st" where
  "RCOMPSs_rcompss_create_gpu_context r e context_nameSEXP =
     END_RCPP (
     st_bind (st_lift (as_string r context_nameSEXP)) (\<lambda>context_name.
     st_bind (rcompss_create_gpu_context e context_name) (\<lambda>_. st_return NILSXP)))"

definition RCOMPSs_rcompss_set_operation_placement :: "rcpp_args \<Rightarrow> cuda_env \<Rightarrow> sexp \<Rightarrow> sexp
    \<Rightarrow> (gpu, sexp) st" where
  "RCOMPSs_rcompss_set_operation_placement r e context_nameSEXP placementSEXP =
     END_RCPP (
     st_bind (st_lift (as_string r context_nameSEXP)) (\<lambda>context_name.
     st_bind (st_lift (as_string r placementSEXP)) (\<lambda>placement.
     st_bind (rcompss_set_operation_placement e context_name placement) (\<lambda>_. st_return NILSXP))))"

definition RCOMPSs_rcompss_get_operation_placement :: "rcpp_args \<Rightarrow> cuda_env \<Rightarrow> sexp \<Rightarrow> (gpu,
    sexp) st" where
  "RCOMPSs_rcompss_get_operation_placement r e context_nameSEXP =
     END_RCPP (
     st_bind (st_lift (as_string r context_nameSEXP)) (\<lambda>context_name.
     st_bind (rcompss_get_operation_placement e context_name) (\<lambda>result. st_return (r_string result))))"

definition RCOMPSs_rcompss_set_run_mode :: "rcpp_args \<Rightarrow> cuda_env \<Rightarrow> sexp \<Rightarrow> sexp \<Rightarrow>
    (gpu, sexp) st" where
  "RCOMPSs_rcompss_set_run_mode r e context_nameSEXP run_modeSEXP =
     END_RCPP (
     st_bind (st_lift (as_string r context_nameSEXP)) (\<lambda>context_name.
     st_bind (st_lift (as_string r run_modeSEXP)) (\<lambda>run_mode.
     st_bind (rcompss_set_run_mode e context_name run_mode) (\<lambda>_. st_return NILSXP))))"

definition RCOMPSs_rcompss_get_run_mode :: "rcpp_args \<Rightarrow> cuda_env \<Rightarrow> sexp \<Rightarrow> (gpu, sexp) st" where
  "RCOMPSs_rcompss_get_run_mode r e context_nameSEXP =
     END_RCPP (
     st_bind (st_lift (as_string r context_nameSEXP)) (\<lambda>context_name.
     st_bind (rcompss_get_run_mode e context_name) (\<lambda>result. st_return (r_string result))))"

definition RCOMPSs_rcompss_sync_context :: "rcpp_args \<Rightarrow> cuda_env \<Rightarrow> sexp \<Rightarrow> (gpu, sexp) st" where
  "RCOMPSs_rcompss_sync_context r e context_nameSEXP =
     END_RCPP (
     st_bind (st_lift (as_string r context_nameSEXP)) (\<lambda>context_name.
     st_bind (rcompss_sync_context e context_name) (\<lambda>_. st_return NILSXP)))"

definition RCOMPSs_rcompss_sync_all_contexts :: "rcpp_args \<Rightarrow> cuda_env \<Rightarrow> (gpu, sexp) st" where
  "RCOMPSs_rcompss_sync_all_contexts r e =
     END_RCPP (
     st_bind (rcompss_sync_all_contexts e) (\<lambda>_. st_return NILSXP))"

definition RCOMPSs_rcompss_get_num_contexts :: "rcpp_args \<Rightarrow> cuda_env \<Rightarrow> (gpu, sexp) st" where
  "RCOMPSs_rcompss_get_num_contexts r e =
     END_RCPP (
     st_bind (rcompss_get_num_contexts e) (\<lambda>result. st_return (r_int (int result))))"

definition RCOMPSs_rcompss_set_operation_context :: "rcpp_args \<Rightarrow> cuda_env \<Rightarrow> sexp \<Rightarrow> (gpu, sexp) st" where
  "RCOMPSs_rcompss_set_operation_context r e context_nameSEXP =
     END_RCPP (
     st_bind (st_lift (as_string r context_nameSEXP)) (\<lambda>context_name.
     st_bind (rcompss_set_operation_context e context_name) (\<lambda>_. st_return NILSXP)))"

definition RCOMPSs_rcompss_delete_context :: "rcpp_args \<Rightarrow> cuda_env \<Rightarrow> sexp \<Rightarrow> (gpu, sexp) st" where
  "RCOMPSs_rcompss_delete_context r e context_nameSEXP =
     END_RCPP (
     st_bind (st_lift (as_string r context_nameSEXP)) (\<lambda>context_name.
     st_bind (rcompss_delete_context e context_name) (\<lambda>_. st_return NILSXP)))"

definition RCOMPSs_rcompss_get_all_context_names :: "rcpp_args \<Rightarrow> cuda_env \<Rightarrow> (gpu, sexp) st" where
  "RCOMPSs_rcompss_get_all_context_names r e =
     END_RCPP (
     st_bind (rcompss_get_all_context_names e) (\<lambda>result. st_return (r_strings result)))"

definition RCOMPSs_rcompss_finalize_context :: "rcpp_args \<Rightarrow> cuda_env \<Rightarrow> sexp \<Rightarrow> (gpu, sexp) st" where
  "RCOMPSs_rcompss_finalize_context r e context_nameSEXP =
     END_RCPP (
     st_bind (st_lift (as_string r context_nameSEXP)) (\<lambda>context_name.
     st_bind (rcompss_finalize_context e context_name) (\<lambda>_. st_return NILSXP)))"

definition RCOMPSs_rcompss_gpu_alloc :: "rcpp_args \<Rightarrow> mem_env \<Rightarrow> sexp \<Rightarrow> (memory, sexp) st" where
  "RCOMPSs_rcompss_gpu_alloc r e nSEXP =
     END_RCPP (
     st_bind (st_lift (as_int r nSEXP)) (\<lambda>n.
     st_bind (rcompss_gpu_alloc e n) (\<lambda>result. st_return (handle_object r result))))"

definition RCOMPSs_rcompss_copy_to_gpu :: "rcpp_args \<Rightarrow> mem_env \<Rightarrow> sexp \<Rightarrow> sexp \<Rightarrow>
    (memory, sexp) st" where
  "RCOMPSs_rcompss_copy_to_gpu r e r_vecSEXP gpu_handleSEXP =
     END_RCPP (
     st_bind (st_lift (as_numeric r r_vecSEXP)) (\<lambda>r_vec.
     st_bind (rcompss_copy_to_gpu e r_vec (as_handle r gpu_handleSEXP)) (\<lambda>_. st_return NILSXP)))"

definition RCOMPSs_rcompss_copy_from_gpu :: "rcpp_args \<Rightarrow> mem_env \<Rightarrow> sexp \<Rightarrow> (memory, sexp) st" where
  "RCOMPSs_rcompss_copy_from_gpu r e gpu_handleSEXP =
     END_RCPP (
     st_bind (rcompss_copy_from_gpu e (as_handle r gpu_handleSEXP)) (\<lambda>result. st_return (wrap_numeric result)))"

definition RCOMPSs_rcompss_gpu_free :: "rcpp_args \<Rightarrow> mem_env \<Rightarrow> sexp \<Rightarrow> (memory, sexp) st" where
  "RCOMPSs_rcompss_gpu_free r e gpu_handleSEXP =
     END_RCPP (
     st_bind (rcompss_gpu_free e (as_handle r gpu_handleSEXP)) (\<lambda>_. st_return NILSXP))"

definition RCOMPSs_rcompss_gpu_vector_add_kernel :: "rcpp_args \<Rightarrow> mem_env \<Rightarrow> sexp \<Rightarrow> sexp
    \<Rightarrow> sexp \<Rightarrow> (memory, sexp) st" where
  "RCOMPSs_rcompss_gpu_vector_add_kernel r e d_a_handleSEXP d_b_handleSEXP d_result_handleSEXP =
     END_RCPP (
     st_bind (rcompss_gpu_vector_add_kernel e (as_handle r d_a_handleSEXP) (as_handle r d_b_handleSEXP) (as_handle r
         d_result_handleSEXP)) (\<lambda>_. st_return NILSXP))"

definition RCOMPSs_rcompss_gpu_vector_add :: "rcpp_args \<Rightarrow> mem_env \<Rightarrow> sexp \<Rightarrow> sexp \<Rightarrow>
    (memory, sexp) st" where
  "RCOMPSs_rcompss_gpu_vector_add r e aSEXP bSEXP =
     END_RCPP (
     st_bind (st_lift (as_numeric r aSEXP)) (\<lambda>a.
     st_bind (st_lift (as_numeric r bSEXP)) (\<lambda>b.
     st_bind (rcompss_gpu_vector_add e a b) (\<lambda>result. st_return (wrap_numeric result)))))"

section \<open>Registration and .Call\<close>

text \<open>
  The entries of \<^verbatim>\<open>CallEntries\<close>: the name, the number of arguments and the function, which takes
  them as a list.
\<close>

type_synonym 's routine = "string \<times> nat \<times> (sexp list \<Rightarrow> ('s, sexp) st)"

definition linalg_entries :: "rcpp_args \<Rightarrow> linalg_env \<Rightarrow> memory routine list" where
  "linalg_entries r e =
     [(''_RCOMPSs_rcompss_gpu_dgemm'', 6, \<lambda>xs. RCOMPSs_rcompss_gpu_dgemm r e (xs ! 0) (xs ! 1) (xs ! 2) (xs ! 3) (xs ! 4) (xs ! 5)),
      (''_RCOMPSs_rcompss_gpu_daxpy'', 3, \<lambda>xs. RCOMPSs_rcompss_gpu_daxpy r e (xs ! 0) (xs ! 1) (xs ! 2)),
      (''_RCOMPSs_rcompss_gpu_dpotrf'', 2, \<lambda>xs. RCOMPSs_rcompss_gpu_dpotrf r e (xs ! 0) (xs ! 1)),
      (''_RCOMPSs_rcompss_gpu_dgemv'', 6, \<lambda>xs. RCOMPSs_rcompss_gpu_dgemv r e (xs ! 0) (xs ! 1) (xs ! 2) (xs ! 3) (xs ! 4) (xs ! 5)),
      (''_RCOMPSs_rcompss_gpu_ddot'', 2, \<lambda>xs. RCOMPSs_rcompss_gpu_ddot r e (xs ! 0) (xs ! 1)),
      (''_RCOMPSs_rcompss_gpu_dnrm2'', 1, \<lambda>xs. RCOMPSs_rcompss_gpu_dnrm2 r e (xs ! 0)),
      (''_RCOMPSs_rcompss_gpu_dscal'', 2, \<lambda>xs. RCOMPSs_rcompss_gpu_dscal r e (xs ! 0) (xs ! 1)),
      (''_RCOMPSs_rcompss_gpu_dtrmm'', 7, \<lambda>xs. RCOMPSs_rcompss_gpu_dtrmm r e (xs ! 0) (xs ! 1) (xs ! 2) (xs ! 3) (xs ! 4) (xs !
          5) (xs ! 6)),
      (''_RCOMPSs_rcompss_gpu_dtrsm'', 7, \<lambda>xs. RCOMPSs_rcompss_gpu_dtrsm r e (xs ! 0) (xs ! 1) (xs ! 2) (xs ! 3) (xs ! 4) (xs !
          5) (xs ! 6)),
      (''_RCOMPSs_rcompss_gpu_dsyrk'', 6, \<lambda>xs. RCOMPSs_rcompss_gpu_dsyrk r e (xs ! 0) (xs ! 1) (xs ! 2) (xs ! 3) (xs ! 4) (xs ! 5)),
      (''_RCOMPSs_rcompss_gpu_dgetrf'', 1, \<lambda>xs. RCOMPSs_rcompss_gpu_dgetrf r e (xs ! 0)),
      (''_RCOMPSs_rcompss_gpu_dgetrs'', 4, \<lambda>xs. RCOMPSs_rcompss_gpu_dgetrs r e (xs ! 0) (xs ! 1) (xs ! 2) (xs ! 3)),
      (''_RCOMPSs_rcompss_gpu_dpotrs'', 3, \<lambda>xs. RCOMPSs_rcompss_gpu_dpotrs r e (xs ! 0) (xs ! 1) (xs ! 2))]"

definition runtime_entries :: "rcpp_args \<Rightarrow> binding \<Rightarrow> process routine list" where
  "runtime_entries r b =
     [(''_RCOMPSs_start_runtime_interactive'', 3, \<lambda>xs. RCOMPSs_start_runtime_interactive r b (xs ! 0) (xs ! 1) (xs ! 2)),
      (''_RCOMPSs_start_runtime'', 0, \<lambda>xs. RCOMPSs_start_runtime r),
      (''_RCOMPSs_stop_runtime'', 1, \<lambda>xs. RCOMPSs_stop_runtime r (xs ! 0)),
      (''_RCOMPSs_register_core_element'', 10, \<lambda>xs. RCOMPSs_register_core_element r (xs ! 0) (xs ! 1) (xs ! 2) (xs ! 3) (xs ! 4)
          (xs ! 5) (xs ! 6) (xs ! 7) (xs ! 8) (xs ! 9)),
      (''_RCOMPSs_process_task'', 21, \<lambda>xs. RCOMPSs_process_task r b (xs ! 0) (xs ! 1) (xs ! 2) (xs ! 3) (xs ! 4) (xs ! 5) (xs !
          6) (xs ! 7) (xs ! 8) (xs ! 9) (xs ! 10) (xs ! 11) (xs ! 12) (xs ! 13) (xs ! 14) (xs ! 15) (xs ! 16) (xs ! 17) (xs ! 18) (xs ! 19)
          (xs ! 20)),
      (''_RCOMPSs_barrier'', 2, \<lambda>xs. RCOMPSs_barrier r (xs ! 0) (xs ! 1)),
      (''_RCOMPSs_Get_MasterWorkingDir'', 0, \<lambda>xs. RCOMPSs_Get_MasterWorkingDir r b),
      (''_RCOMPSs_Extrae_event_and_counters'', 2, \<lambda>xs. RCOMPSs_Extrae_event_and_counters r (xs ! 0) (xs ! 1)),
      (''_RCOMPSs_Extrae_ini'', 0, \<lambda>xs. RCOMPSs_Extrae_ini r),
      (''_RCOMPSs_Extrae_flu'', 0, \<lambda>xs. RCOMPSs_Extrae_flu r),
      (''_RCOMPSs_Extrae_fin'', 0, \<lambda>xs. RCOMPSs_Extrae_fin r)]"

definition node_entries :: "rcpp_args \<Rightarrow> 'x task_env \<Rightarrow> 'x r_frontend \<Rightarrow> 'x node routine list" where
  "node_entries r e f =
     [(''_RCOMPSs_Get_File'', 2, \<lambda>xs. RCOMPSs_Get_File r (host e) (xs ! 0) (xs ! 1)),
      (''_RCOMPSs_rcompss_generate_uid'', 0, \<lambda>xs. RCOMPSs_rcompss_generate_uid r e),
      (''_RCOMPSs_rcompss_par_type_mapping'', 1, \<lambda>xs. RCOMPSs_rcompss_par_type_mapping r e (xs ! 0)),
      (''_RCOMPSs_rcompss_rep_integer'', 2, \<lambda>xs. RCOMPSs_rcompss_rep_integer r (xs ! 0) (xs ! 1)),
      (''_RCOMPSs_rcompss_rep_string'', 2, \<lambda>xs. RCOMPSs_rcompss_rep_string r (xs ! 0) (xs ! 1)),
      (''_RCOMPSs_rcompss_concat_integer'', 2, \<lambda>xs. RCOMPSs_rcompss_concat_integer r (xs ! 0) (xs ! 1)),
      (''_RCOMPSs_rcompss_concat_string'', 2, \<lambda>xs. RCOMPSs_rcompss_concat_string r (xs ! 0) (xs ! 1)),
      (''_RCOMPSs_rcompss_extract_serialization_method'', 1, \<lambda>xs. RCOMPSs_rcompss_extract_serialization_method r (xs ! 0)),
      (''_RCOMPSs_rcompss_build_argument_filename'', 5, \<lambda>xs. RCOMPSs_rcompss_build_argument_filename r (xs ! 0) (xs ! 1) (xs !
          2) (xs ! 3) (xs ! 4)),
      (''_RCOMPSs_rcompss_build_return_value_filename'', 3, \<lambda>xs. RCOMPSs_rcompss_build_return_value_filename r (xs ! 0) (xs ! 1)
          (xs ! 2)),
      (''_RCOMPSs_rcompss_is_basic_type'', 1, \<lambda>xs. RCOMPSs_rcompss_is_basic_type r e (xs ! 0)),
      (''_RCOMPSs_rcompss_is_future_object'', 1, \<lambda>xs. RCOMPSs_rcompss_is_future_object r (host e) (xs ! 0)),
      (''_RCOMPSs_rcompss_is_future_object_path'', 1, \<lambda>xs. RCOMPSs_rcompss_is_future_object_path r (host e) (xs ! 0)),
      (''_RCOMPSs_rcompss_is_list'', 1, \<lambda>xs. RCOMPSs_rcompss_is_list r (host e) (xs ! 0)),
      (''_RCOMPSs_rcompss_build_variable_argument_names'', 2, \<lambda>xs. RCOMPSs_rcompss_build_variable_argument_names r (xs ! 0) (xs
          ! 1)),
      (''_RCOMPSs_rcompss_build_return_value_name'', 1, \<lambda>xs. RCOMPSs_rcompss_build_return_value_name r (xs ! 0)),
      (''_RCOMPSs_rcompss_build_register_marker'', 1, \<lambda>xs. RCOMPSs_rcompss_build_register_marker r (xs ! 0)),
      (''_RCOMPSs_rcompss_build_type_args_path'', 2, \<lambda>xs. RCOMPSs_rcompss_build_type_args_path r (xs ! 0) (xs ! 1)),
      (''_RCOMPSs_rcompss_build_constraint_string'', 1, \<lambda>xs. RCOMPSs_rcompss_build_constraint_string r e (xs ! 0)),
      (''_RCOMPSs_rcompss_process_task_metadata'', 2, \<lambda>xs. RCOMPSs_rcompss_process_task_metadata r (xs ! 0) (xs ! 1)),
      (''_RCOMPSs_rcompss_execute_task'', 8, \<lambda>xs. RCOMPSs_rcompss_execute_task r e (xs ! 0) (xs ! 1) (xs ! 2) (xs ! 3) (xs ! 4)
          (xs ! 5) (xs ! 6) (xs ! 7)),
      (''_RCOMPSs_task'', 8, \<lambda>xs. RCOMPSs_task r f (xs ! 0) (xs ! 1) (xs ! 2) (xs ! 3) (xs ! 4) (xs ! 5) (xs ! 6) (xs ! 7)),
      (''_RCOMPSs_rcompss_serialize'', 4, \<lambda>xs. RCOMPSs_rcompss_serialize r (host e) (xs ! 0) (xs ! 1) (xs ! 2) (xs ! 3)),
      (''_RCOMPSs_rcompss_unserialize'', 2, \<lambda>xs. RCOMPSs_rcompss_unserialize r (host e) (xs ! 0) (xs ! 1)),
      (''_RCOMPSs_rcompss_wait_on'', 3, \<lambda>xs. RCOMPSs_rcompss_wait_on r (host e) (xs ! 0) (xs ! 1) (xs ! 2))]"

definition gpu_entries :: "rcpp_args \<Rightarrow> linalg_env \<Rightarrow> memory routine list" where
  "gpu_entries r e =
     [(''_RCOMPSs_rcompss_gpu_memory_roundtrip_double'', 1, \<lambda>xs. RCOMPSs_rcompss_gpu_memory_roundtrip_double r (mem e) (xs ! 0)),
      (''_RCOMPSs_rcompss_create_gpu_context'', 1, \<lambda>xs. on_gpu (RCOMPSs_rcompss_create_gpu_context r (cuda_of (mem e)) (xs ! 0))),
      (''_RCOMPSs_rcompss_set_operation_placement'', 2, \<lambda>xs. on_gpu (RCOMPSs_rcompss_set_operation_placement r (cuda_of (mem e))
          (xs ! 0) (xs ! 1))),
      (''_RCOMPSs_rcompss_get_operation_placement'', 1, \<lambda>xs. on_gpu (RCOMPSs_rcompss_get_operation_placement r (cuda_of (mem e))
          (xs ! 0))),
      (''_RCOMPSs_rcompss_set_run_mode'', 2, \<lambda>xs. on_gpu (RCOMPSs_rcompss_set_run_mode r (cuda_of (mem e)) (xs ! 0) (xs ! 1))),
      (''_RCOMPSs_rcompss_get_run_mode'', 1, \<lambda>xs. on_gpu (RCOMPSs_rcompss_get_run_mode r (cuda_of (mem e)) (xs ! 0))),
      (''_RCOMPSs_rcompss_sync_context'', 1, \<lambda>xs. on_gpu (RCOMPSs_rcompss_sync_context r (cuda_of (mem e)) (xs ! 0))),
      (''_RCOMPSs_rcompss_sync_all_contexts'', 0, \<lambda>xs. on_gpu (RCOMPSs_rcompss_sync_all_contexts r (cuda_of (mem e)))),
      (''_RCOMPSs_rcompss_get_num_contexts'', 0, \<lambda>xs. on_gpu (RCOMPSs_rcompss_get_num_contexts r (cuda_of (mem e)))),
      (''_RCOMPSs_rcompss_set_operation_context'', 1, \<lambda>xs. on_gpu (RCOMPSs_rcompss_set_operation_context r (cuda_of (mem e)) (xs
          ! 0))),
      (''_RCOMPSs_rcompss_delete_context'', 1, \<lambda>xs. on_gpu (RCOMPSs_rcompss_delete_context r (cuda_of (mem e)) (xs ! 0))),
      (''_RCOMPSs_rcompss_get_all_context_names'', 0, \<lambda>xs. on_gpu (RCOMPSs_rcompss_get_all_context_names r (cuda_of (mem e)))),
      (''_RCOMPSs_rcompss_finalize_context'', 1, \<lambda>xs. on_gpu (RCOMPSs_rcompss_finalize_context r (cuda_of (mem e)) (xs ! 0))),
      (''_RCOMPSs_rcompss_gpu_alloc'', 1, \<lambda>xs. RCOMPSs_rcompss_gpu_alloc r (mem e) (xs ! 0)),
      (''_RCOMPSs_rcompss_copy_to_gpu'', 2, \<lambda>xs. RCOMPSs_rcompss_copy_to_gpu r (mem e) (xs ! 0) (xs ! 1)),
      (''_RCOMPSs_rcompss_copy_from_gpu'', 1, \<lambda>xs. RCOMPSs_rcompss_copy_from_gpu r (mem e) (xs ! 0)),
      (''_RCOMPSs_rcompss_gpu_free'', 1, \<lambda>xs. RCOMPSs_rcompss_gpu_free r (mem e) (xs ! 0)),
      (''_RCOMPSs_rcompss_gpu_vector_add_kernel'', 3, \<lambda>xs. RCOMPSs_rcompss_gpu_vector_add_kernel r (mem e) (xs ! 0) (xs ! 1) (xs
          ! 2)),
      (''_RCOMPSs_rcompss_gpu_vector_add'', 2, \<lambda>xs. RCOMPSs_rcompss_gpu_vector_add r (mem e) (xs ! 0) (xs ! 1))]"

text \<open>R looks the routine up by name and checks the number of arguments.\<close>

definition dot_call :: "'s routine list \<Rightarrow> string \<Rightarrow> sexp list \<Rightarrow> ('s, sexp) st" where
  "dot_call entries name args =
     (case map_of entries name of
        None \<Rightarrow> st_throw (R_error (''object '' @ name @ '' not found''))
      | Some (n, f) \<Rightarrow>
          if length args = n then f args
          else st_throw (R_error (''Incorrect number of arguments ('' @ nat_to_string (length args) @ ''), expecting '' @
            nat_to_string n @ '' for '' @ name)))"

section \<open>What reaches R\<close>

text \<open>The entry points, unfolded to what \<^verbatim>\<open>END_RCPP\<close> encloses.\<close>

lemmas linalg_wrappers =
  RCOMPSs_rcompss_gpu_dgemm_def RCOMPSs_rcompss_gpu_daxpy_def RCOMPSs_rcompss_gpu_dpotrf_def RCOMPSs_rcompss_gpu_dgemv_def
  RCOMPSs_rcompss_gpu_ddot_def RCOMPSs_rcompss_gpu_dnrm2_def RCOMPSs_rcompss_gpu_dscal_def RCOMPSs_rcompss_gpu_dtrmm_def
  RCOMPSs_rcompss_gpu_dtrsm_def RCOMPSs_rcompss_gpu_dsyrk_def RCOMPSs_rcompss_gpu_dgetrf_def RCOMPSs_rcompss_gpu_dgetrs_def
  RCOMPSs_rcompss_gpu_dpotrs_def

lemmas runtime_wrappers =
  RCOMPSs_start_runtime_interactive_def RCOMPSs_start_runtime_def RCOMPSs_stop_runtime_def RCOMPSs_register_core_element_def
  RCOMPSs_process_task_def RCOMPSs_barrier_def RCOMPSs_Get_MasterWorkingDir_def RCOMPSs_Extrae_event_and_counters_def RCOMPSs_Extrae_ini_def
  RCOMPSs_Extrae_flu_def RCOMPSs_Extrae_fin_def

lemmas node_wrappers =
  RCOMPSs_Get_File_def RCOMPSs_rcompss_generate_uid_def RCOMPSs_rcompss_par_type_mapping_def RCOMPSs_rcompss_rep_integer_def
  RCOMPSs_rcompss_rep_string_def RCOMPSs_rcompss_concat_integer_def RCOMPSs_rcompss_concat_string_def
  RCOMPSs_rcompss_extract_serialization_method_def RCOMPSs_rcompss_build_argument_filename_def RCOMPSs_rcompss_build_return_value_filename_def
  RCOMPSs_rcompss_is_basic_type_def RCOMPSs_rcompss_is_future_object_def RCOMPSs_rcompss_is_future_object_path_def RCOMPSs_rcompss_is_list_def
  RCOMPSs_rcompss_build_variable_argument_names_def RCOMPSs_rcompss_build_return_value_name_def RCOMPSs_rcompss_build_register_marker_def
  RCOMPSs_rcompss_build_type_args_path_def RCOMPSs_rcompss_build_constraint_string_def RCOMPSs_rcompss_process_task_metadata_def
  RCOMPSs_rcompss_execute_task_def RCOMPSs_task_def RCOMPSs_rcompss_serialize_def RCOMPSs_rcompss_unserialize_def RCOMPSs_rcompss_wait_on_def

lemmas gpu_wrappers =
  RCOMPSs_rcompss_gpu_memory_roundtrip_double_def RCOMPSs_rcompss_create_gpu_context_def RCOMPSs_rcompss_set_operation_placement_def
  RCOMPSs_rcompss_get_operation_placement_def RCOMPSs_rcompss_set_run_mode_def RCOMPSs_rcompss_get_run_mode_def
  RCOMPSs_rcompss_sync_context_def RCOMPSs_rcompss_sync_all_contexts_def RCOMPSs_rcompss_get_num_contexts_def
  RCOMPSs_rcompss_set_operation_context_def RCOMPSs_rcompss_delete_context_def RCOMPSs_rcompss_get_all_context_names_def
  RCOMPSs_rcompss_finalize_context_def RCOMPSs_rcompss_gpu_alloc_def RCOMPSs_rcompss_copy_to_gpu_def RCOMPSs_rcompss_copy_from_gpu_def
  RCOMPSs_rcompss_gpu_free_def RCOMPSs_rcompss_gpu_vector_add_kernel_def RCOMPSs_rcompss_gpu_vector_add_def

lemma contained_on_gpu: "contained m \<Longrightarrow> contained (on_gpu m)"
  by (auto simp: contained_def on_gpu_def split: prod.splits)

lemma dot_call_contained:
  assumes "\<And>n k f xs. (n, k, f) \<in> set entries \<Longrightarrow> contained (f xs)"
  shows "contained (dot_call entries name args)"
proof (cases "map_of entries name")
  case None
  then show ?thesis by (simp add: dot_call_def contained_def)
next
  case (Some nf)
  then obtain n f where nf: "map_of entries name = Some (n, f)" by (cases nf) auto
  then have "contained (f args)" by (rule assms [OF map_of_SomeD])
  with nf show ?thesis by (simp add: dot_call_def contained_def)
qed

lemma routines_contained:
  "(n, k, f) \<in> set (linalg_entries r e @ gpu_entries r e) \<Longrightarrow> contained (f xs)"
  "(n, k, f') \<in> set (runtime_entries r b) \<Longrightarrow> contained (f' xs)"
  "(n, k, f'') \<in> set (node_entries r t fe) \<Longrightarrow> contained (f'' xs)"
  unfolding linalg_entries_def gpu_entries_def runtime_entries_def node_entries_def
  by (auto simp: linalg_wrappers gpu_wrappers runtime_wrappers node_wrappers intro: contained_END_RCPP contained_on_gpu)

text \<open>The names differ near their ends.\<close>

lemma distinct_reversed: "distinct (map rev xs) \<Longrightarrow> distinct xs"
  by (simp add: distinct_map)

lemma names_distinct:
  "distinct (map fst (linalg_entries r e) @ map fst (runtime_entries r b) @ map fst (node_entries r t fe) @ map fst (gpu_entries r e))"
  unfolding linalg_entries_def gpu_entries_def runtime_entries_def node_entries_def list.map fst_conv append.simps
  by (rule distinct_reversed) code_simp

text \<open>By what \<^verbatim>\<open>END_RCPP\<close> is documented to do, no C++ exception reaches R from a routine that is called.\<close>

lemma calls_contained:
  "contained (dot_call (linalg_entries r e @ gpu_entries r e) name args)"
  "contained (dot_call (runtime_entries r b) name args)"
  "contained (dot_call (node_entries r t fe) name args)"
  by - (rule dot_call_contained, erule routines_contained)+

text \<open>
  C36. A linear system solved from R. \<^verbatim>\<open>.Call\<close> of \<^verbatim>\<open>rcompss_gpu_dgetrf\<close> with an R matrix returns a
  list; when its \<^verbatim>\<open>$info\<close> is 0, its \<^verbatim>\<open>$LU\<close> and \<^verbatim>\<open>$pivot\<close> and a right-hand side, passed back through
  \<^verbatim>\<open>.Call\<close> of \<^verbatim>\<open>rcompss_gpu_dgetrs\<close>, give an R matrix that holds the solution. The right-hand side is a
  matrix, or a vector without dimensions. \<^verbatim>\<open>$info\<close> is the status cuSOLVER gives; a status other than 0 is
  not an error in R. Nothing is leaked.
\<close>

theorem system_solved_from_R:
  assumes "blas_api (lib e) rounds solves" "rcpp_values r" "working e s"
    and "is_matrix A" "mat_nrow A = n" "mat_ncol A = n" "0 < n" "n < 2 ^ 30"
    and "b = wrap_matrix B \<or> mat_ncol B = 1 \<and> b = wrap_numeric (mat_data B)"
    and "is_matrix B" "mat_nrow B = n" "0 < mat_ncol B" "mat_ncol B < 2 ^ 30"
  shows "\<exists>F i s1. dot_call (linalg_entries r e @ gpu_entries r e) ''_RCOMPSs_rcompss_gpu_dgetrf'' [wrap_matrix A] s = (Inr F, s1) \<and>
     dollar_name F ''info'' = r_int i \<and> (\<exists>LU piv. cusolverDnDgetrf (lib e) (int n) (int n) (mat_data A) (int n) = Some (LU, piv, i)) \<and>
     working e s1 \<and> live (device s1) = live (device s) \<and>
     (i = 0 \<longrightarrow>
       (\<exists>X s2. dot_call (linalg_entries r e @ gpu_entries r e) ''_RCOMPSs_rcompss_gpu_dgetrs''
            [dollar_name F ''LU'', dollar_name F ''pivot'', b, wrap_bool False] s1 = (Inr (wrap_matrix X), s2) \<and>
          is_matrix X \<and> mat_nrow X = n \<and> mat_ncol X = mat_ncol B \<and>
          solves n (mat_ncol B) (mat_data A) (mat_data B) (mat_data X) \<and>
          working e s2 \<and> live (device s2) = live (device s)))"
proof -
  define rhs where "rhs = right_side_of r b"
  have n: "n < 2 ^ 31" "mat_ncol B < 2 ^ 31" using assms(8,13) by simp_all
  have passes: "passes rhs B"
    using assms(9) rcpp_values.matrix_right_side [OF assms(2,10)] rcpp_values.vector_right_side [OF assms(2)] assms(11) n
    by (auto simp: rhs_def passes_def)
  obtain f s1 where f: "rcompss_gpu_dgetrf e A s = (Inr f, s1)" "working e s1" "live (device s1) = live (device s)"
      "is_matrix (lu_matrix f)" "mat_nrow (lu_matrix f) = n" "mat_ncol (lu_matrix f) = n" "\<forall>p \<in> set (lu_pivot f). in_int_range p"
      "cusolverDnDgetrf (lib e) (int n) (int n) (mat_data A) (int n) = Some (mat_data (lu_matrix f), lu_pivot f, lu_info f)"
    and solve: "lu_info f = 0 \<Longrightarrow>
       \<exists>X s2. rcompss_gpu_dgetrs e (lu_matrix f) (lu_pivot f) rhs False s1 = (Inr X, s2) \<and>
          is_matrix X \<and> mat_nrow X = n \<and> mat_ncol X = mat_ncol B \<and>
          solves n (mat_ncol B) (mat_data A) (mat_data B) (mat_data X) \<and>
          working e s2 \<and> live (device s2) = live (device s)"
    using lu_solves [OF assms(1,3-8) passes assms(10-13)] by blast
  have A: "as_matrix r (wrap_matrix A) = Inr A" using rcpp_values.matrix [OF assms(2,4)] assms(5,6) n by simp
  have LU: "as_matrix r (wrap_matrix (lu_matrix f)) = Inr (lu_matrix f)" using rcpp_values.matrix [OF assms(2) f(4)] f(5,6) n by simp
  note converted = A LU rcpp_values.integers [OF assms(2) f(7)] rcpp_values.bool_scalar [OF assms(2)]
  have fields: "dollar_name (lu_list f) ''LU'' = wrap_matrix (lu_matrix f)" "dollar_name (lu_list f) ''pivot'' = wrap_integers (lu_pivot f)"
    "dollar_name (lu_list f) ''info'' = r_int (lu_info f)"
    by (simp_all add: dollar_name_def lu_list_def list_fields_named)
  have "RCOMPSs_rcompss_gpu_dgetrf r e (wrap_matrix A) s = (Inr (lu_list f), s1)"
    unfolding RCOMPSs_rcompss_gpu_dgetrf_def by (rule END_RCPP_Inr) (simp add: converted st_lift_def st_bind_def f(1) st_return_def)
  then have first: "dot_call (linalg_entries r e @ gpu_entries r e) ''_RCOMPSs_rcompss_gpu_dgetrf'' [wrap_matrix A] s = (Inr (lu_list f), s1)"
    by (simp add: dot_call_def linalg_entries_def)
  have second: "dot_call (linalg_entries r e @ gpu_entries r e) ''_RCOMPSs_rcompss_gpu_dgetrs''
      [wrap_matrix (lu_matrix f), wrap_integers (lu_pivot f), b, wrap_bool False] s1 = (Inr (wrap_matrix X), s2)"
    if "rcompss_gpu_dgetrs e (lu_matrix f) (lu_pivot f) rhs False s1 = (Inr X, s2)" for X s2
  proof -
    have "RCOMPSs_rcompss_gpu_dgetrs r e (wrap_matrix (lu_matrix f)) (wrap_integers (lu_pivot f)) b (wrap_bool False) s1 = (Inr (wrap_matrix X), s2)"
      unfolding RCOMPSs_rcompss_gpu_dgetrs_def
      by (rule END_RCPP_Inr) (simp add: converted st_lift_def st_bind_def that [unfolded rhs_def] st_return_def)
    then show ?thesis by (simp add: dot_call_def linalg_entries_def)
  qed
  show ?thesis
    by (rule exI [of _ "lu_list f"], rule exI [of _ "lu_info f"], rule exI [of _ s1])
       (use first fields f solve second in \<open>fastforce\<close>)
qed

theorem system_solved_from_R_witness:
  "\<exists>F s1 X s2. dot_call (linalg_entries reference_args (flawless reference_lib) @ gpu_entries reference_args (flawless reference_lib))
       ''_RCOMPSs_rcompss_gpu_dgetrf'' [wrap_matrix \<lparr>mat_nrow = 2, mat_ncol = 2, mat_data = [1, 0, 0, - 1]\<rparr>] linalg_state = (Inr F, s1) \<and>
     dot_call (linalg_entries reference_args (flawless reference_lib) @ gpu_entries reference_args (flawless reference_lib))
       ''_RCOMPSs_rcompss_gpu_dgetrs'' [dollar_name F ''LU'', dollar_name F ''pivot'', wrap_numeric [5, 7], wrap_bool False] s1 = (Inr (wrap_matrix X), s2) \<and>
     ring_solves 2 1 [1, 0, 0, - 1] [5, 7] (mat_data X) \<and> live (device s2) = {1, 2, 3, 4}"
proof -
  have diag: "unit_diagonal 2 [1, 0, 0, - 1]" by (simp add: unit_diagonal_def less_Suc_eq numeral_2_eq_2)
  show ?thesis
    using system_solved_from_R [OF reference_api reference_args.rcpp_values_axioms linalg_state_works,
        of "\<lparr>mat_nrow = 2, mat_ncol = 2, mat_data = [1, 0, 0, - 1]\<rparr>" 2 "wrap_numeric [5, 7]"
        "\<lparr>mat_nrow = 2, mat_ncol = 1, mat_data = [5, 7]\<rparr>"] diag
    by (auto simp: is_matrix_def linalg_state_def flawless_def reference_lib_def)
qed

text \<open>
  C29. The product of two R matrices, from R and back: \<^verbatim>\<open>.Call\<close> finds \<^verbatim>\<open>rcompss_gpu_dgemm\<close>, converts
  the matrices and options, runs it on the device, and returns an R matrix with dimensions whose
  elements are those of the product of the arguments, transposed as asked. Nothing is leaked.
\<close>

theorem product_from_R:
  assumes "blas_api (lib e) rounds solves" "rcpp_values r" "working e s" "is_matrix A" "is_matrix B"
    and "op_ncol ta A = op_nrow tb B" "0 < op_nrow ta A" "0 < op_ncol ta A" "0 < op_ncol tb B"
    and "op_nrow ta A < 2 ^ 30" "op_ncol ta A < 2 ^ 30" "op_ncol tb B < 2 ^ 30" "is_zero beta"
  shows "\<exists>M s'. dot_call (linalg_entries r e @ gpu_entries r e) ''_RCOMPSs_rcompss_gpu_dgemm''
       [wrap_matrix A, wrap_matrix B, wrap_bool ta, wrap_bool tb, wrap_double alpha, wrap_double beta] s = (Inr (wrap_matrix M), s') \<and>
     is_matrix M \<and> mat_nrow M = op_nrow ta A \<and> mat_ncol M = op_ncol tb B \<and>
     (\<forall>i < mat_nrow M. \<forall>j < mat_ncol M.
        rounds alpha (map (\<lambda>l. (op_entry ta A i l, op_entry tb B l j)) [0..<op_ncol ta A]) (entry M i j)) \<and>
     working e s' \<and> live (device s') = live (device s)"
proof -
  have dims: "mat_nrow A < 2 ^ 31" "mat_ncol A < 2 ^ 31" "mat_nrow B < 2 ^ 31" "mat_ncol B < 2 ^ 31"
    using assms(6,10-12) by (cases ta; cases tb; simp add: op_nrow_def op_ncol_def)+
  note converted = rcpp_values.matrix [OF assms(2,4) dims(1,2)] rcpp_values.matrix [OF assms(2,5) dims(3,4)]
    rcpp_values.bool_scalar [OF assms(2)] rcpp_values.double_scalar [OF assms(2)]
  obtain M s' where run: "rcompss_gpu_dgemm e A B ta tb alpha beta s = (Inr M, s')"
    and post: "is_matrix M \<and> mat_nrow M = op_nrow ta A \<and> mat_ncol M = op_ncol tb B \<and>
     (\<forall>i < mat_nrow M. \<forall>j < mat_ncol M.
        rounds alpha (map (\<lambda>l. (op_entry ta A i l, op_entry tb B l j)) [0..<op_ncol ta A]) (entry M i j)) \<and>
     working e s' \<and> live (device s') = live (device s)"
    using gpu_gemm_correct [OF assms(1,3-13), of alpha] by blast
  have "RCOMPSs_rcompss_gpu_dgemm r e (wrap_matrix A) (wrap_matrix B) (wrap_bool ta) (wrap_bool tb) (wrap_double alpha) (wrap_double beta) s
      = (Inr (wrap_matrix M), s')"
    unfolding RCOMPSs_rcompss_gpu_dgemm_def by (rule END_RCPP_Inr) (simp add: converted st_lift_def st_bind_def run st_return_def)
  then have "dot_call (linalg_entries r e @ gpu_entries r e) ''_RCOMPSs_rcompss_gpu_dgemm''
       [wrap_matrix A, wrap_matrix B, wrap_bool ta, wrap_bool tb, wrap_double alpha, wrap_double beta] s = (Inr (wrap_matrix M), s')"
    by (simp add: dot_call_def linalg_entries_def)
  with post show ?thesis by blast
qed

theorem product_from_R_witness:
  "\<exists>M s'. dot_call (linalg_entries reference_args (flawless reference_lib) @ gpu_entries reference_args (flawless reference_lib))
       ''_RCOMPSs_rcompss_gpu_dgemm''
       [wrap_matrix \<lparr>mat_nrow = 2, mat_ncol = 1, mat_data = [3, 4]\<rparr>, wrap_matrix \<lparr>mat_nrow = 3, mat_ncol = 2, mat_data = [1, 2, 5, 10, 20, 50]\<rparr>,
        wrap_bool True, wrap_bool True, wrap_double 1, wrap_double 0] linalg_state = (Inr (wrap_matrix M), s') \<and>
     mat_nrow M = 1 \<and> mat_ncol M = 3 \<and> entry M 0 2 = 3 * 5 + 4 * 50"
  using product_from_R [OF reference_api reference_args.rcpp_values_axioms linalg_state_works,
      of "\<lparr>mat_nrow = 2, mat_ncol = 1, mat_data = [3, 4]\<rparr>" "\<lparr>mat_nrow = 3, mat_ncol = 2, mat_data = [1, 2, 5, 10, 20, 50]\<rparr>" True True 0 1]
  by (fastforce simp: is_matrix_def op_nrow_def op_ncol_def op_entry_def entry_def is_zero_def ring_dot_def upt_rec)

end
