(* ===== verification/Submission_Path.thy ===== *)
theory Submission_Path
  imports Rcpp_Exports
begin

text \<open>
  The way of a submission through R: what \<^verbatim>\<open>rcompss_execute_task\<close> returns as an R list, what the
  wrapper in \<^verbatim>\<open>src/R/RCOMPSs-package.R\<close> makes of it, and what \<^verbatim>\<open>process_task\<close> hands to the COMPSs
  runtime. Of the R code only the preparation of this call is modelled.
\<close>

section \<open>The call of process_task\<close>



section \<open>From the decorator to the runtime\<close>










section \<open>A whole submission\<close>




end
