(* ===== verification/Spec2Isabelle.thy ===== *)
theory Spec2Isabelle
  imports Serialization_Roundtrip Executor Worker Gpu_Copy Submission_Path
begin

text \<open>
  A model of RCOMPSs, the R binding of the COMPSs task runtime.

  \<^bold>\<open>The program.\<close> A master R session calls the exports of \<^verbatim>\<open>src/src/compssmodule.cpp\<close>. A function
  decorated with \<^verbatim>\<open>task\<close> submits each call: \<^verbatim>\<open>rcompss_execute_task\<close> classifies the arguments, writes
  those that are not basic into files of the master's working directory (one of three methods,
  \<^verbatim>\<open>cpp\<close>, \<^verbatim>\<open>qs\<close>, \<^verbatim>\<open>RMVL\<close>, named in the file name) and returns the vectors that \<^verbatim>\<open>process_task\<close>
  marshals for the COMPSs runtime. On a node, \<^verbatim>\<open>rcompss_worker\<close> starts one \<^verbatim>\<open>rcompss_executor\<close> per
  pair of pipes; an executor reads task lines, sources the module, decodes the arguments, calls
  the function in an embedded R session, stores the result and reports \<^verbatim>\<open>END_TASK\<close>. The master
  waits for a future with \<^verbatim>\<open>rcompss_wait_on\<close>, which asks the runtime for the file and reads it. A
  separate set of exports keeps named GPU contexts and device buffers and computes on them.

  \<^bold>\<open>Theories and sources.\<close>
  \<^item> \<open>Prelude\<close>: the error values (\<open>exn\<close>, one constructor per way control leaves C++ code, undefined
    behaviour and long jumps included), the state-and-exception functions \<open>st_*\<close>, their triples
    \<open>meets\<close> and \<open>throws_only\<close>, lists and association lists. \<open>Cpp_Std\<close>: \<^verbatim>\<open>std::stoi\<close>, \<^verbatim>\<open>to_string\<close>,
    \<^verbatim>\<open>getline\<close>, \<^verbatim>\<open>operator>>\<close> and vector access as the C++ standard has them.
  \<^item> \<open>R_Values\<close>: R objects with their attributes, and what the R C API promises (locale
    \<open>r_object_api\<close>). \<open>Rcpp_Api\<close>: the conversions of Rcpp (locale \<open>rcpp_api\<close>). Both are outside the
    sources; each locale is interpreted on a reference implementation.
  \<^item> \<open>Core_Utils\<close>: \<^verbatim>\<open>core/PathUtils.cpp\<close>, \<^verbatim>\<open>StringUtils.cpp\<close>, \<^verbatim>\<open>VectorUtils.cpp\<close>, \<^verbatim>\<open>TypeChecker.cpp\<close>,
    \<^verbatim>\<open>TypeMapper.cpp\<close>, \<^verbatim>\<open>UIDGenerator.cpp\<close>. Its lemmas: file names carry their method, are distinct,
    identifiers have a fixed shape.
  \<^item> \<open>Serialization\<close>: \<^verbatim>\<open>core/Serialization.cpp\<close>, writer and reader with the streams, the C stack
    and R's protection stack. \<open>Serialization_Laws\<close> has the abstract syntax of a file (\<open>wire\<close>) and
    its concrete bytes; the writer refines it. \<open>Serialization_Sound\<close>: the reader accepts only such
    bytes. \<open>Serialization_Roundtrip\<close>: what is written is read back, truncated and foreign files are
    refused, older versions are read, how deep the recursion goes, how many vectors are too many.
  \<^item> \<open>Serialize_Api\<close> and \<open>Serialize_Codec\<close>: \<^verbatim>\<open>rcompss_serialize\<close>, \<^verbatim>\<open>rcompss_unserialize\<close> and
    \<^verbatim>\<open>rcompss_wait_on\<close> of \<^verbatim>\<open>compssmodule.cpp\<close>. The locale \<open>codec\<close> is the contract between a writer and
    a reader, interpreted on the native format; dispatch by file name is proved for every codec.
  \<^item> \<open>Task_Decorator\<close> and \<open>Task_Shipping\<close>: \<^verbatim>\<open>core/TaskDecorator.cpp\<close> and \<^verbatim>\<open>rcompss_execute_task\<close>. The
    lemmas: the vectors handed to COMPSs fit together and every argument can be read back.
    \<open>Task_Wrapper\<close>: \<^verbatim>\<open>task\<close>, \<^verbatim>\<open>createTaskDecorator\<close> and the small exports. \<open>Constraints\<close>:
    \<^verbatim>\<open>rcompss_build_constraint_string\<close>.
  \<^item> \<open>Runtime_Binding\<close>: \<^verbatim>\<open>start_runtime\<close>, \<^verbatim>\<open>start_runtime_interactive\<close>, \<^verbatim>\<open>register_core_element\<close>,
    \<^verbatim>\<open>process_task\<close> and the other calls into COMPSs and Extrae. The process keeps the list of calls
    made; parameters passed by address are cells that are read when the call is made, so a dangling
    pointer is undefined behaviour.
  \<^item> \<open>Executor_Message\<close> and \<open>Executor\<close>: \<^verbatim>\<open>executor/ExecutorCore.cpp\<close> and \<^verbatim>\<open>ExecutorMain.cpp\<close>: parsing
    a task line, decoding its parameters, binding CPUs and GPUs, executing, reporting, the message
    loop. \<open>task_spec\<close> is the abstract task that the detailed code refines.
  \<^item> \<open>Worker\<close>: \<^verbatim>\<open>worker/WorkerCore.cpp\<close> and \<^verbatim>\<open>WorkerMain.cpp\<close>.
  \<^item> \<open>Gpu_Context\<close>: \<^verbatim>\<open>core/GPUDefinitions.hpp\<close>, \<^verbatim>\<open>kernels/RunContext.cpp\<close>, \<^verbatim>\<open>ContextManager.cpp\<close>,
    \<^verbatim>\<open>adapters/RContextManager.cpp\<close> and their exports over a heap of contexts. \<open>Gpu_Safety\<close>: the
    invariant that no registered context dangles and no handle is used after it was destroyed.
    \<open>Gpu_Memory\<close>: \<^verbatim>\<open>kernels/MemoryHandler.cpp\<close>, \<^verbatim>\<open>kernels/cuda/CudaVectorKernels.cu\<close>, the buffer and
    vector exports; a kernel is the set of its threads run in any order. \<open>Gpu_Copy\<close>: the copies that
    change the precision of numbers, \<^verbatim>\<open>memory::Copy\<close> and \<^verbatim>\<open>kernels/cuda/CudaMemoryKernels.cu\<close>.
  \<^item> \<open>Gpu_Linalg\<close>: \<^verbatim>\<open>kernels/cuda/CudaLibraryWrappers.cpp\<close> and the exports of \<^verbatim>\<open>RcppGpuLinalg.cpp\<close>:
    scoped device buffers whose destructor runs on every way out (\<open>unwinding\<close>), transfers, shape
    checks and the calls of cuBLAS and cuSOLVER with the elements each may touch. \<open>Gpu_Linalg_Safety\<close>:
    nothing is leaked by a syntactic argument over all computations (\<open>clean\<close>). \<open>Gpu_Linalg_Correct\<close>:
    the locale \<open>linalg_session\<close> of a device that works, a triple for every step and for the exports.
    \<open>Gpu_Linalg_Results\<close>: the contract of the two libraries (locale \<open>blas_api\<close>, interpreted on an
    exact integer library), products, linear systems, vector routines, refusals, leaks and
    termination. \<open>Gpu_Linalg_Products\<close>: matrix-vector, triangular and symmetric products and
    triangular systems, from a contract that extends it (locale \<open>blas_products\<close>).
  \<^item> \<open>Rcpp_Args\<close> and \<open>Rcpp_Exports\<close>: \<^verbatim>\<open>src/src/RcppExports.cpp\<close>, the 68 entry points with the conversion
    of every argument and result (the laws of the conversions are the locale \<open>rcpp_values\<close>), the
    tables of registered routines and \<^verbatim>\<open>.Call\<close>. No C++ exception gets past an entry point, and a
    product is followed from R to the device and back. \<open>Submission_Path\<close>: a submission followed from
    \<^verbatim>\<open>rcompss_execute_task\<close> through \<^verbatim>\<open>src/R/RCOMPSs-package.R\<close> to the call of the runtime.
  \<^item> This theory: the properties that span worker and master, up to a whole remote call.

  \<^bold>\<open>State and errors.\<close> Every operation is a function from a state to a result and the state after
  it; the result is an exception or a value, so each \<^verbatim>\<open>throw\<close>, \<^verbatim>\<open>Rcpp::stop\<close> and \<^verbatim>\<open>catch\<close> of the
  source is a branch. Machine integers are words, or \<open>int\<close> with the range test where overflow is
  undefined. Files are lists of bytes; an output stream may refuse bytes or fail to open.

  \<^bold>\<open>Bounds.\<close> The recursion of the reader is bounded by the number \<open>depth\<close> of C stack frames;
  running out of them is undefined behaviour, and \<open>reader_depth_bounded\<close> shows that a file of \<open>n\<close>
  bytes needs at most \<open>n div 4 + 1\<close>. Writing recurses over the object. The loops over arguments,
  lines, executors and threads are structural recursions; there is no other fuel.

  \<^bold>\<open>Not modelled.\<close>
  \<^item> The R session, Rcpp, the packages \<^verbatim>\<open>qs\<close> and \<^verbatim>\<open>RMVL\<close>, the COMPSs runtime, Extrae, CUDA, cuBLAS,
    cuSOLVER, the clock, the random engine and the operating system are parameters: they are not under \<^verbatim>\<open>src\<close>.
  \<^item> Log lines to \<^verbatim>\<open>stderr\<close>, to \<^verbatim>\<open>Rcpp::Rcerr\<close> and to files in \<^verbatim>\<open>/tmp\<close>: no code reads them. The
    executor's lines to the job files, which are part of its interface, are modelled.
  \<^item> The C++ finalizer of a device buffer, which repeats \<^verbatim>\<open>rcompss_gpu_free\<close>: R decides when it runs.
    Pointers into the middle of a buffer: no code of the package makes one.
  \<^item> The move operations of \<^verbatim>\<open>ScopedGpuArray\<close>: no export moves a buffer.
  \<^item> In \<^verbatim>\<open>RcppExports.cpp\<close>, the scopes that save the state of R's random number generator, which no
    export uses, and the call that registers the tables.
  \<^item> The R code, except what \<open>Submission_Path\<close> says of it, the examples, tests and build files.
\<close>

section \<open>From the worker back to the master\<close>

text \<open>
  The worker \<open>w\<close> stores results with this package: \<^verbatim>\<open>compss_serialize\<close> of the R session calls
  \<^verbatim>\<open>rcompss_serialize\<close>.
\<close>

definition stores_with_package :: "'x host \<Rightarrow> int \<Rightarrow> 'x node runtime \<Rightarrow> bool" where
  "stores_with_package hw k rt \<longleftrightarrow> compss_serialize rt = (\<lambda>x p m. rcompss_serialize hw x p m k)"

text \<open>Fetching the future of a path reads the file that the COMPSs runtime brings there.\<close>

lemma wait_on_future:
  assumes "rcpp_api (conv h)" "plain_class h (future_object path) [''future_object'']"
    and "rcompss_unserialize h path k (gs_get_file h 0 path t) = (Inr v, t')"
  shows "rcompss_wait_on h (future_object path) k n t = (Inr v, t')"
proof -
  have "list_get (conv h) (future_object path) ''outputfile'' = Inr (r_string path)"
    by (simp add: future_object_def rcpp_api.get [OF assms(1)])
  then have "fetch_future h (future_object path) k t = (Inr v, t')"
    using assms(3)
    by (simp add: fetch_future_def fetch_def Get_File_def st_bind_def st_lift_def future_object_def
        rcpp_api.elements [OF assms(1)] rcpp_api.as_string_r_string [OF assms(1)])
  then show ?thesis
    by (simp add: rcompss_wait_on_def wait_body_def st_catch_def st_bind_def is_future_plain [OF assms(2)])
qed

text \<open>
  From the worker back to the master: the result of a task that the executor reports as
  successful is what waiting on its future object returns in the master, as the native
  format presents it, once the COMPSs runtime has brought the file of the worker to the
  path in the future object. No assumption is made on the result or on the worker beyond the
  success that was reported: a result the format cannot hold is reported as a failure.
\<close>

theorem result_delivered:
  assumes "params m = encode_params ns m1 m2 target m3 nret args
             ([ty, d, str, buildReturnValueName ''cpp'', ct, pre @ CHR '':'' # wpath] @ extra)"
    and "list_all (\<lambda>a. spec_ok (arg_spec a)) args"
    and "int (length ns) + 14 + int (length (concat (map arg_tokens args))) + int (length extra) + int nret \<le> int_max"
    and "0 < nret" "CHR '':'' \<notin> set wpath"
    and "file_good rt r (module m)" "source_func rt (module m) r = (Inr (), r1)" "env_exists rt r1 (func m)"
    and "arg_values rt args r1 = (Inr vs, r2)"
    and "call_spec rt m (filter (\<lambda>a. \<not> rcompssIsReturnValuePlaceholderArgName (fst a)) vs) r2 = (Inr result, r3)"
    and "r = cpu_bound rt (cpus m) (r_state s)"
    and "stores_with_package hw k rt" "\<forall>out. closed (out_env hw) out = out"
    and "executeTask rt m s = (Inr True, s')"
    and "rcpp_api (conv hm)" "plain_class hm (future_object path) [''future_object'']"
    and "extractSerializationMethod path = ''cpp''"
    and "files (gs_get_file hm 0 path t) path = files (r_state s') wpath"
    and "readable hm result (gs_get_file hm 0 path t)"
  shows "rcompss_wait_on hm (future_object path) k' n t = (Inr (norm_sexp result), gs_get_file hm 0 path t)"
proof -
  have dash: "CHR ''-'' \<notin> set ''cpp''" by simp
  note worker = executeTask_stores [OF assms(1-4) dash assms(5-11)]
  have "rcompss_serialize hw result wpath ''cpp'' k r3 = (Inr (), r_state s')"
    using worker assms(14) assms(12)
    by (cases "rcompss_serialize hw result wpath ''cpp'' k r3") (auto simp: stores_with_package_def)
  from api_write [OF this assms(13)] obtain w where
    w: "to_wire result = Some w" "files (r_state s') wpath = Some (file_bytes w)" by auto
  with assms(18) have "files (gs_get_file hm 0 path t) path = Some (file_bytes w)" by simp
  from api_read [OF assms(19) w(1) this assms(17)] show ?thesis
    by (rule wait_on_future [OF assms(15,16)])
qed

text \<open>A worker whose task function returns 7, and a master whose runtime copies the file of the worker.\<close>

definition package_runtime :: "unit node runtime" where
  "package_runtime =
     \<lparr>to_double = (\<lambda>_. Inl (Std_exception ''stod'')), file_good = (\<lambda>_ p. p = ''m.R''),
      source_func = (\<lambda>_ s. (Inr (), s)), env_exists = (\<lambda>_ f. f = ''f''),
      compss_unserialize = (\<lambda>p. rcompss_unserialize example_host p 1),
      call_direct = (\<lambda>_ s. (Inr NILSXP, s)), do_call = (\<lambda>_ args s. (Inr (r_int 7), s)),
      compss_serialize = (\<lambda>x p m. rcompss_serialize example_host x p m 1),
      sched_setaffinity = (\<lambda>_ s. (None, s))\<rparr>"

definition package_message :: TaskMessage where
  "package_message = example_message
     \<lparr>params := encode_params [''n0''] ''a'' ''b'' ''null'' ''c'' 1 example_args
        ([''10'', ''0'', ''3'', buildReturnValueName ''cpp'', ''FILE'', ''d1'' @ CHR '':'' # ''/t/cpp-r''] @ [''z''])\<rparr>"

theorem result_delivered_witness:
  "\<exists>s' t. executeTask package_runtime package_message (idle empty_node) = (Inr True, s')
     \<and> rcompss_wait_on (example_host\<lparr>gs_get_file := \<lambda>_ p t. t\<lparr>files := (files t)(p := files (r_state s') ''/t/cpp-r'')\<rparr>\<rparr>)
         (future_object ''/w/cpp-r'') 1 1 empty_node = (Inr (norm_sexp (r_int 7)), t)"
proof -
  let ?rt = package_runtime and ?m = package_message
  let ?vs = "[(''x'', r_int (- 5)), (''s'', r_string ''a b''), (''cpp-RETURN_VALUE'', r_string ''/w/r'')]"
  have rt: "stores_with_package example_host 1 ?rt" by (simp add: stores_with_package_def package_runtime_def)
  have ps: "params ?m = encode_params [''n0''] ''a'' ''b'' ''null'' ''c'' 1 example_args
        ([''10'', ''0'', ''3'', buildReturnValueName ''cpp'', ''FILE'', ''d1'' @ CHR '':'' # ''/t/cpp-r''] @ [''z''])"
    by (simp add: package_message_def)
  have ok: "list_all (\<lambda>a. spec_ok (arg_spec a)) example_args"
    by (simp add: example_args_def in_int_range_def int_min_def int_max_def)
  have len: "int (length [''n0'']) + 14 + int (length (concat (map arg_tokens example_args)))
      + int (length [''z'']) + int 1 \<le> int_max"
    by (simp add: example_args_def arg_tokens_def int_max_def)
  have vals: "arg_values ?rt example_args empty_node = (Inr ?vs, empty_node)"
    by (simp add: example_args_def st_bind_def stripValueSuffix_def find_last_if_def)
  have call: "call_spec ?rt ?m (filter (\<lambda>a. \<not> rcompssIsReturnValuePlaceholderArgName (fst a)) ?vs) empty_node
      = (Inr (r_int 7), empty_node)"
    by (simp add: call_spec_def rcompssIsReturnValuePlaceholderArgName_def kSuffix_def package_runtime_def)
  have cpu: "empty_node = cpu_bound ?rt (cpus ?m) (r_state (idle empty_node))"
    by (simp add: cpu_bound_def package_message_def example_message_def package_runtime_def idle_def
        split: sum.splits)
  have start: "file_good ?rt empty_node (module ?m)" "source_func ?rt (module ?m) empty_node = (Inr (), empty_node)"
    "env_exists ?rt empty_node (func ?m)" "(0 :: nat) < 1" "CHR '':'' \<notin> set ''/t/cpp-r''"
    by (simp_all add: package_runtime_def package_message_def example_message_def)
  have path: "extractSerializationMethod ''/w/cpp-r'' = ''cpp''" "extractSerializationMethod ''/t/cpp-r'' = ''cpp''"
    by code_simp+
  have fit: "cpp_fits example_host (r_int 7) ''/t/cpp-r'' empty_node"
    by (rule example_fits)
       (simp_all add: r_int_def wf_sexp.simps Rf_getAttrib_def object_depth_def object_nodes_def
         to_wire.simps empty_node_def)
  from native_api [OF fit path(2), of 1] obtain w where
    "rcompss_serialize example_host (r_int 7) ''/t/cpp-r'' ''cpp'' 1 empty_node
       = (Inr (), empty_node\<lparr>files := (files empty_node)(''/t/cpp-r'' \<mapsto> file_bytes w)\<rparr>)" by blast
  then have "fst (compss_serialize ?rt (r_int 7) ''/t/cpp-r'' ''cpp'' empty_node) = Inr ()"
    by (simp add: package_runtime_def)
  with executeTask_stores [OF ps ok len start(4) _ start(5) start(1-3) vals call cpu]
  have "fst (executeTask ?rt ?m (idle empty_node)) = Inr True" by simp
  then obtain s' where run: "executeTask ?rt ?m (idle empty_node) = (Inr True, s')"
    by (cases "executeTask ?rt ?m (idle empty_node)") auto
  let ?hm = "example_host\<lparr>gs_get_file := \<lambda>_ p t. t\<lparr>files := (files t)(p := files (r_state s') ''/t/cpp-r'')\<rparr>\<rparr>"
  have closed: "\<forall>out. closed (out_env example_host) out = out" using fit by (simp add: cpp_fits_def)
  have conv: "rcpp_api (conv ?hm)" by (simp add: refrcpp.rcpp_api_axioms)
  have cls: "plain_class ?hm (future_object ''/w/cpp-r'') [''future_object'']"
    by (simp add: plain_class_def class_attribute_def future_object_def r_string_def)
  have room: "readable ?hm (r_int 7) (gs_get_file ?hm 0 ''/w/cpp-r'' empty_node)"
    using fit by (simp add: readable_def cpp_fits_def)
  have brought: "files (gs_get_file ?hm 0 ''/w/cpp-r'' empty_node) ''/w/cpp-r'' = files (r_state s') ''/t/cpp-r''"
    by simp
  show ?thesis
    using result_delivered [OF ps ok len start(4,5,1-3) vals call cpu rt closed run conv cls path(1) brought room] run
    by blast
qed

section \<open>From the master to the worker and back\<close>

text \<open>
  Argument \<open>i\<close> of a submission arrives on the worker: a shipped one as a file with the contents the
  master wrote, under a path that names the method; a basic one as a parameter whose value the
  executor decodes.
\<close>

definition arrives ::
    "'x host \<Rightarrow> 'x node runtime \<Rightarrow> TaskExecutionResult \<Rightarrow> sexp \<Rightarrow> 'm node \<Rightarrow> 'x node \<Rightarrow> nat \<Rightarrow> arg_line \<Rightarrow> bool" where
  "arrives hw rt r args s t i a \<longleftrightarrow>
     arg_name a = arguments_names r ! i \<and>
     (if ships r args i then
        (\<exists>path pre wpath. vector_elts (processed_arguments r) ! i = r_string path \<and>
           arg_spec a = File_arg (pre @ CHR '':'' # wpath) \<and> CHR '':'' \<notin> set wpath \<and> content a \<noteq> ''null'' \<and>
           extractSerializationMethod wpath = ''cpp'' \<and> files t wpath = files s path \<and> readable hw (vector_elts args ! i) t)
      else
        content_types r ! i = [] \<and>
        spec_value rt (content a) (arg_spec a) t = (Inr (vector_elts (processed_arguments r) ! i), t))"

definition received :: "TaskExecutionResult \<Rightarrow> sexp \<Rightarrow> nat \<Rightarrow> sexp" where
  "received r args i = (if ships r args i then norm_sexp (vector_elts args ! i) else vector_elts args ! i)"

lemma r_string_inject: "r_string p = r_string q \<Longrightarrow> p = q"
proof -
  assume "r_string p = r_string q"
  then have "string_bytes p = string_bytes q" by (simp add: r_string_def)
  then show "p = q" by (metis bytes_string_bytes)
qed

lemma arg_values_pointwise:
  "list_all2 (\<lambda>a v. spec_value rt (content a) (arg_spec a) t = (Inr v, t)) wargs vs \<Longrightarrow>
     arg_values rt wargs t = (Inr (map2 (\<lambda>a v. (arg_name a, v)) wargs vs), t)"
  by (induction rule: list_all2_induct) (simp_all add: st_bind_def)

lemma arguments_delivered:
  assumes "rcompss_execute_task e f (VECSXP xs a) n dir file_nm ms rv s = (Inr r, s')" "success r"
    and "n = int (length xs)" "alist_get a ''dim'' = None"
    and "r_object_api (c_api (host e))" "rcpp_api (conv (host e))"
    and "clock_ok e" "\<forall>out. closed (out_env (host e)) out = out"
    and "method_vector (host e) ms ! 0 = ''cpp''"
    and "\<forall>nm \<in> set (take (length xs) (arguments_names r)). plain_name nm"
    and "compss_unserialize rt = (\<lambda>p. rcompss_unserialize hw p k)"
    and "length wargs = length xs" "\<forall>i < length xs. arrives hw rt r (VECSXP xs a) s' t i (wargs ! i)"
  shows "arg_values rt wargs t = (Inr (map (\<lambda>i. (arguments_names r ! i, received r (VECSXP xs a) i)) [0..<length xs]), t)"
proof -
  have each: "spec_value rt (content (wargs ! i)) (arg_spec (wargs ! i)) t = (Inr (received r (VECSXP xs a) i), t)" if i: "i < length xs" for i
  proof (cases "ships r (VECSXP xs a) i")
    case True
    have "arrives hw rt r (VECSXP xs a) s' t i (wargs ! i)" using assms(13) i by blast
    then obtain path pre wpath where
      p: "vector_elts (processed_arguments r) ! i = r_string path" "arg_spec (wargs ! i) = File_arg (pre @ CHR '':'' # wpath)"
        "CHR '':'' \<notin> set wpath" "content (wargs ! i) \<noteq> ''null''" "extractSerializationMethod wpath = ''cpp''"
        "files t wpath = files s' path" "readable hw (xs ! i) t"
      unfolding arrives_def if_P [OF True] vector_elts.simps by blast
    from submitted_argument [OF assms(1-10) i] True p(1) obtain w where
      w: "to_wire (xs ! i) = Some w" "files s' path = Some (file_bytes w)" by (auto simp: shipped_def dest!: r_string_inject)
    then have "files t wpath = Some (file_bytes w)" using p(6) by simp
    from api_read [OF p(7) w(1) this p(5)] show ?thesis
      using p(2,4) True by (simp add: strip_data_prefix [OF p(3)] unserialize_arg_def assms(11) received_def)
  next
    case False
    then show ?thesis
      using assms(13) i submitted_argument [OF assms(1-10) i] by (auto simp: arrives_def received_def)
  qed
  have "list_all2 (\<lambda>a v. spec_value rt (content a) (arg_spec a) t = (Inr v, t)) wargs (map (received r (VECSXP xs a)) [0..<length xs])"
    using each assms(12) by (simp add: list_all2_conv_all_nth)
  note arg_values_pointwise [OF this]
  also have "map2 (\<lambda>a v. (arg_name a, v)) wargs (map (received r (VECSXP xs a)) [0..<length xs])
      = map (\<lambda>i. (arguments_names r ! i, received r (VECSXP xs a) i)) [0..<length xs]"
    using assms(12,13) by (intro nth_equalityI) (auto simp: arrives_def)
  finally show ?thesis .
qed

text \<open>
  C1. A remote call: the arguments of a successful submission that arrive on a worker are decoded
  there, under their names, as the native format presents them; when the executor reports success,
  the function has been applied to exactly these values, and waiting on the future of the task
  returns in the master what the function returned, again as the format presents it.
\<close>

theorem remote_call:
  assumes "rcompss_execute_task e f (VECSXP xs a) n dir file_nm ms rv s = (Inr r, s')" "success r"
    and "n = int (length xs)" "alist_get a ''dim'' = None"
    and "r_object_api (c_api (host e))" "rcpp_api (conv (host e))"
    and "clock_ok e" "\<forall>out. closed (out_env (host e)) out = out"
    and "method_vector (host e) ms ! 0 = ''cpp''"
    and "\<forall>nm \<in> set (take (length xs) (arguments_names r)). plain_name nm"
    and "compss_unserialize rt = (\<lambda>p. rcompss_unserialize hw p k)" "stores_with_package hw k rt" "\<forall>out. closed (out_env hw) out = out"
    and "length wargs = length xs" "\<forall>i < length xs. arrives hw rt r (VECSXP xs a) s' t i (wargs ! i)"
    and "params m = encode_params ns m1 m2 target m3 nret wargs
             ([ty, d, str, buildReturnValueName ''cpp'', ct, pre @ CHR '':'' # wpath] @ extra)"
    and "list_all (\<lambda>a. spec_ok (arg_spec a)) wargs"
    and "int (length ns) + 14 + int (length (concat (map arg_tokens wargs))) + int (length extra) + int nret \<le> int_max"
    and "0 < nret" "CHR '':'' \<notin> set wpath"
    and "file_good rt w0 (module m)" "source_func rt (module m) w0 = (Inr (), t)" "env_exists rt t (func m)"
    and "call_spec rt m (filter (\<lambda>a. \<not> rcompssIsReturnValuePlaceholderArgName (fst a))
           (map (\<lambda>i. (arguments_names r ! i, received r (VECSXP xs a) i)) [0..<length xs])) t = (Inr result, t1)"
    and "w0 = cpu_bound rt (cpus m) (r_state p)" "executeTask rt m p = (Inr True, p')"
    and "rcpp_api (conv hm)" "plain_class hm (future_object path) [''future_object'']"
    and "extractSerializationMethod path = ''cpp''"
    and "files (gs_get_file hm 0 path u) path = files (r_state p') wpath"
    and "readable hm result (gs_get_file hm 0 path u)"
  shows "rcompss_wait_on hm (future_object path) k' n' u = (Inr (norm_sexp result), gs_get_file hm 0 path u)"
  using result_delivered [OF assms(16-23) arguments_delivered [OF assms(1-11,14,15)] assms(24,25,12,13,26-31)] .

text \<open>The line for the argument of the example submission, and a task message with it.\<close>

definition remote_args :: "arg_line list" where
  "remote_args = [\<lparr>direction = ''0'', stream = ''3'', arg_name = ''x'', content = ''object'',
     arg_spec = File_arg (''d1'' @ CHR '':'' # ''/t/cpp-x'')\<rparr>]"

definition remote_message :: TaskMessage where
  "remote_message = example_message
     \<lparr>params := encode_params [''n0''] ''a'' ''b'' ''null'' ''c'' 1 remote_args
        ([''10'', ''0'', ''3'', buildReturnValueName ''cpp'', ''FILE'', ''d1'' @ CHR '':'' # ''/t/cpp-r''] @ [''z''])\<rparr>"

lemma remote_task_runs:
  assumes "t = empty_node\<lparr>files := fs\<rparr>" "arg_values package_runtime remote_args t = (Inr [(''x'', v)], t)"
  shows "\<exists>p'. executeTask package_runtime remote_message (idle t) = (Inr True, p')"
proof -
  let ?rt = package_runtime and ?m = remote_message
  have ps: "params ?m = encode_params [''n0''] ''a'' ''b'' ''null'' ''c'' 1 remote_args
        ([''10'', ''0'', ''3'', buildReturnValueName ''cpp'', ''FILE'', ''d1'' @ CHR '':'' # ''/t/cpp-r''] @ [''z''])"
    by (simp add: remote_message_def)
  have ok: "list_all (\<lambda>a. spec_ok (arg_spec a)) remote_args" by (simp add: remote_args_def)
  have len: "int (length [''n0'']) + 14 + int (length (concat (map arg_tokens remote_args))) + int (length [''z'']) + int 1 \<le> int_max"
    by (simp add: remote_args_def arg_tokens_def int_max_def)
  have call: "call_spec ?rt ?m (filter (\<lambda>a. \<not> rcompssIsReturnValuePlaceholderArgName (fst a)) [(''x'', v)]) t = (Inr (r_int 7), t)"
    by (simp add: call_spec_def rcompssIsReturnValuePlaceholderArgName_def kSuffix_def package_runtime_def)
  have cpu: "t = cpu_bound ?rt (cpus ?m) (r_state (idle t))"
    by (simp add: cpu_bound_def remote_message_def example_message_def package_runtime_def idle_def split: sum.splits)
  have start: "file_good ?rt t (module ?m)" "source_func ?rt (module ?m) t = (Inr (), t)"
    "env_exists ?rt t (func ?m)" "(0 :: nat) < 1" "CHR '':'' \<notin> set ''/t/cpp-r''"
    by (simp_all add: package_runtime_def remote_message_def example_message_def)
  have "extractSerializationMethod ''/t/cpp-r'' = ''cpp''" by code_simp
  moreover have fit: "cpp_fits example_host (r_int 7) ''/t/cpp-r'' t"
    by (rule example_fits)
       (simp_all add: r_int_def wf_sexp.simps Rf_getAttrib_def object_depth_def object_nodes_def to_wire.simps empty_node_def assms(1))
  ultimately obtain w where
    "rcompss_serialize example_host (r_int 7) ''/t/cpp-r'' ''cpp'' 1 t = (Inr (), t\<lparr>files := (files t)(''/t/cpp-r'' \<mapsto> file_bytes w)\<rparr>)"
    using native_api [of example_host "r_int 7" "''/t/cpp-r''" t 1] by blast
  then have "fst (compss_serialize ?rt (r_int 7) ''/t/cpp-r'' ''cpp'' t) = Inr ()" by (simp add: package_runtime_def)
  with executeTask_stores [OF ps ok len start(4) _ start(5) start(1-3) assms(2) call cpu]
  have "fst (executeTask ?rt ?m (idle t)) = Inr True" by simp
  then show ?thesis by (cases "executeTask ?rt ?m (idle t)") auto
qed

theorem remote_call_witness:
  "\<exists>r s' t p' u. rcompss_execute_task example_env ''f'' (VECSXP [example_arg] [(''names'', r_strings [''x''])]) 1 ''/w'' ''t.R''
       [''cpp''] False empty_node = (Inr r, s')
     \<and> executeTask package_runtime remote_message (idle t) = (Inr True, p')
     \<and> rcompss_wait_on (example_host\<lparr>gs_get_file := \<lambda>_ p v. v\<lparr>files := (files v)(p := files (r_state p') ''/t/cpp-r'')\<rparr>\<rparr>)
         (future_object ''/w/cpp-r'') 1 1 empty_node = (Inr (norm_sexp (r_int 7)), u)"
proof -
  let ?rt = package_runtime and ?m = remote_message and ?xs = "[example_arg]" and ?a = "[(''names'', r_strings [''x''])]"
  from example_submission obtain r s' where
    sub: "rcompss_execute_task example_env ''f'' (VECSXP ?xs ?a) 1 ''/w'' ''t.R'' [''cpp''] False empty_node = (Inr r, s')" "success r"
    and r: "arguments_type r = [10]" "content_types r = [''object'']" "arguments_names r = [''x'']" by blast
  have env: "(1 :: int) = int (length ?xs)" "alist_get ?a ''dim'' = None" "r_object_api (c_api (host example_env))"
    "rcpp_api (conv (host example_env))" "\<forall>out. closed (out_env (host example_env)) out = out"
    "method_vector (host example_env) [''cpp''] ! 0 = ''cpp''" "\<forall>nm \<in> set (take (length ?xs) (arguments_names r)). plain_name nm"
    by (simp_all add: refapi.r_object_api_axioms refrcpp.rcpp_api_axioms method_vector_def Let_def r is_separator_def)
  have ships: "ships r (VECSXP ?xs ?a) 0" using r by (simp add: ships_def example_arg_def)
  from submitted_argument [OF sub env(1-4) example_clock env(5-7), of 0] ships obtain path w where
    stored: "vector_elts (processed_arguments r) ! 0 = r_string path" "to_wire example_arg = Some w" "files s' path = Some (file_bytes w)"
    by (auto simp: shipped_def)
  define t where "t = empty_node\<lparr>files := [''/t/cpp-x'' \<mapsto> file_bytes w]\<rparr>"
  have "extractSerializationMethod ''/t/cpp-x'' = ''cpp''" by code_simp
  moreover have "readable example_host example_arg t"
    by (simp add: readable_def refapi.r_object_api_axioms example_arg_def wf_sexp.simps Rf_getAttrib_def
        object_depth_def object_nodes_def to_wire.simps t_def empty_node_def)
  ultimately have "arrives example_host ?rt r (VECSXP ?xs ?a) s' t 0 (remote_args ! 0)"
    using ships stored r by (auto simp: arrives_def remote_args_def t_def)
  then have arr: "\<forall>i < length ?xs. arrives example_host ?rt r (VECSXP ?xs ?a) s' t i (remote_args ! i)" by simp
  have rt: "compss_unserialize ?rt = (\<lambda>p. rcompss_unserialize example_host p 1)" "stores_with_package example_host 1 ?rt"
    "\<forall>out. closed (out_env example_host) out = out" "length remote_args = length ?xs"
    by (simp_all add: package_runtime_def stores_with_package_def remote_args_def)
  from arguments_delivered [OF sub env(1-4) example_clock env(5-7) rt(1,4) arr]
  have "arg_values ?rt remote_args t = (Inr [(''x'', received r (VECSXP ?xs ?a) 0)], t)" by (simp add: r)
  from remote_task_runs [OF t_def this] obtain p' where run: "executeTask ?rt ?m (idle t) = (Inr True, p')" by blast
  let ?hm = "example_host\<lparr>gs_get_file := \<lambda>_ p v. v\<lparr>files := (files v)(p := files (r_state p') ''/t/cpp-r'')\<rparr>\<rparr>"
  have ps: "params ?m = encode_params [''n0''] ''a'' ''b'' ''null'' ''c'' 1 remote_args
        ([''10'', ''0'', ''3'', buildReturnValueName ''cpp'', ''FILE'', ''d1'' @ CHR '':'' # ''/t/cpp-r''] @ [''z''])"
    by (simp add: remote_message_def)
  have ok: "list_all (\<lambda>a. spec_ok (arg_spec a)) remote_args" by (simp add: remote_args_def)
  have len: "int (length [''n0'']) + 14 + int (length (concat (map arg_tokens remote_args))) + int (length [''z'']) + int 1 \<le> int_max"
    by (simp add: remote_args_def arg_tokens_def int_max_def)
  have start: "(0 :: nat) < 1" "CHR '':'' \<notin> set ''/t/cpp-r''" "file_good ?rt t (module ?m)" "source_func ?rt (module ?m) t = (Inr (), t)"
    "env_exists ?rt t (func ?m)"
    by (simp_all add: package_runtime_def remote_message_def example_message_def)
  have call: "call_spec ?rt ?m (filter (\<lambda>a. \<not> rcompssIsReturnValuePlaceholderArgName (fst a))
      (map (\<lambda>i. (arguments_names r ! i, received r (VECSXP ?xs ?a) i)) [0..<length ?xs])) t = (Inr (r_int 7), t)"
    by (simp add: r call_spec_def rcompssIsReturnValuePlaceholderArgName_def kSuffix_def package_runtime_def)
  have cpu: "t = cpu_bound ?rt (cpus ?m) (r_state (idle t))"
    by (simp add: cpu_bound_def remote_message_def example_message_def package_runtime_def idle_def split: sum.splits)
  have home: "rcpp_api (conv ?hm)" "plain_class ?hm (future_object ''/w/cpp-r'') [''future_object'']"
    "files (gs_get_file ?hm 0 ''/w/cpp-r'' empty_node) ''/w/cpp-r'' = files (r_state p') ''/t/cpp-r''"
    "readable ?hm (r_int 7) (gs_get_file ?hm 0 ''/w/cpp-r'' empty_node)"
    by (simp_all add: refrcpp.rcpp_api_axioms plain_class_def class_attribute_def future_object_def r_string_def readable_def
        refapi.r_object_api_axioms r_int_def wf_sexp.simps Rf_getAttrib_def object_depth_def object_nodes_def to_wire.simps empty_node_def)
  have path: "extractSerializationMethod ''/w/cpp-r'' = ''cpp''" by code_simp
  from remote_call [OF sub env(1-4) example_clock env(5-7) rt(1-4) arr ps ok len start call cpu run home(1,2) path home(3,4)] sub run
  show ?thesis by blast
qed

end
